(* ===== verification/PS2Prelude.thy ===== *)
theory PS2Prelude
  imports Main "HOL-Library.Word" "HOL-Library.Signed_Division" "HOL-Library.Monad_Syntax"
begin

unbundle bit_operations_syntax

text \<open>
  Shared vocabulary of the development: the machine integers of the driver, the C operators that
  can trap, integer conversions, and the lemmas on bit fields that the packet decoders share.

  Conventions.  An unsigned C integer of width w is a \<open>w word\<close>, so that its arithmetic wraps as the
  code's does.  A signed C \<open>int\<close> is an \<open>int\<close>: signed overflow is undefined in C++, so the model gives
  the exact value, and the bounds lemmas say where the value stays inside 32 bits.  A conversion
  between the two is written out (\<open>i32\<close>, \<open>u32\<close>, \<open>s8\<close>, \<open>s16\<close>).  Anything that stops
  the machine (a division by zero, an access through a null pointer, a write outside an array) is the
  value \<open>None\<close> of an option result.
\<close>

section \<open>Machine integers\<close>

type_synonym u8 = "8 word"
type_synonym u16 = "16 word"
type_synonym u32 = "32 word"
type_synonym u64 = "64 word"

text \<open>\<open>(UInt32) i\<close> and the implicit conversion of a \<open>UInt32\<close> to \<open>int\<close>.\<close>

abbreviation u32 :: "int \<Rightarrow> u32" where "u32 \<equiv> word_of_int"
abbreviation i32 :: "u32 \<Rightarrow> int" where "i32 \<equiv> sint"
abbreviation u64 :: "int \<Rightarrow> u64" where "u64 \<equiv> word_of_int"
abbreviation i64 :: "u64 \<Rightarrow> int" where "i64 \<equiv> sint"

text \<open>\<open>(SInt8) i\<close>, the implicit conversion of an \<open>int\<close> argument to \<open>short\<close>, and the
  truncation of a 64-bit value to \<open>int\<close>.\<close>

definition s8 :: "int \<Rightarrow> int" where "s8 i = signed_take_bit 7 i"
definition s16 :: "int \<Rightarrow> int" where "s16 i = signed_take_bit 15 i"
definition s32 :: "int \<Rightarrow> int" where "s32 i = signed_take_bit 31 i"
definition s64 :: "int \<Rightarrow> int" where "s64 i = signed_take_bit 63 i"

text \<open>Byte \<open>i\<close> of a packet after the integer promotion that every operator applies to it.\<close>

definition byte :: "u8 list \<Rightarrow> nat \<Rightarrow> u32" where "byte p i = ucast (p ! i)"

text \<open>A bit test used as a condition, and \<open>cond ? bit : 0\<close>.\<close>

abbreviation isset :: "'a::len word \<Rightarrow> 'a word \<Rightarrow> bool" where "isset w m \<equiv> w AND m \<noteq> 0"

definition when_set :: "bool \<Rightarrow> u32 \<Rightarrow> u32" where "when_set c b = (if c then b else 0)"

text \<open>Division and remainder of C: they truncate towards zero, and a zero divisor traps.\<close>

definition cdiv :: "int \<Rightarrow> int \<Rightarrow> int option" where
  "cdiv a b = (if b = 0 then None else Some (a sdiv b))"

definition cmod :: "int \<Rightarrow> int \<Rightarrow> int option" where
  "cmod a b = (if b = 0 then None else Some (a smod b))"

lemma cdiv_Some_iff [simp]: "cdiv a b = Some q \<longleftrightarrow> b \<noteq> 0 \<and> q = a sdiv b"
  by (auto simp: cdiv_def)

lemma cmod_Some_iff [simp]: "cmod a b = Some q \<longleftrightarrow> b \<noteq> 0 \<and> q = a smod b"
  by (auto simp: cmod_def)

lemma cdiv_None_iff [simp]: "cdiv a b = None \<longleftrightarrow> b = 0"
  by (simp add: cdiv_def)

lemma cmod_None_iff [simp]: "cmod a b = None \<longleftrightarrow> b = 0"
  by (simp add: cmod_def)

lemma cdiv_nonzero: "b \<noteq> 0 \<Longrightarrow> cdiv a b = Some (a sdiv b)"
  by simp

lemma cmod_nonzero: "b \<noteq> 0 \<Longrightarrow> cmod a b = Some (a smod b)"
  by simp

lemma sdiv_nonneg_eq: "0 \<le> (a::int) \<Longrightarrow> 0 \<le> b \<Longrightarrow> a sdiv b = a div b"
  by (cases "a = 0"; cases "b = 0") (simp_all add: signed_divide_int_def sgn_if)

lemma smod_nonneg_eq: "0 \<le> (a::int) \<Longrightarrow> 0 \<le> b \<Longrightarrow> a smod b = a mod b"
  by (cases "a = 0") (simp_all add: signed_modulo_int_def sdiv_nonneg_eq minus_div_mult_eq_mod)

lemma sdiv_bounds: "\<bar>(a::int) sdiv b\<bar> \<le> \<bar>a\<bar>"
proof (cases "b = 0")
  case False
  then have "\<bar>a\<bar> div \<bar>b\<bar> \<le> \<bar>a\<bar>"
    using zdiv_mono2 [of "\<bar>a\<bar>" 1 "\<bar>b\<bar>"] by simp
  then show ?thesis
    by (simp add: signed_divide_int_def abs_mult abs_sgn_eq pos_imp_zdiv_nonneg_iff False)
qed (simp add: signed_divide_int_def)

lemma sdiv_one [simp]: "(a::int) sdiv 1 = a"
  by (simp add: signed_divide_int_def sgn_mult_abs)

lemma smod_bounds: "b \<noteq> 0 \<Longrightarrow> \<bar>(a::int) smod b\<bar> < \<bar>b\<bar>"
  by (simp add: signed_modulo_int_def abs_mult abs_sgn_eq)

section \<open>Bit fields\<close>

text \<open>
  \<open>fits n w\<close>: the value of \<open>w\<close> needs at most \<open>n\<close> bits.  The collection \<open>fits\<close> pushes the predicate
  through the operators the decoders use (mask, shift, or), so that a decoder's field widths are
  proved by \<open>simp\<close>.
\<close>

named_theorems fits

definition fits :: "nat \<Rightarrow> 'a::len word \<Rightarrow> bool" where
  "fits n w \<longleftrightarrow> uint w < 2 ^ n"

lemma fits_iff_bits: "fits n w \<longleftrightarrow> (\<forall>i. n \<le> i \<longrightarrow> \<not> bit w i)"
proof
  assume "fits n w"
  then have "take_bit n (uint w) = uint w"
    by (intro take_bit_int_eq_self) (simp_all add: fits_def)
  moreover have "\<not> bit (take_bit n (uint w)) i" if "n \<le> i" for i
    using that by (simp add: bit_take_bit_iff)
  ultimately show "\<forall>i. n \<le> i \<longrightarrow> \<not> bit w i"
    by (simp add: bit_uint_iff) (metis bit_imp_le_length)
next
  assume bits: "\<forall>i. n \<le> i \<longrightarrow> \<not> bit w i"
  have "take_bit n (uint w) = uint w"
    by (rule bit_eqI, use bits in \<open>auto simp: bit_take_bit_iff bit_uint_iff\<close>, meson bits not_le)
  then show "fits n w"
    by (metis fits_def take_bit_int_less_exp)
qed

lemma fits_or [fits]: "fits n (a OR b) \<longleftrightarrow> fits n a \<and> fits n b"
  by (auto simp: fits_iff_bits bit_or_iff)

lemma fits_andI [fits]: "fits n b \<Longrightarrow> fits n (a AND b)"
  by (auto simp: fits_iff_bits bit_and_iff)

lemma fits_andI2 [fits]: "fits n a \<Longrightarrow> fits n (a AND b)"
  by (auto simp: fits_iff_bits bit_and_iff)

lemma fits_pushI [fits]: "fits (n - k) a \<Longrightarrow> k \<le> n \<Longrightarrow> fits n (push_bit k a)"
  by (auto simp: fits_iff_bits bit_push_bit_iff)

lemma fits_dropI [fits]: "fits (n + k) a \<Longrightarrow> fits n (drop_bit k a)"
  by (auto simp: fits_iff_bits bit_drop_bit_eq)

lemma fits_mono: "fits n a \<Longrightarrow> n \<le> m \<Longrightarrow> fits m a"
  by (auto simp: fits_iff_bits)

lemma fits_numeral [fits]: "fits n (numeral k :: 'a::len word) \<longleftrightarrow> uint (numeral k :: 'a word) < 2 ^ n"
  by (simp add: fits_def)

lemma fits_0 [simp]: "fits n 0"
  by (simp add: fits_def)

lemma fits_1 [simp]: "fits n (1::'a::len word) \<longleftrightarrow> 0 < n"
  by (auto simp: fits_iff_bits bit_1_iff)

lemma fits_ucast: "fits LENGTH('a) (ucast (b :: 'a::len word))"
  using unsigned_less [of b] by (auto simp: fits_iff_bits bit_ucast_iff dest: bit_imp_le_length)

lemma fits_byte: "8 \<le> n \<Longrightarrow> fits n (byte p i)"
  using fits_mono [OF fits_ucast [where 'a = 8 and 'b = 32, of "p ! i"], of n]
  by (simp add: byte_def)

lemma fits_uint: "fits n w \<Longrightarrow> uint w < 2 ^ n"
  by (simp add: fits_def)

lemma high_bit_fits: "fits n w \<Longrightarrow> n \<le> i \<Longrightarrow> \<not> bit w i"
  by (simp add: fits_iff_bits)

text \<open>Equality of machine words, bit by bit: the shape in which the round trips are decided.\<close>

lemma u8_eq_bits: "(a::u8) = b \<longleftrightarrow> list_all (\<lambda>n. bit a n = bit b n) [0, 1, 2, 3, 4, 5, 6, 7]"
proof -
  have "[0..<8] = [0, 1, 2, 3, 4, 5, 6, 7::nat]" by (simp add: upt_rec numeral_eq_Suc)
  moreover have "(a = b) = (\<forall>n \<in> set [0..<8]. bit a n = bit b n)"
    by (auto intro: bit_word_eqI)
  ultimately show ?thesis by (simp only: list_all_iff)
qed

lemma u32_eq_bits: "(a::u32) = b \<longleftrightarrow> list_all (\<lambda>n. bit a n = bit b n)
   [0, 1, 2, 3, 4, 5, 6, 7, 8, 9, 10, 11, 12, 13, 14, 15,
    16, 17, 18, 19, 20, 21, 22, 23, 24, 25, 26, 27, 28, 29, 30, 31]"
proof -
  have "[0..<32] = [0, 1, 2, 3, 4, 5, 6, 7, 8, 9, 10, 11, 12, 13, 14, 15,
    16, 17, 18, 19, 20, 21, 22, 23, 24, 25, 26, 27, 28, 29, 30, 31::nat]"
    by (simp add: upt_rec numeral_eq_Suc)
  moreover have "(a = b) = (\<forall>n \<in> set [0..<32]. bit a n = bit b n)"
    by (auto intro: bit_word_eqI)
  ultimately show ?thesis by (simp only: list_all_iff)
qed

lemma u64_eq_bits: "(a::u64) = b \<longleftrightarrow> list_all (\<lambda>n. bit a n = bit b n)
   [0, 1, 2, 3, 4, 5, 6, 7, 8, 9, 10, 11, 12, 13, 14, 15, 16, 17, 18, 19, 20, 21, 22, 23, 24,
    25, 26, 27, 28, 29, 30, 31, 32, 33, 34, 35, 36, 37, 38, 39, 40, 41, 42, 43, 44, 45, 46,
    47, 48, 49, 50, 51, 52, 53, 54, 55, 56, 57, 58, 59, 60, 61, 62, 63]"
proof -
  have "[0..<64] = [0, 1, 2, 3, 4, 5, 6, 7, 8, 9, 10, 11, 12, 13, 14, 15, 16, 17, 18, 19, 20, 21, 22, 23, 24,
    25, 26, 27, 28, 29, 30, 31, 32, 33, 34, 35, 36, 37, 38, 39, 40, 41, 42, 43, 44, 45, 46,
    47, 48, 49, 50, 51, 52, 53, 54, 55, 56, 57, 58, 59, 60, 61, 62, 63::nat]"
    by (simp add: upt_rec numeral_eq_Suc)
  moreover have "(a = b) = (\<forall>n \<in> set [0..<64]. bit a n = bit b n)"
    by (auto intro: bit_word_eqI)
  ultimately show ?thesis by (simp only: list_all_iff)
qed

lemma bit_times_2: "bit (w * 2) n \<longleftrightarrow> bit (push_bit 1 w) n" for w :: u32
  by (simp add: push_bit_eq_mult)

lemmas bitblast = u8_eq_bits u32_eq_bits bit_simps high_bit_fits bit_times_2 [unfolded bit_push_bit_iff]
  numeral_2_eq_2 [symmetric]

lemma fits_sint_eq:
  fixes w :: "'a::len word"
  assumes "fits n w" and "n < LENGTH('a)"
  shows "sint w = uint w"
proof -
  have "uint w < 2 ^ n" using assms(1) by (simp add: fits_def)
  also have "(2::int) ^ n \<le> 2 ^ (LENGTH('a) - Suc 0)"
    using assms(2) by (intro power_increasing) auto
  finally have "uint w < 2 ^ (LENGTH('a) - Suc 0)" .
  then have "signed_take_bit (LENGTH('a) - Suc 0) (uint w) = uint w"
    by (intro signed_take_bit_int_eq_self) (simp_all add: order_trans [OF _ unsigned_greater_eq])
  then show ?thesis by (simp add: sint_uint)
qed

end
