(* ===== verification/KeyboardMaps.thy ===== *)
theory KeyboardMaps
  imports PS2Prelude
begin

text \<open>
  The tables of the keyboard driver and the settings that change them: the stock translation from PS/2 scan codes to
  ADB codes (built with \<open>PROBOOK\<close>), the flags of the keys, the textual formats of remappings and swipe actions.
  Normal scan codes are the first half of a table, extended ones (\<open>e0\<close>) the second half.
\<close>

section \<open>Stock tables\<close>

abbreviation (input) DEADKEY :: u8 where "DEADKEY \<equiv> 0x80"
abbreviation (input) BRIGHTNESS_DOWN :: u8 where "BRIGHTNESS_DOWN \<equiv> 0x6b"
abbreviation (input) BRIGHTNESS_UP :: u8 where "BRIGHTNESS_UP \<equiv> 0x71"

abbreviation (input) ADB_CONVERTER_LEN :: nat where "ADB_CONVERTER_LEN \<equiv> 512"
abbreviation (input) ADB_CONVERTER_EX_START :: nat where "ADB_CONVERTER_EX_START \<equiv> 256"
abbreviation (input) KBV_NUM_SCANCODES :: nat where "KBV_NUM_SCANCODES \<equiv> 256"
abbreviation (input) KBV_NUM_KEYCODES :: nat where "KBV_NUM_KEYCODES \<equiv> 512"

definition ADB_normal_low :: "u8 list" where
  "ADB_normal_low =
    [DEADKEY, 0x35, 0x12, 0x13, 0x14, 0x15, 0x17, 0x16, 0x1a, 0x1c, 0x19, 0x1d, 0x1b, 0x18, 0x33, 0x30,
     0xc, 0xd, 0xe, 0xf, 0x11, 0x10, 0x20, 0x22, 0x1f, 0x23, 0x21, 0x1e, 0x24, 0x3b, 0, 0x1,
     0x2, 0x3, 0x5, 0x4, 0x26, 0x28, 0x25, 0x29, 0x27, 0x32, 0x38, 0x2a, 0x6, 0x7, 0x8, 0x9,
     0xb, 0x2d, 0x2e, 0x2b, 0x2f, 0x2c, 0x3c, 0x43, 0x3a, 0x31, 0x39, 0x7a, 0x78, 0x63, 0x76, 0x60,
     0x61, 0x62, 0x64, 0x65, 0x6d, 0x47, 0x6b, 0x59, 0x5b, 0x5c, 0x4e, 0x56, 0x57, 0x58, 0x45, 0x53,
     0x54, 0x55, 0x52, 0x41, 0x44, 0x46, 0xa, 0x67, 0x6f, 0x51, DEADKEY, DEADKEY, 0x5f, DEADKEY, DEADKEY, DEADKEY,
     DEADKEY, DEADKEY, DEADKEY, DEADKEY, 0x69, 0x6b, 0x71, 0x6a, 0x40, 0x4f, 0x50, 0x5a, DEADKEY, DEADKEY, DEADKEY, DEADKEY,
     0x68, DEADKEY, DEADKEY, 0x5e, DEADKEY, DEADKEY, DEADKEY, 0x68, 0x68, 0x68, DEADKEY, 0x66, DEADKEY, 0x5d, 0x5f, DEADKEY]"

definition ADB_normal_high :: "u8 list" where
  "ADB_normal_high =
    [DEADKEY, DEADKEY, DEADKEY, DEADKEY, DEADKEY, DEADKEY, DEADKEY, DEADKEY, DEADKEY, DEADKEY, DEADKEY, DEADKEY, DEADKEY, DEADKEY, DEADKEY, DEADKEY,
     DEADKEY, DEADKEY, DEADKEY, DEADKEY, DEADKEY, DEADKEY, DEADKEY, DEADKEY, DEADKEY, DEADKEY, DEADKEY, DEADKEY, DEADKEY, DEADKEY, DEADKEY, DEADKEY,
     DEADKEY, DEADKEY, DEADKEY, DEADKEY, DEADKEY, DEADKEY, DEADKEY, DEADKEY, DEADKEY, DEADKEY, DEADKEY, DEADKEY, DEADKEY, DEADKEY, DEADKEY, DEADKEY,
     DEADKEY, DEADKEY, DEADKEY, DEADKEY, DEADKEY, DEADKEY, DEADKEY, DEADKEY, DEADKEY, DEADKEY, DEADKEY, DEADKEY, DEADKEY, DEADKEY, DEADKEY, DEADKEY,
     DEADKEY, DEADKEY, DEADKEY, DEADKEY, DEADKEY, DEADKEY, DEADKEY, DEADKEY, DEADKEY, DEADKEY, DEADKEY, DEADKEY, DEADKEY, DEADKEY, DEADKEY, DEADKEY,
     DEADKEY, DEADKEY, DEADKEY, DEADKEY, DEADKEY, DEADKEY, DEADKEY, DEADKEY, DEADKEY, DEADKEY, DEADKEY, DEADKEY, DEADKEY, DEADKEY, DEADKEY, DEADKEY,
     DEADKEY, DEADKEY, DEADKEY, DEADKEY, DEADKEY, DEADKEY, DEADKEY, DEADKEY, DEADKEY, DEADKEY, DEADKEY, DEADKEY, DEADKEY, DEADKEY, DEADKEY, DEADKEY,
     DEADKEY, 0x66, 0x68, DEADKEY, DEADKEY, DEADKEY, DEADKEY, DEADKEY, DEADKEY, DEADKEY, DEADKEY, DEADKEY, DEADKEY, DEADKEY, DEADKEY, DEADKEY]"

definition ADB_normal_stock :: "u8 list" where
  "ADB_normal_stock = ADB_normal_low @ ADB_normal_high"

definition ADB_extended_low :: "u8 list" where
  "ADB_extended_low =
    [DEADKEY, DEADKEY, DEADKEY, DEADKEY, DEADKEY, BRIGHTNESS_DOWN, BRIGHTNESS_UP, DEADKEY, DEADKEY, 0x83, 0xa0, DEADKEY, DEADKEY, DEADKEY, DEADKEY, DEADKEY,
     0x4d, DEADKEY, BRIGHTNESS_DOWN, DEADKEY, DEADKEY, DEADKEY, DEADKEY, BRIGHTNESS_UP, DEADKEY, 0x42, DEADKEY, DEADKEY, 0x4c, 0x3e, DEADKEY, DEADKEY,
     0x4a, DEADKEY, 0x34, DEADKEY, DEADKEY, DEADKEY, DEADKEY, DEADKEY, DEADKEY, DEADKEY, DEADKEY, DEADKEY, DEADKEY, DEADKEY, 0x49, DEADKEY,
     0x48, DEADKEY, DEADKEY, DEADKEY, DEADKEY, 0x4b, DEADKEY, 0x69, 0x3d, DEADKEY, DEADKEY, DEADKEY, DEADKEY, DEADKEY, DEADKEY, DEADKEY,
     DEADKEY, DEADKEY, DEADKEY, DEADKEY, DEADKEY, 0x71, DEADKEY, 0x73, 0x7e, 0x74, DEADKEY, 0x7b, DEADKEY, 0x7c, BRIGHTNESS_UP, 0x77,
     0x7d, 0x79, 0x92, 0x75, DEADKEY, DEADKEY, DEADKEY, DEADKEY, DEADKEY, BRIGHTNESS_UP, DEADKEY, 0x37, 0x36, 0x6e, 0x7f, DEADKEY,
     DEADKEY, DEADKEY, DEADKEY, DEADKEY, DEADKEY, DEADKEY, DEADKEY, DEADKEY, DEADKEY, DEADKEY, DEADKEY, DEADKEY, DEADKEY, DEADKEY, 0x70, DEADKEY,
     DEADKEY, DEADKEY, DEADKEY, DEADKEY, DEADKEY, DEADKEY, DEADKEY, DEADKEY, DEADKEY, DEADKEY, DEADKEY, DEADKEY, DEADKEY, DEADKEY, DEADKEY, DEADKEY]"

definition ADB_extended_high :: "u8 list" where
  "ADB_extended_high =
    [DEADKEY, DEADKEY, DEADKEY, DEADKEY, DEADKEY, DEADKEY, DEADKEY, DEADKEY, DEADKEY, DEADKEY, DEADKEY, DEADKEY, DEADKEY, DEADKEY, DEADKEY, DEADKEY,
     DEADKEY, DEADKEY, DEADKEY, DEADKEY, DEADKEY, DEADKEY, DEADKEY, DEADKEY, DEADKEY, DEADKEY, DEADKEY, DEADKEY, DEADKEY, DEADKEY, DEADKEY, DEADKEY,
     DEADKEY, DEADKEY, DEADKEY, DEADKEY, DEADKEY, DEADKEY, DEADKEY, DEADKEY, DEADKEY, DEADKEY, DEADKEY, DEADKEY, DEADKEY, DEADKEY, DEADKEY, DEADKEY,
     DEADKEY, DEADKEY, DEADKEY, DEADKEY, DEADKEY, DEADKEY, DEADKEY, DEADKEY, DEADKEY, DEADKEY, DEADKEY, DEADKEY, DEADKEY, DEADKEY, DEADKEY, DEADKEY,
     DEADKEY, DEADKEY, DEADKEY, DEADKEY, DEADKEY, DEADKEY, DEADKEY, DEADKEY, DEADKEY, DEADKEY, DEADKEY, DEADKEY, DEADKEY, DEADKEY, DEADKEY, DEADKEY,
     DEADKEY, DEADKEY, DEADKEY, DEADKEY, DEADKEY, DEADKEY, DEADKEY, DEADKEY, DEADKEY, DEADKEY, DEADKEY, DEADKEY, DEADKEY, DEADKEY, DEADKEY, DEADKEY,
     DEADKEY, DEADKEY, DEADKEY, DEADKEY, DEADKEY, DEADKEY, DEADKEY, DEADKEY, DEADKEY, DEADKEY, DEADKEY, DEADKEY, DEADKEY, DEADKEY, DEADKEY, DEADKEY,
     DEADKEY, DEADKEY, DEADKEY, DEADKEY, DEADKEY, DEADKEY, DEADKEY, DEADKEY, DEADKEY, DEADKEY, DEADKEY, DEADKEY, DEADKEY, DEADKEY, DEADKEY, DEADKEY]"

definition ADB_extended_stock :: "u8 list" where
  "ADB_extended_stock = ADB_extended_low @ ADB_extended_high"

definition PS2ToADBMapStock :: "u8 list" where
  "PS2ToADBMapStock = ADB_normal_stock @ ADB_extended_stock"

text \<open>The high byte of the flags is one more than the bit of a modifier key, the low byte holds the breakless bit.\<close>

definition flags_normal_low :: "u16 list" where
  "flags_normal_low =
    [0, 0, 0, 0, 0, 0, 0, 0, 0, 0, 0, 0, 0, 0, 0, 0,
     0, 0, 0, 0, 0, 0, 0, 0, 0, 0, 0, 0, 0, 0x100, 0, 0,
     0, 0, 0, 0, 0, 0, 0, 0, 0, 0, 0x300, 0, 0, 0, 0, 0,
     0, 0, 0, 0, 0, 0, 0x400, 0, 0x500, 0, 0, 0, 0, 0, 0, 0,
     0, 0, 0, 0, 0, 0, 0, 0, 0, 0, 0, 0, 0, 0, 0, 0,
     0, 0, 0, 0, 0, 0, 0, 0, 0, 0, 0, 0, 0, 0, 0, 0,
     0, 0, 0, 0, 0, 0, 0, 0, 0, 0, 0, 0, 0, 0, 0, 0,
     0, 0, 0, 0, 0, 0, 0, 0, 0, 0, 0, 0, 0, 0, 0, 0]"

definition flags_normal_high :: "u16 list" where
  "flags_normal_high =
    [0, 0, 0, 0, 0, 0, 0, 0, 0, 0, 0, 0, 0, 0, 0, 0,
     0, 0, 0, 0, 0, 0, 0, 0, 0, 0, 0, 0, 0, 0, 0, 0,
     0, 0, 0, 0, 0, 0, 0, 0, 0, 0, 0, 0, 0, 0, 0, 0,
     0, 0, 0, 0, 0, 0, 0, 0, 0, 0, 0, 0, 0, 0, 0, 0,
     0, 0, 0, 0, 0, 0, 0, 0, 0, 0, 0, 0, 0, 0, 0, 0,
     0, 0, 0, 0, 0, 0, 0, 0, 0, 0, 0, 0, 0, 0, 0, 0,
     0, 0, 0, 0, 0, 0, 0, 0, 0, 0, 0, 0, 0, 0, 0, 0,
     0, 0, 0, 0, 0, 0, 0, 0, 0, 0, 0, 0, 0, 0, 0, 0]"

definition flags_normal_stock :: "u16 list" where
  "flags_normal_stock = flags_normal_low @ flags_normal_high"

definition flags_extended_low :: "u16 list" where
  "flags_extended_low =
    [0, 0, 0, 0, 0, 0, 0, 0, 0, 0, 0, 0, 0, 0, 0, 0,
     0, 0, 0, 0, 0, 0, 0, 0, 0, 0, 0, 0, 0, 0x200, 0, 0,
     0, 0, 0, 0, 0, 0, 0, 0, 0, 0, 0, 0, 0, 0, 0, 0,
     0, 0, 0, 0, 0, 0, 0, 0, 0x600, 0, 0, 0, 0, 0, 0, 0,
     0, 0, 0, 0, 0, 0, 0, 0, 0, 0, 0, 0, 0, 0, 0, 0,
     0, 0, 0, 0, 0, 0, 0, 0, 0, 0, 0, 0x700, 0x800, 0xa00, 0, 0,
     0, 0, 0, 0x900, 0, 0, 0, 0, 0, 0, 0, 0, 0, 0, 0, 0,
     0, 0, 0, 0, 0, 0, 0, 0, 0, 0, 0, 0, 0, 0, 0, 0]"

definition flags_extended_high :: "u16 list" where
  "flags_extended_high =
    [0, 0, 0, 0, 0, 0, 0, 0, 0, 0, 0, 0, 0, 0, 0, 0,
     0, 0, 0, 0, 0, 0, 0, 0, 0, 0, 0, 0, 0, 0, 0, 0,
     0, 0, 0, 0, 0, 0, 0, 0, 0, 0, 0, 0, 0, 0, 0, 0,
     0, 0, 0, 0, 0, 0, 0, 0, 0, 0, 0, 0, 0, 0, 0, 0,
     0, 0, 0, 0, 0, 0, 0, 0, 0, 0, 0, 0, 0, 0, 0, 0,
     0, 0, 0, 0, 0, 0, 0, 0, 0, 0, 0, 0, 0, 0, 0, 0,
     0, 0, 0, 0, 0, 0, 0, 0, 0, 0, 0, 0, 0, 0, 0, 0,
     0, 0, 0, 0, 0, 0, 0, 0, 0, 0, 0, 0, 0, 0, 0, 0]"

definition flags_extended_stock :: "u16 list" where
  "flags_extended_stock = flags_extended_low @ flags_extended_high"

definition PS2flagsStock :: "u16 list" where
  "PS2flagsStock = flags_normal_stock @ flags_extended_stock"

lemmas stock_defs = PS2ToADBMapStock_def ADB_normal_stock_def ADB_normal_low_def ADB_normal_high_def ADB_extended_stock_def
  ADB_extended_low_def ADB_extended_high_def PS2flagsStock_def flags_normal_stock_def flags_normal_low_def flags_normal_high_def
  flags_extended_stock_def flags_extended_low_def flags_extended_high_def

lemma length_stock: "length PS2ToADBMapStock = 512" "length PS2flagsStock = 512"
  by (simp_all add: stock_defs)

section \<open>Textual formats\<close>

text \<open>C strings are lists without the final NUL.  A number is read up to one of the characters \<open>ts\<close> or the end.\<close>

definition hex_digit :: "char \<Rightarrow> u32 option" where
  "hex_digit ch =
     (let n = of_char ch :: nat in
      if 48 \<le> n \<and> n \<le> 57 then Some (of_nat (n - 48))
      else if 97 \<le> n \<and> n \<le> 102 then Some (of_nat (n - 97 + 10))
      else if 65 \<le> n \<and> n \<le> 70 then Some (of_nat (n - 65 + 10))
      else None)"

fun parseHex :: "char list \<Rightarrow> string \<Rightarrow> u32 \<Rightarrow> (string \<times> u32) option" where
  "parseHex ts [] n = Some ([], n)"
| "parseHex ts (ch # s) n =
     (if ch \<in> set ts then Some (ch # s, n)
      else (case hex_digit ch of Some d \<Rightarrow> parseHex ts s (push_bit 4 n + d) | None \<Rightarrow> None))"

definition parseRemap :: "string \<Rightarrow> (u16 \<times> u16) option" where
  "parseRemap s = do {
     (rest, n) \<leftarrow> parseHex [CHR ''=''] s 0;
     if rest = [] \<or> n > 0xffff then None
     else do {
       (_, m) \<leftarrow> parseHex [CHR 0x0a, CHR '';''] (tl rest) 0;
       if m > 0xffff then None else Some (ucast n, ucast m) } }"

lemma parseHex_length: "parseHex ts s n = Some (rest, m) \<Longrightarrow> length rest \<le> length s"
  by (induction ts s n rule: parseHex.induct) (auto split: if_splits option.splits)

text \<open>An action is an array of 16 key codes, the used part ended by 0; key releases have bit 12 set.  The result of the
  loop: whether it ended without an error, the number of entries written, the array.\<close>

function parse_action :: "string \<Rightarrow> nat \<Rightarrow> u16 list \<Rightarrow> bool \<times> nat \<times> u16 list" where
  "parse_action s i dest =
     (if s = [] \<or> i \<ge> length dest then (True, i, dest)
      else (case parseHex [CHR '' ''] s 0 of
          Some (_ # d # rest, n) \<Rightarrow>
            if d = CHR ''d'' \<or> d = CHR ''u'' then
              (let dest = dest[i := ucast n OR (if d = CHR ''u'' then 0x1000 else 0)] in
               case rest of
                 [] \<Rightarrow> (True, Suc i, dest)
               | ch # rest \<Rightarrow>
                   if ch = CHR '','' then parse_action (dropWhile (\<lambda>x. x = CHR '' '') rest) (Suc i) dest
                   else (False, Suc i, dest))
            else (False, i, dest)
        | _ \<Rightarrow> (False, i, dest)))"
  by pat_completeness auto
termination
  by (relation "measure (\<lambda>(s, i, dest). length s)")
    (auto dest!: parseHex_length intro: le_less_trans [OF length_dropWhile_le])

declare parse_action.simps [simp del]

definition parseAction :: "string \<Rightarrow> u16 list \<Rightarrow> bool \<times> u16 list" where
  "parseAction s dest =
     (case parse_action s 0 dest of (ok, i, dest) \<Rightarrow>
        if ok \<and> i < length dest then (True, dest[i := 0]) else (False, dest[0 := 0]))"

section \<open>Loading maps\<close>

text \<open>An array of the property list: \<open>None\<close> stands for an element that is not a string.\<close>

type_synonym os_array = "string option list"

definition comment :: "string \<Rightarrow> bool" where
  "comment s \<longleftrightarrow> s \<noteq> [] \<and> hd s = CHR '';''"

definition plain_or_extended :: "u16 \<Rightarrow> bool" where
  "plain_or_extended scan \<longleftrightarrow> drop_bit 8 scan = 0 \<or> drop_bit 8 scan = 0xe0"

definition map_index :: "u16 \<Rightarrow> nat" where
  "map_index scan = unat (scan AND 0xff) + (if drop_bit 8 scan = 0xe0 then 256 else 0)"

definition remap_entry :: "string option \<Rightarrow> u16 list \<Rightarrow> u16 list" where
  "remap_entry e m =
     (case e of
        Some s \<Rightarrow>
          if comment s then m
          else (case parseRemap s of
                  Some (scanIn, scanOut) \<Rightarrow>
                    if plain_or_extended scanIn \<and> plain_or_extended scanOut
                    then m[map_index scanIn := of_nat (map_index scanOut)] else m
                | None \<Rightarrow> m)
      | None \<Rightarrow> m)"

definition loadCustomPS2Map :: "os_array option \<Rightarrow> u16 list \<Rightarrow> u16 list" where
  "loadCustomPS2Map arr m = (case arr of Some es \<Rightarrow> fold remap_entry es m | None \<Rightarrow> m)"

abbreviation (input) kBreaklessKey :: u16 where "kBreaklessKey \<equiv> 0x01"

definition breakless_entry :: "string option \<Rightarrow> u16 list \<Rightarrow> u16 list" where
  "breakless_entry e fl =
     (case e of
        Some s \<Rightarrow>
          if comment s then fl
          else (case parseHex [CHR 0x0a, CHR '';''] s 0 of
                  Some (_, n) \<Rightarrow>
                    (let scanIn = ucast n :: u16 in
                     if plain_or_extended scanIn then fl[map_index scanIn := fl ! map_index scanIn OR kBreaklessKey] else fl)
                | None \<Rightarrow> fl)
      | None \<Rightarrow> fl)"

definition loadBreaklessPS2 :: "os_array option \<Rightarrow> u16 list \<Rightarrow> u16 list" where
  "loadBreaklessPS2 arr fl = (case arr of Some es \<Rightarrow> fold breakless_entry es fl | None \<Rightarrow> fl)"

definition adb_entry :: "string option \<Rightarrow> u8 list \<Rightarrow> u8 list" where
  "adb_entry e m =
     (case e of
        Some s \<Rightarrow>
          if comment s then m
          else (case parseRemap s of
                  Some (scanIn, adbOut) \<Rightarrow>
                    if plain_or_extended scanIn \<and> adbOut \<le> 0xff then m[map_index scanIn := ucast adbOut] else m
                | None \<Rightarrow> m)
      | None \<Rightarrow> m)"

definition loadCustomADBMap :: "os_array option \<Rightarrow> u8 list \<Rightarrow> u8 list" where
  "loadCustomADBMap arr m = (case arr of Some es \<Rightarrow> fold adb_entry es m | None \<Rightarrow> m)"

text \<open>Macro definitions: binary data of even length, at least 10 bytes, that starts with \<open>ffff\<close>; \<open>None\<close> for an element
  that is not data.\<close>

abbreviation (input) kPrefixBytes :: nat where "kPrefixBytes \<equiv> 8"
abbreviation (input) kMinMacroInversion :: nat where "kMinMacroInversion \<equiv> 10"

definition valid_macro :: "u8 list \<Rightarrow> bool" where
  "valid_macro d \<longleftrightarrow> kMinMacroInversion \<le> length d \<and> even (length d) \<and> d ! 0 = 0xff \<and> d ! 1 = 0xff"

definition loadMacroData :: "u8 list option list option \<Rightarrow> u8 list list option" where
  "loadMacroData arr =
     (case arr of
        Some es \<Rightarrow>
          (let valid = filter valid_macro (List.map_filter id es) in if valid = [] then None else Some valid)
      | None \<Rightarrow> None)"

end
