(* ===== verification/RingBuffer.thy ===== *)
theory RingBuffer
  imports PS2Prelude
begin

text \<open>
  The class template \<open>RingBuffer<T, N>\<close> of \<open>ApplePS2Device.h\<close>, which both drivers fill at interrupt
  time and empty in the work loop.  The record holds the array and the two indices; the template
  parameter \<open>N\<close> is the first argument of every operation.  The indices are \<open>unsigned\<close> in the code;
  they stay below \<open>N\<close> and every step moves them by a packet length, so no operation comes near the
  wrap of a 32-bit value and \<open>nat\<close> is exact.

  \<open>head ()\<close> and \<open>tail ()\<close> hand out pointers into the array: \<open>head_write\<close> and \<open>tail_packet\<close> are
  the accesses made through them, and a write behind the end of the array is \<open>None\<close>.

  Two interfaces are stated as locales and interpreted on the class: \<open>bounded_fifo\<close>, the element
  interface (\<open>push\<close>/\<open>fetch\<close>), and \<open>packet_queue\<close>, the block interface the drivers use
  (\<open>head\<close>/\<open>advanceHead\<close>/\<open>tail\<close>/\<open>advanceTail\<close> with a fixed packet length).
\<close>

section \<open>The class\<close>

record 'a ring =
  m_buffer :: "'a list"
  m_head :: nat
  m_tail :: nat

definition count2 :: "nat \<Rightarrow> nat \<Rightarrow> nat \<Rightarrow> nat" where
  "count2 N head tail = (if head \<ge> tail then head - tail else N - tail + head)"

definition ring_reset :: "'a ring \<Rightarrow> 'a ring" where
  "ring_reset rb = rb\<lparr>m_head := 0, m_tail := 0\<rparr>"

definition ring_count :: "nat \<Rightarrow> 'a ring \<Rightarrow> nat" where
  "ring_count N rb = count2 N (m_head rb) (m_tail rb)"

definition push :: "nat \<Rightarrow> 'a \<Rightarrow> 'a ring \<Rightarrow> 'a ring" where
  "push N d rb =
     (let new_head = m_head rb + 1;
          new_head = (if new_head \<ge> N then 0 else new_head)
      in if new_head \<noteq> m_tail rb
         then rb\<lparr>m_buffer := (m_buffer rb)[m_head rb := d], m_head := new_head\<rparr>
         else rb)"

definition fetch :: "nat \<Rightarrow> 'a ring \<Rightarrow> 'a \<times> 'a ring" where
  "fetch N rb =
     (let result = m_buffer rb ! m_tail rb;
          t = m_tail rb + 1
      in (result, rb\<lparr>m_tail := (if t \<ge> N then 0 else t)\<rparr>))"

definition head_write :: "nat \<Rightarrow> 'a ring \<Rightarrow> nat \<Rightarrow> 'a \<Rightarrow> 'a ring option" where
  "head_write N rb i v =
     (if m_head rb + i < N then Some (rb\<lparr>m_buffer := (m_buffer rb)[m_head rb + i := v]\<rparr>) else None)"

definition head_read :: "nat \<Rightarrow> 'a ring \<Rightarrow> nat \<Rightarrow> 'a option" where
  "head_read N rb i = (if m_head rb + i < N then Some (m_buffer rb ! (m_head rb + i)) else None)"

definition tail_packet :: "'a ring \<Rightarrow> nat \<Rightarrow> 'a list" where
  "tail_packet rb k = take k (drop (m_tail rb) (m_buffer rb))"

definition advanceHead :: "nat \<Rightarrow> nat \<Rightarrow> 'a ring \<Rightarrow> 'a ring" where
  "advanceHead N move rb =
     (let new_head = m_head rb + move;
          new_head = (if new_head \<ge> N then new_head - N else new_head)
      in if count2 N new_head (m_tail rb) \<ge> ring_count N rb then rb\<lparr>m_head := new_head\<rparr> else rb)"

definition advanceTail :: "nat \<Rightarrow> nat \<Rightarrow> 'a ring \<Rightarrow> 'a ring" where
  "advanceTail N move rb =
     (let t = m_tail rb + move in rb\<lparr>m_tail := (if t \<ge> N then t - N else t)\<rparr>)"

section \<open>Well-formedness and the element view\<close>

definition ring_ok :: "nat \<Rightarrow> 'a ring \<Rightarrow> bool" where
  "ring_ok N rb \<longleftrightarrow> length (m_buffer rb) = N \<and> m_head rb < N \<and> m_tail rb < N"

definition contents :: "nat \<Rightarrow> 'a ring \<Rightarrow> 'a list" where
  "contents N rb = map (\<lambda>i. m_buffer rb ! ((m_tail rb + i) mod N)) [0..<ring_count N rb]"

lemma length_contents [simp]: "length (contents N rb) = ring_count N rb"
  by (simp add: contents_def)

lemma count_less: "ring_ok N rb \<Longrightarrow> ring_count N rb < N"
  by (auto simp: ring_ok_def ring_count_def count2_def)

lemma index_cases:
  assumes "ring_ok N rb"
  obtains (straight) "m_tail rb \<le> m_head rb" "ring_count N rb = m_head rb - m_tail rb"
  | (wrapped) "m_head rb < m_tail rb" "m_tail rb < N" "ring_count N rb = N - m_tail rb + m_head rb"
  using assms by (cases "m_tail rb \<le> m_head rb") (auto simp: ring_ok_def ring_count_def count2_def)

lemma tail_plus_count:
  assumes ok: "ring_ok N rb"
  shows "(m_tail rb + ring_count N rb) mod N = m_head rb"
  by (rule index_cases [OF ok]) (use ok in \<open>simp_all add: ring_ok_def\<close>)

lemma live_index_not_head:
  assumes ok: "ring_ok N rb" and i: "i < ring_count N rb"
  shows "(m_tail rb + i) mod N \<noteq> m_head rb"
proof (rule index_cases [OF ok])
  assume "m_head rb < m_tail rb" "m_tail rb < N" "ring_count N rb = N - m_tail rb + m_head rb"
  then show ?thesis using i by (cases "m_tail rb + i < N") (auto simp: mod_if)
next
  assume "m_tail rb \<le> m_head rb" "ring_count N rb = m_head rb - m_tail rb"
  then have "m_tail rb + i < m_head rb" using i by simp
  then show ?thesis using ok by (simp add: ring_ok_def)
qed

lemma contents_reset [simp]: "contents N (ring_reset rb) = []"
  by (simp add: contents_def ring_reset_def ring_count_def count2_def)

lemma ring_ok_reset: "ring_ok N rb \<Longrightarrow> ring_ok N (ring_reset rb)"
  by (auto simp: ring_ok_def ring_reset_def)

lemma push_head:
  "ring_ok N rb \<Longrightarrow> (if m_head rb + 1 \<ge> N then 0 else m_head rb + 1) \<noteq> m_tail rb \<longleftrightarrow>
     ring_count N rb + 1 < N"
  by (auto simp: ring_ok_def ring_count_def count2_def)

lemma ring_ok_push: "ring_ok N rb \<Longrightarrow> ring_ok N (push N d rb)"
  by (auto simp: ring_ok_def push_def Let_def)

lemma push_full: "ring_ok N rb \<Longrightarrow> \<not> ring_count N rb + 1 < N \<Longrightarrow> push N d rb = rb"
  using push_head [of N rb] by (auto simp: push_def Let_def split: if_splits)

lemma push_room:
  assumes ok: "ring_ok N rb" and room: "ring_count N rb + 1 < N"
  shows "contents N (push N d rb) = contents N rb @ [d]"
proof -
  let ?rb = "push N d rb"
  have eq: "?rb = rb\<lparr>m_buffer := (m_buffer rb)[m_head rb := d],
      m_head := (if m_head rb + 1 \<ge> N then 0 else m_head rb + 1)\<rparr>"
    using push_head [OF ok] room by (auto simp: push_def Let_def split: if_splits)
  have cnt: "ring_count N ?rb = Suc (ring_count N rb)"
    using ok room unfolding eq by (auto simp: ring_ok_def ring_count_def count2_def split: if_splits)
  have old: "m_buffer ?rb ! ((m_tail ?rb + i) mod N) = m_buffer rb ! ((m_tail rb + i) mod N)"
    if "i < ring_count N rb" for i
    using live_index_not_head [OF ok that] by (simp add: eq)
  have new: "m_buffer ?rb ! ((m_tail ?rb + ring_count N rb) mod N) = d"
    using ok tail_plus_count [OF ok] by (simp add: eq ring_ok_def)
  show ?thesis
    using old new by (simp add: contents_def cnt)
qed

lemma contents_nth: "i < ring_count N rb \<Longrightarrow> contents N rb ! i = m_buffer rb ! ((m_tail rb + i) mod N)"
  by (simp add: contents_def)

lemma advanceTail_mod:
  "ring_ok N rb \<Longrightarrow> k \<le> N \<Longrightarrow> advanceTail N k rb = rb\<lparr>m_tail := (m_tail rb + k) mod N\<rparr>"
  by (auto simp: advanceTail_def ring_ok_def Let_def mod_if)

lemma advanceTail_count:
  assumes ok: "ring_ok N rb" and k: "k \<le> ring_count N rb"
  shows "ring_count N (advanceTail N k rb) = ring_count N rb - k"
  using ok k by (auto simp: advanceTail_def ring_ok_def ring_count_def count2_def Let_def split: if_splits)

lemma advanceTail_contents:
  assumes ok: "ring_ok N rb" and k: "k \<le> ring_count N rb"
  shows "contents N (advanceTail N k rb) = drop k (contents N rb)"
proof (rule nth_equalityI)
  show "length (contents N (advanceTail N k rb)) = length (drop k (contents N rb))"
    using advanceTail_count [OF ok k] by simp
next
  fix i assume "i < length (contents N (advanceTail N k rb))"
  then have i: "i < ring_count N rb - k"
    using advanceTail_count [OF ok k] by simp
  have "k \<le> N" using k count_less [OF ok] by simp
  then show "contents N (advanceTail N k rb) ! i = drop k (contents N rb) ! i"
    using i advanceTail_count [OF ok k]
    by (simp add: contents_nth advanceTail_mod [OF ok] mod_simps ac_simps)
qed

lemma ring_ok_advanceTail: "ring_ok N rb \<Longrightarrow> k \<le> N \<Longrightarrow> ring_ok N (advanceTail N k rb)"
  by (auto simp: advanceTail_def ring_ok_def Let_def)

lemma fetch_eq: "snd (fetch N rb) = advanceTail N 1 rb" if "ring_ok N rb"
  using that by (auto simp: fetch_def advanceTail_def Let_def ring_ok_def)

lemma fetch_contents:
  assumes ok: "ring_ok N rb" and ne: "contents N rb \<noteq> []"
  shows "fst (fetch N rb) = hd (contents N rb)" "contents N (snd (fetch N rb)) = tl (contents N rb)"
proof -
  have c: "0 < ring_count N rb" using ne by (cases "ring_count N rb") (simp_all add: contents_def)
  then have "hd (contents N rb) = contents N rb ! 0"
    by (intro hd_conv_nth ne)
  also have "\<dots> = m_buffer rb ! m_tail rb"
    using c ok by (simp add: contents_nth ring_ok_def)
  finally show "fst (fetch N rb) = hd (contents N rb)"
    by (simp add: fetch_def Let_def)
  show "contents N (snd (fetch N rb)) = tl (contents N rb)"
    using c by (simp add: fetch_eq [OF ok] advanceTail_contents [OF ok] drop_Suc)
qed

section \<open>The element interface\<close>

text \<open>
  A bounded first-in first-out buffer: what a client of \<open>push\<close> and \<open>fetch\<close> may rely on.  A push
  into a full buffer is dropped, as the comment of the class says.
\<close>

primrec get_n :: "('q \<Rightarrow> 'a \<times> 'q) \<Rightarrow> nat \<Rightarrow> 'q \<Rightarrow> 'a list \<times> 'q" where
  "get_n get 0 q = ([], q)"
| "get_n get (Suc n) q = (let (x, q') = get q; (xs, q'') = get_n get n q' in (x # xs, q''))"

locale bounded_fifo =
  fixes put :: "'a \<Rightarrow> 'q \<Rightarrow> 'q"
    and get :: "'q \<Rightarrow> 'a \<times> 'q"
    and items :: "'q \<Rightarrow> 'a list"
    and valid :: "'q \<Rightarrow> bool"
    and cap :: nat
  assumes put_room: "valid q \<Longrightarrow> length (items q) < cap \<Longrightarrow> items (put x q) = items q @ [x]"
    and put_full: "valid q \<Longrightarrow> \<not> length (items q) < cap \<Longrightarrow> put x q = q"
    and valid_put: "valid q \<Longrightarrow> valid (put x q)"
    and get_item: "valid q \<Longrightarrow> items q \<noteq> [] \<Longrightarrow> fst (get q) = hd (items q)"
    and get_rest: "valid q \<Longrightarrow> items q \<noteq> [] \<Longrightarrow> items (snd (get q)) = tl (items q)"
    and valid_get: "valid q \<Longrightarrow> items q \<noteq> [] \<Longrightarrow> valid (snd (get q))"
begin

lemma put_all_valid: "valid q \<Longrightarrow> valid (fold put xs q)"
  by (induction xs arbitrary: q) (simp_all add: valid_put)

lemma put_all_items:
  "valid q \<Longrightarrow> length (items q) \<le> cap \<Longrightarrow> items (fold put xs q) = take cap (items q @ xs)"
proof (induction xs arbitrary: q)
  case (Cons x xs)
  show ?case
  proof (cases "length (items q) < cap")
    case True
    then show ?thesis
      using Cons.IH [of "put x q"] Cons.prems by (simp add: put_room valid_put take_Cons')
  next
    case False
    then show ?thesis
      using Cons.IH [of q] Cons.prems by (simp add: put_full)
  qed
qed simp

lemma get_n_items:
  "valid q \<Longrightarrow> n \<le> length (items q) \<Longrightarrow>
     fst (get_n get n q) = take n (items q) \<and> items (snd (get_n get n q)) = drop n (items q)
       \<and> valid (snd (get_n get n q))"
proof (induction n arbitrary: q)
  case (Suc n)
  then have ne: "items q \<noteq> []" by auto
  obtain x q' where g: "get q = (x, q')" by fastforce
  have x: "x = hd (items q)" and q': "items q' = tl (items q)" "valid q'"
    using get_item get_rest valid_get Suc.prems(1) ne g by (metis fst_conv snd_conv)+
  have "n \<le> length (items q')" using Suc.prems(2) q' by simp
  then show ?case
    using Suc.IH [OF q'(2)] ne
    by (cases "items q") (simp_all add: g x q' Let_def split_beta)
qed simp

lemma put_all_get_n:
  assumes "valid q" and "length (items q) \<le> cap" and "n \<le> length (take cap (items q @ xs))"
  shows "fst (get_n get n (fold put xs q)) = take n (items q @ xs)"
  using get_n_items [OF put_all_valid [OF assms(1)], of n xs] assms
  by (simp add: put_all_items)

end

interpretation fifo: bounded_fifo "push N" "fetch N" "contents N" "ring_ok N" "N - 1" for N
proof unfold_locales
  fix q :: "'a ring" and x
  assume q: "ring_ok N q"
  show "ring_ok N (push N x q)" using q by (rule ring_ok_push)
  show "contents N (push N x q) = contents N q @ [x]" if "length (contents N q) < N - 1"
    using push_room [OF q] that by simp
  show "push N x q = q" if "\<not> length (contents N q) < N - 1"
    using push_full [OF q] that by simp
  assume ne: "contents N q \<noteq> []"
  show "fst (fetch N q) = hd (contents N q)" and "contents N (snd (fetch N q)) = tl (contents N q)"
    using fetch_contents [OF q ne] by simp_all
  show "ring_ok N (snd (fetch N q))"
    using fetch_eq [OF q] ring_ok_advanceTail [OF q] q by (simp add: ring_ok_def)
qed

text \<open>
  The element interface of the ring buffer is a bounded first-in first-out queue of capacity
  \<open>N - 1\<close>.  From any well-formed buffer, pushing \<open>xs\<close> and then fetching \<open>n\<close> elements yields the
  first \<open>n\<close> of the old contents followed by \<open>xs\<close>, for every \<open>n\<close> up to what the buffer holds; what
  does not fit is dropped by \<open>push\<close> and overwrites nothing.
\<close>

theorem ring_push_fetch:
  assumes "ring_ok N rb" and "n \<le> min (N - 1) (ring_count N rb + length xs)"
  shows "fst (get_n (fetch N) n (fold (push N) xs rb)) = take n (contents N rb @ xs)"
proof (rule fifo.put_all_get_n [OF assms(1)])
  show "length (contents N rb) \<le> N - 1"
    using count_less [OF assms(1)] by simp
  show "n \<le> length (take (N - 1) (contents N rb @ xs))"
    using assms(2) count_less [OF assms(1)] by auto
qed

lemma ring_push_fetch_witness:
  "fst (get_n (fetch 4) 3 (fold (push 4) [7, 8, 9, 10::nat] \<lparr>m_buffer = [0, 0, 0, 0], m_head = 3, m_tail = 2\<rparr>))
     = [0, 7, 8]"
  using ring_push_fetch [of 4 "\<lparr>m_buffer = [0, 0, 0, 0::nat], m_head = 3, m_tail = 2\<rparr>" 3 "[7, 8, 9, 10]"]
  by (simp add: ring_ok_def ring_count_def count2_def contents_def)

section \<open>The block interface\<close>

text \<open>
  Both drivers use the buffer in blocks of one packet length \<open>k\<close> that divides \<open>N\<close> (6 or 8 bytes for
  the touchpad, 16 for the keyboard): they write the bytes of the next packet through \<open>head ()\<close>,
  publish them with \<open>advanceHead k\<close>, read the oldest packet through \<open>tail ()\<close> and drop it with
  \<open>advanceTail k\<close>.  \<open>packets\<close> is the queue of published packets, \<open>staged\<close> the slot being filled.
\<close>

fun chunks :: "nat \<Rightarrow> 'a list \<Rightarrow> 'a list list" where
  "chunks k xs = (if k = 0 \<or> xs = [] then [] else take k xs # chunks k (drop k xs))"

declare chunks.simps [simp del]

lemma chunks_Nil [simp]: "chunks k [] = []"
  by (simp add: chunks.simps)

lemma chunks_block: "0 < k \<Longrightarrow> length b = k \<Longrightarrow> chunks k (b @ xs) = b # chunks k xs"
  by (subst chunks.simps) auto

lemma chunks_append:
  "0 < k \<Longrightarrow> k dvd length xs \<Longrightarrow> chunks k (xs @ ys) = chunks k xs @ chunks k ys"
proof (induction k xs rule: chunks.induct)
  case (1 k xs)
  show ?case
  proof (cases "xs = []")
    case False
    with "1.prems" have le: "k \<le> length xs" by (auto dest: dvd_imp_le)
    then have "k dvd length (drop k xs)" using "1.prems" by simp
    with "1.IH" "1.prems" False have IH: "chunks k (drop k xs @ ys) = chunks k (drop k xs) @ chunks k ys"
      by simp
    have "chunks k ((take k xs @ drop k xs) @ ys) = take k xs # chunks k (drop k xs @ ys)"
      unfolding append_assoc using "1.prems" le by (intro chunks_block) auto
    then show ?thesis
      using IH False "1.prems" by (simp add: chunks.simps [of k xs])
  qed simp
qed

lemma length_chunks: "0 < k \<Longrightarrow> k dvd length xs \<Longrightarrow> length (chunks k xs) = length xs div k"
proof (induction k xs rule: chunks.induct)
  case (1 k xs)
  then show ?case
    by (subst chunks.simps) (auto simp: le_div_geq dvd_imp_le)
qed

definition slot_ok :: "nat \<Rightarrow> nat \<Rightarrow> 'a ring \<Rightarrow> bool" where
  "slot_ok N k rb \<longleftrightarrow> ring_ok N rb \<and> 0 < k \<and> k dvd N \<and> k dvd m_head rb \<and> k dvd m_tail rb"

definition packets :: "nat \<Rightarrow> nat \<Rightarrow> 'a ring \<Rightarrow> 'a list list" where
  "packets N k rb = chunks k (contents N rb)"

definition staged :: "nat \<Rightarrow> 'a ring \<Rightarrow> 'a list" where
  "staged k rb = take k (drop (m_head rb) (m_buffer rb))"

lemma slot_room:
  assumes "slot_ok N k rb"
  shows "k dvd ring_count N rb" "m_head rb + k \<le> N" "m_tail rb + k \<le> N" "ring_count N rb + k \<le> N"
proof -
  have next_slot: "a + k \<le> N" if a: "k dvd a" "a < N" for a
  proof -
    obtain x where "a = k * x" using a(1) by (rule dvdE)
    moreover obtain y where "N = k * y" using assms by (auto simp: slot_ok_def elim: dvdE)
    ultimately have xy: "a = k * x" "N = k * y" by simp_all
    with a(2) have "x + 1 \<le> y" by simp
    then have "k * (x + 1) \<le> k * y" by (rule mult_le_mono2)
    then show ?thesis by (simp add: xy)
  qed
  show cnt: "k dvd ring_count N rb"
    using assms by (auto simp: slot_ok_def ring_ok_def ring_count_def count2_def)
  show "m_head rb + k \<le> N" "m_tail rb + k \<le> N"
    using assms by (simp_all add: slot_ok_def ring_ok_def next_slot)
  show "ring_count N rb + k \<le> N"
    using assms by (intro next_slot cnt) (simp add: slot_ok_def count_less)
qed

lemma mod_shift_inj:
  fixes t :: nat
  assumes "a < N" "b < N" and eq: "(t + a) mod N = (t + b) mod N"
  shows "a = b"
proof -
  have "a mod N = b mod N"
    using eq by (simp add: mod_eq_dvd_iff_nat nat_mod_eq_iff)
  then show ?thesis using assms by simp
qed

lemma head_write_slot:
  assumes ok: "slot_ok N k rb" and i: "i < k"
  obtains rb' where "head_write N rb i v = Some rb'" "slot_ok N k rb'"
    "contents N rb' = contents N rb" "staged k rb' = (staged k rb)[i := v]"
    "m_head rb' = m_head rb" "m_tail rb' = m_tail rb"
proof -
  let ?rb = "rb\<lparr>m_buffer := (m_buffer rb)[m_head rb + i := v]\<rparr>"
  have ring: "ring_ok N rb" using ok by (simp add: slot_ok_def)
  have lt: "m_head rb + i < N" using slot_room(2) [OF ok] i by simp
  have cnt: "ring_count N ?rb = ring_count N rb" by (simp add: ring_count_def)
  have not_live: "(m_tail rb + j) mod N \<noteq> m_head rb + i" if j: "j < ring_count N rb" for j
  proof
    assume "(m_tail rb + j) mod N = m_head rb + i"
    also have "\<dots> = (m_tail rb + (ring_count N rb + i)) mod N"
      using tail_plus_count [OF ring] lt
      by (metis add.assoc mod_add_left_eq mod_less)
    finally have "j = ring_count N rb + i"
      by (rule mod_shift_inj [rotated 2]) (use j i slot_room(4) [OF ok] in auto)
    then show False using j by simp
  qed
  have "contents N ?rb = contents N rb"
    unfolding contents_def cnt by (rule map_cong) (auto simp: not_live [THEN not_sym])
  moreover have "staged k ?rb = (staged k rb)[i := v]"
    using lt ring i by (simp add: staged_def drop_update_swap take_update_swap ring_ok_def)
  moreover have "slot_ok N k ?rb" using ok by (simp add: slot_ok_def ring_ok_def)
  ultimately show ?thesis using that [of ?rb] lt by (simp add: head_write_def)
qed

lemma advanceHead_room:
  assumes ok: "slot_ok N k rb" and room: "ring_count N rb + k < N"
  shows "contents N (advanceHead N k rb) = contents N rb @ staged k rb"
    and "slot_ok N k (advanceHead N k rb)"
proof -
  let ?rb = "rb\<lparr>m_head := (if m_head rb + k \<ge> N then m_head rb + k - N else m_head rb + k)\<rparr>"
  have ring: "ring_ok N rb" using ok by (simp add: slot_ok_def)
  have cnt: "ring_count N ?rb = ring_count N rb + k"
    using ring room by (auto simp: ring_ok_def ring_count_def count2_def split: if_splits)
  then have eq: "advanceHead N k rb = ?rb"
    by (simp add: advanceHead_def Let_def ring_count_def)
  have new: "m_buffer rb ! ((m_tail rb + (ring_count N rb + i)) mod N) = staged k rb ! i"
    if "i < k" for i
  proof -
    have "(m_tail rb + (ring_count N rb + i)) mod N = m_head rb + i"
      using tail_plus_count [OF ring] slot_room(2) [OF ok] that
      by (metis (no_types, opaque_lifting) add.assoc add_less_cancel_left le_trans linorder_not_le mod_add_left_eq mod_less)
    then show ?thesis using that slot_room(2) [OF ok] ring by (simp add: staged_def ring_ok_def)
  qed
  have len: "length (staged k rb) = k"
    using slot_room(2) [OF ok] ring by (simp add: staged_def ring_ok_def)
  have shift: "[ring_count N rb..<ring_count N rb + k] = map (\<lambda>i. ring_count N rb + i) [0..<k]"
    using map_add_upt [of "ring_count N rb" k] by (simp add: add.commute)
  have "contents N ?rb = contents N rb @ map (\<lambda>i. staged k rb ! i) [0..<k]"
    unfolding contents_def cnt upt_add_eq_append [OF le0] shift
    by (simp add: new del: upt_add_eq_append)
  then show "contents N (advanceHead N k rb) = contents N rb @ staged k rb"
    by (simp add: eq map_nth [of "staged k rb", unfolded len])
  show "slot_ok N k (advanceHead N k rb)"
    using ok slot_room(2) [OF ok] by (auto simp: eq slot_ok_def ring_ok_def)
qed

lemma advanceHead_full:
  assumes ok: "slot_ok N k rb" and full: "\<not> ring_count N rb + k < N"
  shows "advanceHead N k rb = rb"
proof -
  have "ring_count N rb = N - k" using slot_room(4) [OF ok] full by simp
  then show ?thesis
    using ok slot_room [OF ok]
    by (auto simp: advanceHead_def Let_def slot_ok_def ring_ok_def ring_count_def count2_def split: if_splits)
qed

lemma packets_advanceHead:
  assumes ok: "slot_ok N k rb" and room: "ring_count N rb + k < N"
  shows "packets N k (advanceHead N k rb) = packets N k rb @ [staged k rb]"
proof -
  have k: "0 < k" "k dvd length (contents N rb)" using ok slot_room(1) [OF ok] by (auto simp: slot_ok_def)
  have "length (staged k rb) = k"
    using slot_room(2) [OF ok] ok by (simp add: staged_def slot_ok_def ring_ok_def)
  then show ?thesis
    using chunks_block [of k "staged k rb" "[]"] k
    by (simp add: packets_def advanceHead_room [OF ok room] chunks_append)
qed

lemma length_packets: "slot_ok N k rb \<Longrightarrow> length (packets N k rb) = ring_count N rb div k"
  using slot_room(1) [of N k rb] by (simp add: packets_def length_chunks slot_ok_def)

lemma packets_room_iff:
  assumes ok: "slot_ok N k rb"
  shows "length (packets N k rb) < N div k - 1 \<longleftrightarrow> ring_count N rb + k < N"
proof -
  obtain c n where "ring_count N rb = k * c" "N = k * n" "0 < k"
    using slot_room(1) [OF ok] ok by (metis dvdE slot_ok_def)
  then show ?thesis
    using length_packets [OF ok] mult_less_cancel1 [of k "Suc c" n] by (simp add: less_diff_conv add.commute)
qed

lemma packets_nonempty_iff:
  assumes ok: "slot_ok N k rb"
  shows "packets N k rb \<noteq> [] \<longleftrightarrow> k \<le> ring_count N rb"
proof -
  obtain c where "ring_count N rb = k * c" "0 < k"
    using slot_room(1) [OF ok] ok by (auto simp: slot_ok_def)
  then show ?thesis
    using length_packets [OF ok] by (cases c) (auto simp flip: length_greater_0_conv)
qed

lemma packets_cons:
  assumes ok: "slot_ok N k rb" and c: "k \<le> ring_count N rb"
  shows "packets N k rb = tail_packet rb k # packets N k (advanceTail N k rb)"
proof -
  have ring: "ring_ok N rb" and k: "0 < k" using ok by (auto simp: slot_ok_def)
  have "take k (contents N rb) = tail_packet rb k"
  proof (rule nth_equalityI)
    show "length (take k (contents N rb)) = length (tail_packet rb k)"
      using c slot_room(3) [OF ok] ring by (simp add: tail_packet_def ring_ok_def)
    show "take k (contents N rb) ! i = tail_packet rb k ! i"
      if "i < length (take k (contents N rb))" for i
      using that c slot_room(3) [OF ok] ring by (simp add: tail_packet_def ring_ok_def contents_nth)
  qed
  moreover have "contents N rb \<noteq> []" using c k by (auto simp flip: length_greater_0_conv)
  ultimately show ?thesis
    using k advanceTail_contents [OF ring c] by (simp add: packets_def chunks.simps [of k "contents N rb"])
qed

lemma slot_ok_advanceTail:
  assumes ok: "slot_ok N k rb" shows "slot_ok N k (advanceTail N k rb)"
  using ok ring_ok_advanceTail [of N rb k] slot_room(3) [OF ok]
  by (auto simp: slot_ok_def advanceTail_def Let_def dvd_imp_le ring_ok_def)

text \<open>
  The contract of the block interface.  \<open>stage i v\<close> writes byte \<open>i\<close> of the slot at the head,
  \<open>commit\<close> publishes the slot, \<open>front\<close> reads the oldest packet and \<open>release\<close> drops it.
\<close>

primrec stage_all :: "('q \<Rightarrow> nat \<Rightarrow> 'a \<Rightarrow> 'q option) \<Rightarrow> nat \<Rightarrow> 'a list \<Rightarrow> 'q \<Rightarrow> 'q option" where
  "stage_all stage i [] q = Some q"
| "stage_all stage i (v # vs) q = (case stage q i v of None \<Rightarrow> None | Some q' \<Rightarrow> stage_all stage (Suc i) vs q')"

locale packet_queue =
  fixes stage :: "'q \<Rightarrow> nat \<Rightarrow> 'a \<Rightarrow> 'q option"
    and slot :: "'q \<Rightarrow> 'a list"
    and commit :: "'q \<Rightarrow> 'q"
    and ready :: "'q \<Rightarrow> bool"
    and front :: "'q \<Rightarrow> 'a list"
    and release :: "'q \<Rightarrow> 'q"
    and queue :: "'q \<Rightarrow> 'a list list"
    and valid :: "'q \<Rightarrow> bool"
    and k :: nat
    and cap :: nat
  assumes stage_ok: "valid q \<Longrightarrow> i < k \<Longrightarrow>
      \<exists>q'. stage q i v = Some q' \<and> valid q' \<and> queue q' = queue q \<and> slot q' = (slot q)[i := v]"
    and slot_length: "valid q \<Longrightarrow> length (slot q) = k"
    and commit_room: "valid q \<Longrightarrow> length (queue q) < cap \<Longrightarrow> queue (commit q) = queue q @ [slot q]"
    and commit_full: "valid q \<Longrightarrow> \<not> length (queue q) < cap \<Longrightarrow> commit q = q"
    and valid_commit: "valid q \<Longrightarrow> valid (commit q)"
    and ready_iff: "valid q \<Longrightarrow> ready q \<longleftrightarrow> queue q \<noteq> []"
    and front_release: "valid q \<Longrightarrow> queue q \<noteq> [] \<Longrightarrow> queue q = front q # queue (release q)"
    and valid_release: "valid q \<Longrightarrow> queue q \<noteq> [] \<Longrightarrow> valid (release q)"
begin

lemma stage_all_ok:
  "valid q \<Longrightarrow> i + length vs \<le> k \<Longrightarrow>
     \<exists>q'. stage_all stage i vs q = Some q' \<and> valid q' \<and> queue q' = queue q
        \<and> slot q' = take i (slot q) @ vs @ drop (i + length vs) (slot q)"
proof (induction vs arbitrary: i q)
  case (Cons v vs)
  obtain q1 where q1: "stage q i v = Some q1" "valid q1" "queue q1 = queue q" "slot q1 = (slot q)[i := v]"
    using stage_ok [OF Cons.prems(1), of i v] Cons.prems(2) by auto
  obtain q2 where q2: "stage_all stage (Suc i) vs q1 = Some q2" "valid q2" "queue q2 = queue q1"
      "slot q2 = take (Suc i) (slot q1) @ vs @ drop (Suc i + length vs) (slot q1)"
    using Cons.IH [OF q1(2), of "Suc i"] Cons.prems(2) by auto
  have "i < length (slot q)" using slot_length [OF Cons.prems(1)] Cons.prems(2) by simp
  then show ?case
    using q1 q2 by (simp add: take_Suc_conv_app_nth take_update_cancel)
qed auto

lemma store_packet:
  assumes "valid q" and "length p = k" and "length (queue q) < cap"
  shows "\<exists>q'. stage_all stage 0 p q = Some q' \<and> queue (commit q') = queue q @ [p] \<and> valid (commit q')"
proof -
  obtain q' where q': "stage_all stage 0 p q = Some q'" "valid q'" "queue q' = queue q"
      "slot q' = p @ drop k (slot q)"
    using stage_all_ok [OF assms(1), of 0 p] assms(2) by auto
  then show ?thesis
    using commit_room [of q'] valid_commit [of q'] assms(1,3) slot_length [OF assms(1)] by auto
qed

lemma drop_packet_when_full:
  assumes "valid q" and "length p = k" and "\<not> length (queue q) < cap"
  shows "\<exists>q'. stage_all stage 0 p q = Some q' \<and> queue (commit q') = queue q \<and> valid (commit q')"
  using stage_all_ok [OF assms(1), of 0 p] assms(2,3) commit_full by auto

end

interpretation slots: packet_queue "head_write N" "staged k" "advanceHead N k" "\<lambda>rb. k \<le> ring_count N rb"
    "\<lambda>rb. tail_packet rb k" "advanceTail N k" "packets N k" "slot_ok N k" k "N div k - 1" for N k
proof unfold_locales
  fix q :: "'a ring" and i v
  assume q: "slot_ok N k q"
  show "\<exists>q'. head_write N q i v = Some q' \<and> slot_ok N k q' \<and> packets N k q' = packets N k q
      \<and> staged k q' = (staged k q)[i := v]" if "i < k"
    using head_write_slot [OF q that, of v] by (metis packets_def)
  show "length (staged k q) = k"
    using q slot_room(2) [OF q] by (simp add: staged_def slot_ok_def ring_ok_def)
  show "packets N k (advanceHead N k q) = packets N k q @ [staged k q]"
    if "length (packets N k q) < N div k - 1"
    using packets_advanceHead [OF q] packets_room_iff [OF q] that by simp
  show full: "advanceHead N k q = q" if "\<not> length (packets N k q) < N div k - 1"
    using advanceHead_full [OF q] packets_room_iff [OF q] that by simp
  show "slot_ok N k (advanceHead N k q)"
    using advanceHead_room(2) [OF q] packets_room_iff [OF q] full q by (cases "ring_count N q + k < N") auto
  show "k \<le> ring_count N q \<longleftrightarrow> packets N k q \<noteq> []"
    using packets_nonempty_iff [OF q] by simp
  show "packets N k q = tail_packet q k # packets N k (advanceTail N k q)" if "packets N k q \<noteq> []"
    using packets_cons [OF q] packets_nonempty_iff [OF q] that by simp
  show "slot_ok N k (advanceTail N k q)"
    using q by (rule slot_ok_advanceTail)
qed

text \<open>
  C14. The block interface is a queue of packets that is safe and loses nothing while there is room:
  writing the bytes of a packet through \<open>head ()\<close> stays inside the array and disturbs no published
  packet, \<open>advanceHead\<close> appends exactly that packet, and the oldest packet is the one \<open>tail ()\<close>
  shows.
\<close>

theorem ring_packet_store:
  assumes "slot_ok N k rb" and "length p = k" and "length (packets N k rb) < N div k - 1"
  shows "\<exists>rb'. stage_all (head_write N) 0 p rb = Some rb'
    \<and> packets N k (advanceHead N k rb') = packets N k rb @ [p]
    \<and> tail_packet (advanceHead N k rb') k = hd (packets N k rb @ [p])
    \<and> packets N k (advanceTail N k (advanceHead N k rb')) = tl (packets N k rb @ [p])"
proof -
  obtain rb' where rb': "stage_all (head_write N) 0 p rb = Some rb'"
      "packets N k (advanceHead N k rb') = packets N k rb @ [p]" "slot_ok N k (advanceHead N k rb')"
    using slots.store_packet [OF assms] by blast
  then show ?thesis
    using slots.front_release [OF rb'(3)] by (metis Nil_is_append_conv list.sel(1,3) not_Cons_self2)
qed

lemma ring_packet_store_witness:
  "\<exists>rb'. stage_all (head_write 12) 0 [1, 2, 3, 4, 5, 6] \<lparr>m_buffer = replicate 12 (0::nat), m_head = 6, m_tail = 6\<rparr> = Some rb'
    \<and> packets 12 6 (advanceHead 12 6 rb') = [[1, 2, 3, 4, 5, 6]]"
  using ring_packet_store [of 12 6 "\<lparr>m_buffer = replicate 12 (0::nat), m_head = 6, m_tail = 6\<rparr>" "[1, 2, 3, 4, 5, 6]"]
  by (auto simp: slot_ok_def ring_ok_def packets_def contents_def ring_count_def count2_def)

end
