(* ===== verification/DecayFilters.thy ===== *)
theory DecayFilters
  imports PS2Prelude
begin

text \<open>
  The filters of \<open>Decay.h\<close>: \<open>SimpleAverage<T, N>\<close>, the unweighted average of the last \<open>N\<close> samples,
  with the accesses to its history (\<open>oldest\<close>, \<open>newest\<close>, \<open>sum\<close>), and the pair
  \<open>DecayingAverage\<close>/\<open>UndecayAverage\<close>.

  \<open>SimpleAverage\<close> is instantiated by the driver at \<open>T = int\<close> (pointer smoothing, scroll history)
  and at \<open>T = uint64_t\<close> (time history).  Its field \<open>m_sum\<close> is an \<open>int\<close> in both, so the two
  statements \<open>m_sum += data\<close> and \<open>m_sum -= m_buffer[m_index]\<close> are the template's only operations
  that depend on \<open>T\<close>; they are the arguments \<open>pl\<close> and \<open>mi\<close>.  The abstraction of a filter is its
  window, the list of the samples it still holds, oldest first.
\<close>

section \<open>SimpleAverage\<close>

record 'a avg =
  av_buffer :: "'a list"
  av_count :: nat
  av_sum :: int
  av_index :: nat

definition avg_reset :: "'a avg \<Rightarrow> 'a avg" where
  "avg_reset a = a\<lparr>av_count := 0, av_sum := 0, av_index := 0\<rparr>"

definition avg_filter ::
    "nat \<Rightarrow> (int \<Rightarrow> 'a \<Rightarrow> int) \<Rightarrow> (int \<Rightarrow> 'a \<Rightarrow> int) \<Rightarrow> 'a \<Rightarrow> 'a avg \<Rightarrow> int \<times> 'a avg" where
  "avg_filter N pl mi data a =
     (let sum1 = pl (av_sum a) data;
          sum2 = (if av_count a = N then mi sum1 (av_buffer a ! av_index a) else sum1);
          buf = (av_buffer a)[av_index a := data];
          idx = (if Suc (av_index a) \<ge> N then 0 else Suc (av_index a));
          cnt = (if av_count a < N then Suc (av_count a) else av_count a)
      in (sum2 sdiv int cnt, \<lparr>av_buffer = buf, av_count = cnt, av_sum = sum2, av_index = idx\<rparr>))"

definition avg_oldest :: "nat \<Rightarrow> 'a avg \<Rightarrow> ('a::zero)" where
  "avg_oldest N a =
     (if av_count a = 0 then 0
      else if av_count a < N then av_buffer a ! 0 else av_buffer a ! av_index a)"

definition avg_newest :: "'a avg \<Rightarrow> ('a::zero)" where
  "avg_newest a =
     (if av_count a = 0 then 0
      else av_buffer a ! (if av_index a = 0 then av_count a - 1 else av_index a - 1))"

definition avg_average :: "'a avg \<Rightarrow> int" where
  "avg_average a = (if av_count a = 0 then 0 else av_sum a sdiv int (av_count a))"

text \<open>The template at \<open>T = int\<close> and at \<open>T = uint64_t\<close>, where \<open>m_sum\<close> keeps the low 32 bits.\<close>

definition filter_int :: "nat \<Rightarrow> int \<Rightarrow> int avg \<Rightarrow> int \<times> int avg" where
  "filter_int N = avg_filter N (+) (-)"

definition filter_u64 :: "nat \<Rightarrow> u64 \<Rightarrow> u64 avg \<Rightarrow> int \<times> u64 avg" where
  "filter_u64 N = avg_filter N (\<lambda>s d. s32 (uint (u64 s + d))) (\<lambda>s d. s32 (uint (u64 s - d)))"

subsection \<open>The window\<close>

definition avg_ok :: "nat \<Rightarrow> 'a avg \<Rightarrow> bool" where
  "avg_ok N a \<longleftrightarrow> 0 < N \<and> length (av_buffer a) = N \<and> av_count a \<le> N \<and> av_index a < N
     \<and> (av_count a < N \<longrightarrow> av_index a = av_count a)"

definition window :: "nat \<Rightarrow> 'a avg \<Rightarrow> 'a list" where
  "window N a = (if av_count a < N then take (av_count a) (av_buffer a)
     else drop (av_index a) (av_buffer a) @ take (av_index a) (av_buffer a))"

text \<open>The last \<open>n\<close> elements of a list.\<close>

definition lastn :: "nat \<Rightarrow> 'b list \<Rightarrow> 'b list" where
  "lastn n xs = drop (length xs - n) xs"

lemma lastn_lastn: "lastn n (lastn n xs @ ys) = lastn n (xs @ ys)"
proof (cases "length xs \<le> n")
  case False
  have "lastn n xs @ ys = drop (length xs - n) (xs @ ys)"
    by (simp add: lastn_def)
  then show ?thesis
    using False by (simp add: lastn_def add.commute del: drop_append)
qed (simp add: lastn_def)

lemma length_lastn [simp]: "length (lastn n xs) = min n (length xs)"
  by (auto simp: lastn_def)

lemma length_window: "avg_ok N a \<Longrightarrow> length (window N a) = av_count a"
  by (auto simp: avg_ok_def window_def)

lemma window_reset: "0 < N \<Longrightarrow> window N (avg_reset a) = []"
  by (simp add: window_def avg_reset_def)

lemma avg_ok_reset: "avg_ok N a \<Longrightarrow> avg_ok N (avg_reset a)"
  by (auto simp: avg_ok_def avg_reset_def)

lemma avg_ok_filter: "avg_ok N a \<Longrightarrow> avg_ok N (snd (avg_filter N pl mi d a))"
  by (auto simp: avg_ok_def avg_filter_def Let_def)

lemma window_full_step:
  assumes "i < length b"
  shows "drop (Suc i) (b[i := d]) @ take (Suc i) (b[i := d]) = tl (drop i b @ take i b) @ [d]"
  using assms by (simp add: take_Suc_conv_app_nth Cons_nth_drop_Suc [symmetric])

lemma window_filter:
  assumes ok: "avg_ok N a"
  shows "window N (snd (avg_filter N pl mi d a)) = lastn N (window N a @ [d])"
proof (cases "av_count a < N")
  case True
  then have idx: "av_index a = av_count a" "av_count a < length (av_buffer a)"
    using ok by (auto simp: avg_ok_def)
  have "lastn N (window N a @ [d]) = window N a @ [d]"
    using True length_window [OF ok] by (simp add: lastn_def)
  moreover have "window N (snd (avg_filter N pl mi d a)) = take (av_count a) (av_buffer a) @ [d]"
    using True idx ok
    by (auto simp: avg_filter_def window_def Let_def take_Suc_conv_app_nth avg_ok_def upd_conv_take_nth_drop)
  ultimately show ?thesis using True by (simp add: window_def)
next
  case False
  then have full: "av_count a = N" "av_index a < length (av_buffer a)" "length (av_buffer a) = N"
    using ok by (auto simp: avg_ok_def)
  have "window N (snd (avg_filter N pl mi d a)) = tl (window N a) @ [d]"
    using full window_full_step [OF full(2), of d]
    by (auto simp: avg_filter_def window_def Let_def)
  moreover have "lastn N (window N a @ [d]) = tl (window N a) @ [d]"
    using full length_window [OF ok] by (cases "window N a") (auto simp: lastn_def)
  ultimately show ?thesis by simp
qed

lemma oldest_window: "avg_ok N a \<Longrightarrow> avg_oldest N a = (if window N a = [] then 0 else hd (window N a))"
  using length_window [of N a]
  by (auto simp: avg_oldest_def avg_ok_def window_def hd_conv_nth nth_append)

lemma newest_window: "avg_ok N a \<Longrightarrow> avg_newest a = (if window N a = [] then 0 else last (window N a))"
  using length_window [of N a]
  by (auto simp: avg_newest_def avg_ok_def window_def last_conv_nth nth_append)

text \<open>At \<open>T = int\<close> the running sum is the sum of the window.\<close>

definition avg_sum_ok :: "nat \<Rightarrow> int avg \<Rightarrow> bool" where
  "avg_sum_ok N a \<longleftrightarrow> avg_ok N a \<and> av_sum a = sum_list (window N a)"

lemma avg_sum_ok_reset: "avg_sum_ok N a \<Longrightarrow> avg_sum_ok N (avg_reset a)"
  by (auto simp: avg_sum_ok_def avg_reset_def window_def avg_ok_def)

lemma sum_lastn_snoc:
  fixes xs :: "int list"
  assumes "length xs \<le> N" "0 < N"
  shows "sum_list (lastn N (xs @ [d])) = sum_list xs + d - (if length xs = N then hd xs else 0)"
  using assms by (cases xs) (auto simp: lastn_def)

lemma avg_sum_ok_filter:
  assumes "avg_sum_ok N a"
  shows "avg_sum_ok N (snd (filter_int N d a))"
    and "fst (filter_int N d a) = sum_list (lastn N (window N a @ [d])) sdiv int (length (lastn N (window N a @ [d])))"
proof -
  have ok: "avg_ok N a" and sum: "av_sum a = sum_list (window N a)" and N: "0 < N"
    using assms by (auto simp: avg_sum_ok_def avg_ok_def)
  have le: "length (window N a) \<le> N" using ok length_window [OF ok] by (simp add: avg_ok_def)
  have hd: "hd (window N a) = av_buffer a ! av_index a" if "av_count a = N"
    using that ok by (auto simp: window_def avg_ok_def hd_drop_conv_nth)
  have s: "av_sum (snd (filter_int N d a)) = sum_list (lastn N (window N a @ [d]))"
    using hd length_window [OF ok]
    by (simp add: sum_lastn_snoc [OF le N] filter_int_def avg_filter_def Let_def sum)
  show ok': "avg_sum_ok N (snd (filter_int N d a))"
    using s avg_ok_filter [OF ok] window_filter [OF ok] by (simp add: avg_sum_ok_def filter_int_def)
  have "int (av_count (snd (filter_int N d a))) = int (length (lastn N (window N a @ [d])))"
    using ok' window_filter [OF ok] length_window [of N "snd (filter_int N d a)"]
    by (simp add: avg_sum_ok_def filter_int_def)
  moreover have "fst (filter_int N d a) = av_sum (snd (filter_int N d a)) sdiv int (av_count (snd (filter_int N d a)))"
    by (simp add: filter_int_def avg_filter_def Let_def)
  ultimately show "fst (filter_int N d a) = sum_list (lastn N (window N a @ [d])) sdiv int (length (lastn N (window N a @ [d])))"
    using s by simp
qed

subsection \<open>The contract\<close>

text \<open>
  What the gesture code relies on: after any history of samples the filter holds the last \<open>cap\<close>
  of them, and \<open>oldest\<close>/\<open>newest\<close> are the ends of that window (zero when it is empty).
\<close>

locale sliding_window =
  fixes add :: "'a::zero \<Rightarrow> 's \<Rightarrow> 's"
    and clear :: "'s \<Rightarrow> 's"
    and view :: "'s \<Rightarrow> 'a list"
    and old :: "'s \<Rightarrow> 'a"
    and new :: "'s \<Rightarrow> 'a"
    and size_of :: "'s \<Rightarrow> nat"
    and valid :: "'s \<Rightarrow> bool"
    and cap :: nat
  assumes view_add: "valid s \<Longrightarrow> view (add d s) = lastn cap (view s @ [d])"
    and valid_add: "valid s \<Longrightarrow> valid (add d s)"
    and view_clear: "valid s \<Longrightarrow> view (clear s) = []"
    and valid_clear: "valid s \<Longrightarrow> valid (clear s)"
    and old_view: "valid s \<Longrightarrow> old s = (if view s = [] then 0 else hd (view s))"
    and new_view: "valid s \<Longrightarrow> new s = (if view s = [] then 0 else last (view s))"
    and size_view: "valid s \<Longrightarrow> size_of s = length (view s)"
    and cap_pos: "valid s \<Longrightarrow> 0 < cap"
begin

lemma valid_adds: "valid s \<Longrightarrow> valid (fold add ds s)"
  by (induction ds arbitrary: s) (simp_all add: valid_add)

lemma view_adds: "valid s \<Longrightarrow> length (view s) \<le> cap \<Longrightarrow> view (fold add ds s) = lastn cap (view s @ ds)"
proof (induction ds arbitrary: s)
  case (Cons d ds)
  have len: "length (view (add d s)) \<le> cap"
    using Cons.prems(1) by (simp add: view_add)
  show ?case
    using Cons.IH [OF valid_add [OF Cons.prems(1)] len] Cons.prems lastn_lastn [of cap "view s @ [d]" ds]
    by (simp add: view_add)
qed (simp add: lastn_def)

lemma history:
  assumes "valid s"
  shows "view (fold add ds (clear s)) = lastn cap ds"
    and "size_of (fold add ds (clear s)) = min cap (length ds)"
    and "ds \<noteq> [] \<Longrightarrow> new (fold add ds (clear s)) = last ds"
    and "ds \<noteq> [] \<Longrightarrow> old (fold add ds (clear s)) = ds ! (length ds - cap)"
proof -
  show v: "view (fold add ds (clear s)) = lastn cap ds"
    using view_adds [OF valid_clear [OF assms]] view_clear [OF assms] by simp
  have ok: "valid (fold add ds (clear s))"
    by (intro valid_adds valid_clear assms)
  have cap: "0 < cap" using assms by (rule cap_pos)
  show "size_of (fold add ds (clear s)) = min cap (length ds)"
    using size_view [OF ok] v by (auto simp: lastn_def)
  show "new (fold add ds (clear s)) = last ds" if ds: "ds \<noteq> []"
  proof -
    have "length ds - cap < length ds" using cap ds by (cases ds) auto
    then show ?thesis using new_view [OF ok] v by (simp add: lastn_def)
  qed
  show "old (fold add ds (clear s)) = ds ! (length ds - cap)" if ds: "ds \<noteq> []"
  proof -
    have "length ds - cap < length ds" using cap ds by (cases ds) auto
    then show ?thesis using old_view [OF ok] v by (simp add: lastn_def hd_drop_conv_nth)
  qed
qed

end

interpretation avg: sliding_window "\<lambda>d a. snd (avg_filter N pl mi d a)" avg_reset "window N"
    "avg_oldest N" avg_newest av_count "avg_ok N" N for N pl mi
  by unfold_locales
     (simp_all add: window_filter avg_ok_filter avg_ok_reset oldest_window newest_window
        length_window avg_ok_def [THEN iffD1] window_reset)

section \<open>DecayingAverage and UndecayAverage\<close>

record decay =
  m_last :: int
  m_lastvalid :: bool

definition decay_reset :: "decay \<Rightarrow> decay" where
  "decay_reset a = a\<lparr>m_lastvalid := False\<rparr>"

definition decaying_filter :: "int \<Rightarrow> int \<Rightarrow> int \<Rightarrow> int \<Rightarrow> decay \<Rightarrow> int \<times> decay" where
  "decaying_filter N1 N2 D data a =
     (let result = (if m_lastvalid a then (data * N1) sdiv D + (m_last a * N2) sdiv D else data)
      in (result, \<lparr>m_last = result, m_lastvalid = True\<rparr>))"

definition undecay_filter :: "int \<Rightarrow> int \<Rightarrow> int \<Rightarrow> int \<Rightarrow> decay \<Rightarrow> int \<times> decay" where
  "undecay_filter N1 N2 D data a =
     (let result = (if m_lastvalid a then (data * D) sdiv N1 - (m_last a * N2) sdiv N1 else data)
      in (result, \<lparr>m_last = data, m_lastvalid = True\<rparr>))"

fun run_filter :: "(int \<Rightarrow> decay \<Rightarrow> int \<times> decay) \<Rightarrow> int list \<Rightarrow> decay \<Rightarrow> int list" where
  "run_filter f [] a = []"
| "run_filter f (x # xs) a = (let (y, a') = f x a in y # run_filter f xs a')"

lemma half_halves: "\<bar>2 * ((x::int) sdiv 2) - x\<bar> \<le> 1"
  using sdiv_mult_smod_eq [of x 2] smod_bounds [of 2 x] by linarith

lemma undecay_step:
  assumes "m_lastvalid u = m_lastvalid d" and "m_lastvalid d \<Longrightarrow> m_last u = m_last d"
  shows "\<bar>fst (undecay_filter 1 1 2 (fst (decaying_filter 1 1 2 x d)) u) - x\<bar> \<le> 2"
  using assms half_halves [of x] half_halves [of "m_last d"]
  by (auto simp: undecay_filter_def decaying_filter_def Let_def)

lemma avg_sum_ok_filters: "avg_sum_ok N a \<Longrightarrow> avg_sum_ok N (fold (\<lambda>d a. snd (filter_int N d a)) xs a)"
  by (induction xs arbitrary: a) (simp_all add: avg_sum_ok_filter)

text \<open>
  The pointer-smoothing filter is the average of the last \<open>N\<close> samples: whatever came before the
  last \<open>reset\<close>, after the samples \<open>xs\<close> and one more sample \<open>d\<close> the filter returns the truncated
  average of the last \<open>min N (length xs + 1)\<close> of them, \<open>sum ()\<close> is their sum, and
  \<open>oldest ()\<close>, \<open>newest ()\<close> and \<open>count ()\<close> describe exactly that window.
\<close>

theorem simple_average_window:
  assumes "avg_sum_ok N a"
  shows "let b = fold (\<lambda>d a. snd (filter_int N d a)) xs (avg_reset a);
             w = lastn N (xs @ [d]); r = filter_int N d b in
    fst r = sum_list w sdiv int (length w) \<and> av_sum (snd r) = sum_list w \<and> av_count (snd r) = length w
      \<and> avg_newest (snd r) = d \<and> avg_oldest N (snd r) = hd w"
proof -
  have ok: "avg_ok N a" and N: "0 < N" using assms by (auto simp: avg_sum_ok_def avg_ok_def)
  define b where "b = fold (\<lambda>d a. snd (filter_int N d a)) xs (avg_reset a)"
  have b: "avg_sum_ok N b"
    unfolding b_def by (intro avg_sum_ok_filters avg_sum_ok_reset assms)
  have wb: "window N b = lastn N xs"
    using avg.history(1) [OF ok, of "(+)" "(-)" xs] by (simp add: b_def filter_int_def)
  have w: "lastn N (window N b @ [d]) = lastn N (xs @ [d])"
    by (simp add: wb lastn_lastn)
  have r: "avg_sum_ok N (snd (filter_int N d b))" "window N (snd (filter_int N d b)) = lastn N (xs @ [d])"
    using avg_sum_ok_filter(1) [OF b] window_filter [of N b] b w by (simp_all add: avg_sum_ok_def filter_int_def)
  have ne: "lastn N (xs @ [d]) \<noteq> []" "last (lastn N (xs @ [d])) = d"
    using N by (auto simp: lastn_def)
  show ?thesis
    using avg_sum_ok_filter(2) [OF b, of d, unfolded w] r ne length_window [of N "snd (filter_int N d b)"]
      newest_window [of N "snd (filter_int N d b)"] oldest_window [of N "snd (filter_int N d b)"]
    unfolding Let_def b_def [symmetric] avg_sum_ok_def by simp
qed

lemma simple_average_window_witness:
  "fst (filter_int 2 9 (fold (\<lambda>d a. snd (filter_int 2 d a)) [5, 7]
     (avg_reset \<lparr>av_buffer = [0, 0], av_count = 0, av_sum = 0, av_index = 0\<rparr>))) = 8"
  using simple_average_window [of 2 "\<lparr>av_buffer = [0, 0], av_count = 0, av_sum = 0, av_index = 0\<rparr>" "[5, 7]" 9]
  by (simp add: avg_sum_ok_def avg_ok_def window_def lastn_def Let_def)

text \<open>
  \<open>UndecayAverage<..,1,1,2>\<close> undoes the decaying average that the touchpad firmware applies (the
  code's \<open>unsmoothinput\<close>): fed with the outputs of \<open>DecayingAverage<..,1,1,2>\<close>, it returns each
  original sample up to two units of rounding, for every sequence.
\<close>

theorem undecay_inverts_decay:
  "list_all2 (\<lambda>x y. \<bar>y - x\<bar> \<le> 2) xs
     (run_filter (undecay_filter 1 1 2) (run_filter (decaying_filter 1 1 2) xs (decay_reset d)) (decay_reset u))"
proof -
  have "list_all2 (\<lambda>x y. \<bar>y - x\<bar> \<le> 2) xs
      (run_filter (undecay_filter 1 1 2) (run_filter (decaying_filter 1 1 2) xs d) u)"
    if "m_lastvalid u = m_lastvalid d" "m_lastvalid d \<Longrightarrow> m_last u = m_last d" for u d
    using that
  proof (induction xs arbitrary: u d)
    case (Cons x xs)
    obtain y d' where y: "decaying_filter 1 1 2 x d = (y, d')" by fastforce
    obtain z u' where z: "undecay_filter 1 1 2 y u = (z, u')" by fastforce
    have "m_lastvalid u' = m_lastvalid d'" "m_last u' = m_last d'"
      using y z by (auto simp: decaying_filter_def undecay_filter_def Let_def)
    then show ?case
      using undecay_step [of u d x] Cons.prems Cons.IH [of u' d'] by (simp add: y z)
  qed simp
  from this [of "decay_reset u" "decay_reset d"] show ?thesis
    by (simp add: decay_reset_def)
qed

end
