(* ===== verification/TouchPad.thy ===== *)
theory TouchPad
  imports RingBuffer DecayFilters
begin

text \<open>
  The base class of the trackpad drivers, \<open>VoodooPS2TouchPadBase\<close>: its state, the helpers that post
  events, the timers, the middle-button emulation, the configuration and the message interface to the
  keyboard driver.

  State.  The member variables that the configuration tables of \<open>setParamPropertiesGated\<close> point to
  are kept in four stores, one per table, indexed by variable (a datatype with one constructor per
  variable; for the 58 variables of \<open>int32vars\<close> the number of the table row); so a table is a list of
  names and variables, as in the code.  The other members are fields of the record
  \<open>touchpad\<close>, grouped where the class groups them (middle button, momentum scroll, swipes, filters).
  The driver classes extend the record, as they extend the class.

  Environment.  \<open>clock_get_uptime\<close> and \<open>absolutetime_to_nanoseconds\<close> are kernel functions: they are
  the argument \<open>E\<close>, the uptime being a function of the number of readings made (\<open>ticks\<close>).  What
  the driver posts to the HID stack, to the keyboard and to its timers is appended to \<open>out\<close>.  A timer
  that was never created is a null pointer; calling it is \<open>None\<close>.
\<close>

section \<open>Configuration variables\<close>

type_synonym int32var = nat

abbreviation (input) I_z_finger :: int32var where "I_z_finger \<equiv> 0"
abbreviation (input) I_divisorx :: int32var where "I_divisorx \<equiv> 1"
abbreviation (input) I_divisory :: int32var where "I_divisory \<equiv> 2"
abbreviation (input) I_redge :: int32var where "I_redge \<equiv> 3"
abbreviation (input) I_ledge :: int32var where "I_ledge \<equiv> 4"
abbreviation (input) I_tedge :: int32var where "I_tedge \<equiv> 5"
abbreviation (input) I_bedge :: int32var where "I_bedge \<equiv> 6"
abbreviation (input) I_vscrolldivisor :: int32var where "I_vscrolldivisor \<equiv> 7"
abbreviation (input) I_hscrolldivisor :: int32var where "I_hscrolldivisor \<equiv> 8"
abbreviation (input) I_cscrolldivisor :: int32var where "I_cscrolldivisor \<equiv> 9"
abbreviation (input) I_centerx :: int32var where "I_centerx \<equiv> 10"
abbreviation (input) I_centery :: int32var where "I_centery \<equiv> 11"
abbreviation (input) I_ctrigger :: int32var where "I_ctrigger \<equiv> 12"
abbreviation (input) I_wlimit :: int32var where "I_wlimit \<equiv> 13"
abbreviation (input) I_wvdivisor :: int32var where "I_wvdivisor \<equiv> 14"
abbreviation (input) I_whdivisor :: int32var where "I_whdivisor \<equiv> 15"
abbreviation (input) I_zlimit :: int32var where "I_zlimit \<equiv> 16"
abbreviation (input) I_mousemultiplierx :: int32var where "I_mousemultiplierx \<equiv> 17"
abbreviation (input) I_mousemultipliery :: int32var where "I_mousemultipliery \<equiv> 18"
abbreviation (input) I_mousescrollmultiplierx :: int32var where "I_mousescrollmultiplierx \<equiv> 19"
abbreviation (input) I_mousescrollmultipliery :: int32var where "I_mousescrollmultipliery \<equiv> 20"
abbreviation (input) I_wakedelay :: int32var where "I_wakedelay \<equiv> 21"
abbreviation (input) I_tapthreshx :: int32var where "I_tapthreshx \<equiv> 22"
abbreviation (input) I_tapthreshy :: int32var where "I_tapthreshy \<equiv> 23"
abbreviation (input) I_dblthreshx :: int32var where "I_dblthreshx \<equiv> 24"
abbreviation (input) I_dblthreshy :: int32var where "I_dblthreshy \<equiv> 25"
abbreviation (input) I_zonel :: int32var where "I_zonel \<equiv> 26"
abbreviation (input) I_zoner :: int32var where "I_zoner \<equiv> 27"
abbreviation (input) I_zonet :: int32var where "I_zonet \<equiv> 28"
abbreviation (input) I_zoneb :: int32var where "I_zoneb \<equiv> 29"
abbreviation (input) I_diszl :: int32var where "I_diszl \<equiv> 30"
abbreviation (input) I_diszr :: int32var where "I_diszr \<equiv> 31"
abbreviation (input) I_diszt :: int32var where "I_diszt \<equiv> 32"
abbreviation (input) I_diszb :: int32var where "I_diszb \<equiv> 33"
abbreviation (input) I_diszctrl :: int32var where "I_diszctrl \<equiv> 34"
abbreviation (input) I_resolution :: int32var where "I_resolution \<equiv> 35"
abbreviation (input) I_scrollresolution :: int32var where "I_scrollresolution \<equiv> 36"
abbreviation (input) I_swipedx :: int32var where "I_swipedx \<equiv> 37"
abbreviation (input) I_swipedy :: int32var where "I_swipedy \<equiv> 38"
abbreviation (input) I_mousecount :: int32var where "I_mousecount \<equiv> 39"
abbreviation (input) I_rczl :: int32var where "I_rczl \<equiv> 40"
abbreviation (input) I_rczr :: int32var where "I_rczr \<equiv> 41"
abbreviation (input) I_rczt :: int32var where "I_rczt \<equiv> 42"
abbreviation (input) I_rczb :: int32var where "I_rczb \<equiv> 43"
abbreviation (input) I_scrollzoommask :: int32var where "I_scrollzoommask \<equiv> 44"
abbreviation (input) I_buttonCount :: int32var where "I_buttonCount \<equiv> 45"
abbreviation (input) I_draglocktempmask :: int32var where "I_draglocktempmask \<equiv> 46"
abbreviation (input) I_momentumscrollthreshy :: int32var where "I_momentumscrollthreshy \<equiv> 47"
abbreviation (input) I_momentumscrollmultiplier :: int32var where "I_momentumscrollmultiplier \<equiv> 48"
abbreviation (input) I_momentumscrolldivisor :: int32var where "I_momentumscrolldivisor \<equiv> 49"
abbreviation (input) I_momentumscrollsamplesmin :: int32var where "I_momentumscrollsamplesmin \<equiv> 50"
abbreviation (input) I_ignoredeltasstart :: int32var where "I_ignoredeltasstart \<equiv> 51"
abbreviation (input) I_bogusdxthresh :: int32var where "I_bogusdxthresh \<equiv> 52"
abbreviation (input) I_bogusdythresh :: int32var where "I_bogusdythresh \<equiv> 53"
abbreviation (input) I_xupmm :: int32var where "I_xupmm \<equiv> 54"
abbreviation (input) I_yupmm :: int32var where "I_yupmm \<equiv> 55"
abbreviation (input) I_scrolldxthresh :: int32var where "I_scrolldxthresh \<equiv> 56"
abbreviation (input) I_scrolldythresh :: int32var where "I_scrolldythresh \<equiv> 57"
abbreviation (input) I_threefingervertswipe :: int32var where "I_threefingervertswipe \<equiv> 58"
abbreviation (input) I_threefingerhorizswipe :: int32var where "I_threefingerhorizswipe \<equiv> 59"

datatype boolvar =
    B_hsticky | B_vsticky | B_wsticky | B_tapstable | B_noled | B_smoothinput | B_unsmoothinput |
    B_skippassthru | B_swapdoubletriple | B_clickpadtrackboth | B_immediateclick |
    B_mousemiddlescroll | B_fakemiddlebutton

datatype lowbitvar =
    L_clicking | L_dragging | L_rtap | L_draglock | L_hscroll | L_vscroll | L_scroll | L_outzone_wt
    | L_palm | L_palm_wt | L_usb_mouse_stops_trackpad | L_momentumscroll

datatype int64var =
    Q_maxdragtime | Q_maxtaptime | Q_maxdbltaptime | Q_maxaftertyping | Q_momentumscrolltimer |
    Q_clickpadclicktime | Q_maxmiddleclicktime | Q_dragexitdelay | Q_scrollexitdelay

definition int32vars :: "(string \<times> int32var) list" where
  "int32vars = [
    (''FingerZ'', I_z_finger),
    (''DivisorX'', I_divisorx),
    (''DivisorY'', I_divisory),
    (''EdgeRight'', I_redge),
    (''EdgeLeft'', I_ledge),
    (''EdgeTop'', I_tedge),
    (''EdgeBottom'', I_bedge),
    (''VerticalScrollDivisor'', I_vscrolldivisor),
    (''HorizontalScrollDivisor'', I_hscrolldivisor),
    (''CircularScrollDivisor'', I_cscrolldivisor),
    (''CenterX'', I_centerx),
    (''CenterY'', I_centery),
    (''CircularScrollTrigger'', I_ctrigger),
    (''MultiFingerWLimit'', I_wlimit),
    (''MultiFingerVerticalDivisor'', I_wvdivisor),
    (''MultiFingerHorizontalDivisor'', I_whdivisor),
    (''ZLimit'', I_zlimit),
    (''MouseMultiplierX'', I_mousemultiplierx),
    (''MouseMultiplierY'', I_mousemultipliery),
    (''MouseScrollMultiplierX'', I_mousescrollmultiplierx),
    (''MouseScrollMultiplierY'', I_mousescrollmultipliery),
    (''WakeDelay'', I_wakedelay),
    (''TapThresholdX'', I_tapthreshx),
    (''TapThresholdY'', I_tapthreshy),
    (''DoubleTapThresholdX'', I_dblthreshx),
    (''DoubleTapThresholdY'', I_dblthreshy),
    (''ZoneLeft'', I_zonel),
    (''ZoneRight'', I_zoner),
    (''ZoneTop'', I_zonet),
    (''ZoneBottom'', I_zoneb),
    (''DisableZoneLeft'', I_diszl),
    (''DisableZoneRight'', I_diszr),
    (''DisableZoneTop'', I_diszt),
    (''DisableZoneBottom'', I_diszb),
    (''DisableZoneControl'', I_diszctrl),
    (''Resolution'', I_resolution),
    (''ScrollResolution'', I_scrollresolution),
    (''SwipeDeltaX'', I_swipedx),
    (''SwipeDeltaY'', I_swipedy),
    (''MouseCount'', I_mousecount),
    (''RightClickZoneLeft'', I_rczl),
    (''RightClickZoneRight'', I_rczr),
    (''RightClickZoneTop'', I_rczt),
    (''RightClickZoneBottom'', I_rczb),
    (''HIDScrollZoomModifierMask'', I_scrollzoommask),
    (''ButtonCount'', I_buttonCount),
    (''DragLockTempMask'', I_draglocktempmask),
    (''MomentumScrollThreshY'', I_momentumscrollthreshy),
    (''MomentumScrollMultiplier'', I_momentumscrollmultiplier),
    (''MomentumScrollDivisor'', I_momentumscrolldivisor),
    (''MomentumScrollSamplesMin'', I_momentumscrollsamplesmin),
    (''FingerChangeIgnoreDeltas'', I_ignoredeltasstart),
    (''BogusDeltaThreshX'', I_bogusdxthresh),
    (''BogusDeltaThreshY'', I_bogusdythresh),
    (''UnitsPerMMX'', I_xupmm),
    (''UnitsPerMMY'', I_yupmm),
    (''ScrollDeltaThreshX'', I_scrolldxthresh),
    (''ScrollDeltaThreshY'', I_scrolldythresh),
    (''TrackpadThreeFingerVertSwipeGesture'', I_threefingervertswipe),
    (''TrackpadThreeFingerHorizSwipeGesture'', I_threefingerhorizswipe)]"

definition boolvars :: "(string \<times> boolvar) list" where
  "boolvars = [
    (''StickyHorizontalScrolling'', B_hsticky),
    (''StickyVerticalScrolling'', B_vsticky),
    (''StickyMultiFingerScrolling'', B_wsticky),
    (''StabilizeTapping'', B_tapstable),
    (''DisableLEDUpdate'', B_noled),
    (''SmoothInput'', B_smoothinput),
    (''UnsmoothInput'', B_unsmoothinput),
    (''SkipPassThrough'', B_skippassthru),
    (''SwapDoubleTriple'', B_swapdoubletriple),
    (''ClickPadTrackBoth'', B_clickpadtrackboth),
    (''ImmediateClick'', B_immediateclick),
    (''MouseMiddleScroll'', B_mousemiddlescroll),
    (''FakeMiddleButton'', B_fakemiddlebutton)]"

definition lowbitvars :: "(string \<times> lowbitvar) list" where
  "lowbitvars = [
    (''Clicking'', L_clicking),
    (''Dragging'', L_dragging),
    (''TrackpadRightClick'', L_rtap),
    (''DragLock'', L_draglock),
    (''TrackpadHorizScroll'', L_hscroll),
    (''TrackpadVertScroll'', L_vscroll),
    (''TrackpadScroll'', L_scroll),
    (''OutsidezoneNoAction When Typing'', L_outzone_wt),
    (''PalmNoAction Permanent'', L_palm),
    (''PalmNoAction When Typing'', L_palm_wt),
    (''USBMouseStopsTrackpad'', L_usb_mouse_stops_trackpad),
    (''TrackpadMomentumScroll'', L_momentumscroll)]"

definition int64vars :: "(string \<times> int64var) list" where
  "int64vars = [
    (''MaxDragTime'', Q_maxdragtime),
    (''MaxTapTime'', Q_maxtaptime),
    (''HIDClickTime'', Q_maxdbltaptime),
    (''QuietTimeAfterTyping'', Q_maxaftertyping),
    (''MomentumScrollTimer'', Q_momentumscrolltimer),
    (''ClickPadClickTime'', Q_clickpadclicktime),
    (''MiddleClickTime'', Q_maxmiddleclicktime),
    (''DragExitDelayTime'', Q_dragexitdelay),
    (''ScrollExitDelayTime'', Q_scrollexitdelay)]"

section \<open>State\<close>

datatype mbuttonstate = STATE_NOBUTTONS | STATE_MIDDLE | STATE_WAIT4TWO | STATE_WAIT4NONE | STATE_NOOP

datatype MBComingFrom = fromPassthru | fromTimer | fromTrackpad | fromCancel

datatype touchmode = MODE_NOTOUCH | MODE_PREDRAG | MODE_DRAGNOTOUCH | MODE_MOVE | MODE_VSCROLL
  | MODE_HSCROLL | MODE_CSCROLL | MODE_MTOUCH | MODE_DRAG | MODE_DRAGLOCK
  | MODE_WAIT1RELEASE | MODE_WAIT2TAP | MODE_WAIT2RELEASE

fun mode_code :: "touchmode \<Rightarrow> nat" where
  "mode_code MODE_NOTOUCH = 0"
| "mode_code MODE_PREDRAG = 2"
| "mode_code MODE_DRAGNOTOUCH = 4"
| "mode_code MODE_MOVE = 1"
| "mode_code MODE_VSCROLL = 3"
| "mode_code MODE_HSCROLL = 5"
| "mode_code MODE_CSCROLL = 7"
| "mode_code MODE_MTOUCH = 9"
| "mode_code MODE_DRAG = 11"
| "mode_code MODE_DRAGLOCK = 13"
| "mode_code MODE_WAIT1RELEASE = 101"
| "mode_code MODE_WAIT2TAP = 102"
| "mode_code MODE_WAIT2RELEASE = 103"

definition is_touch_mode :: "touchmode \<Rightarrow> bool" where
  "is_touch_mode m \<longleftrightarrow> odd (mode_code m)"

datatype tp_timer = ButtonTimer | DragTimer | ScrollTimer | ScrollDebounceTimer

datatype swipe_message = SwipeUp | SwipeDown | SwipeLeft | SwipeRight
  | Swipe4Up | Swipe4Down | Swipe4Left | Swipe4Right

text \<open>Objects of a configuration dictionary, as \<open>OSDynamicCast\<close> tells them apart.\<close>

datatype os_object = OSBoolean bool | OSNumber u64 | OSOther

datatype tp_event =
    RelativePointer int int u32 u64
  | ScrollWheel int int int u64
  | KeyboardMessage swipe_message u64
  | SetTimer tp_timer u64
  | CancelTimer tp_timer
  | SetProperty string os_object

record mbutton =
  mb_state :: mbuttonstate
  pendingbuttons :: u32
  buttontime :: u64

record momentum =
  dy_history :: "int avg"
  time_history :: "u64 avg"
  momentumscrollinterval :: u64
  momentumscrollsum :: int
  momentumscrollcurrent :: int
  momentumscrollrest1 :: int
  momentumscrollrest2 :: int

record swipes =
  inSwipeLeft :: bool
  inSwipeRight :: bool
  inSwipeUp :: bool
  inSwipeDown :: bool
  inSwipe4Left :: bool
  inSwipe4Right :: bool
  inSwipe4Up :: bool
  inSwipe4Down :: bool
  xmoved :: int
  ymoved :: int

record filters =
  x_avg :: "int avg"
  y_avg :: "int avg"
  x_undo :: decay
  y_undo :: decay

record touchpad =
  device :: bool
  interruptHandlerInstalled :: bool
  powerControlHandlerInstalled :: bool
  messageHandlerInstalled :: bool
  cmdGate :: bool
  ringBuffer :: "u8 ring"
  packetByteCount :: nat
  lastdata :: u8
  ivars :: "int32var \<Rightarrow> int"
  bvars :: "boolvar \<Rightarrow> int"
  lvars :: "lowbitvar \<Rightarrow> bool"
  qvars :: "int64var \<Rightarrow> u64"
  mbutton :: mbutton
  momentum :: momentum
  swipes :: swipes
  filters :: filters
  touchmode :: touchmode
  lastx :: int
  lasty :: int
  last_fingers :: int
  lastbuttons :: u32
  lastTrackStickButtons :: u32
  lastTouchpadButtons :: u32
  ignoredeltas :: int
  ignoresingle :: int
  xrest :: int
  yrest :: int
  scrollrest :: int
  touchx :: int
  touchy :: int
  touchtime :: u64
  untouchtime :: u64
  wasdouble :: bool
  wastriple :: bool
  wasScroll :: bool
  scrolldebounce :: bool
  draglocktemp :: u32
  keytime :: u64
  ignoreall :: bool
  passbuttons :: u32
  tracksecondary :: bool
  clickpadtype :: int
  clickbuttons :: u32
  modifierdown :: u32
  timers :: "tp_timer \<Rightarrow> bool"
  ticks :: nat
  out :: "tp_event list"

record clock =
  uptime :: "nat \<Rightarrow> u64"
  to_ns :: "u64 \<Rightarrow> u64"

abbreviation (input) z_finger :: "'a touchpad_scheme \<Rightarrow> int" where "z_finger s \<equiv> ivars s I_z_finger"
abbreviation (input) divisorx :: "'a touchpad_scheme \<Rightarrow> int" where "divisorx s \<equiv> ivars s I_divisorx"
abbreviation (input) divisory :: "'a touchpad_scheme \<Rightarrow> int" where "divisory s \<equiv> ivars s I_divisory"
abbreviation (input) redge :: "'a touchpad_scheme \<Rightarrow> int" where "redge s \<equiv> ivars s I_redge"
abbreviation (input) ledge :: "'a touchpad_scheme \<Rightarrow> int" where "ledge s \<equiv> ivars s I_ledge"
abbreviation (input) tedge :: "'a touchpad_scheme \<Rightarrow> int" where "tedge s \<equiv> ivars s I_tedge"
abbreviation (input) bedge :: "'a touchpad_scheme \<Rightarrow> int" where "bedge s \<equiv> ivars s I_bedge"
abbreviation (input) vscrolldivisor :: "'a touchpad_scheme \<Rightarrow> int" where "vscrolldivisor s \<equiv> ivars s I_vscrolldivisor"
abbreviation (input) hscrolldivisor :: "'a touchpad_scheme \<Rightarrow> int" where "hscrolldivisor s \<equiv> ivars s I_hscrolldivisor"
abbreviation (input) cscrolldivisor :: "'a touchpad_scheme \<Rightarrow> int" where "cscrolldivisor s \<equiv> ivars s I_cscrolldivisor"
abbreviation (input) centerx :: "'a touchpad_scheme \<Rightarrow> int" where "centerx s \<equiv> ivars s I_centerx"
abbreviation (input) centery :: "'a touchpad_scheme \<Rightarrow> int" where "centery s \<equiv> ivars s I_centery"
abbreviation (input) ctrigger :: "'a touchpad_scheme \<Rightarrow> int" where "ctrigger s \<equiv> ivars s I_ctrigger"
abbreviation (input) wlimit :: "'a touchpad_scheme \<Rightarrow> int" where "wlimit s \<equiv> ivars s I_wlimit"
abbreviation (input) wvdivisor :: "'a touchpad_scheme \<Rightarrow> int" where "wvdivisor s \<equiv> ivars s I_wvdivisor"
abbreviation (input) whdivisor :: "'a touchpad_scheme \<Rightarrow> int" where "whdivisor s \<equiv> ivars s I_whdivisor"
abbreviation (input) zlimit :: "'a touchpad_scheme \<Rightarrow> int" where "zlimit s \<equiv> ivars s I_zlimit"
abbreviation (input) mousemultiplierx :: "'a touchpad_scheme \<Rightarrow> int" where "mousemultiplierx s \<equiv> ivars s I_mousemultiplierx"
abbreviation (input) mousemultipliery :: "'a touchpad_scheme \<Rightarrow> int" where "mousemultipliery s \<equiv> ivars s I_mousemultipliery"
abbreviation (input) mousescrollmultiplierx :: "'a touchpad_scheme \<Rightarrow> int" where "mousescrollmultiplierx s \<equiv> ivars s I_mousescrollmultiplierx"
abbreviation (input) mousescrollmultipliery :: "'a touchpad_scheme \<Rightarrow> int" where "mousescrollmultipliery s \<equiv> ivars s I_mousescrollmultipliery"
abbreviation (input) wakedelay :: "'a touchpad_scheme \<Rightarrow> int" where "wakedelay s \<equiv> ivars s I_wakedelay"
abbreviation (input) tapthreshx :: "'a touchpad_scheme \<Rightarrow> int" where "tapthreshx s \<equiv> ivars s I_tapthreshx"
abbreviation (input) tapthreshy :: "'a touchpad_scheme \<Rightarrow> int" where "tapthreshy s \<equiv> ivars s I_tapthreshy"
abbreviation (input) dblthreshx :: "'a touchpad_scheme \<Rightarrow> int" where "dblthreshx s \<equiv> ivars s I_dblthreshx"
abbreviation (input) dblthreshy :: "'a touchpad_scheme \<Rightarrow> int" where "dblthreshy s \<equiv> ivars s I_dblthreshy"
abbreviation (input) zonel :: "'a touchpad_scheme \<Rightarrow> int" where "zonel s \<equiv> ivars s I_zonel"
abbreviation (input) zoner :: "'a touchpad_scheme \<Rightarrow> int" where "zoner s \<equiv> ivars s I_zoner"
abbreviation (input) zonet :: "'a touchpad_scheme \<Rightarrow> int" where "zonet s \<equiv> ivars s I_zonet"
abbreviation (input) zoneb :: "'a touchpad_scheme \<Rightarrow> int" where "zoneb s \<equiv> ivars s I_zoneb"
abbreviation (input) diszl :: "'a touchpad_scheme \<Rightarrow> int" where "diszl s \<equiv> ivars s I_diszl"
abbreviation (input) diszr :: "'a touchpad_scheme \<Rightarrow> int" where "diszr s \<equiv> ivars s I_diszr"
abbreviation (input) diszt :: "'a touchpad_scheme \<Rightarrow> int" where "diszt s \<equiv> ivars s I_diszt"
abbreviation (input) diszb :: "'a touchpad_scheme \<Rightarrow> int" where "diszb s \<equiv> ivars s I_diszb"
abbreviation (input) diszctrl :: "'a touchpad_scheme \<Rightarrow> int" where "diszctrl s \<equiv> ivars s I_diszctrl"
abbreviation (input) resolution :: "'a touchpad_scheme \<Rightarrow> int" where "resolution s \<equiv> ivars s I_resolution"
abbreviation (input) scrollresolution :: "'a touchpad_scheme \<Rightarrow> int" where "scrollresolution s \<equiv> ivars s I_scrollresolution"
abbreviation (input) swipedx :: "'a touchpad_scheme \<Rightarrow> int" where "swipedx s \<equiv> ivars s I_swipedx"
abbreviation (input) swipedy :: "'a touchpad_scheme \<Rightarrow> int" where "swipedy s \<equiv> ivars s I_swipedy"
abbreviation (input) mousecount :: "'a touchpad_scheme \<Rightarrow> int" where "mousecount s \<equiv> ivars s I_mousecount"
abbreviation (input) rczl :: "'a touchpad_scheme \<Rightarrow> int" where "rczl s \<equiv> ivars s I_rczl"
abbreviation (input) rczr :: "'a touchpad_scheme \<Rightarrow> int" where "rczr s \<equiv> ivars s I_rczr"
abbreviation (input) rczt :: "'a touchpad_scheme \<Rightarrow> int" where "rczt s \<equiv> ivars s I_rczt"
abbreviation (input) rczb :: "'a touchpad_scheme \<Rightarrow> int" where "rczb s \<equiv> ivars s I_rczb"
abbreviation (input) scrollzoommask :: "'a touchpad_scheme \<Rightarrow> int" where "scrollzoommask s \<equiv> ivars s I_scrollzoommask"
abbreviation (input) buttonCount :: "'a touchpad_scheme \<Rightarrow> int" where "buttonCount s \<equiv> ivars s I_buttonCount"
abbreviation (input) draglocktempmask :: "'a touchpad_scheme \<Rightarrow> int" where "draglocktempmask s \<equiv> ivars s I_draglocktempmask"
abbreviation (input) momentumscrollthreshy :: "'a touchpad_scheme \<Rightarrow> int" where "momentumscrollthreshy s \<equiv> ivars s I_momentumscrollthreshy"
abbreviation (input) momentumscrollmultiplier :: "'a touchpad_scheme \<Rightarrow> int" where "momentumscrollmultiplier s \<equiv> ivars s I_momentumscrollmultiplier"
abbreviation (input) momentumscrolldivisor :: "'a touchpad_scheme \<Rightarrow> int" where "momentumscrolldivisor s \<equiv> ivars s I_momentumscrolldivisor"
abbreviation (input) momentumscrollsamplesmin :: "'a touchpad_scheme \<Rightarrow> int" where "momentumscrollsamplesmin s \<equiv> ivars s I_momentumscrollsamplesmin"
abbreviation (input) ignoredeltasstart :: "'a touchpad_scheme \<Rightarrow> int" where "ignoredeltasstart s \<equiv> ivars s I_ignoredeltasstart"
abbreviation (input) bogusdxthresh :: "'a touchpad_scheme \<Rightarrow> int" where "bogusdxthresh s \<equiv> ivars s I_bogusdxthresh"
abbreviation (input) bogusdythresh :: "'a touchpad_scheme \<Rightarrow> int" where "bogusdythresh s \<equiv> ivars s I_bogusdythresh"
abbreviation (input) xupmm :: "'a touchpad_scheme \<Rightarrow> int" where "xupmm s \<equiv> ivars s I_xupmm"
abbreviation (input) yupmm :: "'a touchpad_scheme \<Rightarrow> int" where "yupmm s \<equiv> ivars s I_yupmm"
abbreviation (input) scrolldxthresh :: "'a touchpad_scheme \<Rightarrow> int" where "scrolldxthresh s \<equiv> ivars s I_scrolldxthresh"
abbreviation (input) scrolldythresh :: "'a touchpad_scheme \<Rightarrow> int" where "scrolldythresh s \<equiv> ivars s I_scrolldythresh"
abbreviation (input) threefingervertswipe :: "'a touchpad_scheme \<Rightarrow> int" where "threefingervertswipe s \<equiv> ivars s I_threefingervertswipe"
abbreviation (input) threefingerhorizswipe :: "'a touchpad_scheme \<Rightarrow> int" where "threefingerhorizswipe s \<equiv> ivars s I_threefingerhorizswipe"
abbreviation (input) hsticky :: "'a touchpad_scheme \<Rightarrow> int" where "hsticky s \<equiv> bvars s B_hsticky"
abbreviation (input) vsticky :: "'a touchpad_scheme \<Rightarrow> int" where "vsticky s \<equiv> bvars s B_vsticky"
abbreviation (input) wsticky :: "'a touchpad_scheme \<Rightarrow> int" where "wsticky s \<equiv> bvars s B_wsticky"
abbreviation (input) tapstable :: "'a touchpad_scheme \<Rightarrow> int" where "tapstable s \<equiv> bvars s B_tapstable"
abbreviation (input) noled :: "'a touchpad_scheme \<Rightarrow> int" where "noled s \<equiv> bvars s B_noled"
abbreviation (input) smoothinput :: "'a touchpad_scheme \<Rightarrow> int" where "smoothinput s \<equiv> bvars s B_smoothinput"
abbreviation (input) unsmoothinput :: "'a touchpad_scheme \<Rightarrow> int" where "unsmoothinput s \<equiv> bvars s B_unsmoothinput"
abbreviation (input) skippassthru :: "'a touchpad_scheme \<Rightarrow> int" where "skippassthru s \<equiv> bvars s B_skippassthru"
abbreviation (input) swapdoubletriple :: "'a touchpad_scheme \<Rightarrow> int" where "swapdoubletriple s \<equiv> bvars s B_swapdoubletriple"
abbreviation (input) clickpadtrackboth :: "'a touchpad_scheme \<Rightarrow> int" where "clickpadtrackboth s \<equiv> bvars s B_clickpadtrackboth"
abbreviation (input) immediateclick :: "'a touchpad_scheme \<Rightarrow> int" where "immediateclick s \<equiv> bvars s B_immediateclick"
abbreviation (input) mousemiddlescroll :: "'a touchpad_scheme \<Rightarrow> int" where "mousemiddlescroll s \<equiv> bvars s B_mousemiddlescroll"
abbreviation (input) fakemiddlebutton :: "'a touchpad_scheme \<Rightarrow> int" where "fakemiddlebutton s \<equiv> bvars s B_fakemiddlebutton"
abbreviation (input) clicking :: "'a touchpad_scheme \<Rightarrow> bool" where "clicking s \<equiv> lvars s L_clicking"
abbreviation (input) dragging :: "'a touchpad_scheme \<Rightarrow> bool" where "dragging s \<equiv> lvars s L_dragging"
abbreviation (input) rtap :: "'a touchpad_scheme \<Rightarrow> bool" where "rtap s \<equiv> lvars s L_rtap"
abbreviation (input) draglock :: "'a touchpad_scheme \<Rightarrow> bool" where "draglock s \<equiv> lvars s L_draglock"
abbreviation (input) hscroll :: "'a touchpad_scheme \<Rightarrow> bool" where "hscroll s \<equiv> lvars s L_hscroll"
abbreviation (input) vscroll :: "'a touchpad_scheme \<Rightarrow> bool" where "vscroll s \<equiv> lvars s L_vscroll"
abbreviation (input) scroll :: "'a touchpad_scheme \<Rightarrow> bool" where "scroll s \<equiv> lvars s L_scroll"
abbreviation (input) outzone_wt :: "'a touchpad_scheme \<Rightarrow> bool" where "outzone_wt s \<equiv> lvars s L_outzone_wt"
abbreviation (input) palm :: "'a touchpad_scheme \<Rightarrow> bool" where "palm s \<equiv> lvars s L_palm"
abbreviation (input) palm_wt :: "'a touchpad_scheme \<Rightarrow> bool" where "palm_wt s \<equiv> lvars s L_palm_wt"
abbreviation (input) usb_mouse_stops_trackpad :: "'a touchpad_scheme \<Rightarrow> bool" where "usb_mouse_stops_trackpad s \<equiv> lvars s L_usb_mouse_stops_trackpad"
abbreviation (input) momentumscroll :: "'a touchpad_scheme \<Rightarrow> bool" where "momentumscroll s \<equiv> lvars s L_momentumscroll"
abbreviation (input) maxdragtime :: "'a touchpad_scheme \<Rightarrow> u64" where "maxdragtime s \<equiv> qvars s Q_maxdragtime"
abbreviation (input) maxtaptime :: "'a touchpad_scheme \<Rightarrow> u64" where "maxtaptime s \<equiv> qvars s Q_maxtaptime"
abbreviation (input) maxdbltaptime :: "'a touchpad_scheme \<Rightarrow> u64" where "maxdbltaptime s \<equiv> qvars s Q_maxdbltaptime"
abbreviation (input) maxaftertyping :: "'a touchpad_scheme \<Rightarrow> u64" where "maxaftertyping s \<equiv> qvars s Q_maxaftertyping"
abbreviation (input) momentumscrolltimer :: "'a touchpad_scheme \<Rightarrow> u64" where "momentumscrolltimer s \<equiv> qvars s Q_momentumscrolltimer"
abbreviation (input) clickpadclicktime :: "'a touchpad_scheme \<Rightarrow> u64" where "clickpadclicktime s \<equiv> qvars s Q_clickpadclicktime"
abbreviation (input) maxmiddleclicktime :: "'a touchpad_scheme \<Rightarrow> u64" where "maxmiddleclicktime s \<equiv> qvars s Q_maxmiddleclicktime"
abbreviation (input) dragexitdelay :: "'a touchpad_scheme \<Rightarrow> u64" where "dragexitdelay s \<equiv> qvars s Q_dragexitdelay"
abbreviation (input) scrollexitdelay :: "'a touchpad_scheme \<Rightarrow> u64" where "scrollexitdelay s \<equiv> qvars s Q_scrollexitdelay"

text \<open>\<open>abs (x)\<close> is the macro of the source, the absolute value.\<close>

section \<open>Events, clock and timers\<close>

definition emit :: "tp_event \<Rightarrow> 'a touchpad_scheme \<Rightarrow> 'a touchpad_scheme" where
  "emit e s = s\<lparr>out := out s @ [e]\<rparr>"

definition clock_get_uptime :: "clock \<Rightarrow> 'a touchpad_scheme \<Rightarrow> u64 \<times> 'a touchpad_scheme" where
  "clock_get_uptime E s = (uptime E (ticks s), s\<lparr>ticks := ticks s + 1\<rparr>)"

definition dispatchRelativePointerEventX ::
    "int \<Rightarrow> int \<Rightarrow> u32 \<Rightarrow> u64 \<Rightarrow> 'a touchpad_scheme \<Rightarrow> 'a touchpad_scheme" where
  "dispatchRelativePointerEventX dx dy buttons now s = emit (RelativePointer dx dy buttons now) s"

definition dispatchScrollWheelEventX ::
    "int \<Rightarrow> int \<Rightarrow> int \<Rightarrow> u64 \<Rightarrow> 'a touchpad_scheme \<Rightarrow> 'a touchpad_scheme" where
  "dispatchScrollWheelEventX a1 a2 a3 now s = emit (ScrollWheel (s16 a1) (s16 a2) (s16 a3) now) s"

definition setTimerTimeout :: "tp_timer \<Rightarrow> u64 \<Rightarrow> 'a touchpad_scheme \<Rightarrow> 'a touchpad_scheme option" where
  "setTimerTimeout t time s = (if timers s t then Some (emit (SetTimer t time) s) else None)"

definition cancelTimer :: "tp_timer \<Rightarrow> 'a touchpad_scheme \<Rightarrow> 'a touchpad_scheme option" where
  "cancelTimer t s = (if timers s t then Some (emit (CancelTimer t) s) else None)"

definition isTouchMode :: "'a touchpad_scheme \<Rightarrow> bool" where
  "isTouchMode s = is_touch_mode (touchmode s)"

definition isFingerTouch :: "int \<Rightarrow> 'a touchpad_scheme \<Rightarrow> bool" where
  "isFingerTouch z s \<longleftrightarrow> z > z_finger s"

section \<open>Middle-button emulation\<close>

definition set_mb :: "mbuttonstate \<Rightarrow> 'a touchpad_scheme \<Rightarrow> 'a touchpad_scheme" where
  "set_mb m s = s\<lparr>mbutton := (mbutton s)\<lparr>mb_state := m\<rparr>\<rparr>"

definition set_pending :: "u32 \<Rightarrow> 'a touchpad_scheme \<Rightarrow> 'a touchpad_scheme" where
  "set_pending b s = s\<lparr>mbutton := (mbutton s)\<lparr>pendingbuttons := b\<rparr>\<rparr>"

text \<open>A single button: remember it, start the timer, wait in state \<open>m\<close>.\<close>

definition mb_delay :: "mbuttonstate \<Rightarrow> u32 \<Rightarrow> u64 \<Rightarrow> 'a touchpad_scheme \<Rightarrow> 'a touchpad_scheme option" where
  "mb_delay m buttons now_ns s =
     do {
       s \<leftarrow> setTimerTimeout ButtonTimer (maxmiddleclicktime s)
             (s\<lparr>mbutton := (mbutton s)\<lparr>pendingbuttons := buttons, buttontime := now_ns\<rparr>\<rparr>);
       Some (set_mb m s)
     }"

text \<open>Leave a waiting state: forget the pending buttons, stop the timer, continue in state \<open>m\<close>.\<close>

definition mb_settle :: "mbuttonstate \<Rightarrow> 'a touchpad_scheme \<Rightarrow> 'a touchpad_scheme option" where
  "mb_settle m s =
     do {
       s \<leftarrow> cancelTimer ButtonTimer (set_pending 0 s);
       Some (set_mb m s)
     }"

definition mb_transition ::
    "u32 \<Rightarrow> u64 \<Rightarrow> u64 \<Rightarrow> bool \<Rightarrow> MBComingFrom \<Rightarrow> 'a touchpad_scheme \<Rightarrow> 'a touchpad_scheme option" where
  "mb_transition buttons now_abs now_ns timeout from s =
     (let pending = pendingbuttons (mbutton s);
          after = (if buttons = 0x0 then STATE_NOBUTTONS else STATE_NOOP)
      in case mb_state (mbutton s) of
        STATE_NOBUTTONS \<Rightarrow>
          (if from \<noteq> fromCancel then
             (if isset buttons 0x4 then Some (set_mb STATE_NOOP s)
              else if buttons = 0x3 then Some (set_mb STATE_MIDDLE s)
              else if buttons \<noteq> 0x0 then mb_delay STATE_WAIT4TWO buttons now_ns s
              else Some s)
           else Some s)
      | STATE_WAIT4TWO \<Rightarrow>
          (if \<not> timeout \<and> buttons = 0x3 then mb_settle STATE_MIDDLE s
           else if timeout \<or> buttons \<noteq> pending then
             mb_settle after
               (if from = fromTimer \<or> buttons AND pending = 0
                then dispatchRelativePointerEventX 0 0 (buttons OR pending) now_abs s else s)
           else Some s)
      | STATE_MIDDLE \<Rightarrow>
          (if buttons = 0x0 then Some (set_mb STATE_NOBUTTONS s)
           else if buttons AND 0x3 \<noteq> 0x3 then mb_delay STATE_WAIT4NONE buttons now_ns s
           else Some s)
      | STATE_WAIT4NONE \<Rightarrow>
          (if \<not> timeout \<and> buttons = 0x0 then mb_settle STATE_NOBUTTONS s
           else if timeout \<or> buttons \<noteq> pending then
             mb_settle after
               (if from = fromTimer
                then dispatchRelativePointerEventX 0 0 (buttons OR pending) now_abs s else s)
           else Some s)
      | STATE_NOOP \<Rightarrow>
          (if buttons = 0x0 then Some (set_mb STATE_NOBUTTONS s) else Some s))"

definition mb_output :: "mbuttonstate \<Rightarrow> u32 \<Rightarrow> u32" where
  "mb_output m buttons =
     (case m of
        STATE_MIDDLE \<Rightarrow> 0x4
      | STATE_WAIT4NONE \<Rightarrow> buttons AND NOT 0x3
      | STATE_WAIT4TWO \<Rightarrow> buttons AND NOT 0x3
      | _ \<Rightarrow> buttons)"

definition middleButton ::
    "clock \<Rightarrow> u32 \<Rightarrow> u64 \<Rightarrow> MBComingFrom \<Rightarrow> 'a touchpad_scheme \<Rightarrow> (u32 \<times> 'a touchpad_scheme) option" where
  "middleButton E buttons now_abs from s =
     (if fakemiddlebutton s = 0 \<or> buttonCount s \<le> 2 \<or> (ignoreall s \<and> from = fromTrackpad)
      then Some (buttons, s)
      else
        (let now_ns = to_ns E now_abs;
             timeout = (from = fromTimer \<or> from = fromCancel
                        \<or> now_ns - buttontime (mbutton s) > maxmiddleclicktime s)
         in do {
           s \<leftarrow> mb_transition buttons now_abs now_ns timeout from s;
           Some (mb_output (mb_state (mbutton s)) buttons, s)
         }))"

section \<open>Timers\<close>

definition onScrollTimer :: "clock \<Rightarrow> 'a touchpad_scheme \<Rightarrow> 'a touchpad_scheme option" where
  "onScrollTimer E s =
     (if momentumscrollcurrent (momentum s) = 0 then Some s
      else
        (let (now_abs, s) = clock_get_uptime E s; m = momentum s in do {
           q \<leftarrow> cdiv (momentumscrollcurrent m) (i64 (momentumscrollinterval m));
           let dy = s32 (q + momentumscrollrest2 m);
           if \<bar>dy\<bar> > momentumscrollthreshy s then do {
             let s = dispatchScrollWheelEventX (if wvdivisor s \<noteq> 0 then dy sdiv wvdivisor s else 0) 0 0 now_abs s;
             let cur = momentumscrollcurrent m * momentumscrollmultiplier s + momentumscrollrest1 m;
             r1 \<leftarrow> cmod cur (momentumscrolldivisor s);
             cur \<leftarrow> cdiv cur (momentumscrolldivisor s);
             setTimerTimeout ScrollTimer (momentumscrolltimer s)
               (s\<lparr>momentum := m\<lparr>momentumscrollrest2 := (if wvdivisor s \<noteq> 0 then dy smod wvdivisor s else 0),
                               momentumscrollrest1 := r1, momentumscrollcurrent := cur\<rparr>\<rparr>)
           }
           else Some (s\<lparr>momentum := m\<lparr>momentumscrollcurrent := 0\<rparr>\<rparr>)
         }))"

definition onButtonTimer :: "clock \<Rightarrow> 'a touchpad_scheme \<Rightarrow> 'a touchpad_scheme option" where
  "onButtonTimer E s =
     (let (now_abs, s) = clock_get_uptime E s
      in map_option snd (middleButton E (lastbuttons s) now_abs fromTimer s))"

definition onDragTimer :: "clock \<Rightarrow> 'a touchpad_scheme \<Rightarrow> 'a touchpad_scheme option" where
  "onDragTimer E s =
     (if touchmode s = MODE_DRAGNOTOUCH then
        (let s = s\<lparr>touchmode := MODE_NOTOUCH\<rparr>;
             (now_abs, s) = clock_get_uptime E s
         in do {
           (buttons, s) \<leftarrow> middleButton E (lastbuttons s AND NOT 0x01) now_abs fromPassthru s;
           Some (dispatchRelativePointerEventX 0 0 buttons now_abs s)
         })
      else Some s)"

definition onScrollDebounceTimer :: "'a touchpad_scheme \<Rightarrow> 'a touchpad_scheme" where
  "onScrollDebounceTimer s = s\<lparr>scrolldebounce := False\<rparr>"

section \<open>Configuration\<close>

definition apply_int64var ::
    "(string \<Rightarrow> os_object option) \<Rightarrow> string \<times> int64var \<Rightarrow> 'a touchpad_scheme \<Rightarrow> 'a touchpad_scheme" where
  "apply_int64var config nv s =
     (case config (fst nv) of
        Some (OSNumber n) \<Rightarrow> emit (SetProperty (fst nv) (OSNumber n)) (s\<lparr>qvars := (qvars s)(snd nv := n)\<rparr>)
      | _ \<Rightarrow> s)"

definition apply_boolvar ::
    "(string \<Rightarrow> os_object option) \<Rightarrow> string \<times> boolvar \<Rightarrow> 'a touchpad_scheme \<Rightarrow> 'a touchpad_scheme" where
  "apply_boolvar config nv s =
     (case config (fst nv) of
        Some (OSBoolean b) \<Rightarrow>
          emit (SetProperty (fst nv) (OSBoolean b)) (s\<lparr>bvars := (bvars s)(snd nv := (if b then 1 else 0))\<rparr>)
      | _ \<Rightarrow> s)"

text \<open>\<open>unsigned32BitValue\<close> keeps the low 32 bits; the assignment to \<open>int\<close> reads them as signed.\<close>

definition apply_int32var ::
    "(string \<Rightarrow> os_object option) \<Rightarrow> string \<times> int32var \<Rightarrow> 'a touchpad_scheme \<Rightarrow> 'a touchpad_scheme" where
  "apply_int32var config nv s =
     (case config (fst nv) of
        Some (OSNumber n) \<Rightarrow>
          (let v = i32 (ucast n)
           in emit (SetProperty (fst nv) (OSNumber (u64 v))) (s\<lparr>ivars := (ivars s)(snd nv := v)\<rparr>))
      | _ \<Rightarrow> s)"

definition apply_lowbitvar ::
    "(string \<Rightarrow> os_object option) \<Rightarrow> string \<times> lowbitvar \<Rightarrow> 'a touchpad_scheme \<Rightarrow> 'a touchpad_scheme" where
  "apply_lowbitvar config nv s =
     (case config (fst nv) of
        Some (OSNumber n) \<Rightarrow>
          (let v = isset (ucast n :: u32) 0x1
           in emit (SetProperty (fst nv) (OSNumber (if v then 1 else 0))) (s\<lparr>lvars := (lvars s)(snd nv := v)\<rparr>))
      | _ \<Rightarrow> s)"

definition set_ivar :: "int32var \<Rightarrow> int \<Rightarrow> 'a touchpad_scheme \<Rightarrow> 'a touchpad_scheme" where
  "set_ivar v n s = s\<lparr>ivars := (ivars s)(v := n)\<rparr>"

text \<open>
  \<open>touchpadShutdown\<close> and \<open>touchpadToggled\<close> are empty in the base class and not overridden by the ALPS
  driver.
\<close>

definition setParamPropertiesGated ::
    "(string \<Rightarrow> os_object option) option \<Rightarrow> 'a touchpad_scheme \<Rightarrow> 'a touchpad_scheme" where
  "setParamPropertiesGated dict s =
     (case dict of None \<Rightarrow> s
      | Some config \<Rightarrow>
         (let oldmousecount = mousecount s;
              old_usb_mouse_stops_trackpad = usb_mouse_stops_trackpad s;
              s = fold (apply_int64var config) int64vars s;
              s = fold (apply_boolvar config) boolvars s;
              s = fold (apply_int32var config) int32vars s;
              s = fold (apply_lowbitvar config) lowbitvars s;
              s = (if divisorx s = 0 then set_ivar I_divisorx 1 s else s);
              s = (if divisory s = 0 then set_ivar I_divisory 1 s else s);
              s = (if bogusdxthresh s = 0 then set_ivar I_bogusdxthresh 0x7FFFFFFF s else s);
              s = (if bogusdythresh s = 0 then set_ivar I_bogusdythresh 0x7FFFFFFF s else s);
              s = s\<lparr>touchmode := MODE_NOTOUCH\<rparr>;
              s = (if mousecount s = -1 then set_ivar I_mousecount oldmousecount s else s)
          in if (oldmousecount \<noteq> 0) \<noteq> (mousecount s \<noteq> 0)
                \<or> old_usb_mouse_stops_trackpad \<noteq> usb_mouse_stops_trackpad s
             then s\<lparr>ignoreall := (mousecount s \<noteq> 0 \<and> usb_mouse_stops_trackpad s)\<rparr>
             else s))"

definition setParamProperties :: "(string \<Rightarrow> os_object option) \<Rightarrow> 'a touchpad_scheme \<Rightarrow> 'a touchpad_scheme" where
  "setParamProperties dict s = (if cmdGate s then setParamPropertiesGated (Some dict) s else s)"

section \<open>Messages from the keyboard driver\<close>

record PS2KeyInfo =
  ki_time :: u64
  adbKeyCode :: u16
  goingDown :: bool

datatype tp_message = GetDisableTouchpad | SetDisableTouchpad bool | NotifyKeyPressed PS2KeyInfo

text \<open>The nine modifier keys and the table \<open>masks\<close>.\<close>

definition modifier_masks :: "u32 list" where
  "modifier_masks = [0x10, 0x100000, 0, 0, 0x080000, 0x040000, 0, 0x08, 0x04, 0x200000]"

definition is_modifier_key :: "u16 \<Rightarrow> bool" where
  "is_modifier_key k \<longleftrightarrow> k \<in> set [0x38, 0x3c, 0x3b, 0x3e, 0x3a, 0x3d, 0x37, 0x36, 0x3f]"

definition notify_key_pressed :: "PS2KeyInfo \<Rightarrow> 'a touchpad_scheme \<Rightarrow> 'a touchpad_scheme" where
  "notify_key_pressed ki s =
     (if is_modifier_key (adbKeyCode ki) then
        (let mask = modifier_masks ! unat (adbKeyCode ki - 0x36) in
         if goingDown ki then s\<lparr>modifierdown := modifierdown s OR mask\<rparr>
         else s\<lparr>modifierdown := modifierdown s AND NOT mask, keytime := ki_time ki\<rparr>)
      else s\<lparr>momentum := (momentum s)\<lparr>momentumscrollcurrent := 0\<rparr>, keytime := ki_time ki\<rparr>)"

text \<open>The result is what is stored through \<open>data\<close> for \<open>kPS2M_getDisableTouchpad\<close>.\<close>

definition receiveMessage :: "tp_message \<Rightarrow> 'a touchpad_scheme \<Rightarrow> bool option \<times> 'a touchpad_scheme" where
  "receiveMessage msg s =
     (case msg of
        GetDisableTouchpad \<Rightarrow> (Some (\<not> ignoreall s), s)
      | SetDisableTouchpad enable \<Rightarrow>
          (None, if enable = ignoreall s then s\<lparr>ignoreall := \<not> enable\<rparr> else s)
      | NotifyKeyPressed ki \<Rightarrow> (None, notify_key_pressed ki s))"

section \<open>Life cycle\<close>

definition initTouchPad_state :: "'a touchpad_scheme \<Rightarrow> 'a touchpad_scheme" where
  "initTouchPad_state s = s\<lparr>packetByteCount := 0, ringBuffer := ring_reset (ringBuffer s),
     passbuttons := 0, clickbuttons := 0, tracksecondary := False, modifierdown := 0\<rparr>"

text \<open>
  \<open>start\<close>: \<open>super\<close> is the result of the superclass, \<open>wl\<close> whether there is a work loop, \<open>alloc\<close>
  whether the gate and the timers could be allocated, \<open>dsi\<close> the driver's \<open>deviceSpecificInit\<close>.
\<close>

definition tp_start ::
    "bool \<Rightarrow> bool \<Rightarrow> bool \<Rightarrow> (tp_timer \<Rightarrow> bool) \<Rightarrow> ('a touchpad_scheme \<Rightarrow> bool \<times> 'a touchpad_scheme)
     \<Rightarrow> 'a touchpad_scheme \<Rightarrow> bool \<times> 'a touchpad_scheme" where
  "tp_start super wl gate alloc dsi s =
     (if \<not> super then (False, s)
      else
        (let s = s\<lparr>device := True, cmdGate := gate\<rparr> in
         if \<not> wl \<or> \<not> gate then (False, s)
         else
           (let s = (if buttonCount s \<ge> 3 then s\<lparr>timers := (timers s)(ButtonTimer := alloc ButtonTimer)\<rparr> else s) in
            if buttonCount s \<ge> 3 \<and> \<not> timers s ButtonTimer then (False, s)
            else
              (let s = (if dragexitdelay s \<noteq> 0
                        then s\<lparr>timers := (timers s)(DragTimer := alloc DragTimer)\<rparr> else s);
                   s = s\<lparr>timers := (timers s)(ScrollDebounceTimer := alloc ScrollDebounceTimer,
                                             ScrollTimer := alloc ScrollTimer)\<rparr>;
                   (ok, s) = dsi s
               in if \<not> ok then (False, s)
                  else (True, s\<lparr>interruptHandlerInstalled := True, powerControlHandlerInstalled := True,
                                messageHandlerInstalled := True\<rparr>)))))"

definition tp_stop :: "bool \<Rightarrow> 'a touchpad_scheme \<Rightarrow> 'a touchpad_scheme" where
  "tp_stop wl s =
     (let s = (if wl then s\<lparr>timers := (timers s)(ScrollTimer := False, ButtonTimer := False),
                           cmdGate := False\<rparr> else s)
      in s\<lparr>interruptHandlerInstalled := False, powerControlHandlerInstalled := False,
           messageHandlerInstalled := False, device := False\<rparr>)"

section \<open>The state at allocation\<close>

text \<open>IOKit zeroes a driver object before its constructor runs; the members with a constructor are reset by it.\<close>

definition new_avg :: "nat \<Rightarrow> 'a::zero avg" where
  "new_avg n = \<lparr>av_buffer = replicate n 0, av_count = 0, av_sum = 0, av_index = 0\<rparr>"

definition new_decay :: decay where "new_decay = \<lparr>m_last = 0, m_lastvalid = False\<rparr>"

definition new_touchpad :: touchpad where
  "new_touchpad = \<lparr>device = False, interruptHandlerInstalled = False, powerControlHandlerInstalled = False,
     messageHandlerInstalled = False, cmdGate = False,
     ringBuffer = \<lparr>m_buffer = replicate 192 0, m_head = 0, m_tail = 0\<rparr>, packetByteCount = 0, lastdata = 0,
     ivars = (\<lambda>_. 0), bvars = (\<lambda>_. 0), lvars = (\<lambda>_. False), qvars = (\<lambda>_. 0),
     mbutton = \<lparr>mb_state = STATE_NOBUTTONS, pendingbuttons = 0, buttontime = 0\<rparr>,
     momentum = \<lparr>dy_history = new_avg 32, time_history = new_avg 32, momentumscrollinterval = 0, momentumscrollsum = 0,
        momentumscrollcurrent = 0, momentumscrollrest1 = 0, momentumscrollrest2 = 0\<rparr>,
     swipes = \<lparr>inSwipeLeft = False, inSwipeRight = False, inSwipeUp = False, inSwipeDown = False,
        inSwipe4Left = False, inSwipe4Right = False, inSwipe4Up = False, inSwipe4Down = False, xmoved = 0, ymoved = 0\<rparr>,
     filters = \<lparr>x_avg = new_avg 5, y_avg = new_avg 5, x_undo = new_decay, y_undo = new_decay\<rparr>,
     touchmode = MODE_NOTOUCH, lastx = 0, lasty = 0, last_fingers = 0, lastbuttons = 0, lastTrackStickButtons = 0,
     lastTouchpadButtons = 0, ignoredeltas = 0, ignoresingle = 0, xrest = 0, yrest = 0, scrollrest = 0, touchx = 0,
     touchy = 0, touchtime = 0, untouchtime = 0, wasdouble = False, wastriple = False, wasScroll = False,
     scrolldebounce = False, draglocktemp = 0, keytime = 0, ignoreall = False, passbuttons = 0, tracksecondary = False,
     clickpadtype = 0, clickbuttons = 0, modifierdown = 0, timers = (\<lambda>_. False), ticks = 0, out = []\<rparr>"

end
