(* ===== verification/PS2Request.thy ===== *)
theory PS2Request
  imports PS2Prelude
begin

text \<open>
  Requests of the PS/2 drivers: a list of commands that the controller executes in order, stopping at the
  first one that fails.  \<open>request_port\<close> is the contract between the drivers that submit requests and the
  controller that processes them.
\<close>

unbundle bit_operations_syntax

section \<open>Commands\<close>

datatype PS2CommandEnum = kPS2C_ReadDataPort | kPS2C_ReadDataPortAndCompare | kPS2C_WriteDataPort
  | kPS2C_WriteCommandPort | kPS2C_SendMouseCommandAndCompareAck | kPS2C_ReadMouseDataPort
  | kPS2C_ReadMouseDataPortAndCompare | kPS2C_FlushDataPort | kPS2C_SleepMS | kPS2C_ModifyCommandByte

text \<open>The union of a command is its 32 bits: \<open>inOrOut\<close> and \<open>setBits\<close> are byte 0, \<open>clearBits\<close> byte 1,
  \<open>oldBits\<close> byte 2.\<close>

record PS2Command =
  command :: PS2CommandEnum
  inOrOut32 :: u32

definition inOrOut :: "PS2Command \<Rightarrow> u8" where "inOrOut c = ucast (inOrOut32 c)"

definition clearBits :: "PS2Command \<Rightarrow> u8" where "clearBits c = ucast (drop_bit 8 (inOrOut32 c))"

definition set_inOrOut :: "u8 \<Rightarrow> PS2Command \<Rightarrow> PS2Command" where
  "set_inOrOut b c = c\<lparr>inOrOut32 := (inOrOut32 c AND 0xffffff00) OR ucast b\<rparr>"

definition set_oldBits :: "u8 \<Rightarrow> PS2Command \<Rightarrow> PS2Command" where
  "set_oldBits b c = c\<lparr>inOrOut32 := (inOrOut32 c AND 0xff00ffff) OR push_bit 16 (ucast b)\<rparr>"

lemma command_set [simp]: "command (set_inOrOut b c) = command c" "command (set_oldBits b c) = command c"
  by (simp_all add: set_inOrOut_def set_oldBits_def)

lemma inOrOut_set [simp]: "inOrOut (set_inOrOut b c) = b"
proof -
  have "ucast ((w AND 0xffffff00) OR ucast b :: u32) = b" for w
    by (rule bit_word_eqI) (auto simp: bit_simps less_Suc_eq numeral_eq_Suc)
  then show ?thesis by (simp add: inOrOut_def set_inOrOut_def)
qed

text \<open>The two commands the trackpad driver uses; a request on the stack whose unused bytes do not matter.\<close>

definition send_mouse :: "u8 \<Rightarrow> PS2Command" where
  "send_mouse b = \<lparr>command = kPS2C_SendMouseCommandAndCompareAck, inOrOut32 = ucast b\<rparr>"

definition read_data :: PS2Command where
  "read_data = \<lparr>command = kPS2C_ReadDataPort, inOrOut32 = 0\<rparr>"

section \<open>Submitting\<close>

text \<open>
  \<open>submit cs d\<close>: the value of \<open>commandsCount\<close> afterwards (the length, or the index of the command that
  failed), the commands with what was read, and the new state of what lies behind the port; \<open>None\<close> when
  the call does not return.
\<close>

type_synonym 'd submit = "PS2Command list \<Rightarrow> 'd \<Rightarrow> (nat \<times> PS2Command list \<times> 'd) option"

text \<open>A request in an array \<open>commands[cap]\<close> on the stack: more commands than \<open>cap\<close> are written behind it.\<close>

definition submit_stack :: "nat \<Rightarrow> 'd submit \<Rightarrow> PS2Command list \<Rightarrow> 'd \<Rightarrow> (nat \<times> PS2Command list \<times> 'd) option" where
  "submit_stack cap submit cs d = (if length cs \<le> cap then submit cs d else None)"

locale request_port =
  fixes submit :: "'d submit"
  assumes submit_count: "submit cs d = Some (n, cs', d') \<Longrightarrow> n \<le> length cs"
    and submit_commands: "submit cs d = Some (n, cs', d') \<Longrightarrow> map command cs' = map command cs"
begin

lemma submit_length: "submit cs d = Some (n, cs', d') \<Longrightarrow> length cs' = length cs"
  by (metis length_map submit_commands)

end

text \<open>A port behind which every request returns.\<close>

locale returning_port = request_port submit for submit :: "'d submit" +
  assumes submit_returns: "\<exists>r. submit cs d = Some r"
begin

lemma stack_returns:
  assumes "length cs \<le> cap"
  obtains n cs' d' where "submit_stack cap submit cs d = Some (n, cs', d')" "n \<le> length cs" "length cs' = length cs"
proof -
  obtain n cs' d' where "submit cs d = Some (n, cs', d')" using submit_returns [of cs d] by auto
  then show thesis using that assms submit_count submit_length by (simp add: submit_stack_def)
qed

end

end
