(* ===== verification/MiddleButton.thy ===== *)
theory MiddleButton
  imports TouchPad
begin

text \<open>
  The middle-button emulation of \<open>VoodooPS2TouchPadBase::middleButton\<close>: its invariant, its frame, and the
  button sequences it promises to translate.
\<close>

section \<open>Middle-button emulation is correct\<close>

definition mb_enabled :: "'a touchpad_scheme \<Rightarrow> bool" where
  "mb_enabled s \<longleftrightarrow> fakemiddlebutton s \<noteq> 0 \<and> 2 < buttonCount s \<and> \<not> ignoreall s \<and> timers s ButtonTimer"

definition mb_waiting :: "mbuttonstate \<Rightarrow> bool" where
  "mb_waiting m \<longleftrightarrow> m = STATE_WAIT4TWO \<or> m = STATE_WAIT4NONE"

text \<open>Buttons are pending exactly while the machine waits.\<close>

definition mb_inv :: "'a touchpad_scheme \<Rightarrow> bool" where
  "mb_inv s \<longleftrightarrow> (mb_waiting (mb_state (mbutton s)) \<longleftrightarrow> pendingbuttons (mbutton s) \<noteq> 0)"



lemma mb_delay_eq:
  "mb_delay m b n s = (if timers s ButtonTimer
     then Some (s\<lparr>mbutton := \<lparr>mb_state = m, pendingbuttons = b, buttontime = n\<rparr>,
                  out := out s @ [SetTimer ButtonTimer (maxmiddleclicktime s)]\<rparr>) else None)"
  by (cases "mbutton s") (simp add: mb_delay_def setTimerTimeout_def emit_def set_mb_def)

lemma mb_settle_eq:
  "mb_settle m s = (if timers s ButtonTimer
     then Some (s\<lparr>mbutton := \<lparr>mb_state = m, pendingbuttons = 0, buttontime = buttontime (mbutton s)\<rparr>,
                  out := out s @ [CancelTimer ButtonTimer]\<rparr>) else None)"
  by (cases "mbutton s") (simp add: mb_settle_def cancelTimer_def emit_def set_mb_def set_pending_def)

lemma mb_inv_simps:
  "mb_inv (s\<lparr>mbutton := \<lparr>mb_state = m, pendingbuttons = b, buttontime = n\<rparr>, out := es\<rparr>) \<longleftrightarrow> (mb_waiting m \<longleftrightarrow> b \<noteq> 0)"
  "mb_inv (set_mb m s) \<longleftrightarrow> (mb_waiting m \<longleftrightarrow> pendingbuttons (mbutton s) \<noteq> 0)"
  "timers (dispatchRelativePointerEventX dx dy b t s) = timers s"
  "mbutton (dispatchRelativePointerEventX dx dy b t s) = mbutton s"
  by (simp_all add: mb_inv_def set_mb_def dispatchRelativePointerEventX_def emit_def)

lemma mb_inv_middleButton:
  assumes "mb_inv s" and "middleButton E b now fr s = Some (b', s')"
  shows "mb_inv s'"
proof -
  obtain n to where t: "mb_transition b now n to fr s = Some s' \<or> s' = s"
    using assms(2) by (auto simp: middleButton_def Let_def bind_eq_Some_conv split: if_splits)
  have "mb_inv s'" if "mb_transition b now n to fr s = Some s'"
    using that assms(1)
    by (cases "mb_state (mbutton s)")
      (auto simp: mb_transition_def Let_def mb_delay_eq mb_settle_eq mb_inv_simps(3,4) set_mb_def mb_waiting_def mb_inv_def split: if_splits)
  then show ?thesis using t assms(1) by blast
qed

fun mb_run ::
    "clock \<Rightarrow> (u32 \<times> u64 \<times> MBComingFrom) list \<Rightarrow> 'a touchpad_scheme \<Rightarrow> (u32 list \<times> 'a touchpad_scheme) option" where
  "mb_run E [] s = Some ([], s)"
| "mb_run E ((b, t, fr) # es) s =
     do { (b', s) \<leftarrow> middleButton E b t fr s; (bs, s) \<leftarrow> mb_run E es s; Some (b' # bs, s) }"

lemma mb_total: "timers s ButtonTimer \<Longrightarrow> \<exists>b' s'. middleButton E b t fr s = Some (b', s')"
  by (cases "mb_state (mbutton s)")
    (auto simp: middleButton_def mb_transition_def Let_def mb_delay_eq mb_settle_eq mb_inv_simps)

text \<open>What the middle-button code leaves alone: everything but its own record and the posted events.\<close>

definition mb_frame :: "'a touchpad_scheme \<Rightarrow> 'a touchpad_scheme \<Rightarrow> bool" where
  "mb_frame s s' \<longleftrightarrow> (\<exists>m es. s' = s\<lparr>mbutton := m, out := es\<rparr>)"

lemma mb_frameI: "mb_frame s (s\<lparr>mbutton := m, out := es\<rparr>)" "mb_frame s (s\<lparr>out := es, mbutton := m\<rparr>)"
  "mb_frame s (s\<lparr>mbutton := m\<rparr>)" "mb_frame s (s\<lparr>out := es\<rparr>)" "mb_frame s s"
proof -
  have eq: "s\<lparr>out := es, mbutton := m\<rparr> = s\<lparr>mbutton := m, out := es\<rparr>"
    "s\<lparr>mbutton := m\<rparr> = s\<lparr>mbutton := m, out := out s\<rparr>"
    "s\<lparr>out := es\<rparr> = s\<lparr>mbutton := mbutton s, out := es\<rparr>" "s = s\<lparr>mbutton := mbutton s, out := out s\<rparr>" by simp_all
  show "mb_frame s (s\<lparr>mbutton := m, out := es\<rparr>)"
    unfolding mb_frame_def by (rule exI, rule exI, rule refl)
  then show "mb_frame s (s\<lparr>out := es, mbutton := m\<rparr>)" by (simp only: eq(1))
  show "mb_frame s (s\<lparr>mbutton := m\<rparr>)" unfolding mb_frame_def by (rule exI, rule exI, rule eq(2))
  show "mb_frame s (s\<lparr>out := es\<rparr>)" unfolding mb_frame_def by (rule exI, rule exI, rule eq(3))
  show "mb_frame s s" unfolding mb_frame_def by (rule exI, rule exI, rule eq(4))
qed

lemma mb_frame_trans: "mb_frame s t \<Longrightarrow> mb_frame t u \<Longrightarrow> mb_frame s u"
  unfolding mb_frame_def by (elim exE) (simp add: mb_frameI [unfolded mb_frame_def])

lemma mb_frame_set: "mb_frame s (set_mb m s)" "mb_frame s (set_pending b s)"
  "mb_frame s (dispatchRelativePointerEventX dx dy b t s)"
  by (simp_all add: set_mb_def set_pending_def emit_def dispatchRelativePointerEventX_def mb_frameI)

lemma mb_frame_delay: "mb_delay m b n s = Some s' \<Longrightarrow> mb_frame s s'"
  by (auto simp: mb_delay_eq mb_frameI split: if_splits)

lemma mb_frame_settle: "mb_settle m s = Some s' \<Longrightarrow> mb_frame s s'"
  by (auto simp: mb_settle_eq mb_frameI split: if_splits)

lemma mb_frame_middleButton:
  assumes "middleButton E b t fr s = Some (b', s')"
  shows "mb_frame s s'"
  using assms unfolding middleButton_def mb_transition_def Let_def
  by (auto simp: bind_eq_Some_conv mb_frame_set mb_frameI split: if_splits mbuttonstate.splits
      dest!: mb_frame_delay mb_frame_settle intro: mb_frame_trans [OF mb_frame_set(3)])

lemma mb_frameD:
  "mb_frame s s' \<Longrightarrow> timers s' = timers s \<and> ivars s' = ivars s \<and> bvars s' = bvars s \<and> lvars s' = lvars s
     \<and> qvars s' = qvars s \<and> ignoreall s' = ignoreall s \<and> touchmode s' = touchmode s"
  by (auto simp: mb_frame_def)

lemma mb_enabled_frame: "mb_frame s s' \<Longrightarrow> mb_enabled s' = mb_enabled s"
  by (auto simp: mb_frame_def mb_enabled_def)

lemma mb_run_total: "timers s ButtonTimer \<Longrightarrow> mb_inv s \<Longrightarrow> \<exists>r s'. mb_run E es s = Some (r, s') \<and> mb_inv s'"
proof (induction es arbitrary: s)
  case (Cons e es)
  obtain b t fr where e: "e = (b, t, fr)" by (cases e) auto
  obtain b' s1 where s1: "middleButton E b t fr s = Some (b', s1)"
    using mb_total [OF Cons.prems(1), of E b t fr] by auto
  have "timers s1 ButtonTimer" "mb_inv s1"
    using mb_frameD [OF mb_frame_middleButton [OF s1]] mb_inv_middleButton [OF Cons.prems(2) s1] Cons.prems(1) by auto
  from Cons.IH [OF this] show ?case by (auto simp: e s1)
qed auto


text \<open>The pointer events among the posted events.\<close>

definition pointer_events :: "tp_event list \<Rightarrow> tp_event list" where
  "pointer_events es = filter (\<lambda>e. case e of RelativePointer _ _ _ _ \<Rightarrow> True | _ \<Rightarrow> False) es"

lemma middleButton_on:
  assumes "mb_enabled s"
  shows "middleButton E b t fr s =
     (let now_ns = to_ns E t;
          timeout = (fr = fromTimer \<or> fr = fromCancel \<or> now_ns - buttontime (mbutton s) > maxmiddleclicktime s)
      in map_option (\<lambda>s. (mb_output (mb_state (mbutton s)) b, s)) (mb_transition b t now_ns timeout fr s))"
  using assms
  by (auto simp: middleButton_def mb_enabled_def Let_def map_option_case Option.bind_def split: option.splits)

definition mb_at :: "'a touchpad_scheme \<Rightarrow> mbuttonstate \<Rightarrow> u32 \<Rightarrow> u64 \<Rightarrow> tp_event list \<Rightarrow> 'a touchpad_scheme" where
  "mb_at s m p n es = s\<lparr>mbutton := \<lparr>mb_state = m, pendingbuttons = p, buttontime = n\<rparr>, out := es\<rparr>"

lemma mb_at_simps:
  "mb_enabled (mb_at s m p n es) = mb_enabled s" "mbutton (mb_at s m p n es) = \<lparr>mb_state = m, pendingbuttons = p, buttontime = n\<rparr>"
  "timers (mb_at s m p n es) = timers s" "qvars (mb_at s m p n es) = qvars s" "out (mb_at s m p n es) = es"
  "mb_delay m' b' n' (mb_at s m p n es) = (if timers s ButtonTimer
     then Some (mb_at s m' b' n' (es @ [SetTimer ButtonTimer (maxmiddleclicktime s)])) else None)"
  "mb_settle m' (mb_at s m p n es) = (if timers s ButtonTimer then Some (mb_at s m' 0 n (es @ [CancelTimer ButtonTimer])) else None)"
  "set_mb m' (mb_at s m p n es) = mb_at s m' p n es"
  "dispatchRelativePointerEventX dx dy b t (mb_at s m p n es) = mb_at s m p n (es @ [RelativePointer dx dy b t])"
  by (simp_all add: mb_at_def mb_enabled_def mb_delay_eq mb_settle_eq set_mb_def dispatchRelativePointerEventX_def emit_def)

lemma mb_at_self: "mb_at s (mb_state (mbutton s)) (pendingbuttons (mbutton s)) (buttontime (mbutton s)) (out s) = s"
  by (cases s) (simp add: mb_at_def)

lemma mb_at_idle: "mb_inv s \<Longrightarrow> mb_state (mbutton s) = STATE_NOBUTTONS \<Longrightarrow> s = mb_at s STATE_NOBUTTONS 0 (buttontime (mbutton s)) (out s)"
  using mb_at_self [of s] by (simp add: mb_inv_def mb_waiting_def)

lemmas mb_step = middleButton_on mb_transition_def mb_at_simps Let_def mb_output_def





text \<open>
  C23. A single click is never lost to the emulation: released early, it is posted at the release; held, it
  is posted when the timer fires, and passed through until it is released.
\<close>

theorem single_click_kept:
  assumes en: "mb_enabled s" "mb_inv s" "mb_state (mbutton s) = STATE_NOBUTTONS"
    and b: "b \<in> {0x1, 0x2}"
  shows "(\<exists>s'. mb_run E [(b, t0, fromTrackpad), (0, t1, fromTrackpad)] s = Some ([0, 0], s')
      \<and> mb_state (mbutton s') = STATE_NOBUTTONS
      \<and> pointer_events (out s') = pointer_events (out s) @ [RelativePointer 0 0 b t1])
    \<and> (\<exists>s'. mb_run E [(b, t0, fromTrackpad), (b, t1, fromTimer), (b, t2, fromTrackpad), (0, t3, fromTrackpad)] s
        = Some ([0, b, b, 0], s')
      \<and> mb_state (mbutton s') = STATE_NOBUTTONS
      \<and> pointer_events (out s') = pointer_events (out s) @ [RelativePointer 0 0 b t1])"
proof -
  have t: "timers s ButtonTimer" using en(1) by (simp add: mb_enabled_def)
  obtain n es where s: "s = mb_at s STATE_NOBUTTONS 0 n es" "es = out s" using mb_at_idle [OF en(2,3)] by blast
  have click: "\<exists>s'. mb_run E [(b, t0, fromTrackpad), (0, t1, fromTrackpad)] s = Some ([0, 0], s')
      \<and> mb_state (mbutton s') = STATE_NOBUTTONS
      \<and> pointer_events (out s') = pointer_events (out s) @ [RelativePointer 0 0 b t1]"
    using b t en(1)
    by (subst s(1)) (auto simp: mb_step mb_inv_def mb_waiting_def pointer_events_def s(2))
  have hold: "\<exists>s'. mb_run E [(b, t0, fromTrackpad), (b, t1, fromTimer), (b, t2, fromTrackpad), (0, t3, fromTrackpad)] s
        = Some ([0, b, b, 0], s')
      \<and> mb_state (mbutton s') = STATE_NOBUTTONS
      \<and> pointer_events (out s') = pointer_events (out s) @ [RelativePointer 0 0 b t1]"
    using b t en(1)
    by (subst s(1)) (auto simp: mb_step mb_inv_def mb_waiting_def pointer_events_def s(2))
  show ?thesis using click hold by blast
qed

lemma single_click_kept_witness:
  "map_option fst (mb_run \<lparr>uptime = (\<lambda>n. of_nat n), to_ns = (\<lambda>t. t)\<rparr> [(1, 10, fromTrackpad), (0, 20, fromTrackpad)] (new_touchpad\<lparr>ivars := (\<lambda>_. 0)(I_buttonCount := 3), bvars := (\<lambda>_. 0)(B_fakemiddlebutton := 1), timers := \<lambda>_. True\<rparr>)) = Some [0, 0]"
  using single_click_kept [of "(new_touchpad\<lparr>ivars := (\<lambda>_. 0)(I_buttonCount := 3), bvars := (\<lambda>_. 0)(B_fakemiddlebutton := 1), timers := \<lambda>_. True\<rparr>)" 1 "\<lparr>uptime = (\<lambda>n. of_nat n), to_ns = (\<lambda>t. t)\<rparr>" 10 20 30 40]
  by (auto simp: mb_enabled_def mb_inv_def mb_waiting_def new_touchpad_def)


end
