(* ===== verification/TouchPadConfig.thy ===== *)
theory TouchPadConfig
  imports MiddleButton
begin

text \<open>
  Configuration, keyboard messages and life cycle of \<open>VoodooPS2TouchPadBase\<close>: what
  \<open>setParamPropertiesGated\<close>, \<open>receiveMessage\<close>, \<open>start\<close> and \<open>stop\<close> establish.
\<close>

section \<open>Configuration\<close>


text \<open>The frame of each table: one store and the log of published properties.\<close>

definition cfg_frame :: "'a touchpad_scheme \<Rightarrow> 'a touchpad_scheme \<Rightarrow> bool" where
  "cfg_frame s s' \<longleftrightarrow> (\<exists>i b l q es. s' = s\<lparr>ivars := i, bvars := b, lvars := l, qvars := q, out := es\<rparr>)"

definition same_i :: "'a touchpad_scheme \<Rightarrow> 'a touchpad_scheme \<Rightarrow> bool" where "same_i s s' \<longleftrightarrow> ivars s' = ivars s"

lemma int64_frame: "ivars (apply_int64var c nv s) = ivars s" "bvars (apply_int64var c nv s) = bvars s"
   "lvars (apply_int64var c nv s) = lvars s"
  by (auto simp: apply_int64var_def emit_def split: option.splits os_object.splits)
lemma bool_frame: "ivars (apply_boolvar c nv s) = ivars s" "qvars (apply_boolvar c nv s) = qvars s"
   "lvars (apply_boolvar c nv s) = lvars s"
  by (auto simp: apply_boolvar_def emit_def split: option.splits os_object.splits)
lemma int32_frame: "bvars (apply_int32var c nv s) = bvars s" "qvars (apply_int32var c nv s) = qvars s"
   "lvars (apply_int32var c nv s) = lvars s"
  by (auto simp: apply_int32var_def emit_def Let_def split: option.splits os_object.splits)
lemma lowbit_frame: "bvars (apply_lowbitvar c nv s) = bvars s" "qvars (apply_lowbitvar c nv s) = qvars s"
   "ivars (apply_lowbitvar c nv s) = ivars s"
  by (auto simp: apply_lowbitvar_def emit_def Let_def split: option.splits os_object.splits)

lemma ignoreall_frame: "ignoreall (apply_int64var c n1 s) = ignoreall s" "ignoreall (apply_boolvar c n2 s) = ignoreall s"
    "ignoreall (apply_int32var c n3 s) = ignoreall s" "ignoreall (apply_lowbitvar c n4 s) = ignoreall s"
  by (auto simp: apply_int64var_def apply_boolvar_def apply_int32var_def apply_lowbitvar_def emit_def Let_def
      split: option.splits os_object.splits)

lemma fold_frame: "(\<And>x s. f (g x s) = f s) \<Longrightarrow> f (fold g xs s) = f s"
  by (induction xs arbitrary: s) simp_all

text \<open>A table sets exactly the variables whose names the dictionary has, the last row winning.\<close>

lemma fold_table:
  assumes step: "\<And>nv s. get (app nv s) = (get s)(snd nv := val (fst nv) (get s (snd nv)))"
    and "distinct (map snd t)"
  shows "get (fold app t s) v = (case map_of (map (\<lambda>(n, w). (w, n)) t) v of Some n \<Rightarrow> val n (get s v) | None \<Rightarrow> get s v)"
  using assms(2)
proof (induction t arbitrary: s)
  case (Cons nv t)
  have "map_of (map (\<lambda>(n, w). (w, n)) t) (snd nv) = None"
    using Cons.prems by (auto simp: map_of_eq_None_iff rev_image_eqI)
  then show ?case using Cons by (cases nv) (auto simp: step split: option.splits)
qed simp

lemma int64_step: "qvars (apply_int64var c nv s) =
    (qvars s)(snd nv := (case c (fst nv) of Some (OSNumber n) \<Rightarrow> n | _ \<Rightarrow> qvars s (snd nv)))"
  by (auto simp: apply_int64var_def emit_def split: option.splits os_object.splits)
lemma bool_step: "bvars (apply_boolvar c nv s) =
    (bvars s)(snd nv := (case c (fst nv) of Some (OSBoolean b) \<Rightarrow> (if b then 1 else 0) | _ \<Rightarrow> bvars s (snd nv)))"
  by (auto simp: apply_boolvar_def emit_def split: option.splits os_object.splits)
lemma int32_step: "ivars (apply_int32var c nv s) =
    (ivars s)(snd nv := (case c (fst nv) of Some (OSNumber n) \<Rightarrow> i32 (ucast n) | _ \<Rightarrow> ivars s (snd nv)))"
  by (auto simp: apply_int32var_def emit_def Let_def split: option.splits os_object.splits)
lemma lowbit_step: "lvars (apply_lowbitvar c nv s) =
    (lvars s)(snd nv := (case c (fst nv) of Some (OSNumber n) \<Rightarrow> isset (ucast n :: u32) 0x1 | _ \<Rightarrow> lvars s (snd nv)))"
  by (auto simp: apply_lowbitvar_def emit_def Let_def split: option.splits os_object.splits)

lemma tables_distinct:
  "distinct (map snd int32vars)" "distinct (map snd boolvars)" "distinct (map snd lowbitvars)" "distinct (map snd int64vars)"
  by (simp_all add: int32vars_def boolvars_def lowbitvars_def int64vars_def)

text \<open>The value a table assigns to one of its variables.\<close>

definition named :: "(string \<times> 'v) list \<Rightarrow> 'v \<Rightarrow> string option" where
  "named t v = map_of (map (\<lambda>(n, w). (w, n)) t) v"

definition cfg_q :: "(string \<Rightarrow> os_object option) \<Rightarrow> 'a touchpad_scheme \<Rightarrow> int64var \<Rightarrow> u64" where
  "cfg_q c s v = (case named int64vars v of Some n \<Rightarrow> (case c n of Some (OSNumber k) \<Rightarrow> k | _ \<Rightarrow> qvars s v) | None \<Rightarrow> qvars s v)"
definition cfg_b :: "(string \<Rightarrow> os_object option) \<Rightarrow> 'a touchpad_scheme \<Rightarrow> boolvar \<Rightarrow> int" where
  "cfg_b c s v = (case named boolvars v of Some n \<Rightarrow> (case c n of Some (OSBoolean b) \<Rightarrow> (if b then 1 else 0) | _ \<Rightarrow> bvars s v) | None \<Rightarrow> bvars s v)"
definition cfg_i :: "(string \<Rightarrow> os_object option) \<Rightarrow> 'a touchpad_scheme \<Rightarrow> int32var \<Rightarrow> int" where
  "cfg_i c s v = (case named int32vars v of Some n \<Rightarrow> (case c n of Some (OSNumber k) \<Rightarrow> i32 (ucast k) | _ \<Rightarrow> ivars s v) | None \<Rightarrow> ivars s v)"
definition cfg_l :: "(string \<Rightarrow> os_object option) \<Rightarrow> 'a touchpad_scheme \<Rightarrow> lowbitvar \<Rightarrow> bool" where
  "cfg_l c s v = (case named lowbitvars v of Some n \<Rightarrow> (case c n of Some (OSNumber k) \<Rightarrow> isset (ucast k :: u32) 1 | _ \<Rightarrow> lvars s v) | None \<Rightarrow> lvars s v)"

lemma tables_applied:
  defines "t s c \<equiv> fold (apply_lowbitvar c) lowbitvars (fold (apply_int32var c) int32vars
     (fold (apply_boolvar c) boolvars (fold (apply_int64var c) int64vars s)))"
  shows "qvars (t s c) = cfg_q c s" "bvars (t s c) = cfg_b c s" "ivars (t s c) = cfg_i c s" "lvars (t s c) = cfg_l c s"
proof -
  show "qvars (t s c) = cfg_q c s"
    by (simp add: t_def fold_frame [of qvars] bool_frame int32_frame lowbit_frame)
      (rule ext, simp add: cfg_q_def named_def fold_table [of qvars "apply_int64var c", OF int64_step tables_distinct(4)])
  show "bvars (t s c) = cfg_b c s"
    by (rule ext) (simp add: t_def fold_frame [of bvars] int64_frame int32_frame lowbit_frame cfg_b_def named_def
      fold_table [of bvars "apply_boolvar c", OF bool_step tables_distinct(2)] cong: option.case_cong os_object.case_cong)
  show "ivars (t s c) = cfg_i c s"
    by (rule ext) (simp add: t_def fold_frame [of ivars] int64_frame bool_frame lowbit_frame cfg_i_def named_def
      fold_table [of ivars "apply_int32var c", OF int32_step tables_distinct(1)] cong: option.case_cong os_object.case_cong)
  show "lvars (t s c) = cfg_l c s"
    by (rule ext) (simp add: t_def fold_frame [of lvars] int64_frame bool_frame int32_frame cfg_l_def named_def
      fold_table [of lvars "apply_lowbitvar c", OF lowbit_step tables_distinct(3)] cong: option.case_cong os_object.case_cong)
qed


text \<open>The special cases after the tables: no zero divisors, no zero thresholds, the mouse count.\<close>

definition cfg_fix :: "int \<Rightarrow> (int32var \<Rightarrow> int) \<Rightarrow> int32var \<Rightarrow> int" where
  "cfg_fix old i v =
     (if (v = I_divisorx \<or> v = I_divisory) \<and> i v = 0 then 1
      else if (v = I_bogusdxthresh \<or> v = I_bogusdythresh) \<and> i v = 0 then 0x7FFFFFFF
      else if v = I_mousecount \<and> i v = -1 then old
      else i v)"

definition nonzero_default :: "int32var \<Rightarrow> int \<Rightarrow> 'a touchpad_scheme \<Rightarrow> 'a touchpad_scheme" where
  "nonzero_default v d s = (if ivars s v = 0 then set_ivar v d s else s)"

lemma nonzero_default_simps:
  "ivars (nonzero_default v d s) w = (if w = v \<and> ivars s w = 0 then d else ivars s w)"
  "qvars (nonzero_default v d s) = qvars s" "bvars (nonzero_default v d s) = bvars s"
  "lvars (nonzero_default v d s) = lvars s" "ignoreall (nonzero_default v d s) = ignoreall s"
  by (auto simp: nonzero_default_def set_ivar_def)

lemma set_params_effect:
  defines "s' c s \<equiv> setParamPropertiesGated (Some c) s"
  shows "qvars (s' c s) = cfg_q c s \<and> bvars (s' c s) = cfg_b c s \<and> lvars (s' c s) = cfg_l c s
    \<and> ivars (s' c s) = cfg_fix (mousecount s) (cfg_i c s)
    \<and> divisorx (s' c s) \<noteq> 0 \<and> divisory (s' c s) \<noteq> 0 \<and> touchmode (s' c s) = MODE_NOTOUCH
    \<and> ignoreall (s' c s) =
        (if (mousecount s \<noteq> 0) \<noteq> (mousecount (s' c s) \<noteq> 0) \<or> usb_mouse_stops_trackpad s \<noteq> usb_mouse_stops_trackpad (s' c s)
         then mousecount (s' c s) \<noteq> 0 \<and> usb_mouse_stops_trackpad (s' c s) else ignoreall s)"
proof -
  define t where "t = fold (apply_lowbitvar c) lowbitvars (fold (apply_int32var c) int32vars
     (fold (apply_boolvar c) boolvars (fold (apply_int64var c) int64vars s)))"
  have t: "qvars t = cfg_q c s" "bvars t = cfg_b c s" "ivars t = cfg_i c s" "lvars t = cfg_l c s"
    unfolding t_def by (rule tables_applied)+
  have ig: "ignoreall t = ignoreall s"
    unfolding t_def by (simp add: fold_frame [of ignoreall] ignoreall_frame)
  define d where "d = nonzero_default I_bogusdythresh 0x7FFFFFFF (nonzero_default I_bogusdxthresh 0x7FFFFFFF
    (nonzero_default I_divisory 1 (nonzero_default I_divisorx 1 t)))"
  define u where "u s0 = (let s = d\<lparr>touchmode := MODE_NOTOUCH\<rparr>
    in if mousecount s = -1 then set_ivar I_mousecount (mousecount s0) s else s)" for s0 :: "'a touchpad_scheme"
  have "ivars (u s) v = cfg_fix (mousecount s) (ivars t) v" for v
    by (auto simp: u_def d_def nonzero_default_simps Let_def set_ivar_def cfg_fix_def)
  then have u: "ivars (u s) = cfg_fix (mousecount s) (ivars t)" "qvars (u s) = qvars t" "bvars (u s) = bvars t"
    "lvars (u s) = lvars t" "touchmode (u s) = MODE_NOTOUCH" "ignoreall (u s) = ignoreall t"
    by (auto simp: u_def d_def nonzero_default_simps Let_def set_ivar_def)
  have s': "s' c s = (if (mousecount s \<noteq> 0) \<noteq> (mousecount (u s) \<noteq> 0) \<or> usb_mouse_stops_trackpad s \<noteq> usb_mouse_stops_trackpad (u s)
     then (u s)\<lparr>ignoreall := (mousecount (u s) \<noteq> 0 \<and> usb_mouse_stops_trackpad (u s))\<rparr> else u s)"
    unfolding s'_def setParamPropertiesGated_def option.case u_def d_def nonzero_default_def t_def by (simp only: Let_def)
  have nz: "cfg_fix k i I_divisorx \<noteq> 0" "cfg_fix k i I_divisory \<noteq> 0" for k i
    by (simp_all add: cfg_fix_def)
  show ?thesis
    using nz unfolding s' by (simp add: u t ig split del: if_split split: if_split)
qed


text \<open>
  Loading a configuration sets exactly the variables its dictionary names, each from the entry of its
  own name and at its own type (64-bit, boolean, signed 32-bit, lowest bit), and changes no other
  variable except for the documented fix-ups: zero divisors become 1, zero bogus-delta thresholds the
  largest \<open>int\<close>, a mouse count of -1 is undone.  The touch mode is reset, and the trackpad is switched
  off exactly when mice are present and stop it, whenever either of the two changed.
\<close>

theorem set_params_sets_exactly_the_named:
  "let s' = setParamPropertiesGated (Some c) s in
     qvars s' = cfg_q c s \<and> bvars s' = cfg_b c s \<and> lvars s' = cfg_l c s
     \<and> ivars s' = cfg_fix (mousecount s) (cfg_i c s)
     \<and> divisorx s' \<noteq> 0 \<and> divisory s' \<noteq> 0 \<and> touchmode s' = MODE_NOTOUCH
     \<and> ignoreall s' =
        (if (mousecount s \<noteq> 0) \<noteq> (mousecount s' \<noteq> 0) \<or> usb_mouse_stops_trackpad s \<noteq> usb_mouse_stops_trackpad s'
         then mousecount s' \<noteq> 0 \<and> usb_mouse_stops_trackpad s' else ignoreall s)"
  unfolding Let_def by (rule set_params_effect)

lemma set_params_sets_exactly_the_named_witness:
  "z_finger (setParamPropertiesGated (Some [''FingerZ'' \<mapsto> OSNumber 50]) new_touchpad) = 50
   \<and> divisorx (setParamPropertiesGated (Some [''FingerZ'' \<mapsto> OSNumber 50]) new_touchpad) \<noteq> 0"
  using set_params_sets_exactly_the_named [of "[''FingerZ'' \<mapsto> OSNumber 50]" new_touchpad]
  by (simp add: Let_def cfg_fix_def cfg_i_def named_def int32vars_def)

section \<open>Messages\<close>

definition notify_all :: "PS2KeyInfo list \<Rightarrow> 'a touchpad_scheme \<Rightarrow> 'a touchpad_scheme" where
  "notify_all kis s = fold (\<lambda>ki s. snd (receiveMessage (NotifyKeyPressed ki) s)) kis s"

definition tracked_modifiers :: "(u16 \<times> u32) list" where
  "tracked_modifiers = [(0x36, 0x10), (0x37, 0x100000), (0x3a, 0x080000), (0x3b, 0x040000), (0x3d, 0x08),
     (0x3e, 0x04), (0x3f, 0x200000)]"

lemma modifier_keys: "is_modifier_key k \<Longrightarrow> k \<in> {0x36, 0x37, 0x38, 0x3a, 0x3b, 0x3c, 0x3d, 0x3e, 0x3f}"
  by (auto simp: is_modifier_key_def)

lemma modifier_mask_disjoint:
  assumes "(k, m) \<in> set tracked_modifiers" "is_modifier_key k'"
  shows "m \<noteq> 0" "(modifier_masks ! unat (k' - 0x36)) AND m = (if k' = k then m else 0)"
proof -
  have "(k, m) \<in> {(0x36, 0x10), (0x37, 0x100000), (0x3a, 0x080000), (0x3b, 0x040000), (0x3d, 0x08), (0x3e, 0x04), (0x3f, 0x200000)}"
    using assms(1) by (simp add: tracked_modifiers_def)
  then show "m \<noteq> 0" "(modifier_masks ! unat (k' - 0x36)) AND m = (if k' = k then m else 0)"
    using modifier_keys [OF assms(2)] by (elim insertE emptyE; simp add: modifier_masks_def)+
qed

lemma masked_or: "((w OR a) :: u32) AND m = 0 \<longleftrightarrow> w AND m = 0 \<and> a AND m = 0"
  by (auto simp: bit_eq_iff bit_or_iff bit_and_iff)

lemma masked_clear: "a AND m = m \<Longrightarrow> \<not> isset ((w AND NOT a) :: u32) m" "a AND m = 0 \<Longrightarrow> (w AND NOT a) AND m = w AND m"
  by (auto simp: bit_eq_iff bit_not_iff bit_and_iff)

lemma notify_modifierdown:
  assumes "(k, m) \<in> set tracked_modifiers"
  shows "isset (modifierdown (notify_key_pressed ki s)) m \<longleftrightarrow>
     (if adbKeyCode ki = k then goingDown ki else isset (modifierdown s) m)"
proof (cases "is_modifier_key (adbKeyCode ki)")
  case True
  note d = modifier_mask_disjoint [OF assms True]
  show ?thesis
  proof (cases "adbKeyCode ki = k")
    case eq: True
    then have "(modifier_masks ! unat (k - 0x36)) AND m = m" using d by simp
    then show ?thesis
      using True eq d(1) masked_clear(1) by (simp add: notify_key_pressed_def Let_def masked_or)
  next
    case False
    then have "(modifier_masks ! unat (adbKeyCode ki - 0x36)) AND m = 0" using d by simp
    then show ?thesis
      using True False masked_clear(2) by (simp add: notify_key_pressed_def Let_def masked_or)
  qed
next
  case False
  then have "adbKeyCode ki \<noteq> k" using assms by (auto simp: tracked_modifiers_def is_modifier_key_def)
  then show ?thesis using False by (simp add: notify_key_pressed_def)
qed

text \<open>
  C25. After any sequence of key notifications the modifier mask holds the bit of a modifier key exactly when
  the last notification of that key was a press, whatever other keys did in between.
\<close>

theorem modifier_keys_tracked:
  assumes "(k, m) \<in> set tracked_modifiers"
  shows "isset (modifierdown (notify_all kis s)) m \<longleftrightarrow>
     (let es = filter (\<lambda>ki. adbKeyCode ki = k) kis in if es = [] then isset (modifierdown s) m else goingDown (last es))"
proof (induction kis rule: rev_induct)
  case (snoc ki kis)
  then show ?case
    using notify_modifierdown [OF assms, of ki "notify_all kis s"]
    by (auto simp: notify_all_def receiveMessage_def Let_def)
qed (simp add: notify_all_def)

lemma modifier_keys_tracked_witness:
  "isset (modifierdown (notify_all [\<lparr>ki_time = 1, adbKeyCode = 0x37, goingDown = True\<rparr>] new_touchpad)) 0x100000"
  using modifier_keys_tracked [of "0x37" "0x100000" "[\<lparr>ki_time = 1, adbKeyCode = 0x37, goingDown = True\<rparr>]" new_touchpad]
  by (simp add: tracked_modifiers_def)


text \<open>
  The disable message and the query agree: after the keyboard driver sends "enable = b", the query answers
  b and \<open>ignoreall\<close> is its negation; nothing else changes and asking changes nothing.
\<close>

theorem disable_message_roundtrip:
  "let s' = snd (receiveMessage (SetDisableTouchpad b) s) in
     fst (receiveMessage GetDisableTouchpad s') = Some b
     \<and> snd (receiveMessage GetDisableTouchpad s') = s'
     \<and> s' = s\<lparr>ignoreall := \<not> b\<rparr>"
  by (cases s) (auto simp: receiveMessage_def)

section \<open>Life cycle\<close>

lemma setParam_frame:
  "timers (setParamPropertiesGated c s) = timers s" "mbutton (setParamPropertiesGated c s) = mbutton s"
proof -
  have t: "timers (apply_int64var c n1 s) = timers s" "timers (apply_boolvar c n2 s) = timers s"
    "timers (apply_int32var c n3 s) = timers s" "timers (apply_lowbitvar c n4 s) = timers s"
    "mbutton (apply_int64var c n1 s) = mbutton s" "mbutton (apply_boolvar c n2 s) = mbutton s"
    "mbutton (apply_int32var c n3 s) = mbutton s" "mbutton (apply_lowbitvar c n4 s) = mbutton s" for c n1 n2 n3 n4 and s :: "'b touchpad_scheme"
    by (auto simp: apply_int64var_def apply_boolvar_def apply_int32var_def apply_lowbitvar_def emit_def Let_def
      split: option.splits os_object.splits)
  show "timers (setParamPropertiesGated c s) = timers s" "mbutton (setParamPropertiesGated c s) = mbutton s"
    by (simp_all add: setParamPropertiesGated_def set_ivar_def Let_def fold_frame [of timers] fold_frame [of mbutton] t split: option.split)
qed

text \<open>
  With two buttons the driver is started without a button timer, and \<open>setParamProperties\<close> may raise
  \<open>ButtonCount\<close> later: from then on the first single click calls \<open>setTimeout\<close> through a null pointer.
\<close>

theorem button_timer_null_dereference:
  assumes s: "fakemiddlebutton s \<noteq> 0" "buttonCount s = 2" "\<not> timers s ButtonTimer" "\<not> ignoreall s"
    "mb_state (mbutton s) = STATE_NOBUTTONS" "mousecount s \<noteq> -1" and b: "b \<in> {0x1, 0x2}"
  shows "middleButton E b t fromTrackpad s = Some (b, s) \<and>
    middleButton E b t fromTrackpad (setParamPropertiesGated (Some [''ButtonCount'' \<mapsto> OSNumber 3]) s) = None"
proof
  let ?c = "[''ButtonCount'' \<mapsto> OSNumber 3] :: string \<Rightarrow> os_object option"
  let ?s = "setParamPropertiesGated (Some ?c) s"
  show "middleButton E b t fromTrackpad s = Some (b, s)"
    using s by (simp add: middleButton_def)
  have n: "named int32vars I_buttonCount = Some ''ButtonCount''" "named int32vars I_mousecount = Some ''MouseCount''"
    "named boolvars B_fakemiddlebutton = Some ''FakeMiddleButton''" "named lowbitvars L_usb_mouse_stops_trackpad = Some ''USBMouseStopsTrackpad''"
    by (simp_all add: named_def int32vars_def boolvars_def lowbitvars_def)
  have v: "buttonCount ?s = 3" "fakemiddlebutton ?s = fakemiddlebutton s" "ignoreall ?s = ignoreall s"
    using set_params_effect [of ?c s] s(6) by (simp_all add: cfg_fix_def cfg_i_def cfg_b_def cfg_l_def n)
  show "middleButton E b t fromTrackpad ?s = None"
    using b s v by (auto simp: middleButton_def mb_transition_def Let_def mb_delay_eq setParam_frame)
qed

lemma button_timer_null_dereference_witness:
  "middleButton \<lparr>uptime = (\<lambda>n. of_nat n), to_ns = (\<lambda>t. t)\<rparr> 1 7 fromTrackpad (setParamPropertiesGated (Some [''ButtonCount'' \<mapsto> OSNumber 3]) (new_touchpad\<lparr>ivars := (\<lambda>_. 0)(I_buttonCount := 2), bvars := (\<lambda>_. 0)(B_fakemiddlebutton := 1)\<rparr>)) = None"
  using button_timer_null_dereference [of "(new_touchpad\<lparr>ivars := (\<lambda>_. 0)(I_buttonCount := 2), bvars := (\<lambda>_. 0)(B_fakemiddlebutton := 1)\<rparr>)" 1 "\<lparr>uptime = (\<lambda>n. of_nat n), to_ns = (\<lambda>t. t)\<rparr>" 7]
  by (simp add: new_touchpad_def)


text \<open>What \<open>deviceSpecificInit\<close> leaves alone.\<close>

definition dsi_keeps :: "('a touchpad_scheme \<Rightarrow> bool \<times> 'a touchpad_scheme) \<Rightarrow> bool" where
  "dsi_keeps dsi \<longleftrightarrow> (\<forall>s. timers (snd (dsi s)) = timers s \<and> ivars (snd (dsi s)) = ivars s \<and> cmdGate (snd (dsi s)) = cmdGate s
     \<and> device (snd (dsi s)) = device s)"

lemma tp_start_True:
  assumes "tp_start super_ok wl gate alloc dsi s = (True, s')"
  obtains u v where "dsi u = (True, v)" "device u" "cmdGate u" "3 \<le> buttonCount u \<longrightarrow> timers u ButtonTimer"
    "s' = v\<lparr>interruptHandlerInstalled := True, powerControlHandlerInstalled := True, messageHandlerInstalled := True\<rparr>"
  using assms by (auto simp: tp_start_def Let_def split: if_splits prod.splits)

text \<open>
  A successful \<open>start\<close> leaves the device, the gate and all three handlers installed and the button timer
  present whenever the emulation needs it (so no input makes it trap), provided \<open>deviceSpecificInit\<close>
  keeps its hands off the base class; \<open>stop\<close> removes the handlers, the device and two of the timers, but
  leaves the drag and scroll-debounce timers in the work loop.
\<close>

theorem start_installs_stop_removes:
  assumes "dsi_keeps dsi" and "tp_start super_ok wl gate alloc dsi s = (True, s')"
  shows "device s' \<and> cmdGate s' \<and> interruptHandlerInstalled s' \<and> powerControlHandlerInstalled s' \<and> messageHandlerInstalled s'
    \<and> (\<exists>r s''. middleButton E b t fr s' = Some (r, s''))
    \<and> (let z = tp_stop True s' in \<not> device z \<and> \<not> cmdGate z \<and> \<not> interruptHandlerInstalled z
          \<and> \<not> powerControlHandlerInstalled z \<and> \<not> messageHandlerInstalled z \<and> \<not> timers z ScrollTimer \<and> \<not> timers z ButtonTimer
          \<and> timers z DragTimer = timers s' DragTimer \<and> timers z ScrollDebounceTimer = timers s' ScrollDebounceTimer)"
proof -
  have k: "timers (snd (dsi x)) = timers x" "ivars (snd (dsi x)) = ivars x" "cmdGate (snd (dsi x)) = cmdGate x" "device (snd (dsi x)) = device x" for x
    using assms(1) by (auto simp: dsi_keeps_def)
  obtain u v where u: "dsi u = (True, v)" "device u" "cmdGate u" "3 \<le> buttonCount u \<longrightarrow> timers u ButtonTimer"
    "s' = v\<lparr>interruptHandlerInstalled := True, powerControlHandlerInstalled := True, messageHandlerInstalled := True\<rparr>"
    using tp_start_True [OF assms(2)] by blast
  then have f: "device s'" "cmdGate s'" "interruptHandlerInstalled s'" "powerControlHandlerInstalled s'" "messageHandlerInstalled s'"
    "3 \<le> buttonCount s' \<Longrightarrow> timers s' ButtonTimer"
    using k [of u] by simp_all
  have "\<exists>r s''. middleButton E b t fr s' = Some (r, s'')"
  proof (cases "3 \<le> buttonCount s'")
    case True then show ?thesis using f(6) mb_total by blast
  qed (simp add: middleButton_def)
  then show ?thesis using f by (simp add: tp_stop_def)
qed

lemma start_installs_stop_removes_witness:
  "messageHandlerInstalled (snd (tp_start True True True (\<lambda>_. True) (\<lambda>s. (True, s)) new_touchpad))"
proof -
  have "tp_start True True True (\<lambda>_. True) (\<lambda>s. (True, s)) new_touchpad
      = (True, snd (tp_start True True True (\<lambda>_. True) (\<lambda>s. (True, s)) new_touchpad))"
    by (simp add: tp_start_def Let_def new_touchpad_def)
  from start_installs_stop_removes [OF _ this, where b = 1 and E = "\<lparr>uptime = (\<lambda>n. of_nat n), to_ns = (\<lambda>t. t)\<rparr>" and t = 1 and fr = fromTimer] show ?thesis
    by (simp add: dsi_keeps_def)
qed


end
