(* ===== verification/AlpsData.thy ===== *)
theory AlpsData
  imports PS2Prelude
begin

text \<open>
  The data of the ALPS driver: the structures and enumerations of \<open>alps.h\<close> and the constant tables
  at the head of \<open>alps.cpp\<close>.

  A one-bit field of a C structure is a \<open>1 word\<close>, so that storing a wider value keeps its lowest bit
  only, as the compiler does.  The member-function pointers \<open>hw_init\<close>, \<open>decode_fields\<close> and
  \<open>process_packet\<close>, which \<open>set_protocol\<close> selects, are the datatypes of their possible targets.
  \<open>UInt8 multi_data[6]\<close>, \<open>fw_ver[3]\<close> and \<open>mt[MAX_TOUCHES]\<close> are lists of that length.
\<close>

section \<open>PS/2 command bytes\<close>

text \<open>\<open>ApplePS2Device.h\<close>: the \<open>kDP_\<close> (device) commands, at whatever width the code uses them.\<close>

abbreviation (input) kDP_SetMouseScaling1To1 :: "'a::len word" where "kDP_SetMouseScaling1To1 \<equiv> 0xE6"
abbreviation (input) kDP_SetMouseScaling2To1 :: "'a::len word" where "kDP_SetMouseScaling2To1 \<equiv> 0xE7"
abbreviation (input) kDP_SetMouseResolution :: "'a::len word" where "kDP_SetMouseResolution \<equiv> 0xE8"
abbreviation (input) kDP_GetMouseInformation :: "'a::len word" where "kDP_GetMouseInformation \<equiv> 0xE9"
abbreviation (input) kDP_SetMouseStreamMode :: "'a::len word" where "kDP_SetMouseStreamMode \<equiv> 0xEA"
abbreviation (input) kDP_MousePoll :: "'a::len word" where "kDP_MousePoll \<equiv> 0xEB"
abbreviation (input) kDP_MouseResetWrap :: "'a::len word" where "kDP_MouseResetWrap \<equiv> 0xEC"
abbreviation (input) kDP_SetKeyboardLEDs :: "'a::len word" where "kDP_SetKeyboardLEDs \<equiv> 0xED"
abbreviation (input) kDP_TestKeyboardEcho :: "'a::len word" where "kDP_TestKeyboardEcho \<equiv> 0xEE"
abbreviation (input) kDP_GetSetKeyboardASCs :: "'a::len word" where "kDP_GetSetKeyboardASCs \<equiv> 0xF0"
abbreviation (input) kDP_MouseSetPoll :: "'a::len word" where "kDP_MouseSetPoll \<equiv> 0xF0"
abbreviation (input) kDP_GetId :: "'a::len word" where "kDP_GetId \<equiv> 0xF2"
abbreviation (input) kDP_SetKeyboardTypematic :: "'a::len word" where "kDP_SetKeyboardTypematic \<equiv> 0xF3"
abbreviation (input) kDP_SetMouseSampleRate :: "'a::len word" where "kDP_SetMouseSampleRate \<equiv> 0xF3"
abbreviation (input) kDP_Enable :: "'a::len word" where "kDP_Enable \<equiv> 0xF4"
abbreviation (input) kDP_SetDefaultsAndDisable :: "'a::len word" where "kDP_SetDefaultsAndDisable \<equiv> 0xF5"
abbreviation (input) kDP_SetDefaults :: "'a::len word" where "kDP_SetDefaults \<equiv> 0xF6"
abbreviation (input) kDP_SetAllTypematic :: "'a::len word" where "kDP_SetAllTypematic \<equiv> 0xF7"
abbreviation (input) kDP_SetAllMakeRelease :: "'a::len word" where "kDP_SetAllMakeRelease \<equiv> 0xF8"
abbreviation (input) kDP_SetAllMakeOnly :: "'a::len word" where "kDP_SetAllMakeOnly \<equiv> 0xF9"
abbreviation (input) kDP_SetAllTypematicMakeRelease :: "'a::len word" where "kDP_SetAllTypematicMakeRelease \<equiv> 0xFA"
abbreviation (input) kDP_SetKeyMakeRelease :: "'a::len word" where "kDP_SetKeyMakeRelease \<equiv> 0xFB"
abbreviation (input) kDP_SetKeyMakeOnly :: "'a::len word" where "kDP_SetKeyMakeOnly \<equiv> 0xFC"
abbreviation (input) kDP_Reset :: "'a::len word" where "kDP_Reset \<equiv> 0xFF"
abbreviation (input) kDP_CommandNibble10 :: "'a::len word" where "kDP_CommandNibble10 \<equiv> 0xF2"

abbreviation (input) kSC_Acknowledge :: u8 where "kSC_Acknowledge \<equiv> 0xFA"
abbreviation (input) kSC_Resend :: u8 where "kSC_Resend \<equiv> 0xFE"
abbreviation (input) kSC_Reset :: u8 where "kSC_Reset \<equiv> 0xAA"
abbreviation (input) kSC_ID :: u8 where "kSC_ID \<equiv> 0x00"

section \<open>Protocol versions and capability flags\<close>

abbreviation (input) ALPS_PROTO_V1 :: u16 where "ALPS_PROTO_V1 \<equiv> 0x100"
abbreviation (input) ALPS_PROTO_V2 :: u16 where "ALPS_PROTO_V2 \<equiv> 0x200"
abbreviation (input) ALPS_PROTO_V3 :: u16 where "ALPS_PROTO_V3 \<equiv> 0x300"
abbreviation (input) ALPS_PROTO_V3_RUSHMORE :: u16 where "ALPS_PROTO_V3_RUSHMORE \<equiv> 0x310"
abbreviation (input) ALPS_PROTO_V4 :: u16 where "ALPS_PROTO_V4 \<equiv> 0x400"
abbreviation (input) ALPS_PROTO_V5 :: u16 where "ALPS_PROTO_V5 \<equiv> 0x500"
abbreviation (input) ALPS_PROTO_V6 :: u16 where "ALPS_PROTO_V6 \<equiv> 0x600"
abbreviation (input) ALPS_PROTO_V7 :: u16 where "ALPS_PROTO_V7 \<equiv> 0x700"
abbreviation (input) ALPS_PROTO_V8 :: u16 where "ALPS_PROTO_V8 \<equiv> 0x800"

abbreviation (input) ALPS_DUALPOINT :: u32 where "ALPS_DUALPOINT \<equiv> 0x02"
abbreviation (input) ALPS_PASS :: u32 where "ALPS_PASS \<equiv> 0x04"
abbreviation (input) ALPS_WHEEL :: u32 where "ALPS_WHEEL \<equiv> 0x08"
abbreviation (input) ALPS_FW_BK_1 :: u32 where "ALPS_FW_BK_1 \<equiv> 0x10"
abbreviation (input) ALPS_FW_BK_2 :: u32 where "ALPS_FW_BK_2 \<equiv> 0x20"
abbreviation (input) ALPS_FOUR_BUTTONS :: u32 where "ALPS_FOUR_BUTTONS \<equiv> 0x40"
abbreviation (input) ALPS_PS2_INTERLEAVED :: u32 where "ALPS_PS2_INTERLEAVED \<equiv> 0x80"
abbreviation (input) ALPS_STICK_BITS :: u32 where "ALPS_STICK_BITS \<equiv> 0x100"
abbreviation (input) ALPS_BUTTONPAD :: u32 where "ALPS_BUTTONPAD \<equiv> 0x200"
abbreviation (input) ALPS_DUALPOINT_WITH_PRESSURE :: u32 where "ALPS_DUALPOINT_WITH_PRESSURE \<equiv> 0x400"

abbreviation (input) ALPS_QUIRK_TRACKSTICK_BUTTONS :: u8 where "ALPS_QUIRK_TRACKSTICK_BUTTONS \<equiv> 1"

section \<open>Structures\<close>

record input_mt_pos =
  mt_x :: u32
  mt_y :: u32

record alps_fields =
  f_x_map :: u32
  f_y_map :: u32
  f_fingers :: u32
  f_pressure :: int
  f_st :: input_mt_pos
  f_mt :: "input_mt_pos list"
  f_first_mp :: "1 word"
  f_is_mp :: "1 word"
  f_left :: "1 word"
  f_right :: "1 word"
  f_middle :: "1 word"
  f_ts_left :: "1 word"
  f_ts_right :: "1 word"
  f_ts_middle :: "1 word"

definition no_pos :: input_mt_pos where "no_pos = \<lparr>mt_x = 0, mt_y = 0\<rparr>"

text \<open>\<open>memset (&f, 0, sizeof (f))\<close>.\<close>

definition zero_fields :: alps_fields where
  "zero_fields = \<lparr>f_x_map = 0, f_y_map = 0, f_fingers = 0, f_pressure = 0, f_st = no_pos,
     f_mt = [no_pos, no_pos, no_pos, no_pos], f_first_mp = 0, f_is_mp = 0, f_left = 0, f_right = 0, f_middle = 0,
     f_ts_left = 0, f_ts_right = 0, f_ts_middle = 0\<rparr>"

text \<open>Storing \<open>!!(w & m)\<close> and storing a plain integer in a one-bit field.\<close>

definition bit_flag :: "bool \<Rightarrow> 1 word" where "bit_flag b = (if b then 1 else 0)"

definition bitfield :: "u32 \<Rightarrow> 1 word" where "bitfield w = ucast w"

record alps_nibble_commands =
  nc_command :: u32
  nc_data :: u8

record alps_model_info =
  mi_signature :: "u8 list"
  mi_command_mode_resp :: u8
  mi_proto :: u16
  mi_byte0 :: u8
  mi_mask0 :: u8
  mi_flags :: u32

datatype hw_init_fn = HwInitV1V2 | HwInitV3 | HwInitRushmoreV3 | HwInitV4 | HwInitDolphinV1
  | HwInitV6 | HwInitV7 | HwInitSs4V2

datatype decode_fn = DecodePinnacle | DecodeRushmore | DecodeDolphin | DecodeV7 | DecodeSs4V2

datatype process_fn = ProcessV1V2 | ProcessV3 | ProcessV4 | ProcessTouchpadV3V5 | ProcessV6
  | ProcessV7 | ProcessSs4V2

record alps_data =
  nibble_commands :: "alps_nibble_commands list"
  addr_command :: int
  proto_version :: u16
  byte0 :: u8
  mask0 :: u8
  fw_ver :: "u8 list"
  flags :: u32
  x_max :: int
  y_max :: int
  x_bits :: int
  y_bits :: int
  x_res :: u32
  y_res :: u32
  prev_fin :: int
  multi_packet :: int
  second_touch :: int
  multi_data :: "u8 list"
  p_f :: alps_fields
  quirks :: u8
  PSMOUSE_BAD_DATA :: bool
  pktsize :: nat

text \<open>
  The structure before \<open>identify\<close> runs: IOKit allocates the driver object zeroed, and \<open>pktsize\<close> has the
  initialiser 6.
\<close>

definition zero_data :: alps_data where
  "zero_data = \<lparr>nibble_commands = [], addr_command = 0, proto_version = 0, byte0 = 0, mask0 = 0,
     fw_ver = [0, 0, 0], flags = 0, x_max = 0, y_max = 0, x_bits = 0, y_bits = 0, x_res = 0, y_res = 0,
     prev_fin = 0, multi_packet = 0, second_touch = 0, multi_data = [0, 0, 0, 0, 0, 0], p_f = zero_fields,
     quirks = 0, PSMOUSE_BAD_DATA = False, pktsize = 6\<rparr>"

datatype V7_PACKET_ID = V7_PACKET_ID_IDLE | V7_PACKET_ID_TWO | V7_PACKET_ID_MULTI | V7_PACKET_ID_NEW
  | V7_PACKET_ID_UNKNOWN

datatype SS4_PACKET_ID = SS4_PACKET_ID_IDLE | SS4_PACKET_ID_ONE | SS4_PACKET_ID_TWO
  | SS4_PACKET_ID_MULTI | SS4_PACKET_ID_STICK

section \<open>Tables\<close>

definition alps_v3_nibble_commands :: "alps_nibble_commands list" where
  "alps_v3_nibble_commands = [
    \<lparr>nc_command = kDP_MouseSetPoll, nc_data = 0x00\<rparr>,
    \<lparr>nc_command = kDP_SetDefaults, nc_data = 0x00\<rparr>,
    \<lparr>nc_command = kDP_SetMouseScaling2To1, nc_data = 0x00\<rparr>,
    \<lparr>nc_command = kDP_SetMouseSampleRate OR 0x1000, nc_data = 0x0a\<rparr>,
    \<lparr>nc_command = kDP_SetMouseSampleRate OR 0x1000, nc_data = 0x14\<rparr>,
    \<lparr>nc_command = kDP_SetMouseSampleRate OR 0x1000, nc_data = 0x28\<rparr>,
    \<lparr>nc_command = kDP_SetMouseSampleRate OR 0x1000, nc_data = 0x3c\<rparr>,
    \<lparr>nc_command = kDP_SetMouseSampleRate OR 0x1000, nc_data = 0x50\<rparr>,
    \<lparr>nc_command = kDP_SetMouseSampleRate OR 0x1000, nc_data = 0x64\<rparr>,
    \<lparr>nc_command = kDP_SetMouseSampleRate OR 0x1000, nc_data = 0xc8\<rparr>,
    \<lparr>nc_command = kDP_CommandNibble10 OR 0x0100, nc_data = 0x00\<rparr>,
    \<lparr>nc_command = kDP_SetMouseResolution OR 0x1000, nc_data = 0x00\<rparr>,
    \<lparr>nc_command = kDP_SetMouseResolution OR 0x1000, nc_data = 0x01\<rparr>,
    \<lparr>nc_command = kDP_SetMouseResolution OR 0x1000, nc_data = 0x02\<rparr>,
    \<lparr>nc_command = kDP_SetMouseResolution OR 0x1000, nc_data = 0x03\<rparr>,
    \<lparr>nc_command = kDP_SetMouseScaling1To1, nc_data = 0x00\<rparr>]"

definition alps_v4_nibble_commands :: "alps_nibble_commands list" where
  "alps_v4_nibble_commands = [
    \<lparr>nc_command = kDP_Enable, nc_data = 0x00\<rparr>,
    \<lparr>nc_command = kDP_SetDefaults, nc_data = 0x00\<rparr>,
    \<lparr>nc_command = kDP_SetMouseScaling2To1, nc_data = 0x00\<rparr>,
    \<lparr>nc_command = kDP_SetMouseSampleRate OR 0x1000, nc_data = 0x0a\<rparr>,
    \<lparr>nc_command = kDP_SetMouseSampleRate OR 0x1000, nc_data = 0x14\<rparr>,
    \<lparr>nc_command = kDP_SetMouseSampleRate OR 0x1000, nc_data = 0x28\<rparr>,
    \<lparr>nc_command = kDP_SetMouseSampleRate OR 0x1000, nc_data = 0x3c\<rparr>,
    \<lparr>nc_command = kDP_SetMouseSampleRate OR 0x1000, nc_data = 0x50\<rparr>,
    \<lparr>nc_command = kDP_SetMouseSampleRate OR 0x1000, nc_data = 0x64\<rparr>,
    \<lparr>nc_command = kDP_SetMouseSampleRate OR 0x1000, nc_data = 0xc8\<rparr>,
    \<lparr>nc_command = kDP_CommandNibble10 OR 0x0100, nc_data = 0x00\<rparr>,
    \<lparr>nc_command = kDP_SetMouseResolution OR 0x1000, nc_data = 0x00\<rparr>,
    \<lparr>nc_command = kDP_SetMouseResolution OR 0x1000, nc_data = 0x01\<rparr>,
    \<lparr>nc_command = kDP_SetMouseResolution OR 0x1000, nc_data = 0x02\<rparr>,
    \<lparr>nc_command = kDP_SetMouseResolution OR 0x1000, nc_data = 0x03\<rparr>,
    \<lparr>nc_command = kDP_SetMouseScaling1To1, nc_data = 0x00\<rparr>]"

definition alps_v6_nibble_commands :: "alps_nibble_commands list" where
  "alps_v6_nibble_commands = [
    \<lparr>nc_command = kDP_Enable, nc_data = 0x00\<rparr>,
    \<lparr>nc_command = kDP_SetMouseSampleRate, nc_data = 0x0a\<rparr>,
    \<lparr>nc_command = kDP_SetMouseSampleRate, nc_data = 0x14\<rparr>,
    \<lparr>nc_command = kDP_SetMouseSampleRate, nc_data = 0x28\<rparr>,
    \<lparr>nc_command = kDP_SetMouseSampleRate, nc_data = 0x3c\<rparr>,
    \<lparr>nc_command = kDP_SetMouseSampleRate, nc_data = 0x50\<rparr>,
    \<lparr>nc_command = kDP_SetMouseSampleRate, nc_data = 0x64\<rparr>,
    \<lparr>nc_command = kDP_SetMouseSampleRate, nc_data = 0xc8\<rparr>,
    \<lparr>nc_command = kDP_GetId, nc_data = 0x00\<rparr>,
    \<lparr>nc_command = kDP_GetMouseInformation, nc_data = 0x00\<rparr>,
    \<lparr>nc_command = kDP_SetMouseResolution, nc_data = 0x00\<rparr>,
    \<lparr>nc_command = kDP_SetMouseResolution, nc_data = 0x01\<rparr>,
    \<lparr>nc_command = kDP_SetMouseResolution, nc_data = 0x02\<rparr>,
    \<lparr>nc_command = kDP_SetMouseResolution, nc_data = 0x03\<rparr>,
    \<lparr>nc_command = kDP_SetMouseScaling2To1, nc_data = 0x00\<rparr>,
    \<lparr>nc_command = kDP_SetMouseScaling1To1, nc_data = 0x00\<rparr>]"

definition alps_model_data :: "alps_model_info list" where
  "alps_model_data = [
    \<lparr>mi_signature = [0x32, 0x02, 0x14], mi_command_mode_resp = 0x00, mi_proto = ALPS_PROTO_V2,
      mi_byte0 = 0xf8, mi_mask0 = 0xf8, mi_flags = ALPS_PASS OR ALPS_DUALPOINT\<rparr>,
    \<lparr>mi_signature = [0x33, 0x02, 0x0a], mi_command_mode_resp = 0x00, mi_proto = ALPS_PROTO_V1,
      mi_byte0 = 0x88, mi_mask0 = 0xf8, mi_flags = 0\<rparr>,
    \<lparr>mi_signature = [0x53, 0x02, 0x0a], mi_command_mode_resp = 0x00, mi_proto = ALPS_PROTO_V2,
      mi_byte0 = 0xf8, mi_mask0 = 0xf8, mi_flags = 0\<rparr>,
    \<lparr>mi_signature = [0x53, 0x02, 0x14], mi_command_mode_resp = 0x00, mi_proto = ALPS_PROTO_V2,
      mi_byte0 = 0xf8, mi_mask0 = 0xf8, mi_flags = 0\<rparr>,
    \<lparr>mi_signature = [0x60, 0x03, 0xc8], mi_command_mode_resp = 0x00, mi_proto = ALPS_PROTO_V2,
      mi_byte0 = 0xf8, mi_mask0 = 0xf8, mi_flags = 0\<rparr>,
    \<lparr>mi_signature = [0x63, 0x02, 0x0a], mi_command_mode_resp = 0x00, mi_proto = ALPS_PROTO_V2,
      mi_byte0 = 0xf8, mi_mask0 = 0xf8, mi_flags = 0\<rparr>,
    \<lparr>mi_signature = [0x63, 0x02, 0x14], mi_command_mode_resp = 0x00, mi_proto = ALPS_PROTO_V2,
      mi_byte0 = 0xf8, mi_mask0 = 0xf8, mi_flags = 0\<rparr>,
    \<lparr>mi_signature = [0x63, 0x02, 0x28], mi_command_mode_resp = 0x00, mi_proto = ALPS_PROTO_V2,
      mi_byte0 = 0xf8, mi_mask0 = 0xf8, mi_flags = ALPS_FW_BK_2\<rparr>,
    \<lparr>mi_signature = [0x63, 0x02, 0x3c], mi_command_mode_resp = 0x00, mi_proto = ALPS_PROTO_V2,
      mi_byte0 = 0x8f, mi_mask0 = 0x8f, mi_flags = ALPS_WHEEL\<rparr>,
    \<lparr>mi_signature = [0x63, 0x02, 0x50], mi_command_mode_resp = 0x00, mi_proto = ALPS_PROTO_V2,
      mi_byte0 = 0xef, mi_mask0 = 0xef, mi_flags = ALPS_FW_BK_1\<rparr>,
    \<lparr>mi_signature = [0x63, 0x02, 0x64], mi_command_mode_resp = 0x00, mi_proto = ALPS_PROTO_V2,
      mi_byte0 = 0xf8, mi_mask0 = 0xf8, mi_flags = 0\<rparr>,
    \<lparr>mi_signature = [0x63, 0x03, 0xc8], mi_command_mode_resp = 0x00, mi_proto = ALPS_PROTO_V2,
      mi_byte0 = 0xf8, mi_mask0 = 0xf8, mi_flags = ALPS_PASS OR ALPS_DUALPOINT\<rparr>,
    \<lparr>mi_signature = [0x73, 0x00, 0x0a], mi_command_mode_resp = 0x00, mi_proto = ALPS_PROTO_V2,
      mi_byte0 = 0xf8, mi_mask0 = 0xf8, mi_flags = ALPS_DUALPOINT\<rparr>,
    \<lparr>mi_signature = [0x73, 0x02, 0x0a], mi_command_mode_resp = 0x00, mi_proto = ALPS_PROTO_V2,
      mi_byte0 = 0xf8, mi_mask0 = 0xf8, mi_flags = 0\<rparr>,
    \<lparr>mi_signature = [0x73, 0x02, 0x14], mi_command_mode_resp = 0x00, mi_proto = ALPS_PROTO_V2,
      mi_byte0 = 0xf8, mi_mask0 = 0xf8, mi_flags = ALPS_FW_BK_2\<rparr>,
    \<lparr>mi_signature = [0x20, 0x02, 0x0e], mi_command_mode_resp = 0x00, mi_proto = ALPS_PROTO_V2,
      mi_byte0 = 0xf8, mi_mask0 = 0xf8, mi_flags = ALPS_PASS OR ALPS_DUALPOINT\<rparr>,
    \<lparr>mi_signature = [0x22, 0x02, 0x0a], mi_command_mode_resp = 0x00, mi_proto = ALPS_PROTO_V2,
      mi_byte0 = 0xf8, mi_mask0 = 0xf8, mi_flags = ALPS_PASS OR ALPS_DUALPOINT\<rparr>,
    \<lparr>mi_signature = [0x22, 0x02, 0x14], mi_command_mode_resp = 0x00, mi_proto = ALPS_PROTO_V2,
      mi_byte0 = 0xff, mi_mask0 = 0xff, mi_flags = ALPS_PASS OR ALPS_DUALPOINT\<rparr>,
    \<lparr>mi_signature = [0x62, 0x02, 0x14], mi_command_mode_resp = 0x00, mi_proto = ALPS_PROTO_V2,
      mi_byte0 = 0xcf, mi_mask0 = 0xcf, mi_flags = ALPS_PASS OR ALPS_DUALPOINT OR ALPS_PS2_INTERLEAVED\<rparr>,
    \<lparr>mi_signature = [0x73, 0x02, 0x50], mi_command_mode_resp = 0x00, mi_proto = ALPS_PROTO_V2,
      mi_byte0 = 0xcf, mi_mask0 = 0xcf, mi_flags = ALPS_FOUR_BUTTONS\<rparr>,
    \<lparr>mi_signature = [0x52, 0x01, 0x14], mi_command_mode_resp = 0x00, mi_proto = ALPS_PROTO_V2,
      mi_byte0 = 0xff, mi_mask0 = 0xff, mi_flags = ALPS_PASS OR ALPS_DUALPOINT OR ALPS_PS2_INTERLEAVED\<rparr>,
    \<lparr>mi_signature = [0x73, 0x02, 0x64], mi_command_mode_resp = 0x8a, mi_proto = ALPS_PROTO_V4,
      mi_byte0 = 0x8f, mi_mask0 = 0x8f, mi_flags = 0\<rparr>,
    \<lparr>mi_signature = [0x73, 0x03, 0x0a], mi_command_mode_resp = 0x1d, mi_proto = ALPS_PROTO_V3_RUSHMORE,
      mi_byte0 = 0x00, mi_mask0 = 0x00, mi_flags = 0\<rparr>]"

end
