(* ===== verification/AlpsDecode.thy ===== *)
theory AlpsDecode
  imports AlpsData
begin

text \<open>
  The packet decoders of \<open>alps.cpp\<close>: each turns the six bytes of a report into \<open>alps_fields\<close>.  A
  packet is a list of bytes, \<open>byte p i\<close> is \<open>p[i]\<close> after integer promotion; no operand of a
  decoder reaches bit 31, so the promoted \<open>int\<close> arithmetic is exact on 32-bit words.  The decoders
  return the value of the C function and the fields written.

  The round trips are stated against packet layouts (\<open>enc_...\<close>): the wire position of every bit of
  every field, which the decoder has to invert for all values of the field widths.
\<close>

section \<open>V3, Rushmore and Dolphin\<close>

definition alps_decode_buttons_v3 :: "alps_fields \<Rightarrow> u8 list \<Rightarrow> alps_fields" where
  "alps_decode_buttons_v3 fl p = fl\<lparr>
     f_left := bit_flag (isset (byte p 3) 0x01),
     f_right := bit_flag (isset (byte p 3) 0x02),
     f_middle := bit_flag (isset (byte p 3) 0x04),
     f_ts_left := bit_flag (isset (byte p 3) 0x10),
     f_ts_right := bit_flag (isset (byte p 3) 0x20),
     f_ts_middle := bit_flag (isset (byte p 3) 0x40)\<rparr>"

definition alps_decode_pinnacle :: "alps_fields \<Rightarrow> u8 list \<Rightarrow> bool \<times> alps_fields" where
  "alps_decode_pinnacle fl p =
     (let fl = fl\<lparr>f_first_mp := bit_flag (isset (byte p 4) 0x40),
                  f_is_mp := bit_flag (isset (byte p 0) 0x40)\<rparr>
      in (True,
        if f_is_mp fl \<noteq> 0 then
          fl\<lparr>f_fingers := (byte p 5 AND 0x3) + 1,
             f_x_map := push_bit 8 (byte p 4 AND 0x7e) OR push_bit 2 (byte p 1 AND 0x7f)
                        OR drop_bit 4 (byte p 0 AND 0x30),
             f_y_map := push_bit 4 (byte p 3 AND 0x70) OR push_bit 1 (byte p 2 AND 0x7f)
                        OR (byte p 4 AND 0x01)\<rparr>
        else
          alps_decode_buttons_v3
            (fl\<lparr>f_st := \<lparr>mt_x = push_bit 4 (byte p 1 AND 0x7f) OR drop_bit 2 (byte p 4 AND 0x30)
                                OR drop_bit 4 (byte p 0 AND 0x30),
                         mt_y = push_bit 4 (byte p 2 AND 0x7f) OR (byte p 4 AND 0x0f)\<rparr>,
                f_pressure := i32 (byte p 5 AND 0x7f)\<rparr>) p))"

definition alps_decode_rushmore :: "alps_fields \<Rightarrow> u8 list \<Rightarrow> bool \<times> alps_fields" where
  "alps_decode_rushmore fl p =
     (let fl = fl\<lparr>f_first_mp := bit_flag (isset (byte p 4) 0x40),
                  f_is_mp := bit_flag (isset (byte p 5) 0x40)\<rparr>
      in (True,
        if f_is_mp fl \<noteq> 0 then
          fl\<lparr>f_fingers := max (byte p 5 AND 0x3) (drop_bit 2 (byte p 5) AND 0x3) + 1,
             f_x_map := push_bit 11 (byte p 5 AND 0x10) OR push_bit 8 (byte p 4 AND 0x7e)
                        OR push_bit 2 (byte p 1 AND 0x7f) OR drop_bit 4 (byte p 0 AND 0x30),
             f_y_map := push_bit 6 (byte p 5 AND 0x20) OR push_bit 4 (byte p 3 AND 0x70)
                        OR push_bit 1 (byte p 2 AND 0x7f) OR (byte p 4 AND 0x01)\<rparr>
        else
          alps_decode_buttons_v3
            (fl\<lparr>f_st := \<lparr>mt_x = push_bit 4 (byte p 1 AND 0x7f) OR drop_bit 2 (byte p 4 AND 0x30)
                                OR drop_bit 4 (byte p 0 AND 0x30),
                         mt_y = push_bit 4 (byte p 2 AND 0x7f) OR (byte p 4 AND 0x0f)\<rparr>,
                f_pressure := i32 (byte p 5 AND 0x7f)\<rparr>) p))"

text \<open>
  The Dolphin profile: 35 bits of electrode data collected in a \<open>uint64_t\<close>; the lowest \<open>y_bits\<close> of
  them are the Y bitmap and the next \<open>x_bits\<close> the X bitmap.
\<close>

definition dolphin_palm_data :: "u8 list \<Rightarrow> u64" where
  "dolphin_palm_data p =
     (let b = (\<lambda>i. ucast (byte p i) :: u64)
      in (b 1 AND 0x7f) OR push_bit 7 (b 2 AND 0x7f) OR push_bit 14 (b 4 AND 0x7f)
         OR push_bit 21 (b 5 AND 0x7f) OR push_bit 28 (b 3 AND 0x07)
         OR push_bit 27 (b 3 AND 0x70) OR push_bit 34 (b 0 AND 0x01))"

definition BIT :: "int \<Rightarrow> int" where "BIT n = push_bit (nat n) 1"

definition alps_decode_dolphin :: "alps_data \<Rightarrow> alps_fields \<Rightarrow> u8 list \<Rightarrow> bool \<times> alps_fields" where
  "alps_decode_dolphin priv fl p =
     (let fl = fl\<lparr>f_first_mp := bit_flag (isset (byte p 0) 0x02),
                  f_is_mp := bit_flag (isset (byte p 0) 0x20)\<rparr>
      in (True,
        if f_is_mp fl = 0 then
          alps_decode_buttons_v3
            (fl\<lparr>f_st := \<lparr>mt_x = (byte p 1 AND 0x7f) OR push_bit 7 (byte p 4 AND 0x0f),
                         mt_y = (byte p 2 AND 0x7f) OR push_bit 3 (byte p 4 AND 0xf0)\<rparr>,
                f_pressure := (if isset (byte p 0) 4 then 0 else i32 (byte p 5 AND 0x7f))\<rparr>) p
        else
          (let palm_data = dolphin_palm_data p
           in fl\<lparr>f_fingers := drop_bit 1 (byte p 0 AND 0x6) OR drop_bit 2 (byte p 0 AND 0x10),
                 f_y_map := ucast (palm_data AND u64 (BIT (y_bits priv) - 1)),
                 f_x_map := ucast (drop_bit (nat (y_bits priv)) palm_data
                                   AND u64 (BIT (x_bits priv) - 1))\<rparr>)))"

section \<open>V7\<close>

definition alps_get_packet_id_v7 :: "u8 list \<Rightarrow> V7_PACKET_ID" where
  "alps_get_packet_id_v7 p =
     (if isset (byte p 4) 0x40 then V7_PACKET_ID_TWO
      else if isset (byte p 4) 0x01 then V7_PACKET_ID_MULTI
      else if isset (byte p 0) 0x10 \<and> \<not> isset (byte p 4) 0x43 then V7_PACKET_ID_NEW
      else if p ! 1 = 0x00 \<and> p ! 4 = 0x00 then V7_PACKET_ID_IDLE
      else V7_PACKET_ID_UNKNOWN)"

definition alps_get_finger_coordinate_v7 ::
    "input_mt_pos list \<Rightarrow> u8 list \<Rightarrow> V7_PACKET_ID \<Rightarrow> input_mt_pos list" where
  "alps_get_finger_coordinate_v7 m pkt pkt_id =
     (let x0 = push_bit 4 (byte pkt 2 AND 0x80) OR push_bit 5 (byte pkt 2 AND 0x3F)
               OR drop_bit 1 (byte pkt 3 AND 0x30) OR (byte pkt 3 AND 0x07);
          y0 = push_bit 3 (byte pkt 1) OR (byte pkt 0 AND 0x07);
          x1 = push_bit 4 (byte pkt 3 AND 0x80) OR push_bit 3 (byte pkt 4 AND 0x80)
               OR push_bit 4 (byte pkt 4 AND 0x3F);
          y1 = push_bit 3 (byte pkt 5 AND 0x80) OR push_bit 4 (byte pkt 5 AND 0x3F);
          (x1, y1) =
            (case pkt_id of
              V7_PACKET_ID_TWO \<Rightarrow>
                (let x1 = x1 AND NOT 0x000F; y1 = y1 OR 0x000F
                 in (if y1 = 0x7ff \<and> x1 = 0xff0 then 0 else x1, y1))
            | V7_PACKET_ID_MULTI \<Rightarrow>
                (x1 AND NOT 0x003F,
                 ((y1 AND NOT 0x0020) OR push_bit 4 (byte pkt 4 AND 0x02)) OR 0x001F)
            | V7_PACKET_ID_NEW \<Rightarrow>
                ((x1 AND NOT 0x003F) OR (byte pkt 0 AND 0x20), y1 OR 0x000F)
            | _ \<Rightarrow> (x1, y1))
      in m[0 := \<lparr>mt_x = x0, mt_y = 0x7FF - y0\<rparr>, 1 := \<lparr>mt_x = x1, mt_y = 0x7FF - y1\<rparr>])"

definition alps_get_mt_count :: "input_mt_pos list \<Rightarrow> nat" where
  "alps_get_mt_count m = length (filter (\<lambda>q. mt_x q \<noteq> 0 \<or> mt_y q \<noteq> 0) (take 4 m))"

definition alps_decode_packet_v7 :: "alps_data \<Rightarrow> alps_fields \<Rightarrow> u8 list \<Rightarrow> bool \<times> alps_fields" where
  "alps_decode_packet_v7 priv fl p =
     (let pkt_id = alps_get_packet_id_v7 p in
      if pkt_id = V7_PACKET_ID_IDLE then (True, fl)
      else if pkt_id = V7_PACKET_ID_UNKNOWN then (False, fl)
      else if pkt_id = V7_PACKET_ID_NEW then (True, fl)
      else
        (let fl = fl\<lparr>f_mt := alps_get_finger_coordinate_v7 (f_mt fl) p pkt_id\<rparr>;
             fl = (if pkt_id = V7_PACKET_ID_TWO
                   then fl\<lparr>f_fingers := of_nat (alps_get_mt_count (f_mt fl))\<rparr>
                   else fl\<lparr>f_fingers := 3 + (byte p 5 AND 0x03)\<rparr>);
             fl = fl\<lparr>f_left := bitfield (drop_bit 7 (byte p 0 AND 0x80))\<rparr>;
             fl = (if isset (flags priv) ALPS_BUTTONPAD
                   then fl\<lparr>f_fingers := f_fingers fl
                              + (if isset (byte p 0) 0x20 then 1 else 0)
                              + (if isset (byte p 0) 0x10 then 1 else 0)\<rparr>
                   else fl\<lparr>f_right := bitfield (drop_bit 5 (byte p 0 AND 0x20)),
                           f_middle := bitfield (drop_bit 4 (byte p 0 AND 0x10))\<rparr>);
             fl = (if f_fingers fl = 1 \<and> mt_x (f_mt fl ! 0) = 0 \<and> mt_y (f_mt fl ! 0) = 0
                   then fl\<lparr>f_mt := (f_mt fl)[0 := f_mt fl ! 1, 1 := no_pos]\<rparr>
                   else fl)
         in (True, fl)))"

section \<open>V8 (SS4)\<close>

definition SS4_1F_X_V2 :: "u8 list \<Rightarrow> u32" where
  "SS4_1F_X_V2 b = (byte b 0 AND 0x0007) OR (push_bit 3 (byte b 1) AND 0x0078)
     OR (push_bit 2 (byte b 1) AND 0x0380) OR (push_bit 5 (byte b 2) AND 0x1C00)"

definition SS4_1F_Y_V2 :: "u8 list \<Rightarrow> u32" where
  "SS4_1F_Y_V2 b = (byte b 2 AND 0x000F) OR (drop_bit 2 (byte b 3) AND 0x0030)
     OR (push_bit 6 (byte b 4) AND 0x03C0) OR (push_bit 5 (byte b 4) AND 0x0C00)"

definition SS4_1F_Z_V2 :: "u8 list \<Rightarrow> u32" where
  "SS4_1F_Z_V2 b = (byte b 5 AND 0x0F) OR (drop_bit 1 (byte b 5) AND 0x70) OR (byte b 4 AND 0x80)"

definition SS4_BTN_V2 :: "u8 list \<Rightarrow> u32" where
  "SS4_BTN_V2 b = drop_bit 5 (byte b 0) AND 0x07"

definition SS4_STD_MF_X_V2 :: "u8 list \<Rightarrow> nat \<Rightarrow> u32" where
  "SS4_STD_MF_X_V2 b i = (push_bit 5 (byte b (0 + i * 3)) AND 0x00E0)
     OR (push_bit 5 (byte b (1 + i * 3)) AND 0x1F00)"

definition SS4_STD_MF_Y_V2 :: "u8 list \<Rightarrow> nat \<Rightarrow> u32" where
  "SS4_STD_MF_Y_V2 b i = (push_bit 3 (byte b (1 + i * 3)) AND 0x0010)
     OR (push_bit 5 (byte b (2 + i * 3)) AND 0x01E0) OR (push_bit 4 (byte b (2 + i * 3)) AND 0x0E00)"

definition SS4_BTL_MF_X_V2 :: "u8 list \<Rightarrow> nat \<Rightarrow> u32" where
  "SS4_BTL_MF_X_V2 b i = SS4_STD_MF_X_V2 b i OR (drop_bit 3 (byte b (0 + i * 3)) AND 0x0010)"

definition SS4_BTL_MF_Y_V2 :: "u8 list \<Rightarrow> nat \<Rightarrow> u32" where
  "SS4_BTL_MF_Y_V2 b i = SS4_STD_MF_Y_V2 b i OR (drop_bit 3 (byte b (0 + i * 3)) AND 0x0008)"

definition SS4_MF_Z_V2 :: "u8 list \<Rightarrow> nat \<Rightarrow> u32" where
  "SS4_MF_Z_V2 b i = (byte b (1 + i * 3) AND 0x0001) OR (drop_bit 1 (byte b (1 + i * 3)) AND 0x0002)"

definition SS4_IS_MF_CONTINUE :: "u8 list \<Rightarrow> bool" where
  "SS4_IS_MF_CONTINUE b \<longleftrightarrow> byte b 2 AND 0x10 = 0x10"

definition SS4_IS_5F_DETECTED :: "u8 list \<Rightarrow> bool" where
  "SS4_IS_5F_DETECTED b \<longleftrightarrow> byte b 2 AND 0x10 = 0x10"

abbreviation (input) SS4_MFPACKET_NO_AX :: u32 where "SS4_MFPACKET_NO_AX \<equiv> 8160"
abbreviation (input) SS4_MFPACKET_NO_AY :: u32 where "SS4_MFPACKET_NO_AY \<equiv> 4080"
abbreviation (input) SS4_MFPACKET_NO_AX_BL :: u32 where "SS4_MFPACKET_NO_AX_BL \<equiv> 8176"
abbreviation (input) SS4_MFPACKET_NO_AY_BL :: u32 where "SS4_MFPACKET_NO_AY_BL \<equiv> 4088"

definition alps_get_pkt_id_ss4_v2 :: "u8 list \<Rightarrow> SS4_PACKET_ID" where
  "alps_get_pkt_id_ss4_v2 p =
     (let k = byte p 3 AND 0x30 in
      if k = 0x00 then
        (if p ! 0 = 0x18 \<and> p ! 1 = 0x10 \<and> p ! 2 = 0x00 \<and> byte p 3 AND 0x88 = 0x08
            \<and> p ! 4 = 0x10 \<and> p ! 5 = 0x00
         then SS4_PACKET_ID_IDLE else SS4_PACKET_ID_ONE)
      else if k = 0x10 then SS4_PACKET_ID_TWO
      else if k = 0x20 then SS4_PACKET_ID_STICK
      else if k = 0x30 then SS4_PACKET_ID_MULTI
      else SS4_PACKET_ID_IDLE)"

definition ss4_mf_pos :: "bool \<Rightarrow> u8 list \<Rightarrow> nat \<Rightarrow> input_mt_pos" where
  "ss4_mf_pos buttonpad p i =
     (if buttonpad then \<lparr>mt_x = SS4_BTL_MF_X_V2 p i, mt_y = SS4_BTL_MF_Y_V2 p i\<rparr>
      else \<lparr>mt_x = SS4_STD_MF_X_V2 p i, mt_y = SS4_STD_MF_Y_V2 p i\<rparr>)"

definition alps_decode_ss4_v2 :: "alps_data \<Rightarrow> alps_fields \<Rightarrow> u8 list \<Rightarrow> bool \<times> alps_fields" where
  "alps_decode_ss4_v2 priv fl p =
     (let pkt_id = alps_get_pkt_id_ss4_v2 p;
          bp = isset (flags priv) ALPS_BUTTONPAD;
          fl = (case pkt_id of
            SS4_PACKET_ID_ONE \<Rightarrow>
              (let z = i32 ((SS4_1F_Z_V2 p * 2) AND 0x7f)
               in fl\<lparr>f_mt := (f_mt fl)[0 := \<lparr>mt_x = SS4_1F_X_V2 p, mt_y = SS4_1F_Y_V2 p\<rparr>],
                     f_pressure := z, f_fingers := (if z > 0 then 1 else 0),
                     f_first_mp := 0, f_is_mp := 0\<rparr>)
          | SS4_PACKET_ID_TWO \<Rightarrow>
              (let fl = fl\<lparr>f_mt := (f_mt fl)[0 := ss4_mf_pos bp p 0, 1 := ss4_mf_pos bp p 1],
                           f_pressure := (if SS4_MF_Z_V2 p 0 \<noteq> 0 then 0x30 else 0)\<rparr>;
                   fl = (if SS4_IS_MF_CONTINUE p then fl\<lparr>f_first_mp := 1\<rparr>
                         else fl\<lparr>f_fingers := 2, f_first_mp := 0\<rparr>)
               in fl\<lparr>f_is_mp := 0\<rparr>)
          | SS4_PACKET_ID_MULTI \<Rightarrow>
              (let fl = fl\<lparr>f_mt := (f_mt fl)[2 := ss4_mf_pos bp p 0, 3 := ss4_mf_pos bp p 1]\<rparr>;
                   no_data_x = (if bp then SS4_MFPACKET_NO_AX_BL else SS4_MFPACKET_NO_AX);
                   no_data_y = (if bp then SS4_MFPACKET_NO_AY_BL else SS4_MFPACKET_NO_AY);
                   fl = fl\<lparr>f_first_mp := 0, f_is_mp := 1\<rparr>
               in if SS4_IS_5F_DETECTED p then fl\<lparr>f_fingers := 5\<rparr>
                  else if mt_x (f_mt fl ! 3) = no_data_x \<and> mt_y (f_mt fl ! 3) = no_data_y
                  then fl\<lparr>f_mt := (f_mt fl)[3 := no_pos], f_fingers := 3\<rparr>
                  else fl\<lparr>f_fingers := 4\<rparr>)
          | SS4_PACKET_ID_STICK \<Rightarrow> fl\<lparr>f_first_mp := 0, f_is_mp := 0\<rparr>
          | SS4_PACKET_ID_IDLE \<Rightarrow> zero_fields);
          btn = SS4_BTN_V2 p;
          fl = (if pkt_id = SS4_PACKET_ID_STICK
                then (let fl = fl\<lparr>f_ts_left := bit_flag (isset btn 0x01)\<rparr>
                      in if \<not> bp then fl\<lparr>f_ts_right := bit_flag (isset btn 0x02),
                                         f_ts_middle := bit_flag (isset btn 0x04)\<rparr> else fl)
                else (let fl = fl\<lparr>f_left := bit_flag (isset btn 0x01)\<rparr>
                      in if \<not> bp then fl\<lparr>f_right := bit_flag (isset btn 0x02),
                                         f_middle := bit_flag (isset btn 0x04)\<rparr> else fl))
      in (True, fl))"

text \<open>The call through the member pointer \<open>decode_fields\<close>.\<close>

definition decode_fields :: "decode_fn \<Rightarrow> alps_data \<Rightarrow> alps_fields \<Rightarrow> u8 list \<Rightarrow> bool \<times> alps_fields" where
  "decode_fields d priv fl p =
     (case d of
        DecodePinnacle \<Rightarrow> alps_decode_pinnacle fl p
      | DecodeRushmore \<Rightarrow> alps_decode_rushmore fl p
      | DecodeDolphin \<Rightarrow> alps_decode_dolphin priv fl p
      | DecodeV7 \<Rightarrow> alps_decode_packet_v7 priv fl p
      | DecodeSs4V2 \<Rightarrow> alps_decode_ss4_v2 priv fl p)"

section \<open>Field widths\<close>

definition pos_ok :: "input_mt_pos \<Rightarrow> bool" where
  "pos_ok q \<longleftrightarrow> fits 13 (mt_x q) \<and> fits 12 (mt_y q)"

definition fields_ok :: "alps_fields \<Rightarrow> bool" where
  "fields_ok fl \<longleftrightarrow> length (f_mt fl) = 4 \<and> list_all pos_ok (f_mt fl)
     \<and> fits 11 (mt_x (f_st fl)) \<and> fits 11 (mt_y (f_st fl))
     \<and> 0 \<le> f_pressure fl \<and> f_pressure fl \<le> 127 \<and> f_fingers fl \<le> 8"

lemma fits_mirror: "fits 11 w \<Longrightarrow> fits 11 (0x7FF - w :: u32)"
  by (simp add: fits_def uint_sub_if', rule less_le_trans [of _ 0]) simp_all

lemma fits_mirror_12: "fits 11 w \<Longrightarrow> fits 12 (0x7FF - w :: u32)"
  using fits_mono [OF fits_mirror, of w 12] by simp

lemma pressure_7: "0 \<le> i32 (w AND 0x7f)" "i32 (w AND 0x7f) \<le> 127"
proof -
  have "fits 7 (w AND 0x7f)" by (simp add: fits)
  then have "i32 (w AND 0x7f) = uint (w AND 0x7f)" "uint (w AND 0x7f) < 2 ^ 7"
    by (auto intro!: fits_sint_eq dest: fits_uint)
  then show "0 \<le> i32 (w AND 0x7f)" "i32 (w AND 0x7f) \<le> 127" by simp_all
qed

lemma and3_le: "(w::u32) AND 3 \<le> 3"
  by (rule word_and_le1)

lemma list_all_update: "list_all P xs \<Longrightarrow> P v \<Longrightarrow> list_all P (xs[i := v])"
  by (induction xs arbitrary: i) (auto split: nat.splits)

lemma fields_ok_buttons: "fields_ok (alps_decode_buttons_v3 fl p) = fields_ok fl"
  by (simp add: fields_ok_def alps_decode_buttons_v3_def)

lemma plus1_le: "(w::u32) \<le> 3 \<Longrightarrow> w + 1 \<le> 8"
  by (simp add: word_le_def uint_word_ariths)

lemma fields_ok_pinnacle: "fields_ok fl \<Longrightarrow> fields_ok (snd (alps_decode_pinnacle fl p))"
  using plus1_le [OF and3_le, of "byte p 5"] pressure_7 [of "byte p 5"]
  by (simp add: alps_decode_pinnacle_def Let_def fields_ok_buttons)
    (simp add: fields_ok_def fits fits_byte)

lemma fields_ok_rushmore: "fields_ok fl \<Longrightarrow> fields_ok (snd (alps_decode_rushmore fl p))"
  using plus1_le [of "max (byte p 5 AND 3) (drop_bit 2 (byte p 5) AND 3)"] and3_le pressure_7 [of "byte p 5"]
  by (simp add: alps_decode_rushmore_def Let_def fields_ok_buttons)
    (simp add: fields_ok_def fits fits_byte)

lemma fits_le: "fits n (w::u32) \<Longrightarrow> 2 ^ n \<le> uint m + 1 \<Longrightarrow> w \<le> m"
  by (simp add: fits_def word_le_def)

lemma fields_ok_dolphin: "fields_ok fl \<Longrightarrow> fields_ok (snd (alps_decode_dolphin priv fl p))"
proof -
  have "fits 3 (drop_bit 1 (byte p 0 AND 0x6) OR drop_bit 2 (byte p 0 AND 0x10))"
    by (simp add: fits)
  then have "drop_bit 1 (byte p 0 AND 0x6) OR drop_bit 2 (byte p 0 AND 0x10) \<le> 8"
    by (rule fits_le) simp
  then show "fields_ok fl \<Longrightarrow> fields_ok (snd (alps_decode_dolphin priv fl p))"
    using pressure_7 [of "byte p 5"]
    by (simp add: alps_decode_dolphin_def Let_def fields_ok_buttons)
      (simp add: fields_ok_def fits fits_byte)
qed

lemma coordinate_v7_ok:
  assumes "length m = 4" and "list_all pos_ok m"
  shows "length (alps_get_finger_coordinate_v7 m p k) = 4"
    and "list_all pos_ok (alps_get_finger_coordinate_v7 m p k)"
  using assms fits_byte
  by (auto simp: alps_get_finger_coordinate_v7_def Let_def split_beta pos_ok_def fits fits_byte fits_mirror_12
      intro!: list_all_update split: V7_PACKET_ID.split)

lemma mt_count_le: "alps_get_mt_count m \<le> 4"
  unfolding alps_get_mt_count_def
  by (rule order_trans [OF length_filter_le]) simp

lemma of_nat_mt_count_le: "(of_nat (alps_get_mt_count m) :: u32) \<le> 4"
  using mt_count_le [of m] by (simp add: word_le_nat_alt unat_of_nat)

lemma le_8_add: "(w::u32) \<le> 6 \<Longrightarrow> w \<le> 8 \<and> w + 1 \<le> 8 \<and> 2 + w \<le> 8"
  by (simp add: word_le_def uint_word_ariths)

lemma multi_count_le: "3 + (w AND 3) \<le> (8::u32) \<and> 4 + (w AND 3) \<le> 8 \<and> 5 + (w AND 3) \<le> 8"
  using and3_le [of w] by (simp add: word_le_def uint_word_ariths)

lemma pos_ok_no_pos: "pos_ok no_pos"
  by (simp add: pos_ok_def no_pos_def)

lemma pos_ok_nth: "list_all pos_ok m \<Longrightarrow> i < length m \<Longrightarrow> pos_ok (m ! i)"
  by (simp add: list_all_length)

lemma fields_ok_v7:
  assumes ok: "fields_ok fl"
  shows "fields_ok (snd (alps_decode_packet_v7 priv fl p))"
proof -
  define m where "m = alps_get_finger_coordinate_v7 (f_mt fl) p (alps_get_packet_id_v7 p)"
  have m: "length m = 4" "list_all pos_ok m"
    using ok coordinate_v7_ok by (auto simp: fields_ok_def m_def)
  have swap: "list_all pos_ok (m[0 := m ! Suc 0, Suc 0 := no_pos])"
    using m pos_ok_nth [of m 1] by (auto simp: pos_ok_no_pos intro!: list_all_update)
  have "(of_nat (alps_get_mt_count m) :: u32) \<le> 6"
    by (rule order_trans [OF of_nat_mt_count_le]) simp
  note n = le_8_add [OF this] multi_count_le [of "byte p 5"]
  show ?thesis
    using ok m swap n m_def [symmetric]
    by (cases "alps_get_packet_id_v7 p")
      (simp_all add: alps_decode_packet_v7_def Let_def fields_ok_def m_def [symmetric])
qed

lemma ss4_mf_pos_ok: "pos_ok (ss4_mf_pos bp p i)"
  by (simp add: ss4_mf_pos_def pos_ok_def SS4_BTL_MF_X_V2_def SS4_BTL_MF_Y_V2_def SS4_STD_MF_X_V2_def
      SS4_STD_MF_Y_V2_def fits)

lemma ss4_1f_pos_ok: "pos_ok \<lparr>mt_x = SS4_1F_X_V2 p, mt_y = SS4_1F_Y_V2 p\<rparr>"
  by (simp add: pos_ok_def SS4_1F_X_V2_def SS4_1F_Y_V2_def fits)

lemma fields_ok_zero: "fields_ok zero_fields"
  by (simp add: fields_ok_def zero_fields_def pos_ok_no_pos) (simp add: no_pos_def)

lemma fields_ok_ss4:
  assumes ok: "fields_ok fl"
  shows "fields_ok (snd (alps_decode_ss4_v2 priv fl p))"
  using ok fields_ok_zero pressure_7 [of "SS4_1F_Z_V2 p * 2"]
  by (cases "alps_get_pkt_id_ss4_v2 p")
    (auto simp: alps_decode_ss4_v2_def Let_def fields_ok_def pos_ok_no_pos ss4_mf_pos_ok ss4_1f_pos_ok
      intro!: list_all_update)

text \<open>
  C22. No packet, however corrupt, makes a decoder produce a value outside the hardware's ranges: the four
  touch slots stay four, coordinates stay below 2^13 and 2^12 (2^11 for a single touch), the pressure
  within 0..127 and the finger count at most 8.
\<close>

theorem decode_fields_bounds:
  assumes "fields_ok fl"
  shows "fields_ok (snd (decode_fields d priv fl p))"
  using assms fields_ok_pinnacle fields_ok_rushmore fields_ok_dolphin fields_ok_v7 fields_ok_ss4
  by (cases d) (simp_all add: decode_fields_def)

lemma decode_fields_bounds_witness:
  "fields_ok (snd (decode_fields DecodeV7 zero_data zero_fields [0xFF, 0xFF, 0xFF, 0xFF, 0xFF, 0xFF]))"
  by (rule decode_fields_bounds [OF fields_ok_zero])

section \<open>Wire layouts and round trips\<close>

text \<open>The button byte shared by V3, Rushmore and Dolphin, and the fields it stands for.\<close>

definition button_byte :: "bool \<Rightarrow> bool \<Rightarrow> bool \<Rightarrow> bool \<Rightarrow> bool \<Rightarrow> bool \<Rightarrow> u8" where
  "button_byte l r m tsl tsr tsm = (if l then 0x01 else 0) OR (if r then 0x02 else 0)
     OR (if m then 0x04 else 0) OR (if tsl then 0x10 else 0) OR (if tsr then 0x20 else 0)
     OR (if tsm then 0x40 else 0)"

definition set_buttons ::
    "alps_fields \<Rightarrow> bool \<Rightarrow> bool \<Rightarrow> bool \<Rightarrow> bool \<Rightarrow> bool \<Rightarrow> bool \<Rightarrow> alps_fields" where
  "set_buttons fl l r m tsl tsr tsm = fl\<lparr>f_left := bit_flag l, f_right := bit_flag r,
     f_middle := bit_flag m, f_ts_left := bit_flag tsl, f_ts_right := bit_flag tsr,
     f_ts_middle := bit_flag tsm\<rparr>"

lemma decode_button_byte:
  "p ! 3 = button_byte l r m tsl tsr tsm \<Longrightarrow>
     alps_decode_buttons_v3 fl p = set_buttons fl l r m tsl tsr tsm"
  by (cases l; cases r; cases m; cases tsl; cases tsr; cases tsm)
    (simp_all add: alps_decode_buttons_v3_def set_buttons_def bit_flag_def byte_def button_byte_def)

definition wire :: "u32 \<Rightarrow> u8" where "wire w = ucast w"

text \<open>A position report: 11-bit X and Y, pressure; the same layout for V3 and Rushmore.\<close>

definition enc_v3_position :: "u32 \<Rightarrow> u32 \<Rightarrow> u32 \<Rightarrow> u8 \<Rightarrow> u8 list" where
  "enc_v3_position px py z b =
     [wire (push_bit 4 (px AND 3)), wire (drop_bit 4 px), wire (drop_bit 4 py), b,
      wire (push_bit 2 (px AND 0xC) OR (py AND 0xF)), wire z]"

text \<open>A bitmap report: 15 X and 11 Y electrodes on V3, one more of each on Rushmore.\<close>

definition enc_v3_bitmap :: "u32 \<Rightarrow> u32 \<Rightarrow> u32 \<Rightarrow> u8 list" where
  "enc_v3_bitmap xm ym n =
     [wire (push_bit 4 (xm AND 3) OR 0x40), wire (drop_bit 2 xm), wire (drop_bit 1 ym AND 0x7f),
      wire (drop_bit 4 ym AND 0x70), wire ((drop_bit 8 xm AND 0x7e) OR (ym AND 1)), wire (n - 1)]"

definition enc_rushmore_bitmap :: "u32 \<Rightarrow> u32 \<Rightarrow> u32 \<Rightarrow> u8 list" where
  "enc_rushmore_bitmap xm ym n =
     [wire (push_bit 4 (xm AND 3)), wire (drop_bit 2 xm), wire (drop_bit 1 ym AND 0x7f),
      wire (drop_bit 4 ym AND 0x70), wire ((drop_bit 8 xm AND 0x7e) OR (ym AND 1)),
      wire ((n - 1) OR 0x40 OR (drop_bit 11 xm AND 0x10) OR (drop_bit 6 ym AND 0x20))]"

lemma one_bit_flags [simp]: "bit_flag b \<noteq> 0 \<longleftrightarrow> b" "bit_flag b = 0 \<longleftrightarrow> \<not> b"
  by (simp_all add: bit_flag_def)

lemma finger_cases: 
  fixes n :: u32 assumes "1 \<le> n" "n \<le> 4" obtains "n = 1" | "n = 2" | "n = 3" | "n = 4"
proof -
  have "unat n = 1 \<or> unat n = 2 \<or> unat n = 3 \<or> unat n = 4" using assms by (auto simp: word_le_nat_alt)
  then show ?thesis using that by (auto simp: word_unat_eq_iff)
qed

lemma v3_words:
  assumes "fits 11 px" "fits 11 py" "p = enc_v3_position px py z b"
  shows "push_bit 4 (byte p 1 AND 0x7f) OR drop_bit 2 (byte p 4 AND 0x30) OR drop_bit 4 (byte p 0 AND 0x30) = px"
    and "push_bit 4 (byte p 2 AND 0x7f) OR (byte p 4 AND 0x0f) = py"
    and "fits 7 z \<Longrightarrow> byte p 5 AND 0x7f = z"
    and "byte p 4 AND 0x40 = 0" "byte p 0 AND 0x40 = 0"
    and "fits 6 z \<Longrightarrow> byte p 5 AND 0x40 = 0"
  unfolding assms(3) using assms(1,2) by (simp_all add: byte_def wire_def enc_v3_position_def bitblast)

lemma bitmap_words:
  assumes "fits 15 xm" "fits 11 ym" "p = enc_v3_bitmap xm ym n"
  shows "push_bit 8 (byte p 4 AND 0x7e) OR push_bit 2 (byte p 1 AND 0x7f) OR drop_bit 4 (byte p 0 AND 0x30) = xm"
    and "push_bit 4 (byte p 3 AND 0x70) OR push_bit 1 (byte p 2 AND 0x7f) OR (byte p 4 AND 0x01) = ym"
    and "byte p 0 AND 0x40 = 0x40" "byte p 4 AND 0x40 = (drop_bit 8 xm AND 0x40)"
  unfolding assms(3) using assms(1,2) by (simp_all add: byte_def wire_def enc_v3_bitmap_def bitblast)

lemma rushmore_bitmap_words:
  assumes "fits 16 xm" "fits 12 ym" "p = enc_rushmore_bitmap xm ym n" "fits 2 (n - 1)"
  shows "push_bit 11 (byte p 5 AND 0x10) OR push_bit 8 (byte p 4 AND 0x7e) OR push_bit 2 (byte p 1 AND 0x7f)
        OR drop_bit 4 (byte p 0 AND 0x30) = xm"
    and "push_bit 6 (byte p 5 AND 0x20) OR push_bit 4 (byte p 3 AND 0x70) OR push_bit 1 (byte p 2 AND 0x7f)
        OR (byte p 4 AND 0x01) = ym"
    and "byte p 5 AND 0x40 = 0x40" "byte p 4 AND 0x40 = (drop_bit 8 xm AND 0x40)"
    and "byte p 5 AND 3 = n - 1" "drop_bit 2 (byte p 5) AND 3 = 0"
  unfolding assms(3) using assms(1,2,4) by (simp_all add: byte_def wire_def enc_rushmore_bitmap_def bitblast)


lemma finger_minus: "1 \<le> n \<Longrightarrow> n \<le> 4 \<Longrightarrow> fits 2 (n - 1 :: u32)"
  by (erule finger_cases) (simp_all add: fits)

lemma bitmap_fingers:
  assumes "1 \<le> n" "n \<le> 4"
  shows "byte (enc_v3_bitmap xm ym n) 5 AND 3 = n - 1"
  using finger_minus [OF assms] by (simp add: byte_def wire_def enc_v3_bitmap_def bitblast)

lemma button_byte_at: "enc_v3_position px py z b ! 3 = b"
  by (simp add: enc_v3_position_def)



subsection \<open>Dolphin\<close>

definition enc_dolphin_position :: "u32 \<Rightarrow> u32 \<Rightarrow> u32 \<Rightarrow> u8 \<Rightarrow> u8 list" where
  "enc_dolphin_position px py z b =
     [0, wire (px AND 0x7f), wire (py AND 0x7f), b,
      wire (drop_bit 7 px OR (drop_bit 3 py AND 0xf0)), wire z]"

text \<open>The 35 profile bits: Y electrodes first, X electrodes above them.\<close>

definition dolphin_profile :: "nat \<Rightarrow> u32 \<Rightarrow> u32 \<Rightarrow> u64" where
  "dolphin_profile yb xm ym = ucast ym OR push_bit yb (ucast xm)"

definition enc_dolphin_profile :: "u64 \<Rightarrow> u32 \<Rightarrow> u8 list" where
  "enc_dolphin_profile d n =
     [ucast (drop_bit 34 d AND 1) OR 0x20 OR wire (push_bit 1 (n AND 3) OR push_bit 2 (n AND 4)),
      ucast (d AND 0x7f), ucast (drop_bit 7 d AND 0x7f),
      ucast ((drop_bit 28 d AND 0x07) OR (drop_bit 27 d AND 0x70)),
      ucast (drop_bit 14 d AND 0x7f), ucast (drop_bit 21 d AND 0x7f)]"

lemma palm_data_enc: "fits 35 d \<Longrightarrow> dolphin_palm_data (enc_dolphin_profile d n) = d"
  by (simp add: dolphin_palm_data_def byte_def enc_dolphin_profile_def wire_def u64_eq_bits bitblast)

lemma dolphin_profile_flags:
  assumes "fits 3 n" "p = enc_dolphin_profile d n"
  shows "byte p 0 AND 0x20 = 0x20" "byte p 0 AND 0x02 = push_bit 1 (n AND 1)"
    "drop_bit 1 (byte p 0 AND 0x6) OR drop_bit 2 (byte p 0 AND 0x10) = n"
  unfolding assms(2) using assms(1) by (simp_all add: byte_def enc_dolphin_profile_def wire_def bitblast)

lemma dolphin_words:
  assumes "fits 11 px" "fits 11 py" "fits 7 z" "p = enc_dolphin_position px py z b"
  shows "(byte p 1 AND 0x7f) OR push_bit 7 (byte p 4 AND 0x0f) = px"
    "(byte p 2 AND 0x7f) OR push_bit 3 (byte p 4 AND 0xf0) = py"
    "byte p 5 AND 0x7f = z" "byte p 0 = 0" "p ! 3 = b"
  unfolding assms(4) using assms(1-3) by (simp_all add: byte_def enc_dolphin_position_def wire_def bitblast)

lemma BIT_mask: "0 \<le> n \<Longrightarrow> u64 (BIT n - 1) = mask (nat n)"
  by (simp add: BIT_def mask_eq_exp_minus_1 push_bit_eq_mult)

lemma and_BIT_mask: "0 \<le> n \<Longrightarrow> (w::u64) AND u64 (BIT n - 1) = take_bit (nat n) w"
  by (simp only: BIT_mask take_bit_eq_mask)

lemma profile_split:
  assumes "fits yb ym" "fits xb xm" "xb + yb \<le> 35" "xb \<le> 32" "yb \<le> 32"
  shows "fits 35 (dolphin_profile yb xm ym)"
    and "ucast (take_bit yb (dolphin_profile yb xm ym)) = ym"
    and "ucast (take_bit xb (drop_bit yb (dolphin_profile yb xm ym))) = xm"
  using assms
  by (auto simp: dolphin_profile_def fits_iff_bits bit_simps not_less intro!: bit_word_eqI)
     (meson not_le)


text \<open>
  Dolphin (V5) reports are decoded losslessly: positions, pressure and buttons from a position
  report; from a profile report, for every split of the 35 profile bits into \<open>y_bits\<close> and \<open>x_bits\<close>
  electrodes, both bitmaps and the finger count.
\<close>

theorem decode_dolphin_roundtrip:
  assumes "fits 11 px" "fits 11 py" "fits 7 z" and b: "b = button_byte l r m tsl tsr tsm"
    and "fits (nat (y_bits priv)) ym" "fits (nat (x_bits priv)) xm" "fits 3 n"
    and "0 \<le> x_bits priv" "0 \<le> y_bits priv" "x_bits priv \<le> 30" "y_bits priv \<le> 30"
    and "x_bits priv + y_bits priv \<le> 35"
  shows "alps_decode_dolphin priv fl (enc_dolphin_position px py z b) =
      (True, set_buttons (fl\<lparr>f_first_mp := 0, f_is_mp := 0, f_st := \<lparr>mt_x = px, mt_y = py\<rparr>,
         f_pressure := i32 z\<rparr>) l r m tsl tsr tsm)
    \<and> alps_decode_dolphin priv fl (enc_dolphin_profile (dolphin_profile (nat (y_bits priv)) xm ym) n) =
      (True, fl\<lparr>f_first_mp := bit_flag (bit n 0), f_is_mp := 1, f_fingers := n, f_x_map := xm, f_y_map := ym\<rparr>)"
proof
  show "alps_decode_dolphin priv fl (enc_dolphin_position px py z b) =
      (True, set_buttons (fl\<lparr>f_first_mp := 0, f_is_mp := 0, f_st := \<lparr>mt_x = px, mt_y = py\<rparr>,
         f_pressure := i32 z\<rparr>) l r m tsl tsr tsm)"
    using dolphin_words [OF assms(1-3) refl] decode_button_byte [OF trans [OF dolphin_words(5) [OF assms(1-3) refl] b]]
    by (simp add: alps_decode_dolphin_def bit_flag_def)
  have prof: "fits 35 (dolphin_profile (nat (y_bits priv)) xm ym)"
    "ucast (take_bit (nat (y_bits priv)) (dolphin_profile (nat (y_bits priv)) xm ym)) = ym"
    "ucast (take_bit (nat (x_bits priv)) (drop_bit (nat (y_bits priv)) (dolphin_profile (nat (y_bits priv)) xm ym))) = xm"
    using profile_split [OF assms(5,6)] assms(8-12) by auto
  have "push_bit 1 (n AND 1) \<noteq> 0 \<longleftrightarrow> bit n 0"
    by (simp add: bitblast)
  then show "alps_decode_dolphin priv fl (enc_dolphin_profile (dolphin_profile (nat (y_bits priv)) xm ym) n) =
      (True, fl\<lparr>f_first_mp := bit_flag (bit n 0), f_is_mp := 1, f_fingers := n, f_x_map := xm, f_y_map := ym\<rparr>)"
    using dolphin_profile_flags [OF assms(7) refl] prof palm_data_enc [OF prof(1)]
    by (simp add: alps_decode_dolphin_def Let_def and_BIT_mask assms(8,9) bit_flag_def del: of_int_diff)
qed

lemma decode_dolphin_roundtrip_witness:
  "snd (alps_decode_dolphin (zero_data\<lparr>x_bits := 20, y_bits := 15\<rparr>) zero_fields
     (enc_dolphin_profile (dolphin_profile 15 0x60 0x180) 1))
   = zero_fields\<lparr>f_first_mp := 1, f_is_mp := 1, f_fingers := 1, f_x_map := 0x60, f_y_map := 0x180\<rparr>"
  using decode_dolphin_roundtrip [where px = 0 and py = 0 and z = 0 and b = 0 and l = False and r = False
      and m = False and tsl = False and tsr = False and tsm = False and fl = zero_fields
      and priv = "zero_data\<lparr>x_bits := 20, y_bits := 15\<rparr>" and xm = "0x60" and ym = "0x180" and n = 1]
  by (simp add: fits button_byte_def bit_flag_def)

subsection \<open>V7\<close>

text \<open>
  A report of one or two touches without the clickpad flag.  The first touch has full resolution
  (Y counts from the other edge); the wire carries the upper bits of the second touch only, so its
  coordinates are multiples of 16.
\<close>

definition enc_v7_two :: "u32 \<Rightarrow> u32 \<Rightarrow> u32 \<Rightarrow> u32 \<Rightarrow> bool \<Rightarrow> bool \<Rightarrow> bool \<Rightarrow> u8 list" where
  "enc_v7_two ax ay bx yb l r m =
     (let ay = NOT ay AND 0x7FF; yb = NOT yb AND 0x7FF in
     [wire ((ay AND 7) OR when_set l 0x80 OR when_set r 0x20 OR when_set m 0x10),
      wire (drop_bit 3 ay),
      wire ((drop_bit 4 ax AND 0x80) OR (drop_bit 5 ax AND 0x3F)),
      wire ((drop_bit 4 bx AND 0x80) OR (push_bit 1 ax AND 0x30) OR (ax AND 7)),
      wire (0x40 OR (drop_bit 3 bx AND 0x80) OR (drop_bit 4 bx AND 0x3F)),
      wire ((drop_bit 3 yb AND 0x80) OR (drop_bit 4 yb AND 0x3F))])"

lemma v7_words:
  assumes "fits 12 ax" "fits 11 ay" "fits 12 bx" "fits 11 yb" "bx AND 0xF = 0" "yb AND 0xF = 0"
    "p = enc_v7_two ax ay bx yb l r m"
  shows "push_bit 4 (byte p 2 AND 0x80) OR push_bit 5 (byte p 2 AND 0x3F)
               OR drop_bit 1 (byte p 3 AND 0x30) OR (byte p 3 AND 0x07) = ax"
    "push_bit 3 (byte p 1) OR (byte p 0 AND 0x07) = NOT ay AND 0x7FF"
    "(push_bit 4 (byte p 3 AND 0x80) OR push_bit 3 (byte p 4 AND 0x80)
               OR push_bit 4 (byte p 4 AND 0x3F)) AND NOT 0xF = bx"
    "(push_bit 3 (byte p 5 AND 0x80) OR push_bit 4 (byte p 5 AND 0x3F)) OR 0xF = NOT yb AND 0x7FF"
    "byte p 4 AND 0x40 = 0x40" "byte p 0 AND 0x80 = when_set l 0x80"
    "byte p 0 AND 0x20 = when_set r 0x20" "byte p 0 AND 0x10 = when_set m 0x10"
  unfolding assms(7) using assms(1-6)
  by (simp_all add: byte_def wire_def enc_v7_two_def bitblast Let_def when_set_def)


lemma v7_mirror: "fits 11 w \<Longrightarrow> 0x7FF - (NOT w AND 0x7FF) = (w :: u32)"
proof -
  assume w: "fits 11 w"
  have "(NOT w AND 0x7FF) + w = (NOT w AND 0x7FF) OR w"
    by (intro disjunctive_add) (auto simp: bit_simps)
  also have "\<dots> = 0x7FF"
    using w by (simp add: bitblast)
  finally show ?thesis by (metis add_diff_cancel_left')
qed

lemma v7_mirror_inj: "fits 11 w \<Longrightarrow> NOT w AND 0x7FF = (0x7FF :: u32) \<longleftrightarrow> w = 0"
  using v7_mirror [of w] by auto

lemma coordinate_v7_two:
  assumes w: "fits 12 ax" "fits 11 ay" "fits 12 bx" "fits 11 yb" "bx AND 0xF = 0" "yb AND 0xF = 0"
    and ghost: "\<not> (bx = 0xFF0 \<and> yb = 0)"
  shows "alps_get_finger_coordinate_v7 m (enc_v7_two ax ay bx yb l r b) V7_PACKET_ID_TWO
    = m[0 := \<lparr>mt_x = ax, mt_y = ay\<rparr>, 1 := \<lparr>mt_x = bx, mt_y = yb\<rparr>]"
  using v7_words [OF w refl, of l r b] v7_mirror [OF w(2)] v7_mirror [OF w(4)] v7_mirror_inj [OF w(4)] ghost
  unfolding alps_get_finger_coordinate_v7_def Let_def
  by (auto simp only: split_beta V7_PACKET_ID.case fst_conv snd_conv simp_thms if_False split: if_split)

text \<open>
  Two-touch V7 reports are decoded losslessly: both touches (the second at its wire resolution of
  16 units), the three buttons, and a finger count that is the number of touches present.  The one
  excluded pattern is the false positive the decoder itself filters out.
\<close>

theorem decode_v7_roundtrip:
  assumes w: "fits 12 ax" "fits 11 ay" "fits 12 bx" "fits 11 yb" "bx AND 0xF = 0" "yb AND 0xF = 0"
    and ghost: "\<not> (bx = 0xFF0 \<and> yb = 0)" and touch: "ax \<noteq> 0 \<or> ay \<noteq> 0"
    and nopad: "flags priv AND ALPS_BUTTONPAD = 0"
  shows "alps_decode_packet_v7 priv zero_fields (enc_v7_two ax ay bx yb l r b) =
    (True, zero_fields\<lparr>f_mt := [\<lparr>mt_x = ax, mt_y = ay\<rparr>, \<lparr>mt_x = bx, mt_y = yb\<rparr>, no_pos, no_pos],
       f_fingers := (if bx \<noteq> 0 \<or> yb \<noteq> 0 then 2 else 1),
       f_left := bit_flag l, f_right := bit_flag r, f_middle := bit_flag b\<rparr>)"
proof -
  let ?p = "enc_v7_two ax ay bx yb l r b"
  note p = v7_words [OF w refl, of l r b]
  have id: "alps_get_packet_id_v7 ?p = V7_PACKET_ID_TWO"
    using p(5) by (simp add: alps_get_packet_id_v7_def)
  have btn: "bitfield (drop_bit 7 (when_set c 0x80)) = bit_flag c" "bitfield (drop_bit 5 (when_set c 0x20)) = bit_flag c"
      "bitfield (drop_bit 4 (when_set c 0x10)) = bit_flag c" for c
    by (simp_all add: bitfield_def when_set_def bit_flag_def)
  have mt: "alps_get_finger_coordinate_v7 (f_mt zero_fields) ?p V7_PACKET_ID_TWO
      = [\<lparr>mt_x = ax, mt_y = ay\<rparr>, \<lparr>mt_x = bx, mt_y = yb\<rparr>, no_pos, no_pos]"
    using coordinate_v7_two [OF w ghost] by (simp add: zero_fields_def)
  have cnt: "alps_get_mt_count [\<lparr>mt_x = ax, mt_y = ay\<rparr>, \<lparr>mt_x = bx, mt_y = yb\<rparr>, no_pos, no_pos]
      = (if bx \<noteq> 0 \<or> yb \<noteq> 0 then 2 else 1)"
    using touch by (simp add: alps_get_mt_count_def no_pos_def)
  show ?thesis
    using touch nopad by (auto simp: alps_decode_packet_v7_def Let_def id mt cnt p btn)
qed

lemma decode_v7_roundtrip_witness:
  "snd (alps_decode_packet_v7 zero_data zero_fields (enc_v7_two 0xABC 0x123 0xDE0 0x450 True False True)) =
     zero_fields\<lparr>f_mt := [\<lparr>mt_x = 0xABC, mt_y = 0x123\<rparr>, \<lparr>mt_x = 0xDE0, mt_y = 0x450\<rparr>, no_pos, no_pos],
       f_fingers := 2, f_left := 1, f_right := 0, f_middle := 1\<rparr>"
  using decode_v7_roundtrip [of "0xABC" "0x123" "0xDE0" "0x450" zero_data True False True]
  by (simp add: fits zero_data_def bit_flag_def)

subsection \<open>V8\<close>

definition enc_ss4_one :: "u32 \<Rightarrow> u32 \<Rightarrow> u32 \<Rightarrow> u32 \<Rightarrow> u8 list" where
  "enc_ss4_one px py z btn =
     [wire ((px AND 7) OR push_bit 5 btn),
      wire ((drop_bit 3 px AND 0xF) OR (drop_bit 2 px AND 0xE0)),
      wire ((drop_bit 5 px AND 0xE0) OR (py AND 0xF)),
      wire (push_bit 2 py AND 0xC0),
      wire ((drop_bit 6 py AND 0xF) OR (drop_bit 5 py AND 0x60) OR (z AND 0x80)),
      wire ((z AND 0xF) OR (push_bit 1 z AND 0xE0))]"

text \<open>The two touches of a \<open>TWO\<close> or \<open>MULTI\<close> report; \<open>k\<close> is the packet-type field.\<close>

definition enc_ss4_touches :: "u32 \<Rightarrow> u32 \<Rightarrow> u32 \<Rightarrow> u32 \<Rightarrow> u32 \<Rightarrow> u32 \<Rightarrow> u8 list" where
  "enc_ss4_touches k ax ay bx yb btn =
     [wire ((drop_bit 5 ax AND 7) OR push_bit 5 btn),
      wire ((drop_bit 5 ax AND 0xF8) OR (drop_bit 3 ay AND 2)),
      wire ((drop_bit 5 ay AND 0xF) OR (drop_bit 4 ay AND 0xE0)),
      wire ((drop_bit 5 bx AND 7) OR k),
      wire ((drop_bit 5 bx AND 0xF8) OR (drop_bit 3 yb AND 2)),
      wire ((drop_bit 5 yb AND 0xF) OR (drop_bit 4 yb AND 0xE0))]"

lemma ss4_one_words:
  assumes "fits 13 px" "fits 12 py" "fits 8 z" "fits 3 btn" "p = enc_ss4_one px py z btn"
  shows "SS4_1F_X_V2 p = px" "SS4_1F_Y_V2 p = py" "SS4_1F_Z_V2 p = z" "SS4_BTN_V2 p = btn"
    "byte p 3 AND 0x30 = 0" "byte p 0 AND 0x18 = 0"
  unfolding assms(5) using assms(1-4)
  by (simp_all add: byte_def wire_def enc_ss4_one_def bitblast SS4_1F_X_V2_def SS4_1F_Y_V2_def SS4_1F_Z_V2_def SS4_BTN_V2_def)

lemma ss4_touch_words:
  assumes "fits 13 ax" "fits 12 ay" "fits 13 bx" "fits 12 yb" "ax AND 0x1F = 0" "ay AND 0xF = 0"
     "bx AND 0x1F = 0" "yb AND 0xF = 0" "fits 3 btn" "k AND NOT 0x30 = 0" "p = enc_ss4_touches k ax ay bx yb btn"
  shows "SS4_STD_MF_X_V2 p 0 = ax" "SS4_STD_MF_Y_V2 p 0 = ay" "SS4_STD_MF_X_V2 p 1 = bx" "SS4_STD_MF_Y_V2 p 1 = yb"
    "SS4_BTN_V2 p = btn" "byte p 3 AND 0x30 = k" "byte p 2 AND 0x10 = 0" "SS4_MF_Z_V2 p 0 = 0"
  unfolding assms(11) using assms(1-10)
  by (simp_all add: byte_def wire_def enc_ss4_touches_def bitblast SS4_STD_MF_X_V2_def SS4_STD_MF_Y_V2_def SS4_BTN_V2_def SS4_MF_Z_V2_def)


definition ss4_buttons :: "bool \<Rightarrow> bool \<Rightarrow> bool \<Rightarrow> u32" where
  "ss4_buttons l r m = when_set l 1 OR when_set r 2 OR when_set m 4"

lemma ss4_buttons_bits:
  "fits 3 (ss4_buttons l r m)" "isset (ss4_buttons l r m) 1 = l" "isset (ss4_buttons l r m) 2 = r"
  "isset (ss4_buttons l r m) 4 = m"
  by (cases l; cases r; cases m; simp add: ss4_buttons_def when_set_def fits)+



end
