(* ===== verification/AlpsDispatch.thy ===== *)
theory AlpsDispatch
  imports TouchPadConfig AlpsDecode
begin

text \<open>
  \<open>ALPS::dispatchEventsWithInfo\<close>: from one decoded report (position, pressure, finger count, buttons)
  to pointer, scroll, swipe and button events.  The function of the source is one body of 460 lines;
  here each of its stages is a definition, in the order of the source, and \<open>dispatchEventsWithInfo\<close>
  composes them with the early returns where the source has them.

  The class \<open>ALPS\<close> extends the base class: the record \<open>alps\<close> extends \<open>touchpad\<close> with \<open>priv\<close> and
  the three member-function pointers.
\<close>

section \<open>The driver object\<close>

record alps = touchpad +
  priv :: alps_data
  hw_init :: "hw_init_fn option"
  decode_fn :: "decode_fn option"
  process_fn :: "process_fn option"

definition dispatchKeyboardMessage :: "swipe_message \<Rightarrow> u64 \<Rightarrow> 'a touchpad_scheme \<Rightarrow> 'a touchpad_scheme" where
  "dispatchKeyboardMessage m now s = emit (KeyboardMessage m now) s"

section \<open>Scaling, buttons, filters\<close>

definition scale_axes :: "int \<Rightarrow> int \<Rightarrow> 'a alps_scheme \<Rightarrow> (int \<times> int) option" where
  "scale_axes xraw yraw s =
     do {
       (xraw, yraw) \<leftarrow>
         (if xupmm s < yupmm s then do { q \<leftarrow> cdiv (xraw * yupmm s) (xupmm s); Some (q, yraw) }
          else if xupmm s > yupmm s then do { q \<leftarrow> cdiv (yraw * xupmm s) (yupmm s); Some (xraw, q) }
          else Some (xraw, yraw));
       k \<leftarrow> cdiv 6000 ((x_max (priv s) + y_max (priv s)) sdiv 2);
       Some (xraw * k, yraw * k)
     }"

definition dispatch_buttons ::
    "clock \<Rightarrow> u64 \<Rightarrow> int \<Rightarrow> u32 \<Rightarrow> 'a touchpad_scheme \<Rightarrow> (u32 \<times> 'a touchpad_scheme) option" where
  "dispatch_buttons E now_abs fingers buttonsraw s =
     (let s = s\<lparr>lastbuttons := buttonsraw\<rparr> in do {
       (buttons, s) \<leftarrow>
         (if clickpadtype s = 0 \<or> fingers = 3
          then middleButton E buttonsraw now_abs (if fingers = 3 then fromPassthru else fromTrackpad) s
          else Some (buttonsraw, s));
       (if last_fingers s = 0 \<and> fingers > 0
        then middleButton E (buttonsraw OR passbuttons s) now_abs fromCancel s
        else Some (buttons, s))
     })"

definition reset_filters :: "'a touchpad_scheme \<Rightarrow> 'a touchpad_scheme" where
  "reset_filters s = s\<lparr>filters := \<lparr>x_avg = avg_reset (x_avg (filters s)), y_avg = avg_reset (y_avg (filters s)),
     x_undo = decay_reset (x_undo (filters s)), y_undo = decay_reset (y_undo (filters s))\<rparr>\<rparr>"

definition finger_change :: "int \<Rightarrow> 'a touchpad_scheme \<Rightarrow> 'a touchpad_scheme" where
  "finger_change fingers s =
     (let s = (if last_fingers s > 0 \<and> fingers > 0 \<and> last_fingers s \<noteq> fingers
               then s\<lparr>ignoredeltas := ignoredeltasstart s\<rparr> else s)
      in if last_fingers s \<noteq> fingers then reset_filters s else s)"

definition unsmooth :: "int \<times> int \<Rightarrow> 'a touchpad_scheme \<Rightarrow> (int \<times> int) \<times> 'a touchpad_scheme" where
  "unsmooth xy s =
     (if unsmoothinput s \<noteq> 0 then
        (let (px, xu) = undecay_filter 1 1 2 (fst xy) (x_undo (filters s));
             (py, yu) = undecay_filter 1 1 2 (snd xy) (y_undo (filters s))
         in ((px, py), s\<lparr>filters := (filters s)\<lparr>x_undo := xu, y_undo := yu\<rparr>\<rparr>))
      else (xy, s))"

definition smooth :: "int \<times> int \<Rightarrow> 'a touchpad_scheme \<Rightarrow> (int \<times> int) \<times> 'a touchpad_scheme" where
  "smooth xy s =
     (if smoothinput s \<noteq> 0 then
        (let (px, xa) = filter_int 5 (fst xy) (x_avg (filters s));
             (py, ya) = filter_int 5 (snd xy) (y_avg (filters s))
         in ((px, py), s\<lparr>filters := (filters s)\<lparr>x_avg := xa, y_avg := ya\<rparr>\<rparr>))
      else (xy, s))"

definition ignore_deltas :: "int \<Rightarrow> int \<Rightarrow> 'a touchpad_scheme \<Rightarrow> 'a touchpad_scheme" where
  "ignore_deltas px py s =
     (if ignoredeltas s \<noteq> 0 then
        (let s = s\<lparr>lastx := px, lasty := py, ignoredeltas := ignoredeltas s - 1\<rparr>
         in if ignoredeltas s = 0 then reset_filters s else s)
      else s)"

definition filter_report :: "int \<Rightarrow> int \<times> int \<Rightarrow> 'a touchpad_scheme \<Rightarrow> (int \<times> int) \<times> 'a touchpad_scheme" where
  "filter_report fingers xy s =
     (let s = finger_change fingers s;
          (xy, s) = unsmooth xy s;
          ((px, py), s) = smooth xy s
      in ((px, py), ignore_deltas px py s))"

text \<open>"OutsidezoneNoAction When Typing".\<close>

definition typing_outside_zone :: "u64 \<Rightarrow> int \<Rightarrow> int \<Rightarrow> int \<Rightarrow> 'a touchpad_scheme \<Rightarrow> bool" where
  "typing_outside_zone now_ns px py z s \<longleftrightarrow>
     outzone_wt s \<and> z > z_finger s \<and> now_ns - keytime s < maxaftertyping s
     \<and> (px < zonel s \<or> px > zoner s \<or> py < zoneb s \<or> py > zonet s)"

section \<open>Finger lifted\<close>

definition no_swipe :: swipes where
  "no_swipe = \<lparr>inSwipeLeft = False, inSwipeRight = False, inSwipeUp = False, inSwipeDown = False,
     inSwipe4Left = False, inSwipe4Right = False, inSwipe4Up = False, inSwipe4Down = False,
     xmoved = 0, ymoved = 0\<rparr>"

definition reset_history :: "'a touchpad_scheme \<Rightarrow> 'a touchpad_scheme" where
  "reset_history s = s\<lparr>momentum := (momentum s)\<lparr>dy_history := avg_reset (dy_history (momentum s)),
     time_history := avg_reset (time_history (momentum s))\<rparr>\<rparr>"

definition start_momentum :: "'a touchpad_scheme \<Rightarrow> 'a touchpad_scheme option" where
  "start_momentum s =
     (if (touchmode s = MODE_MTOUCH \<or> touchmode s = MODE_VSCROLL) \<and> momentumscroll s \<and> momentumscrolltimer s \<noteq> 0
         \<and> int (av_count (dy_history (momentum s))) > momentumscrollsamplesmin s
      then
        (let m = momentum s;
             interval = avg_newest (time_history m) - avg_oldest 32 (time_history m);
             s = s\<lparr>momentum := m\<lparr>momentumscrollinterval := interval\<rparr>\<rparr>
         in if interval \<noteq> 0 then
              (let sm = av_sum (dy_history m)
               in setTimerTimeout ScrollTimer (momentumscrolltimer s)
                    (s\<lparr>momentum := (momentum s)\<lparr>momentumscrollsum := sm,
                       momentumscrollcurrent := i64 (momentumscrolltimer s * u64 sm),
                       momentumscrollrest1 := 0, momentumscrollrest2 := 0\<rparr>\<rparr>))
            else Some s)
      else Some s)"

definition tap_button :: "'a touchpad_scheme \<Rightarrow> u32 option" where
  "tap_button s =
     (if wastriple s \<and> rtap s then Some (if swapdoubletriple s = 0 then 0x4 else 0x02)
      else if wasdouble s \<and> rtap s then Some (if swapdoubletriple s = 0 then 0x2 else 0x04)
      else None)"

definition dispatch_tap :: "u64 \<Rightarrow> u32 \<Rightarrow> 'a touchpad_scheme \<Rightarrow> u32 \<times> 'a touchpad_scheme" where
  "dispatch_tap now_abs buttons s =
     (if touchmode s = MODE_DRAG then
        (let (buttons, s) =
               (if immediateclick s = 0 then
                  (let buttons = buttons AND NOT 0x7;
                       s = dispatchRelativePointerEventX 0 0 (buttons OR 0x1) now_abs s;
                       s = dispatchRelativePointerEventX 0 0 buttons now_abs s
                   in (buttons, s))
                else (buttons, s));
             b = (case tap_button s of Some b \<Rightarrow> b | None \<Rightarrow> 0x1)
         in (buttons OR b, s\<lparr>touchmode := MODE_NOTOUCH\<rparr>))
      else if touchmode s = MODE_DRAGLOCK then (buttons, s\<lparr>touchmode := MODE_NOTOUCH\<rparr>)
      else
        (case tap_button s of
           Some b \<Rightarrow> (buttons OR b, s\<lparr>touchmode := MODE_NOTOUCH\<rparr>)
         | None \<Rightarrow> (buttons OR 0x1, s\<lparr>touchmode := (if dragging s then MODE_PREDRAG else MODE_NOTOUCH)\<rparr>)))"

definition end_drag :: "'a touchpad_scheme \<Rightarrow> 'a touchpad_scheme option" where
  "end_drag s =
     (if (touchmode s = MODE_DRAG \<or> touchmode s = MODE_DRAGLOCK)
         \<and> (draglock s \<or> draglocktemp s \<noteq> 0 \<or> (timers s DragTimer \<and> dragexitdelay s \<noteq> 0))
      then
        (let s = s\<lparr>touchmode := MODE_DRAGNOTOUCH\<rparr>
         in if \<not> draglock s \<and> draglocktemp s = 0 then do {
              s \<leftarrow> cancelTimer DragTimer s;
              setTimerTimeout DragTimer (dragexitdelay s) s
            }
            else Some s)
      else Some (s\<lparr>touchmode := MODE_NOTOUCH, draglocktemp := 0\<rparr>))"

definition finger_lifted ::
    "u64 \<Rightarrow> u64 \<Rightarrow> u32 \<Rightarrow> 'a touchpad_scheme \<Rightarrow> (u32 \<times> 'a touchpad_scheme) option" where
  "finger_lifted now_abs now_ns buttons s =
     (let s = s\<lparr>xrest := 0, yrest := 0, scrollrest := 0, swipes := no_swipe, untouchtime := now_ns\<rparr> in do {
       s \<leftarrow> start_momentum s;
       let s = reset_history s;
       (buttons, s) \<leftarrow>
         (if now_ns - touchtime s < maxtaptime s \<and> clicking s
          then Some (dispatch_tap now_abs buttons s)
          else do { s \<leftarrow> end_drag s; Some (buttons, s) });
       Some (buttons, s\<lparr>wasdouble := False, wastriple := False\<rparr>)
     })"

definition cancel_predrag :: "u64 \<Rightarrow> 'a touchpad_scheme \<Rightarrow> 'a touchpad_scheme" where
  "cancel_predrag now_ns s =
     (if touchmode s = MODE_PREDRAG \<and> now_ns - untouchtime s \<ge> maxdragtime s
      then s\<lparr>touchmode := MODE_NOTOUCH\<rparr> else s)"

definition cancel_tap :: "int \<Rightarrow> int \<Rightarrow> int \<Rightarrow> int \<Rightarrow> 'a touchpad_scheme \<Rightarrow> 'a touchpad_scheme" where
  "cancel_tap px py z fingers s =
     (if isTouchMode s \<and> isFingerTouch z s \<and> last_fingers s = fingers then
        (let dy = \<bar>touchy s - py\<bar>; dx = \<bar>touchx s - px\<bar>
         in if \<not> wasdouble s \<and> \<not> wastriple s \<and> (dx > tapthreshx s \<or> dy > tapthreshy s)
               \<or> dx > dblthreshx s \<or> dy > dblthreshy s
            then s\<lparr>touchtime := 0\<rparr> else s)
      else s)"

section \<open>Movement by touch mode\<close>

text \<open>A stage returns \<open>dx\<close>, \<open>dy\<close> and the new state.  \<open>case MODE_MOVE\<close>:\<close>

definition move_pointer ::
    "u64 \<Rightarrow> int \<Rightarrow> int \<Rightarrow> int \<Rightarrow> int \<Rightarrow> 'a touchpad_scheme \<Rightarrow> ((int \<times> int) \<times> 'a touchpad_scheme) option" where
  "move_pointer now_ns px py z fingers s =
     (if last_fingers s = fingers \<and> z \<le> zlimit s \<and> now_ns - touchtime s > 100000000 then
        (if wasScroll s then Some ((0, 0), s\<lparr>wasScroll := False, ignoredeltas := ignoredeltasstart s\<rparr>)
         else do {
           let dx = px - lastx s + xrest s;
           let dy = lasty s - py + yrest s;
           xr \<leftarrow> cmod dx (divisorx s);
           yr \<leftarrow> cmod dy (divisory s);
           if \<bar>dx\<bar> > bogusdxthresh s \<or> \<bar>dy\<bar> > bogusdythresh s
           then Some ((0, 0), s\<lparr>xrest := 0, yrest := 0\<rparr>)
           else Some ((dx, dy), s\<lparr>xrest := xr, yrest := yr\<rparr>)
         })
      else Some ((0, 0), s))"

definition multitouch_one ::
    "int \<Rightarrow> 'a touchpad_scheme \<Rightarrow> 'a touchpad_scheme option" where
  "multitouch_one fingers s =
     (if last_fingers s \<noteq> fingers then Some s
      else if wsticky s = 0 \<and> \<not> scrolldebounce s \<and> ignoresingle s = 0 then do {
        s \<leftarrow> cancelTimer ScrollDebounceTimer s;
        s \<leftarrow> setTimerTimeout ScrollDebounceTimer (scrollexitdelay s) s;
        Some ((reset_history (s\<lparr>scrolldebounce := True, wasScroll := True\<rparr>))\<lparr>touchmode := MODE_MOVE\<rparr>)
      }
      else Some (if ignoresingle s \<noteq> 0 then s\<lparr>ignoresingle := ignoresingle s - 1\<rparr> else s))"

text \<open>Two fingers: scroll.  \<open>hs\<close> is the condition \<open>whdivisor && hscroll\<close>.\<close>

definition scroll_history :: "int \<Rightarrow> u64 \<Rightarrow> 'a touchpad_scheme \<Rightarrow> 'a touchpad_scheme" where
  "scroll_history dy now_ns s =
     (let s = (if (dy < 0) \<noteq> (avg_newest (dy_history (momentum s)) < 0) \<or> dy = 0 then reset_history s else s);
          m = momentum s
      in s\<lparr>momentum := m\<lparr>dy_history := snd (filter_int 32 dy (dy_history m)),
                         time_history := snd (filter_u64 32 now_ns (time_history m))\<rparr>\<rparr>)"

definition multitouch_two ::
    "u64 \<Rightarrow> u64 \<Rightarrow> int \<Rightarrow> int \<Rightarrow> int \<Rightarrow> int \<Rightarrow> 'a touchpad_scheme \<Rightarrow> ((int \<times> int) \<times> 'a touchpad_scheme) option" where
  "multitouch_two now_abs now_ns px py z fingers s =
     (if last_fingers s \<noteq> fingers \<or> (palm s \<and> z > zlimit s)
         \<or> (palm_wt s \<and> now_ns - keytime s < maxaftertyping s)
      then Some ((0, 0), s)
      else
        (let hs = (whdivisor s \<noteq> 0 \<and> hscroll s);
             dy = (if wvdivisor s \<noteq> 0 then py - lasty s + yrest s else 0);
             dx = (if hs then px - lastx s + xrest s else 0);
             s = s\<lparr>yrest := (if wvdivisor s \<noteq> 0 then dy smod wvdivisor s else 0),
                   xrest := (if hs then dx smod whdivisor s else 0)\<rparr>;
             s = scroll_history dy now_ns s;
             (dx, s) = (if \<bar>dx\<bar> < scrolldxthresh s then (0, s\<lparr>xrest := dx\<rparr>) else (dx, s));
             (dy, s) = (if \<bar>dy\<bar> < scrolldythresh s then (0, s\<lparr>yrest := dy\<rparr>) else (dy, s))
         in if dy \<noteq> 0 \<or> dx \<noteq> 0 then
              (let s = (if touchtime s = 0
                        then dispatchScrollWheelEventX (if wvdivisor s \<noteq> 0 then dy sdiv wvdivisor s else 0)
                               (if hs then (- dx) sdiv whdivisor s else 0) 0 now_abs s
                        else s)
               in Some ((0, 0), s\<lparr>ignoresingle := 3\<rparr>))
            else Some ((dx, dy), s)))"

text \<open>Three and four fingers: which swipe is recognised, if any.  \<open>kx\<close>, \<open>ky\<close> are \<open>swipedx\<close>, \<open>swipedy\<close>.\<close>

definition swipe_three :: "int \<Rightarrow> int \<Rightarrow> int \<Rightarrow> int \<Rightarrow> swipes \<Rightarrow> swipes \<times> swipe_message option" where
  "swipe_three kx ky horiz vert w =
     (if ymoved w > ky \<and> \<not> inSwipeUp w \<and> \<not> inSwipe4Up w \<and> vert \<noteq> 0
      then (w\<lparr>inSwipeUp := True, inSwipeDown := False, ymoved := 0\<rparr>, Some SwipeUp)
      else if ymoved w < - ky \<and> \<not> inSwipeDown w \<and> \<not> inSwipe4Down w \<and> vert \<noteq> 0
      then (w\<lparr>inSwipeDown := True, inSwipeUp := False, ymoved := 0\<rparr>, Some SwipeDown)
      else if xmoved w < - kx \<and> \<not> inSwipeRight w \<and> \<not> inSwipe4Right w \<and> horiz \<noteq> 0
      then (w\<lparr>inSwipeRight := True, inSwipeLeft := False, xmoved := 0\<rparr>, Some SwipeRight)
      else if xmoved w > kx \<and> \<not> inSwipeLeft w \<and> \<not> inSwipe4Left w \<and> horiz \<noteq> 0
      then (w\<lparr>inSwipeLeft := True, inSwipeRight := False, xmoved := 0\<rparr>, Some SwipeLeft)
      else (w, None))"

definition swipe_four :: "int \<Rightarrow> int \<Rightarrow> swipes \<Rightarrow> swipes \<times> swipe_message option" where
  "swipe_four kx ky w =
     (if ymoved w > ky \<and> \<not> inSwipe4Up w
      then (w\<lparr>inSwipe4Up := True, inSwipeUp := False, inSwipe4Down := False, ymoved := 0\<rparr>, Some Swipe4Up)
      else if ymoved w < - ky \<and> \<not> inSwipe4Down w
      then (w\<lparr>inSwipe4Down := True, inSwipeDown := False, inSwipe4Up := False, ymoved := 0\<rparr>, Some Swipe4Down)
      else if xmoved w < - kx \<and> \<not> inSwipe4Right w
      then (w\<lparr>inSwipe4Right := True, inSwipeRight := False, inSwipe4Left := False, xmoved := 0\<rparr>, Some Swipe4Right)
      else if xmoved w > kx \<and> \<not> inSwipe4Left w
      then (w\<lparr>inSwipe4Left := True, inSwipeLeft := False, inSwipe4Right := False, xmoved := 0\<rparr>, Some Swipe4Left)
      else (w, None))"

definition swipe_moved :: "int \<Rightarrow> int \<Rightarrow> 'a touchpad_scheme \<Rightarrow> swipes" where
  "swipe_moved px py s =
     (swipes s)\<lparr>xmoved := xmoved (swipes s) + (lastx s - px), ymoved := ymoved (swipes s) + (py - lasty s)\<rparr>"

definition post_swipe :: "u64 \<Rightarrow> swipes \<times> swipe_message option \<Rightarrow> 'a touchpad_scheme \<Rightarrow> 'a touchpad_scheme" where
  "post_swipe now_abs r s =
     (let s = s\<lparr>swipes := fst r\<rparr>
      in case snd r of Some m \<Rightarrow> dispatchKeyboardMessage m now_abs s | None \<Rightarrow> s)"

definition multitouch_three :: "u64 \<Rightarrow> int \<Rightarrow> int \<Rightarrow> int \<Rightarrow> 'a touchpad_scheme \<Rightarrow> 'a touchpad_scheme" where
  "multitouch_three now_abs px py fingers s =
     (if last_fingers s \<noteq> fingers then s
      else if threefingerhorizswipe s \<noteq> 0 \<or> threefingervertswipe s \<noteq> 0
      then post_swipe now_abs (swipe_three (swipedx s) (swipedy s) (threefingerhorizswipe s)
             (threefingervertswipe s) (swipe_moved px py s)) s
      else s)"

definition multitouch_four :: "u64 \<Rightarrow> int \<Rightarrow> int \<Rightarrow> int \<Rightarrow> 'a touchpad_scheme \<Rightarrow> 'a touchpad_scheme" where
  "multitouch_four now_abs px py fingers s =
     (if last_fingers s \<noteq> fingers then s
      else post_swipe now_abs (swipe_four (swipedx s) (swipedy s) (swipe_moved px py s)) s)"

definition multitouch ::
    "u64 \<Rightarrow> u64 \<Rightarrow> int \<Rightarrow> int \<Rightarrow> int \<Rightarrow> int \<Rightarrow> 'a touchpad_scheme \<Rightarrow> ((int \<times> int) \<times> 'a touchpad_scheme) option" where
  "multitouch now_abs now_ns px py z fingers s =
     (if fingers = 1 then map_option (\<lambda>s. ((0, 0), s)) (multitouch_one fingers s)
      else if fingers = 2 then multitouch_two now_abs now_ns px py z fingers s
      else if fingers = 3 then Some ((0, 0), multitouch_three now_abs px py fingers s)
      else if fingers = 4 then Some ((0, 0), multitouch_four now_abs px py fingers s)
      else Some ((0, 0), s))"

definition move_by_mode ::
    "u64 \<Rightarrow> u64 \<Rightarrow> int \<Rightarrow> int \<Rightarrow> int \<Rightarrow> int \<Rightarrow> u32 \<Rightarrow> 'a touchpad_scheme
     \<Rightarrow> ((int \<times> int) \<times> u32 \<times> 'a touchpad_scheme) option" where
  "move_by_mode now_abs now_ns px py z fingers buttons s =
     (let held = (immediateclick s = 0 \<and> (\<not> palm_wt s \<or> now_ns - keytime s \<ge> maxaftertyping s))
      in if touchmode s = MODE_DRAG \<or> touchmode s = MODE_DRAGLOCK then
        (let buttons = (if touchmode s = MODE_DRAGLOCK \<or> immediateclick s = 0 \<or> now_ns - touchtime s > maxdbltaptime s
                        then buttons OR 0x1 else buttons)
         in map_option (\<lambda>(d, s). (d, buttons, s)) (move_pointer now_ns px py z fingers s))
      else if touchmode s = MODE_MOVE then
        map_option (\<lambda>(d, s). (d, buttons, s)) (move_pointer now_ns px py z fingers s)
      else if touchmode s = MODE_MTOUCH then
        map_option (\<lambda>(d, s). (d, buttons, s)) (multitouch now_abs now_ns px py z fingers s)
      else if touchmode s = MODE_DRAGNOTOUCH then Some ((0, 0), buttons OR 0x1, s)
      else if touchmode s = MODE_PREDRAG then
        Some ((0, 0), if held then buttons OR 0x1 else buttons, s)
      else Some ((0, 0), buttons, s))"

section \<open>Taps and mode changes\<close>

definition capture_touch :: "u64 \<Rightarrow> int \<Rightarrow> int \<Rightarrow> int \<Rightarrow> int \<Rightarrow> 'a touchpad_scheme \<Rightarrow> 'a touchpad_scheme option" where
  "capture_touch now_ns px py z fingers s =
     (if isFingerTouch z s then
        (let s = (if (\<not> palm_wt s \<or> now_ns - keytime s \<ge> maxaftertyping s) \<and> momentumscrollcurrent (momentum s) = 0 then
                    (let s = (if \<not> isTouchMode s then s\<lparr>touchtime := now_ns\<rparr> else s);
                         s = (if last_fingers s < fingers then s\<lparr>touchx := px, touchy := py\<rparr> else s)
                     in s\<lparr>wasdouble := (fingers = 2 \<or> (wasdouble s \<and> last_fingers s \<noteq> fingers)),
                          wastriple := (fingers = 3 \<or> (wastriple s \<and> last_fingers s \<noteq> fingers))\<rparr>)
                  else s)
         in if \<not> scrolldebounce s \<and> momentumscrollcurrent (momentum s) \<noteq> 0 then do {
              s \<leftarrow> setTimerTimeout ScrollDebounceTimer (scrollexitdelay s)
                    (s\<lparr>momentum := (momentum s)\<lparr>momentumscrollcurrent := 0\<rparr>\<rparr>);
              Some (s\<lparr>scrolldebounce := True\<rparr>)
            }
            else Some s)
      else Some s)"

definition switch_mode :: "int \<Rightarrow> int \<Rightarrow> 'a touchpad_scheme \<Rightarrow> 'a touchpad_scheme option" where
  "switch_mode z fingers s =
     (let s = (if touchmode s = MODE_PREDRAG \<and> isFingerTouch z s
               then s\<lparr>touchmode := MODE_DRAG, draglocktemp := modifierdown s AND u32 (draglocktempmask s)\<rparr> else s)
      in do {
        s \<leftarrow> (if touchmode s = MODE_DRAGNOTOUCH \<and> isFingerTouch z s then do {
               s \<leftarrow> (if timers s DragTimer then cancelTimer DragTimer s else Some s);
               Some (s\<lparr>touchmode := MODE_DRAGLOCK\<rparr>)
             }
             else Some s);
        let s = (if touchmode s \<noteq> MODE_MTOUCH \<and> fingers > 1 \<and> isFingerTouch z s
                 then s\<lparr>touchmode := MODE_MTOUCH\<rparr> else s);
        Some (if touchmode s = MODE_NOTOUCH \<and> z > z_finger s \<and> \<not> scrolldebounce s
              then s\<lparr>touchmode := MODE_MOVE\<rparr> else s)
      })"

section \<open>The dispatcher\<close>

text \<open>From the touch-mode test on: the stages after the early returns.\<close>

definition gesture_stage ::
    "u64 \<Rightarrow> u64 \<Rightarrow> int \<Rightarrow> int \<Rightarrow> int \<Rightarrow> int \<Rightarrow> u32 \<Rightarrow> 'a touchpad_scheme \<Rightarrow> 'a touchpad_scheme option" where
  "gesture_stage now_abs now_ns px py z fingers buttons s =
     do {
       (buttons, s) \<leftarrow> (if z < z_finger s \<and> isTouchMode s then finger_lifted now_abs now_ns buttons s
                       else Some (buttons, s));
       let s = cancel_predrag now_ns s;
       let s = cancel_tap px py z fingers s;
       ((dx, dy), buttons, s) \<leftarrow> move_by_mode now_abs now_ns px py z fingers buttons s;
       s \<leftarrow> capture_touch now_ns px py z fingers s;
       s \<leftarrow> switch_mode z fingers s;
       ddx \<leftarrow> cdiv dx (divisorx s);
       ddy \<leftarrow> cdiv dy (divisory s);
       let s = dispatchRelativePointerEventX ddx ddy buttons now_abs s;
       Some (s\<lparr>lastx := px, lasty := py, last_fingers := fingers\<rparr>)
     }"

definition dispatchEventsWithInfo ::
    "clock \<Rightarrow> int \<Rightarrow> int \<Rightarrow> int \<Rightarrow> int \<Rightarrow> u32 \<Rightarrow> 'a alps_scheme \<Rightarrow> 'a alps_scheme option" where
  "dispatchEventsWithInfo E xraw yraw z fingers buttonsraw s =
     (let (now_abs, s) = clock_get_uptime E s; now_ns = to_ns E now_abs in do {
       xy \<leftarrow> scale_axes xraw yraw s;
       let fingers = (if z > z_finger s then fingers else 0);
       (buttons, s) \<leftarrow> dispatch_buttons E now_abs fingers buttonsraw s;
       let ((px, py), s) = filter_report fingers xy s;
       if typing_outside_zone now_ns px py z s then Some s
       else if ignoreall s then Some s
       else gesture_stage now_abs now_ns px py z fingers buttons s
     })"

text \<open>The relative packets of the pass-through mouse.\<close>

definition dispatchRelativePointerEventWithPacket :: "clock \<Rightarrow> u8 list \<Rightarrow> 'a touchpad_scheme \<Rightarrow> 'a touchpad_scheme" where
  "dispatchRelativePointerEventWithPacket E p s =
     (let buttons = when_set (isset (byte p 0) 0x1) 0x1 OR when_set (isset (byte p 0) 0x2) 0x2
                    OR when_set (isset (byte p 0) 0x4) 0x4;
          dx = (if byte p 1 \<noteq> 0 then i32 (byte p 1) - i32 (push_bit 4 (byte p 0) AND 0x100) else 0);
          dy = (if byte p 2 \<noteq> 0 then i32 (push_bit 3 (byte p 0) AND 0x100) - i32 (byte p 2) else 0);
          (now_abs, s) = clock_get_uptime E s
      in dispatchRelativePointerEventX dx dy buttons now_abs s)"

end
