(* ===== verification/DispatchFrame.thy ===== *)
theory DispatchFrame
  imports AlpsDispatch MiddleButton
begin

text \<open>
  What the stages of the dispatcher leave alone.  A \<open>view\<close> is an observation of the driver state; the
  locales below say which primitive updates a view cannot see, and show that then whole stages are
  invisible to it.  Three views are interpreted: the configuration (which no stage changes), the touch mode
  (changed only where the code assigns it) and the swipe recognition with the messages it has sent.

  The last section uses the configuration view to show that a report can be dispatched without a trap.
\<close>

section \<open>Views\<close>

text \<open>What the stages before the gesture stage touch: buttons, filters, the last position, clicks, timers.\<close>

locale front_view =
  fixes v :: "'a touchpad_scheme \<Rightarrow> 'b"
  assumes v_button: "v (s\<lparr>lastbuttons := a1\<rparr>) = v s" "v (s\<lparr>mbutton := a2\<rparr>) = v s"
    and v_filter: "v (s\<lparr>filters := a3\<rparr>) = v s" "v (s\<lparr>ignoredeltas := a4\<rparr>) = v s" "v (s\<lparr>lastx := a5\<rparr>) = v s"
      "v (s\<lparr>lasty := a6\<rparr>) = v s" "v (s\<lparr>ticks := a9\<rparr>) = v s"
    and v_click: "v (emit (RelativePointer 0 0 d3 d4) s) = v s"
      "v (emit (SetTimer d8 d4) s) = v s" "v (emit (CancelTimer d8) s) = v s"
begin

lemmas v_front = v_button v_filter v_click

lemma v_clock: "v (snd (clock_get_uptime E s)) = v s"
  by (simp add: clock_get_uptime_def v_front)

lemma v_timer: "setTimerTimeout t n s = Some s' \<Longrightarrow> v s' = v s" "cancelTimer t s = Some s' \<Longrightarrow> v s' = v s"
  by (auto simp: setTimerTimeout_def cancelTimer_def v_front split: if_splits)

lemma v_mb: "v (set_mb m s) = v s" "v (set_pending b s) = v s" "v (dispatchRelativePointerEventX 0 0 b t s) = v s"
  by (simp_all add: set_mb_def set_pending_def dispatchRelativePointerEventX_def v_front)

lemma v_wait: "mb_delay m b n s = Some s' \<Longrightarrow> v s' = v s" "mb_settle m s = Some s' \<Longrightarrow> v s' = v s"
  by (auto simp: mb_delay_def mb_settle_def bind_eq_Some_conv v_mb v_front dest!: v_timer)

lemma v_middleButton: "middleButton E b t fr s = Some (b', s') \<Longrightarrow> v s' = v s"
  unfolding middleButton_def mb_transition_def Let_def
  by (auto simp: bind_eq_Some_conv v_mb split: if_splits mbuttonstate.splits dest!: v_wait)

lemma v_buttons: "dispatch_buttons E now f b s = Some (b', s') \<Longrightarrow> v s' = v s"
  by (auto simp: dispatch_buttons_def Let_def bind_eq_Some_conv v_front split: if_splits dest!: v_middleButton)

lemma v_filters: "v (reset_filters s) = v s" "v (finger_change f s) = v s"
  "v (snd (unsmooth xy s)) = v s" "v (snd (smooth xy s)) = v s" "v (ignore_deltas px py s) = v s"
  "v (snd (filter_report f xy s)) = v s"
  by (simp_all add: filter_report_def reset_filters_def finger_change_def unsmooth_def smooth_def ignore_deltas_def Let_def split_beta v_front)

end

locale stage_view = front_view +
  assumes v_gesture: "v (s\<lparr>draglocktemp := b1\<rparr>) = v s" "v (s\<lparr>xrest := b2\<rparr>) = v s" "v (s\<lparr>yrest := b3\<rparr>) = v s"
      "v (s\<lparr>scrollrest := b4\<rparr>) = v s" "v (s\<lparr>untouchtime := b5\<rparr>) = v s" "v (s\<lparr>wasdouble := b6\<rparr>) = v s"
      "v (s\<lparr>wastriple := b7\<rparr>) = v s" "v (s\<lparr>touchtime := b8\<rparr>) = v s" "v (s\<lparr>wasScroll := b9\<rparr>) = v s"
      "v (s\<lparr>scrolldebounce := c1\<rparr>) = v s" "v (s\<lparr>ignoresingle := c2\<rparr>) = v s" "v (s\<lparr>touchx := c3\<rparr>) = v s"
      "v (s\<lparr>touchy := c4\<rparr>) = v s" "v (s\<lparr>momentum := a7\<rparr>) = v s" "v (s\<lparr>last_fingers := a8\<rparr>) = v s"
    and v_emit: "v (emit (RelativePointer d1 d2 d3 d4) s) = v s" "v (emit (ScrollWheel d5 d6 d7 d4) s) = v s"
begin

lemmas v_frame = v_front v_gesture v_emit

lemma v_post: "v (dispatchRelativePointerEventX dx dy b t s) = v s" "v (dispatchScrollWheelEventX w1 w2 w3 t s) = v s"
  "v (snd (clock_get_uptime E s)) = v s"
  by (simp_all add: dispatchRelativePointerEventX_def dispatchScrollWheelEventX_def clock_get_uptime_def v_frame)

lemma v_history: "v (reset_history s) = v s" "v (scroll_history dy n s) = v s"
  by (simp_all add: reset_history_def scroll_history_def Let_def v_frame)

lemma v_start_momentum: "start_momentum s = Some s' \<Longrightarrow> v s' = v s"
  by (auto simp: start_momentum_def Let_def v_frame split: if_splits dest!: v_timer)

lemma v_cancel_tap: "v (cancel_tap px py z f s) = v s"
  by (simp add: cancel_tap_def Let_def v_frame)

lemma v_move_pointer: "move_pointer n px py z f s = Some (d, s') \<Longrightarrow> v s' = v s"
  by (auto simp: move_pointer_def Let_def bind_eq_Some_conv v_frame split: if_splits)

lemma v_multitouch_two: "multitouch_two a n px py z f s = Some (d, s') \<Longrightarrow> v s' = v s"
proof -
  have "map_option (\<lambda>r. v (snd r)) (multitouch_two a n px py z f s) = Some (v s)"
    by (simp add: multitouch_two_def Let_def split_beta v_frame v_history v_post if_distrib [of v] if_distrib [of snd]
        if_distrib [of "map_option (\<lambda>r. v (snd r))"] split del: if_split cong: if_cong)
  then show "multitouch_two a n px py z f s = Some (d, s') \<Longrightarrow> v s' = v s" by simp
qed

lemma v_capture: "capture_touch n px py z f s = Some s' \<Longrightarrow> v s' = v s"
  by (auto simp: capture_touch_def Let_def bind_eq_Some_conv v_frame split: if_splits dest!: v_timer)

lemma v_lifted_untagged:
  assumes "finger_lifted now n b s = Some (b', s')"
  obtains b1 s1 where "v (s\<lparr>swipes := no_swipe\<rparr>) = v s1"
    "(b', s') = (let (b, s) = dispatch_tap now b s1 in (b, s\<lparr>wasdouble := False, wastriple := False\<rparr>))
     \<or> (\<exists>s2. end_drag s1 = Some s2 \<and> s' = s2\<lparr>wasdouble := False, wastriple := False\<rparr>)"
proof -
  let ?s = "s\<lparr>xrest := 0, yrest := 0, scrollrest := 0, swipes := no_swipe, untouchtime := n\<rparr>"
  from assms obtain s1 where s1: "start_momentum ?s = Some s1"
    by (auto simp: finger_lifted_def Let_def bind_eq_Some_conv)
  have "?s = s\<lparr>swipes := no_swipe, xrest := 0, yrest := 0, scrollrest := 0, untouchtime := n\<rparr>" by simp
  then have "v ?s = v (s\<lparr>swipes := no_swipe\<rparr>)" by (simp only: v_frame)
  then have "v (s\<lparr>swipes := no_swipe\<rparr>) = v (reset_history s1)"
    using v_start_momentum [OF s1] by (simp only: v_history)
  then show thesis
    using assms s1 that [of "reset_history s1"]
    by (auto simp: finger_lifted_def Let_def bind_eq_Some_conv split_beta v_frame split: if_splits)
qed

end

text \<open>A view that does not look at the touch mode either, and one that does not look at the swipes.\<close>

locale mode_blind_view = stage_view +
  assumes v_mode: "v (s\<lparr>touchmode := m\<rparr>) = v s"
begin

lemma v_tap: "v (snd (dispatch_tap now b s)) = v s"
  by (auto simp: dispatch_tap_def Let_def v_mode v_post split: option.splits)

lemma v_end_drag: "end_drag s = Some s' \<Longrightarrow> v s' = v s"
  by (auto simp: end_drag_def Let_def bind_eq_Some_conv v_mode v_frame split: if_splits dest!: v_timer)

lemma v_cancel_predrag: "v (cancel_predrag n s) = v s"
  by (simp add: cancel_predrag_def v_mode)

lemma v_multitouch_one: "multitouch_one f s = Some s' \<Longrightarrow> v s' = v s"
  by (auto simp: multitouch_one_def Let_def bind_eq_Some_conv v_mode v_frame v_history split: if_splits dest!: v_timer)

lemma v_switch: "switch_mode z f s = Some s' \<Longrightarrow> v s' = v s"
  by (auto simp: switch_mode_def Let_def bind_eq_Some_conv v_mode v_frame split: if_splits dest!: v_timer)

lemma v_lifted:
  assumes "finger_lifted now n b s = Some (b', s')"
  shows "v s' = v (s\<lparr>swipes := no_swipe\<rparr>)"
  by (rule v_lifted_untagged [OF assms])
    (auto simp: Let_def split_beta v_frame v_tap dest!: v_end_drag)

end

locale swipe_blind_view = stage_view +
  assumes v_swipes: "v (s\<lparr>swipes := w\<rparr>) = v s" and v_message: "v (emit (KeyboardMessage k t) s) = v s"
begin

lemma v_swipe: "v (multitouch_three a px py f s) = v s" "v (multitouch_four a px py f s) = v s"
  by (simp_all add: multitouch_three_def multitouch_four_def post_swipe_def dispatchKeyboardMessage_def Let_def
      v_swipes v_message split: option.split)

end

locale frame_view = mode_blind_view + swipe_blind_view
begin

lemma v_lifted_all: "finger_lifted now n b s = Some (b', s') \<Longrightarrow> v s' = v s"
  by (drule v_lifted) (simp add: v_swipes)

lemma v_multitouch: "multitouch a n px py z f s = Some (d, s') \<Longrightarrow> v s' = v s"
  by (auto simp: multitouch_def v_swipe split: if_splits dest: v_multitouch_one v_multitouch_two)

lemma v_move_by_mode: "move_by_mode a n px py z f b s = Some (d, b', s') \<Longrightarrow> v s' = v s"
  by (auto simp: move_by_mode_def Let_def split: if_splits dest: v_move_pointer v_multitouch)

end

section \<open>Reports\<close>

text \<open>What happens before the gesture stage is invisible.\<close>

lemma report_stages:
  assumes "dispatchEventsWithInfo E x y z f b s = Some s'"
  obtains now xy bs s1 px py s2 where
    "dispatch_buttons E now (if z > z_finger s then f else 0) b (snd (clock_get_uptime E s)) = Some (bs, s1)"
    "filter_report (if z > z_finger s then f else 0) xy s1 = ((px, py), s2)"
    "(if typing_outside_zone (to_ns E now) px py z s2 then Some s2 else if ignoreall s2 then Some s2
      else gesture_stage now (to_ns E now) px py z (if z > z_finger s then f else 0) bs s2) = Some s'"
  using assms
  by (auto simp: dispatchEventsWithInfo_def Let_def bind_eq_Some_conv clock_get_uptime_def
      cong: if_cong split: prod.split_asm) (metis (no_types, lifting) prod.collapse)

locale report_view = front_view v for v :: "'a alps_scheme \<Rightarrow> 'b" +
  assumes v_config: "v s' = v s \<Longrightarrow> ignoreall s' = ignoreall s" "v s' = v s \<Longrightarrow> lvars s' = lvars s"
begin

lemma v_report:
  assumes "dispatchEventsWithInfo E x y z f b s = Some s'"
  obtains (early) "v s' = v s" "ignoreall s \<or> outzone_wt s"
  | (gesture) now ns px py bs s1 where "v s1 = v s" "\<not> ignoreall s"
      "gesture_stage now ns px py z (if z > z_finger s then f else 0) bs s1 = Some s'"
proof (rule report_stages [OF assms])
  fix now xy bs s1 px py s2
  assume 1: "dispatch_buttons E now (if z > z_finger s then f else 0) b (snd (clock_get_uptime E s)) = Some (bs, s1)"
    and 2: "filter_report (if z > z_finger s then f else 0) xy s1 = ((px, py), s2)"
    and rest: "(if typing_outside_zone (to_ns E now) px py z s2 then Some s2 else if ignoreall s2 then Some s2
      else gesture_stage now (to_ns E now) px py z (if z > z_finger s then f else 0) bs s2) = Some s'"
  have "v s2 = v s"
    using v_buttons [OF 1] v_filters(6) [of _ xy s1] by (metis 2 snd_conv v_clock)
  then have "ignoreall s2 = ignoreall s" "lvars s2 = lvars s" "v s2 = v s"
    by (simp_all only: v_config [of s2 s])
  then show thesis
    using rest early gesture [of s2] by (auto simp: typing_outside_zone_def split: if_splits)
qed

end

section \<open>The three views\<close>

definition cfg where
  "cfg s = (ivars s, bvars s, lvars s, qvars s, timers s, ignoreall s, touchpad.more s)"

definition mode_view where "mode_view s = (cfg s, touchmode s)"

definition keyboard_messages :: "tp_event list \<Rightarrow> swipe_message list" where
  "keyboard_messages es = concat (map (\<lambda>e. case e of KeyboardMessage m t \<Rightarrow> [m] | _ \<Rightarrow> []) es)"

definition swipe_view where "swipe_view s = (cfg s, swipes s, keyboard_messages (out s))"

interpretation cfg: frame_view cfg
  by unfold_locales (simp_all add: cfg_def emit_def)

interpretation tmode: swipe_blind_view mode_view
  by unfold_locales (simp_all add: mode_view_def cfg_def emit_def)

interpretation swipe: mode_blind_view swipe_view
  by unfold_locales (simp_all add: swipe_view_def cfg_def emit_def keyboard_messages_def)

lemma cfgD: "cfg s' = cfg s \<Longrightarrow> ivars s' = ivars s" "cfg s' = cfg s \<Longrightarrow> bvars s' = bvars s"
  "cfg s' = cfg s \<Longrightarrow> lvars s' = lvars s" "cfg s' = cfg s \<Longrightarrow> qvars s' = qvars s"
  "cfg s' = cfg s \<Longrightarrow> timers s' = timers s" "cfg s' = cfg s \<Longrightarrow> ignoreall s' = ignoreall s"
  "cfg s' = cfg s \<Longrightarrow> touchpad.more s' = touchpad.more s"
  by (simp_all add: cfg_def)

interpretation cfg: report_view cfg by unfold_locales (simp_all add: cfg_def)

interpretation tmode: report_view mode_view by unfold_locales (simp_all add: mode_view_def cfg_def)

interpretation swipe: report_view swipe_view by unfold_locales (simp_all add: swipe_view_def cfg_def)

section \<open>The dispatcher never traps on a valid configuration\<close>

definition scale_ok :: "'a alps_scheme \<Rightarrow> bool" where
  "scale_ok s \<longleftrightarrow> (x_max (priv s) + y_max (priv s)) sdiv 2 \<noteq> 0
     \<and> (xupmm s < yupmm s \<longrightarrow> xupmm s \<noteq> 0) \<and> (xupmm s > yupmm s \<longrightarrow> yupmm s \<noteq> 0)"

definition dispatch_ready :: "'a touchpad_scheme \<Rightarrow> bool" where
  "dispatch_ready s \<longleftrightarrow> divisorx s \<noteq> 0 \<and> divisory s \<noteq> 0 \<and> timers s ScrollTimer \<and> timers s ScrollDebounceTimer
     \<and> (buttonCount s > 2 \<longrightarrow> timers s ButtonTimer)"

lemma dispatch_ready_cfg: "cfg s' = cfg s \<Longrightarrow> dispatch_ready s' = dispatch_ready s"
  by (simp add: dispatch_ready_def cfg_def)

lemma total_start_momentum: "dispatch_ready s \<Longrightarrow> \<exists>s'. start_momentum s = Some s'"
  by (simp add: start_momentum_def dispatch_ready_def setTimerTimeout_def Let_def)

lemma total_end_drag: "\<exists>s'. end_drag s = Some s'"
  by (auto simp: end_drag_def cancelTimer_def setTimerTimeout_def Let_def emit_def)

lemma total_lifted:
  assumes "dispatch_ready s"
  shows "\<exists>b' s'. finger_lifted now n b s = Some (b', s')"
proof -
  let ?s = "s\<lparr>xrest := 0, yrest := 0, scrollrest := 0, swipes := no_swipe, untouchtime := n\<rparr>"
  have "dispatch_ready ?s" using assms by (simp add: dispatch_ready_def)
  then obtain s1 where "start_momentum ?s = Some s1" using total_start_momentum by blast
  moreover obtain s2 where "end_drag (reset_history s1) = Some s2" using total_end_drag by blast
  ultimately show ?thesis by (simp add: finger_lifted_def Let_def split_beta)
qed

lemma total_move_pointer:
  "dispatch_ready s \<Longrightarrow> \<exists>d s'. move_pointer n px py z f s = Some (d, s')"
  by (auto simp: move_pointer_def dispatch_ready_def Let_def cmod_nonzero)

lemma total_multitouch: "dispatch_ready s \<Longrightarrow> \<exists>d s'. multitouch a n px py z f s = Some (d, s')"
  by (auto simp: multitouch_def multitouch_one_def multitouch_two_def dispatch_ready_def cancelTimer_def
      setTimerTimeout_def emit_def Let_def)

lemma total_move_by_mode:
  assumes "dispatch_ready s"
  shows "\<exists>d b' s'. move_by_mode a n px py z f b s = Some (d, b', s')"
proof -
  obtain d1 s1 d2 s2 where "move_pointer n px py z f s = Some (d1, s1)" "multitouch a n px py z f s = Some (d2, s2)"
    using total_move_pointer [OF assms] total_multitouch [OF assms] by blast
  then show ?thesis by (simp add: move_by_mode_def Let_def)
qed

lemma total_capture: "dispatch_ready s \<Longrightarrow> \<exists>s'. capture_touch n px py z f s = Some s'"
  by (auto simp: capture_touch_def dispatch_ready_def setTimerTimeout_def Let_def emit_def)

lemma total_switch: "\<exists>s'. switch_mode z f s = Some s'"
  by (auto simp: switch_mode_def cancelTimer_def Let_def emit_def)

lemma total_buttons:
  assumes "dispatch_ready s"
  shows "\<exists>b' s'. dispatch_buttons E now f b s = Some (b', s')"
proof -
  have mb: "\<exists>b' s'. middleButton E b now fr s = Some (b', s')" if "dispatch_ready s" for b fr and s :: "'a touchpad_scheme"
  proof (cases "buttonCount s \<le> 2")
    case False
    then show ?thesis using mb_total that by (simp add: dispatch_ready_def) blast
  qed (simp add: middleButton_def)
  let ?s = "s\<lparr>lastbuttons := b\<rparr>"
  have r: "dispatch_ready ?s" using assms by (simp add: dispatch_ready_def)
  obtain b1 s1 where 1: "(if clickpadtype ?s = 0 \<or> f = 3
          then middleButton E b now (if f = 3 then fromPassthru else fromTrackpad) ?s
          else Some (b, ?s)) = Some (b1, s1)"
    using mb [OF r, of b "if f = 3 then fromPassthru else fromTrackpad"] by (metis (no_types))
  then have "cfg s1 = cfg ?s"
    by (auto split: if_splits dest!: cfg.v_middleButton)
  then have r1: "dispatch_ready s1" using r dispatch_ready_cfg by blast
  obtain b2 s2 where "middleButton E (b OR passbuttons s1) now fromCancel s1 = Some (b2, s2)"
    using mb [OF r1] by fastforce
  with 1 show ?thesis unfolding dispatch_buttons_def Let_def by simp
qed

lemma gesture_stage_total:
  assumes r: "dispatch_ready s"
  shows "\<exists>s'. gesture_stage now_abs now_ns px py z f b s = Some s' \<and> cfg s' = cfg s"
proof -
  obtain b1 s1 where 1: "(if z < z_finger s \<and> isTouchMode s then finger_lifted now_abs now_ns b s
                       else Some (b, s)) = Some (b1, s1)"
    using total_lifted [OF r, of now_abs now_ns b] by (metis (no_types))
  then have c1: "cfg s1 = cfg s" by (auto split: if_splits dest: cfg.v_lifted_all)
  define s2 where "s2 = cancel_tap px py z f (cancel_predrag now_ns s1)"
  have c2: "cfg s2 = cfg s" by (simp add: s2_def cfg.v_frame cfg.v_post cfg.v_filters cfg.v_cancel_tap cfg.v_cancel_predrag c1)
  obtain dx dy b3 s3 where 3: "move_by_mode now_abs now_ns px py z f b1 s2 = Some ((dx, dy), b3, s3)"
    using total_move_by_mode [of s2] dispatch_ready_cfg [OF c2] r by fastforce
  have c3: "cfg s3 = cfg s" using cfg.v_move_by_mode [OF 3] c2 by simp
  obtain s4 where 4: "capture_touch now_ns px py z f s3 = Some s4"
    using total_capture dispatch_ready_cfg [OF c3] r by blast
  have c4: "cfg s4 = cfg s" using cfg.v_capture [OF 4] c3 by simp
  obtain s5 where 5: "switch_mode z f s4 = Some s5" using total_switch by blast
  have c5: "cfg s5 = cfg s" using cfg.v_switch [OF 5] c4 by simp
  have "divisorx s5 \<noteq> 0" "divisory s5 \<noteq> 0"
    using dispatch_ready_cfg [OF c5] r by (auto simp: dispatch_ready_def)
  then show ?thesis
    unfolding gesture_stage_def
    by (simp add: 1 3 [unfolded s2_def] 4 5 Let_def cdiv_nonzero cfg.v_frame cfg.v_post cfg.v_filters cfg.v_cancel_tap cfg.v_cancel_predrag c5)
qed

text \<open>One report: what the dispatcher does before the gesture stage changes neither configuration nor timers.\<close>

lemma dispatch_total:
  assumes r: "dispatch_ready s" and sc: "scale_ok s"
  shows "\<exists>s'. dispatchEventsWithInfo E x y z f b s = Some s' \<and> cfg s' = cfg s"
proof -
  define s0 where "s0 = snd (clock_get_uptime E s)"
  have c0: "cfg s0 = cfg s" by (simp add: s0_def cfg.v_frame cfg.v_post cfg.v_filters cfg.v_cancel_tap cfg.v_cancel_predrag)
  have "\<exists>xy. scale_axes x y s0 = Some xy"
    using sc c0 by (auto simp: scale_axes_def scale_ok_def cfg_def clock_get_uptime_def s0_def cdiv_nonzero)
  then obtain xy where xy: "scale_axes x y s0 = Some xy" ..
  define f' where "f' = (if z > z_finger s0 then f else 0)"
  obtain b1 s1 where 1: "dispatch_buttons E (uptime E (ticks s)) f' b s0 = Some (b1, s1)"
    using total_buttons [of s0] dispatch_ready_cfg [OF c0] r by blast
  have c1: "cfg s1 = cfg s" using cfg.v_buttons [OF 1] c0 by simp
  obtain px py s2 where 2: "filter_report f' xy s1 = ((px, py), s2)" by (metis surj_pair)
  have c2: "cfg s2 = cfg s" using cfg.v_filters(6) [of f' xy s1] 2 c1 by simp
  have "\<exists>s'. gesture_stage (uptime E (ticks s)) (to_ns E (uptime E (ticks s))) px py z f' b1 s2 = Some s' \<and> cfg s' = cfg s"
    using gesture_stage_total [of s2] dispatch_ready_cfg [OF c2] r c2 by metis
  then show ?thesis
    using c2 xy 1 2
    by (auto simp: dispatchEventsWithInfo_def clock_get_uptime_def f'_def s0_def Let_def)
qed

end
