(* ===== verification/Gestures.thy ===== *)
theory Gestures
  imports DispatchFrame TouchPadConfig
begin

text \<open>
  What the dispatcher promises, for whole sequences of reports: it never traps on a valid configuration,
  it is silent while the trackpad is disabled, its touch mode moves along the edges of a small
  state machine, and a swipe is announced once per direction change.
\<close>

section \<open>Sequences of reports\<close>

record report =
  r_x :: int
  r_y :: int
  r_z :: int
  r_fingers :: int
  r_buttons :: u32

fun dispatch_reports :: "clock \<Rightarrow> report list \<Rightarrow> 'a alps_scheme \<Rightarrow> 'a alps_scheme option" where
  "dispatch_reports E [] s = Some s"
| "dispatch_reports E (r # rs) s =
     do {
       s \<leftarrow> dispatchEventsWithInfo E (r_x r) (r_y r) (r_z r) (r_fingers r) (r_buttons r) s;
       dispatch_reports E rs s
     }"

lemma priv_more: "touchpad.more s' = touchpad.more s \<Longrightarrow> priv s' = priv s" for s s' :: "'a alps_scheme"
  by (cases s; cases s') simp

lemma scale_ok_cfg: "cfg s' = cfg s \<Longrightarrow> scale_ok s' = scale_ok s"
  using priv_more [of s' s] by (simp add: scale_ok_def cfg_def)

lemma reports_total:
  assumes "dispatch_ready s" and "scale_ok s"
  shows "\<exists>s'. dispatch_reports E rs s = Some s' \<and> cfg s' = cfg s"
  using assms
proof (induction rs arbitrary: s)
  case (Cons r rs)
  obtain s1 where s1: "dispatchEventsWithInfo E (r_x r) (r_y r) (r_z r) (r_fingers r) (r_buttons r) s = Some s1"
    and c1: "cfg s1 = cfg s"
    using dispatch_total [OF Cons.prems] by blast
  from Cons.IH [of s1] Cons.prems s1 c1 show ?case
    by (simp add: dispatch_ready_cfg [OF c1] scale_ok_cfg [OF c1])
qed simp

text \<open>
  On a valid configuration (non-zero divisors, a usable axis scale, the timers that \<open>start\<close> creates)
  no sequence of reports, whatever its values, divides by zero or calls a timer that does not exist, and
  none changes the configuration, the timers or \<open>ignoreall\<close>.
\<close>

theorem reports_never_trap:
  assumes "dispatch_ready s" and "scale_ok s"
  shows "\<exists>s'. dispatch_reports E rs s = Some s' \<and> cfg s' = cfg s"
  using assms by (rule reports_total)

section \<open>The touch mode\<close>

text \<open>
  The input of the touch-mode machine in one report: a finger lifted off, resting exactly at the threshold,
  or touching with so many fingers.
\<close>

datatype contact = Lifted | Resting | Touching int

definition contact :: "int \<Rightarrow> int \<Rightarrow> int \<Rightarrow> contact" where
  "contact z zf fingers = (if z < zf then Lifted else if z = zf then Resting else Touching fingers)"

inductive mode_edge :: "contact \<Rightarrow> touchmode \<Rightarrow> touchmode \<Rightarrow> bool" where
  still_off: "\<not> is_touch_mode m \<Longrightarrow> mode_edge Lifted m m"
| still_resting: "mode_edge Resting m m"
| still_touching: "n \<le> 1 \<Longrightarrow> m \<notin> {MODE_PREDRAG, MODE_DRAGNOTOUCH} \<Longrightarrow> mode_edge (Touching n) m m"
| expired: "c = Lifted \<or> c = Resting \<Longrightarrow> mode_edge c MODE_PREDRAG MODE_NOTOUCH"
| lift: "is_touch_mode m \<Longrightarrow> mode_edge Lifted m MODE_NOTOUCH"
| tap: "is_touch_mode m \<Longrightarrow> m \<notin> {MODE_DRAG, MODE_DRAGLOCK} \<Longrightarrow> mode_edge Lifted m MODE_PREDRAG"
| lift_drag: "m \<in> {MODE_DRAG, MODE_DRAGLOCK} \<Longrightarrow> mode_edge Lifted m MODE_DRAGNOTOUCH"
| multi: "n > 1 \<Longrightarrow> mode_edge (Touching n) m MODE_MTOUCH"
| touch: "n \<le> 1 \<Longrightarrow> m \<in> {MODE_NOTOUCH, MODE_PREDRAG} \<Longrightarrow> mode_edge (Touching n) m MODE_MOVE"
| debounced: "n \<le> 1 \<Longrightarrow> mode_edge (Touching n) MODE_PREDRAG MODE_NOTOUCH"
| drag: "n \<le> 1 \<Longrightarrow> mode_edge (Touching n) MODE_PREDRAG MODE_DRAG"
| drag_again: "n \<le> 1 \<Longrightarrow> mode_edge (Touching n) MODE_DRAGNOTOUCH MODE_DRAGLOCK"
| one_finger: "mode_edge (Touching 1) MODE_MTOUCH MODE_MOVE"

inductive_simps mode_edge_Lifted: "mode_edge Lifted m m'"
inductive_simps mode_edge_Resting: "mode_edge Resting m m'"
inductive_simps mode_edge_Touching: "mode_edge (Touching n) m m'"

lemmas mode_edge_simps = mode_edge_Lifted mode_edge_Resting mode_edge_Touching

lemma mode_viewD: "mode_view s' = mode_view s \<Longrightarrow> touchmode s' = touchmode s"
  "mode_view s' = mode_view s \<Longrightarrow> cfg s' = cfg s" "mode_view s' = mode_view s \<Longrightarrow> ivars s' = ivars s"
  by (simp_all add: mode_view_def cfg_def)

lemma mode_tap:
  assumes "touchmode s = m" and "is_touch_mode m"
  shows "mode_edge Lifted m (touchmode (snd (dispatch_tap now b s)))"
  using assms
  by (auto simp: dispatch_tap_def Let_def dispatchRelativePointerEventX_def emit_def split: option.splits
      intro: mode_edge.intros)

lemma mode_end_drag:
  assumes "touchmode s = m" and "is_touch_mode m" and "end_drag s = Some s'"
  shows "mode_edge Lifted m (touchmode s')"
  using assms
  by (auto simp: end_drag_def cancelTimer_def setTimerTimeout_def emit_def Let_def split: if_splits
      intro: mode_edge.intros)

lemma mode_lifted:
  assumes "finger_lifted now n b s = Some (b', s')" and "isTouchMode s"
  shows "mode_edge Lifted (touchmode s) (touchmode s')"
proof (rule tmode.v_lifted_untagged [OF assms(1)])
  fix b1 s1 assume v: "mode_view (s\<lparr>swipes := no_swipe\<rparr>) = mode_view s1"
    and s': "(b', s') = (let (b, s) = dispatch_tap now b s1 in (b, s\<lparr>wasdouble := False, wastriple := False\<rparr>))
       \<or> (\<exists>s2. end_drag s1 = Some s2 \<and> s' = s2\<lparr>wasdouble := False, wastriple := False\<rparr>)"
  have m: "touchmode s1 = touchmode s" "is_touch_mode (touchmode s)"
    using mode_viewD(1) [OF v] assms(2) by (simp_all add: isTouchMode_def)
  from s' show ?thesis
    using mode_tap [OF m, of now b] mode_end_drag [OF m] by (auto simp: Let_def split_beta)
qed

lemma mode_move_by_mode:
  assumes "move_by_mode a n px py z f b s = Some (d, b', s')"
  shows "touchmode s' = touchmode s \<or> (touchmode s = MODE_MTOUCH \<and> f = 1 \<and> touchmode s' = MODE_MOVE)"
proof -
  have one: "touchmode s' = touchmode s \<or> touchmode s' = MODE_MOVE" if "multitouch_one f s = Some s'" for s'
    using that by (auto simp: multitouch_one_def Let_def bind_eq_Some_conv reset_history_def cancelTimer_def
        setTimerTimeout_def emit_def split: if_splits)
  have multi: "touchmode s' = touchmode s \<or> (f = 1 \<and> touchmode s' = MODE_MOVE)"
    if "multitouch a n px py z f s = Some (d, s')" for d s'
    using that one mode_viewD(1) [OF tmode.v_swipe(1)] mode_viewD(1) [OF tmode.v_swipe(2)]
    by (auto simp: multitouch_def split: if_splits dest!: tmode.v_multitouch_two mode_viewD(1))
  show ?thesis
    using assms multi
    by (auto simp: move_by_mode_def Let_def split: if_splits dest!: tmode.v_move_pointer mode_viewD(1))
qed

lemma switch_mode_touching:
  assumes "switch_mode z f s = Some s'" and "z > z_finger s"
  shows "touchmode s' =
    (if f > 1 then MODE_MTOUCH else if touchmode s = MODE_PREDRAG then MODE_DRAG
     else if touchmode s = MODE_DRAGNOTOUCH then MODE_DRAGLOCK
     else if touchmode s = MODE_NOTOUCH \<and> \<not> scrolldebounce s then MODE_MOVE else touchmode s)"
proof -
  have "map_option touchmode (switch_mode z f s) = Some
    (if f > 1 then MODE_MTOUCH else if touchmode s = MODE_PREDRAG then MODE_DRAG
     else if touchmode s = MODE_DRAGNOTOUCH then MODE_DRAGLOCK
     else if touchmode s = MODE_NOTOUCH \<and> \<not> scrolldebounce s then MODE_MOVE else touchmode s)"
    using assms(2) by (simp add: switch_mode_def Let_def isFingerTouch_def cancelTimer_def emit_def)
  then show ?thesis using assms(1) by simp
qed

lemma mode_switch:
  assumes "switch_mode z f s = Some s'" and "z > z_finger s"
  shows "mode_edge (Touching f) (touchmode s) (touchmode s')"
  unfolding switch_mode_touching [OF assms] by (auto intro: mode_edge.intros)

lemma mode_switch_idle: "switch_mode z f s = Some s' \<Longrightarrow> z \<le> z_finger s \<Longrightarrow> touchmode s' = touchmode s"
  by (auto simp: switch_mode_def Let_def isFingerTouch_def split: if_splits)

lemma mode_cancel: "touchmode (cancel_tap px py z f (cancel_predrag n s)) = touchmode s
    \<or> touchmode s = MODE_PREDRAG \<and> touchmode (cancel_tap px py z f (cancel_predrag n s)) = MODE_NOTOUCH"
  using mode_viewD(1) [OF tmode.v_cancel_tap, of px py z f "cancel_predrag n s"] by (auto simp: cancel_predrag_def)

lemma mode_edge_compose:
  assumes "m2 = m \<or> m = MODE_PREDRAG \<and> m2 = MODE_NOTOUCH"
    and "m3 = m2 \<or> m2 = MODE_MTOUCH \<and> f = 1 \<and> m3 = MODE_MOVE"
    and "mode_edge (Touching f) m3 m5"
  shows "mode_edge (Touching f) m m5"
  using assms unfolding mode_edge_Touching by (elim disjE conjE) auto

lemma mode_gesture:
  assumes g: "gesture_stage now ns px py z (if z > z_finger s then f else 0) b s = Some s'"
  shows "mode_edge (contact z (z_finger s) f) (touchmode s) (touchmode s')"
proof -
  define f' where "f' = (if z > z_finger s then f else 0)"
  from g obtain b1 s1 d b3 s3 s4 s5 where
    1: "(if z < z_finger s \<and> isTouchMode s then finger_lifted now ns b s else Some (b, s)) = Some (b1, s1)" and
    3: "move_by_mode now ns px py z f' b1 (cancel_tap px py z f' (cancel_predrag ns s1)) = Some (d, b3, s3)" and
    4: "capture_touch ns px py z f' s3 = Some s4" and 5: "switch_mode z f' s4 = Some s5" and
    s': "touchmode s' = touchmode s5"
    unfolding gesture_stage_def f'_def
    by (auto simp: bind_eq_Some_conv dispatchRelativePointerEventX_def emit_def split_beta)
  let ?s2 = "cancel_tap px py z f' (cancel_predrag ns s1)"
  have c1: "cfg s1 = cfg s" using 1 by (auto split: if_splits dest: cfg.v_lifted_all)
  then have "cfg s4 = cfg s"
    using cfg.v_capture [OF 4] cfg.v_move_by_mode [OF 3] by (simp add: cfg.v_cancel_tap cfg.v_cancel_predrag)
  then have zf: "ivars s4 = ivars s" by (rule cfgD)
  have m4: "touchmode s4 = touchmode s3" using mode_viewD(1) [OF tmode.v_capture [OF 4]] .
  note m = mode_cancel [of px py z f' ns s1] mode_move_by_mode [OF 3] m4
  show ?thesis
  proof (cases "z > z_finger s")
    case True
    then have "s1 = s" using 1 by simp
    then show ?thesis
      using mode_edge_compose [OF m(1,2) mode_switch [OF 5, unfolded m4 zf, OF True]] True s'
      by (simp add: contact_def f'_def)
  next
    case False
    then have "touchmode s5 = touchmode s4" and "f' \<noteq> 1"
      using mode_switch_idle [OF 5] by (simp_all add: zf f'_def)
    then have m5: "touchmode s5 = touchmode s1 \<or> touchmode s1 = MODE_PREDRAG \<and> touchmode s5 = MODE_NOTOUCH"
      using m by metis
    show ?thesis
    proof (cases "z < z_finger s")
      case True
      then have "mode_edge Lifted (touchmode s) (touchmode s1)"
        using 1 mode_lifted by (auto simp: isTouchMode_def split: if_splits intro: mode_edge.still_off)
      then show ?thesis using m5 True s' by (auto simp: contact_def mode_edge_Lifted)
    next
      case rest: False
      with False 1 have "s1 = s" by simp
      then show ?thesis using m5 False rest s' by (auto simp: contact_def mode_edge_Resting)
    qed
  qed
qed

lemma report_edge:
  assumes "dispatchEventsWithInfo E x y z f b s = Some s'"
  shows "mode_edge (contact z (z_finger s) f) (touchmode s) (touchmode s')
    \<or> ((ignoreall s \<or> outzone_wt s) \<and> touchmode s' = touchmode s)"
  using assms
proof (cases rule: tmode.v_report)
  case early
  then show ?thesis using mode_viewD(1) [of s' s] by simp
next
  case (gesture now ns px py bs s1)
  have zf: "z_finger s1 = z_finger s" using mode_viewD(3) [OF gesture(1)] by simp
  show ?thesis
    using mode_gesture [of now ns px py z s1 f bs s'] gesture(3) mode_viewD(1) [OF gesture(1)] by (simp add: zf)
qed

text \<open>
  C8. The touch mode is a state machine: a report that is not ignored (trackpad disabled, or the zone rule
  while typing, which leave the mode alone) moves it along an edge of \<open>mode_edge\<close>.  So two or more
  fingers always lead to \<open>MODE_MTOUCH\<close>, lifting off always leaves a touch mode, a drag begins only in
  \<open>MODE_PREDRAG\<close> (after a tap), a drag lock only in \<open>MODE_DRAGNOTOUCH\<close>, and the six modes of
  clickpad and edge scrolling are never entered.
\<close>

theorem report_follows_mode_edge:
  assumes "dispatchEventsWithInfo E x y z f b s = Some s'"
  shows "mode_edge (contact z (z_finger s) f) (touchmode s) (touchmode s')
    \<or> ((ignoreall s \<or> outzone_wt s) \<and> touchmode s' = touchmode s)"
  using assms by (rule report_edge)

text \<open>
  Reports, timers, configuration and keyboard messages all run in the driver's work loop, one after the
  other.  One such step:
\<close>

datatype tp_op = Report report | DragTimerFires | ScrollTimerFires | ButtonTimerFires | DebounceTimerFires
  | Configure "(string \<Rightarrow> os_object option) option" | Message tp_message

fun tp_op_step :: "clock \<Rightarrow> tp_op \<Rightarrow> 'a alps_scheme \<Rightarrow> 'a alps_scheme option" where
  "tp_op_step E (Report r) s = dispatchEventsWithInfo E (r_x r) (r_y r) (r_z r) (r_fingers r) (r_buttons r) s"
| "tp_op_step E DragTimerFires s = onDragTimer E s"
| "tp_op_step E ScrollTimerFires s = onScrollTimer E s"
| "tp_op_step E ButtonTimerFires s = onButtonTimer E s"
| "tp_op_step E DebounceTimerFires s = Some (onScrollDebounceTimer s)"
| "tp_op_step E (Configure d) s = Some (setParamPropertiesGated d s)"
| "tp_op_step E (Message m) s = Some (snd (receiveMessage m s))"

inductive tp_reachable :: "clock \<Rightarrow> 'a alps_scheme \<Rightarrow> 'a alps_scheme \<Rightarrow> bool" for E s where
  tp_init: "tp_reachable E s s"
| tp_step: "tp_reachable E s t \<Longrightarrow> tp_op_step E op t = Some u \<Longrightarrow> tp_reachable E s u"

definition live_mode :: "touchmode \<Rightarrow> bool" where
  "live_mode m \<longleftrightarrow> m \<in> {MODE_NOTOUCH, MODE_PREDRAG, MODE_DRAGNOTOUCH, MODE_MOVE, MODE_MTOUCH, MODE_DRAG, MODE_DRAGLOCK}"

lemma live_mode_edge: "mode_edge c m m' \<Longrightarrow> live_mode m \<Longrightarrow> live_mode m'"
  by (induction rule: mode_edge.induct) (auto simp: live_mode_def)

lemma mode_timers:
  "onDragTimer E s = Some s' \<Longrightarrow> touchmode s' = touchmode s \<or> touchmode s' = MODE_NOTOUCH"
  "onScrollTimer E s = Some s' \<Longrightarrow> touchmode s' = touchmode s"
  "onButtonTimer E s = Some s' \<Longrightarrow> touchmode s' = touchmode s"
  "touchmode (onScrollDebounceTimer s) = touchmode s"
  "touchmode (snd (receiveMessage m s)) = touchmode s"
  by (auto simp: onDragTimer_def onScrollTimer_def onButtonTimer_def onScrollDebounceTimer_def receiveMessage_def
      notify_key_pressed_def clock_get_uptime_def setTimerTimeout_def dispatchScrollWheelEventX_def
      dispatchRelativePointerEventX_def emit_def Let_def bind_eq_Some_conv
      split: if_splits tp_message.splits dest!: tmode.v_middleButton mode_viewD(1))

lemma live_mode_step:
  assumes "tp_op_step E op s = Some s'" and "live_mode (touchmode s)"
  shows "live_mode (touchmode s')"
proof (cases op)
  case (Report r)
  then show ?thesis using assms report_edge live_mode_edge by fastforce
next
  case (Configure d)
  have "touchmode (setParamPropertiesGated d s) = touchmode s \<or> touchmode (setParamPropertiesGated d s) = MODE_NOTOUCH"
    by (simp add: setParamPropertiesGated_def Let_def set_ivar_def split: option.split)
  then show ?thesis using assms Configure by (auto simp: live_mode_def)
next
  case DragTimerFires
  then show ?thesis using assms mode_timers(1) [of E s s'] by (auto simp: live_mode_def)
qed (use assms mode_timers(2,3) [of E s s'] in \<open>auto simp: mode_timers(4,5)\<close>)


section \<open>Swipes\<close>

definition vertical :: "swipe_message \<Rightarrow> bool" where
  "vertical m \<longleftrightarrow> m \<in> {SwipeUp, SwipeDown, Swipe4Up, Swipe4Down}"

text \<open>After \<open>m\<close>, the message \<open>m'\<close> would announce the same swipe once more.\<close>

definition repeats :: "swipe_message \<Rightarrow> swipe_message \<Rightarrow> bool" where
  "repeats m m' \<longleftrightarrow> m = m' \<or>
     (m, m') \<in> {(Swipe4Up, SwipeUp), (Swipe4Down, SwipeDown), (Swipe4Left, SwipeLeft), (Swipe4Right, SwipeRight)}"

definition no_repeats :: "swipe_message list \<Rightarrow> bool" where
  "no_repeats ms \<longleftrightarrow> successively (\<lambda>m m'. \<not> repeats m m') ms"

text \<open>The flag that a message raises.\<close>

fun swipe_flag :: "swipe_message \<Rightarrow> swipes \<Rightarrow> bool" where
  "swipe_flag SwipeUp w = inSwipeUp w"
| "swipe_flag SwipeDown w = inSwipeDown w"
| "swipe_flag SwipeLeft w = inSwipeLeft w"
| "swipe_flag SwipeRight w = inSwipeRight w"
| "swipe_flag Swipe4Up w = inSwipe4Up w"
| "swipe_flag Swipe4Down w = inSwipe4Down w"
| "swipe_flag Swipe4Left w = inSwipe4Left w"
| "swipe_flag Swipe4Right w = inSwipe4Right w"

inductive swipe_step :: "swipes \<Rightarrow> swipe_message list \<Rightarrow> swipes \<Rightarrow> swipe_message list \<Rightarrow> bool" where
  quiet: "(\<And>m. swipe_flag m w' = swipe_flag m w) \<Longrightarrow> swipe_step w ms w' ms"
| announce: "(\<And>m'. repeats m' m \<Longrightarrow> \<not> swipe_flag m' w) \<Longrightarrow> swipe_flag m w'
    \<Longrightarrow> (\<And>m'. vertical m' \<noteq> vertical m \<Longrightarrow> swipe_flag m' w' = swipe_flag m' w)
    \<Longrightarrow> swipe_step w ms w' (ms @ [m])"

definition swipes_follow :: "(swipe_message \<Rightarrow> bool) \<Rightarrow> swipe_message list \<Rightarrow> swipes \<Rightarrow> bool" where
  "swipes_follow A ms w \<longleftrightarrow> no_repeats (filter A ms) \<and> (filter A ms \<noteq> [] \<longrightarrow> swipe_flag (last (filter A ms)) w)"

lemma swipes_follow_step:
  assumes "swipe_step w ms w' ms'" and "A = vertical \<or> A = (\<lambda>m. \<not> vertical m)"
    and "ms = ms0 @ ms1" and "swipes_follow A ms1 w"
  shows "\<exists>ms2. ms' = ms0 @ ms2 \<and> swipes_follow A ms2 w'"
  using assms
proof (induction rule: swipe_step.induct)
  case (quiet w' w ms)
  then show ?case by (auto simp: swipes_follow_def)
next
  case (announce m w w' ms)
  have "swipes_follow A (ms1 @ [m]) w'"
  proof (cases "A m")
    case True
    then show ?thesis
      using announce.hyps(1) [of "last (filter A ms1)"] announce.hyps(2) announce.prems(3)
      by (auto simp: swipes_follow_def no_repeats_def successively_append_iff)
  next
    case False
    have "A m'" if "m' = last (filter A ms1)" "filter A ms1 \<noteq> []" for m'
      using last_in_set [OF that(2)] that(1) by simp
    then have "swipe_flag (last (filter A ms1)) w' = swipe_flag (last (filter A ms1)) w" if "filter A ms1 \<noteq> []"
      using announce.hyps(3) [of "last (filter A ms1)"] announce.prems(1) False that by auto
    then show ?thesis
      using False announce.prems(3) by (simp add: swipes_follow_def)
  qed
  then show ?case using announce.prems(2) by (intro exI [of _ "ms1 @ [m]"]) simp
qed

definition swipe_moves where
  "swipe_moves s s' \<longleftrightarrow> cfg s' = cfg s
     \<and> swipe_step (swipes s) (keyboard_messages (out s)) (swipes s') (keyboard_messages (out s'))"

lemma swipe_moves_view: "swipe_view s' = swipe_view s \<Longrightarrow> swipe_moves s s'"
  by (simp add: swipe_view_def swipe_moves_def swipe_step.quiet)

lemma keyboard_messages_snoc: "keyboard_messages (es @ [KeyboardMessage m t]) = keyboard_messages es @ [m]"
  by (simp add: keyboard_messages_def)

lemma all_messages: "(\<forall>m. P m) \<longleftrightarrow> P SwipeUp \<and> P SwipeDown \<and> P SwipeLeft \<and> P SwipeRight
    \<and> P Swipe4Up \<and> P Swipe4Down \<and> P Swipe4Left \<and> P Swipe4Right"
  by (metis (full_types) swipe_message.exhaust)

lemma quietI: "(\<forall>m. swipe_flag m w' = swipe_flag m w) \<Longrightarrow> swipe_step w ms w' ms"
  by (simp add: swipe_step.quiet)

lemma announceI: "(\<forall>m'. repeats m' m \<longrightarrow> \<not> swipe_flag m' w) \<and> swipe_flag m w'
    \<and> (\<forall>m'. vertical m' \<noteq> vertical m \<longrightarrow> swipe_flag m' w' = swipe_flag m' w) \<Longrightarrow> swipe_step w ms w' (ms @ [m])"
  by (rule swipe_step.announce) auto

lemma swipe_moves_post:
  assumes "swipe_step (swipes s) (keyboard_messages (out s)) (fst r)
      (keyboard_messages (out s) @ (case snd r of Some m \<Rightarrow> [m] | None \<Rightarrow> []))"
  shows "swipe_moves s (post_swipe t r s)"
  using assms
  by (auto simp: swipe_moves_def post_swipe_def dispatchKeyboardMessage_def emit_def keyboard_messages_snoc cfg_def Let_def
      split: option.split)

lemma swipe_flag_moved: "swipe_flag m (swipe_moved px py s) = swipe_flag m (swipes s)"
  by (cases m) (simp_all add: swipe_moved_def)

lemma swipe_step_moved:
  "swipe_step (swipe_moved px py s) ms w' ms' \<Longrightarrow> swipe_step (swipes s) ms w' ms'"
  by (induction "swipe_moved px py s" ms w' ms' rule: swipe_step.induct)
    (auto simp: swipe_flag_moved intro: swipe_step.intros)

lemma swipe_step_three: "swipe_step w ms (fst (swipe_three kx ky h v w))
    (ms @ (case snd (swipe_three kx ky h v w) of Some m \<Rightarrow> [m] | None \<Rightarrow> []))"
  by (simp add: swipe_three_def quietI announceI all_messages repeats_def vertical_def)

lemma swipe_step_four: "swipe_step w ms (fst (swipe_four kx ky w))
    (ms @ (case snd (swipe_four kx ky w) of Some m \<Rightarrow> [m] | None \<Rightarrow> []))"
  by (simp add: swipe_four_def quietI announceI all_messages repeats_def vertical_def)

lemma swipe_moves_three: "swipe_moves s (multitouch_three a px py f s)"
  using swipe_moves_view [of s s]
  by (auto simp: multitouch_three_def intro!: swipe_moves_post swipe_step_moved swipe_step_three)

lemma swipe_moves_four: "swipe_moves s (multitouch_four a px py f s)"
  using swipe_moves_view [of s s]
  by (auto simp: multitouch_four_def intro!: swipe_moves_post swipe_step_moved swipe_step_four)

lemma swipe_moves_trans:
  "swipe_view s1 = swipe_view s \<Longrightarrow> swipe_moves s1 s2 \<Longrightarrow> swipe_view s3 = swipe_view s2 \<Longrightarrow> swipe_moves s s3"
  by (simp add: swipe_view_def swipe_moves_def)

lemma swipe_moves_multitouch:
  assumes "multitouch a n px py z f s = Some (d, s')"
  shows "swipe_moves s s'"
proof (cases "f = 3 \<or> f = 4")
  case True
  then show ?thesis
    using assms swipe_moves_three [of s a px py f] swipe_moves_four [of s a px py f]
    by (auto simp: multitouch_def split: if_splits)
next
  case False
  then have "swipe_view s' = swipe_view s"
    using assms by (auto simp: multitouch_def split: if_splits dest: swipe.v_multitouch_one swipe.v_multitouch_two)
  then show ?thesis by (rule swipe_moves_view)
qed

lemma swipe_moves_by_mode:
  assumes "move_by_mode a n px py z f b s = Some (d, b', s')"
  shows "swipe_moves s s'"
proof (cases "touchmode s = MODE_MTOUCH")
  case True
  then show ?thesis
    using assms swipe_moves_multitouch by (auto simp: move_by_mode_def Let_def)
next
  case False
  then have "swipe_view s' = swipe_view s"
    using assms by (auto simp: move_by_mode_def Let_def split: if_split_asm dest: swipe.v_move_pointer)
  then show ?thesis by (rule swipe_moves_view)
qed

lemma swipe_moves_gesture:
  assumes g: "gesture_stage now ns px py z f b s = Some s'" and z: "\<not> z < z_finger s"
  shows "swipe_moves s s'"
proof -
  from g z obtain d b3 s3 s4 s5 where
    3: "move_by_mode now ns px py z f b (cancel_tap px py z f (cancel_predrag ns s)) = Some (d, b3, s3)" and
    4: "capture_touch ns px py z f s3 = Some s4" and 5: "switch_mode z f s4 = Some s5" and
    s': "swipe_view s' = swipe_view s5"
    unfolding gesture_stage_def
    by (auto simp: bind_eq_Some_conv swipe.v_post swipe.v_frame split_beta)
  show ?thesis
  proof (rule swipe_moves_trans [OF _ swipe_moves_by_mode [OF 3]])
    show "swipe_view s' = swipe_view s3" using swipe.v_capture [OF 4] swipe.v_switch [OF 5] s' by simp
  qed (simp add: swipe.v_cancel_tap swipe.v_cancel_predrag)
qed

lemma swipe_moves_report:
  assumes "dispatchEventsWithInfo E x y z f b s = Some s'" and z: "\<not> z < z_finger s"
  shows "swipe_moves s s'"
  using assms(1)
proof (cases rule: swipe.v_report)
  case early
  then show ?thesis by (intro swipe_moves_view) simp
next
  case (gesture now ns px py bs s1)
  then have "cfg s1 = cfg s" by (simp add: swipe_view_def)
  then have "\<not> z < z_finger s1" using z by (simp add: cfg_def)
  then have "swipe_moves s1 s'" using swipe_moves_gesture gesture(3) by blast
  then show ?thesis by (rule swipe_moves_trans [OF gesture(1) _ refl])
qed

lemma swipes_follow_reports:
  assumes "dispatch_reports E rs s = Some s'" and "\<forall>r \<in> set rs. r_z r \<ge> z_finger s"
    and "A = vertical \<or> A = (\<lambda>m. \<not> vertical m)"
    and "keyboard_messages (out s) = ms0 @ ms1" and "swipes_follow A ms1 (swipes s)"
  shows "\<exists>ms2. keyboard_messages (out s') = ms0 @ ms2 \<and> swipes_follow A ms2 (swipes s')"
  using assms(1,2,4,5)
proof (induction rs arbitrary: s ms1)
  case (Cons r rs)
  then obtain s1 where 1: "dispatchEventsWithInfo E (r_x r) (r_y r) (r_z r) (r_fingers r) (r_buttons r) s = Some s1"
    and 2: "dispatch_reports E rs s1 = Some s'"
    by (auto simp: bind_eq_Some_conv)
  have m: "swipe_moves s s1" using swipe_moves_report [OF 1] Cons.prems(2) by simp
  then obtain ms2 where "keyboard_messages (out s1) = ms0 @ ms2" "swipes_follow A ms2 (swipes s1)"
    using swipes_follow_step [OF _ assms(3) Cons.prems(3,4)] by (auto simp: swipe_moves_def)
  moreover have "ivars s1 = ivars s" using m by (simp add: swipe_moves_def cfg_def)
  ultimately show ?case using Cons.IH [OF 2, of ms2] Cons.prems(2) by simp
qed simp

lemma swipes_follow_alternate:
  assumes "dispatch_reports E rs s = Some s'" and "\<forall>r \<in> set rs. r_z r \<ge> z_finger s" and "swipes s = no_swipe"
  shows "\<exists>ms. keyboard_messages (out s') = keyboard_messages (out s) @ ms
     \<and> no_repeats (filter vertical ms) \<and> no_repeats (filter (\<lambda>m. \<not> vertical m) ms)"
proof -
  have nil: "swipes_follow A [] w" for A w by (simp add: swipes_follow_def no_repeats_def)
  show ?thesis
    using swipes_follow_reports [OF assms(1,2) disjI1 [OF refl], of _ "[]"]
      swipes_follow_reports [OF assms(1,2) disjI2 [OF refl], of _ "[]"] nil
    by (fastforce simp: swipes_follow_def)
qed

text \<open>
  While the fingers stay down, the swipes announced to the keyboard driver alternate: on each axis,
  no message announces the same direction twice in a row, and a three-finger swipe never repeats the
  four-finger swipe before it, whatever the positions, finger counts and times of the reports.
\<close>

theorem swipes_alternate:
  assumes "dispatch_reports E rs s = Some s'" and "\<forall>r \<in> set rs. r_z r \<ge> z_finger s" and "swipes s = no_swipe"
  shows "\<exists>ms. keyboard_messages (out s') = keyboard_messages (out s) @ ms
     \<and> no_repeats (filter vertical ms) \<and> no_repeats (filter (\<lambda>m. \<not> vertical m) ms)"
  by (rule swipes_follow_alternate [OF assms])

section \<open>A disabled trackpad\<close>

fun is_motion :: "tp_event \<Rightarrow> bool" where
  "is_motion (RelativePointer dx dy b t) \<longleftrightarrow> dx \<noteq> 0 \<or> dy \<noteq> 0"
| "is_motion (ScrollWheel a1 a2 a3 t) \<longleftrightarrow> True"
| "is_motion (KeyboardMessage m t) \<longleftrightarrow> True"
| "is_motion e \<longleftrightarrow> False"

definition gesture_view where
  "gesture_view s = (cfg s, touchmode s, swipes s, momentum s, touchtime s, last_fingers s, filter is_motion (out s))"

interpretation gesture: report_view gesture_view
  by unfold_locales (simp_all add: gesture_view_def cfg_def emit_def)

lemma disabled_reports:
  assumes "dispatch_reports E rs s = Some s'" and "ignoreall s"
  shows "gesture_view s' = gesture_view s"
  using assms
proof (induction rs arbitrary: s)
  case (Cons r rs)
  then obtain s1 where 1: "dispatchEventsWithInfo E (r_x r) (r_y r) (r_z r) (r_fingers r) (r_buttons r) s = Some s1"
    and 2: "dispatch_reports E rs s1 = Some s'"
    by (auto simp: bind_eq_Some_conv)
  from 1 have 3: "gesture_view s1 = gesture_view s"
    by (cases rule: gesture.v_report) (simp_all add: Cons.prems(2))
  then have "ignoreall s1" using Cons.prems(2) by (simp add: gesture_view_def cfg_def)
  with Cons.IH 2 3 show ?case by simp
qed simp

text \<open>
  While the trackpad is disabled (\<open>ignoreall\<close>), reports move nothing: no pointer motion, no scrolling
  and no swipe is posted, and neither the touch mode, nor the swipe and momentum state, nor the tap timing
  changes.  (Clicks of the physical buttons still pass.)
\<close>

theorem disabled_is_silent:
  assumes "dispatch_reports E rs s = Some s'" and "ignoreall s"
  shows "filter is_motion (out s') = filter is_motion (out s) \<and> touchmode s' = touchmode s \<and> swipes s' = swipes s
    \<and> momentum s' = momentum s \<and> touchtime s' = touchtime s \<and> last_fingers s' = last_fingers s"
  using disabled_reports [OF assms] by (simp add: gesture_view_def)

section \<open>The scale of large sensors\<close>

lemma scale_axes_zero:
  assumes "scale_ok s" and "(x_max (priv s) + y_max (priv s)) sdiv 2 > 6000"
  shows "scale_axes x y s = Some (0, 0)"
proof -
  have "6000 sdiv k = 0" if "k > 6000" for k :: int using that by (simp add: sdiv_nonneg_eq)
  then show ?thesis using assms by (auto simp: scale_axes_def scale_ok_def cdiv_nonzero)
qed

text \<open>
  The scale factor \<open>6000 / ((x_max + y_max) / 2)\<close> is an integer: on a sensor whose two extents average
  more than 6000 it is 0, every position becomes the origin, and the report's coordinates have no effect.
\<close>

theorem large_sensor_position_lost:
  assumes "scale_ok s" and "(x_max (priv s) + y_max (priv s)) sdiv 2 > 6000"
  shows "dispatchEventsWithInfo E x y z f b s = dispatchEventsWithInfo E 0 0 z f b s"
proof -
  let ?s = "snd (clock_get_uptime E s)"
  have ok: "scale_ok ?s" "(x_max (priv ?s) + y_max (priv ?s)) sdiv 2 > 6000"
    using assms by (simp_all add: scale_ok_def clock_get_uptime_def)
  show ?thesis
    by (simp add: dispatchEventsWithInfo_def split_beta scale_axes_zero [OF ok])
qed

section \<open>The object at allocation\<close>

text \<open>IOKit zeroes the memory of a driver object; no packet routine is bound before \<open>set_protocol\<close>.\<close>

definition new_alps :: alps where
  "new_alps = touchpad.extend new_touchpad (alps.fields zero_data None None None)"

lemma new_alps_more: "priv new_alps = zero_data"
  by (simp add: new_alps_def touchpad.defs alps.defs)

lemma new_alps_fields:
  "touchmode new_alps = MODE_NOTOUCH" "swipes new_alps = no_swipe" "ivars new_alps = (\<lambda>_. 0)" "lvars new_alps = (\<lambda>_. False)" "timers new_alps = (\<lambda>_. False)"
  "ignoreall new_alps = False" "ticks new_alps = 0" "out new_alps = []" "mbutton new_alps = \<lparr>mb_state = STATE_NOBUTTONS, pendingbuttons = 0, buttontime = 0\<rparr>"
  by (simp_all add: new_alps_def new_touchpad_def touchpad.defs no_swipe_def)

text \<open>A configured object for the witnesses: divisors 1, all timers created, a sensor of 2000 by 1400 units.\<close>

definition sample_alps :: alps where
  "sample_alps = new_alps\<lparr>ivars := (\<lambda>_. 1)(I_z_finger := 45), timers := (\<lambda>_. True), priv := zero_data\<lparr>x_max := 2000, y_max := 1400\<rparr>\<rparr>"

lemma sample_ok: "dispatch_ready sample_alps" "scale_ok sample_alps" "dispatch_ready (sample_alps\<lparr>ignoreall := True\<rparr>)" "scale_ok (sample_alps\<lparr>ignoreall := True\<rparr>)"
  "swipes sample_alps = no_swipe" "touchmode sample_alps = MODE_NOTOUCH" "z_finger sample_alps = 45"
  by (simp_all add: sample_alps_def new_alps_fields dispatch_ready_def scale_ok_def signed_divide_int_def)

lemma reports_never_trap_witness:
  "\<exists>s'. dispatch_reports \<lparr>uptime = of_nat, to_ns = (\<lambda>t. t)\<rparr> [\<lparr>r_x = 100, r_y = 90, r_z = 60, r_fingers = 1, r_buttons = 0\<rparr>] sample_alps = Some s' \<and> cfg s' = cfg sample_alps"
  by (rule reports_never_trap [OF sample_ok(1,2)])

lemma report_follows_mode_edge_witness:
  "\<exists>s'. dispatchEventsWithInfo \<lparr>uptime = of_nat, to_ns = (\<lambda>t. t)\<rparr> 100 90 60 2 0 sample_alps = Some s'
     \<and> mode_edge (Touching 2) MODE_NOTOUCH (touchmode s')"
proof -
  obtain s' where s': "dispatchEventsWithInfo \<lparr>uptime = of_nat, to_ns = (\<lambda>t. t)\<rparr> 100 90 60 2 0 sample_alps = Some s'"
    using dispatch_total [OF sample_ok(1,2)] by blast
  have "\<not> ignoreall sample_alps" "\<not> outzone_wt sample_alps" by (simp_all add: sample_alps_def new_alps_fields)
  then show ?thesis
    using report_follows_mode_edge [OF s'] s' sample_ok by (simp add: contact_def)
qed


lemma swipes_alternate_witness:
  "\<exists>s' ms. dispatch_reports \<lparr>uptime = of_nat, to_ns = (\<lambda>t. t)\<rparr> [\<lparr>r_x = 100, r_y = 90, r_z = 60, r_fingers = 1, r_buttons = 0\<rparr>\<lparr>r_fingers := 3\<rparr>, \<lparr>r_x = 100, r_y = 90, r_z = 60, r_fingers = 1, r_buttons = 0\<rparr>\<lparr>r_y := 900, r_fingers := 3\<rparr>] sample_alps = Some s'
     \<and> keyboard_messages (out s') = ms \<and> no_repeats (filter vertical ms)"
proof -
  obtain s' where s': "dispatch_reports \<lparr>uptime = of_nat, to_ns = (\<lambda>t. t)\<rparr> [\<lparr>r_x = 100, r_y = 90, r_z = 60, r_fingers = 1, r_buttons = 0\<rparr>\<lparr>r_fingers := 3\<rparr>, \<lparr>r_x = 100, r_y = 90, r_z = 60, r_fingers = 1, r_buttons = 0\<rparr>\<lparr>r_y := 900, r_fingers := 3\<rparr>] sample_alps = Some s'"
    using reports_total [OF sample_ok(1,2)] by blast
  have "keyboard_messages (out sample_alps) = []" by (simp add: sample_alps_def new_alps_fields keyboard_messages_def)
  then show ?thesis using swipes_alternate [OF s' _ sample_ok(5)] s' sample_ok(7) by auto
qed

lemma disabled_is_silent_witness:
  "\<exists>s'. dispatch_reports \<lparr>uptime = of_nat, to_ns = (\<lambda>t. t)\<rparr> [\<lparr>r_x = 100, r_y = 90, r_z = 60, r_fingers = 1, r_buttons = 0\<rparr>, \<lparr>r_x = 100, r_y = 90, r_z = 60, r_fingers = 1, r_buttons = 0\<rparr>\<lparr>r_x := 700\<rparr>] (sample_alps\<lparr>ignoreall := True\<rparr>) = Some s'
     \<and> touchmode s' = MODE_NOTOUCH \<and> filter is_motion (out s') = []"
proof -
  obtain s' where s': "dispatch_reports \<lparr>uptime = of_nat, to_ns = (\<lambda>t. t)\<rparr> [\<lparr>r_x = 100, r_y = 90, r_z = 60, r_fingers = 1, r_buttons = 0\<rparr>, \<lparr>r_x = 100, r_y = 90, r_z = 60, r_fingers = 1, r_buttons = 0\<rparr>\<lparr>r_x := 700\<rparr>] (sample_alps\<lparr>ignoreall := True\<rparr>) = Some s'"
    using reports_total [OF sample_ok(3,4)] by blast
  have "out sample_alps = []" by (simp add: sample_alps_def new_alps_fields)
  then show ?thesis using disabled_is_silent [OF s'] s' sample_ok(6) by simp
qed

text \<open>The extents that \<open>set_protocol\<close> gives a V8 trackpad with buttons.\<close>

lemma large_sensor_position_lost_witness:
  "dispatchEventsWithInfo \<lparr>uptime = of_nat, to_ns = (\<lambda>t. t)\<rparr> 4000 2000 60 1 0 (sample_alps\<lparr>priv := zero_data\<lparr>x_max := 8160, y_max := 4080\<rparr>\<rparr>)
   = dispatchEventsWithInfo \<lparr>uptime = of_nat, to_ns = (\<lambda>t. t)\<rparr> 0 0 60 1 0 (sample_alps\<lparr>priv := zero_data\<lparr>x_max := 8160, y_max := 4080\<rparr>\<rparr>)"
  by (rule large_sensor_position_lost)
    (simp_all add: sample_alps_def new_alps_fields scale_ok_def signed_divide_int_def)

end
