(* ===== verification/AlpsBitmap.thy ===== *)
theory AlpsBitmap
  imports AlpsDecode
begin

text \<open>
  The semi-multitouch arithmetic of \<open>alps.cpp\<close>: \<open>alps_get_bitmap_points\<close> scans an electrode bitmap
  for its first and last run of set bits, and \<open>alps_process_bitmap\<close> turns the two bitmaps into a
  bounding box and selects the corner that stands for the second touch.

  The abstract specification of the scan is \<open>runs\<close>, the list of the maximal runs of set bits.  The
  divisors \<open>2 * (x_bits - 1)\<close> and \<open>2 * (y_bits - 1)\<close> are zero for a one-electrode axis: the
  division is \<open>cdiv\<close>, and a zero divisor is \<open>None\<close>.
\<close>

section \<open>Runs of set bits\<close>

record alps_bitmap_point =
  start_bit :: int
  num_bits :: int

text \<open>
  The loop of \<open>alps_get_bitmap_points\<close>: \<open>hi\<close> is whether \<open>point\<close> is \<open>high\<close>, \<open>prev\<close> is
  \<open>prev_bit\<close>, \<open>n\<close> is \<open>*fingers\<close>.
\<close>

definition bitmap_point_step ::
    "bool \<Rightarrow> int \<Rightarrow> bool \<Rightarrow> alps_bitmap_point \<Rightarrow> int \<Rightarrow> alps_bitmap_point \<times> int" where
  "bitmap_point_step b i prev point n =
     (if b then
        (let (point, n) = (if \<not> prev then (point\<lparr>start_bit := i, num_bits := 0\<rparr>, n + 1) else (point, n))
         in (point\<lparr>num_bits := num_bits point + 1\<rparr>, n))
      else (point, n))"

function bitmap_points_loop ::
    "u32 \<Rightarrow> int \<Rightarrow> bool \<Rightarrow> bool \<Rightarrow> alps_bitmap_point \<Rightarrow> alps_bitmap_point \<Rightarrow> int
     \<Rightarrow> alps_bitmap_point \<times> alps_bitmap_point \<times> int" where
  "bitmap_points_loop m i prev hi low high n =
     (if m = 0 then (low, high, n)
      else
        (let b = m AND 1 \<noteq> 0;
             (point, n) = bitmap_point_step b i prev (if hi then high else low) n;
             (low, high) = (if hi then (low, point) else (point, high));
             hi = (hi \<or> (\<not> b \<and> prev))
         in bitmap_points_loop (drop_bit 1 m) (i + 1) b hi low high n))"
  by pat_completeness auto

lemma drop_bit_1_less: "m \<noteq> 0 \<Longrightarrow> unat (drop_bit 1 (m::u32)) < unat m"
  by (simp add: drop_bit_eq_div unat_div unat_gt_0)

termination bitmap_points_loop
  by (relation "measure (\<lambda>(m, _). unat m)") (simp_all add: drop_bit_1_less [simplified])

definition alps_get_bitmap_points ::
    "u32 \<Rightarrow> alps_bitmap_point \<Rightarrow> alps_bitmap_point \<Rightarrow> int \<Rightarrow> alps_bitmap_point \<times> alps_bitmap_point \<times> int" where
  "alps_get_bitmap_points m low high n = bitmap_points_loop m 0 False False low high n"

declare bitmap_points_loop.simps [simp del]

subsection \<open>Specification\<close>

fun runs :: "int \<Rightarrow> bool list \<Rightarrow> alps_bitmap_point list" where
  "runs i [] = []"
| "runs i (False # bs) = runs (i + 1) bs"
| "runs i (True # bs) =
     (let k = length (takeWhile id bs)
      in \<lparr>start_bit = i, num_bits = int k + 1\<rparr> # runs (i + int k + 1) (drop k bs))"

text \<open>The loop over the list of the bits.\<close>

fun scan_bits ::
    "bool list \<Rightarrow> int \<Rightarrow> bool \<Rightarrow> bool \<Rightarrow> alps_bitmap_point \<Rightarrow> alps_bitmap_point \<Rightarrow> int
     \<Rightarrow> alps_bitmap_point \<times> alps_bitmap_point \<times> int" where
  "scan_bits [] i prev hi low high n = (low, high, n)"
| "scan_bits (b # bs) i prev hi low high n =
     (let (point, n) = bitmap_point_step b i prev (if hi then high else low) n;
          (low, high) = (if hi then (low, point) else (point, high))
      in scan_bits bs (i + 1) b (hi \<or> (\<not> b \<and> prev)) low high n)"

lemma scan_zeros: "scan_bits (replicate k False) i prev hi low high n = (low, high, n)"
  by (induction k arbitrary: i prev hi) (simp_all add: bitmap_point_step_def)

lemma bits_shift: "map (bit m) [0..<Suc k] = bit m 0 # map (bit (drop_bit 1 m)) [0..<k]"
  by (simp add: bit_drop_bit_eq upt_conv_Cons map_Suc_upt [symmetric] o_def del: upt_Suc)

lemma loop_scan:
  "fits k m \<Longrightarrow> bitmap_points_loop m i prev hi low high n = scan_bits (map (bit m) [0..<k]) i prev hi low high n"
proof (induction k arbitrary: m i prev hi low high n)
  case 0
  then have "m = 0" by (auto simp: fits_iff_bits intro: bit_word_eqI)
  then show ?case by (simp add: bitmap_points_loop.simps)
next
  case (Suc k)
  show ?case
  proof (cases "m = 0")
    case True
    have "map (bit (0::u32)) [0..<Suc k] = replicate (Suc k) False"
      by (rule nth_equalityI) (simp_all del: upt_Suc replicate_Suc)
    then show ?thesis
      by (simp only: True bitmap_points_loop.simps [of 0] scan_zeros if_True simp_thms)
  next
    case False
    have "fits k (drop_bit 1 m)" using Suc.prems by (simp add: fits)
    then show ?thesis
      using Suc.IH [of "drop_bit 1 m"] False
      by (simp add: bitmap_points_loop.simps [of m] bits_shift split_beta Let_def bit_0 odd_iff_mod_2_eq_one
          and_one_eq  del: upt_Suc)
  qed
qed


lemma scan_run:
  "scan_bits bs i True hi low high n =
     (let k = length (takeWhile id bs) in
      scan_bits (drop k bs) (i + int k) False True
        (if hi then low else low\<lparr>num_bits := num_bits low + int k\<rparr>)
        (if hi then high\<lparr>num_bits := num_bits high + int k\<rparr> else high) n)"
proof (induction bs arbitrary: i low high)
  case (Cons b bs)
  then show ?case
    by (cases b) (simp_all add: bitmap_point_step_def Let_def add.assoc add.left_commute)
qed simp

lemma point_update [simp]: "p\<lparr>start_bit := s, num_bits := k\<rparr> = \<lparr>start_bit = s, num_bits = k\<rparr>"
  by (cases p) simp

lemma scan_runs:
  "scan_bits bs i False hi low high n =
     (let rs = runs i bs in
      (if hi \<or> rs = [] then low else hd rs,
       if rs = [] \<or> (\<not> hi \<and> length rs = 1) then high else last rs,
       n + int (length rs)))"
proof (induction i bs arbitrary: hi low high n rule: runs.induct)
  case (3 i bs)
  let ?k = "length (takeWhile id bs)"
  have "scan_bits (True # bs) i False hi low high n =
      scan_bits (drop ?k bs) (i + int ?k + 1) False True
        (if hi then low else \<lparr>start_bit = i, num_bits = int ?k + 1\<rparr>)
        (if hi then \<lparr>start_bit = i, num_bits = int ?k + 1\<rparr> else high) (n + 1)"
    by (simp add: bitmap_point_step_def scan_run Let_def ac_simps)
  then show ?case
    using 3 [OF refl] by (auto simp: Let_def)
qed (simp_all add: bitmap_point_step_def)

lemma bitmap_points_runs_fits:
  assumes "fits k m"
  shows "alps_get_bitmap_points m low high n =
     (let rs = runs 0 (map (bit m) [0..<k]) in
      (if rs = [] then low else hd rs, if length rs \<le> 1 then high else last rs, n + int (length rs)))"
  using loop_scan [OF assms, of 0 False False low high n]
  by (auto simp: alps_get_bitmap_points_def scan_runs Let_def le_Suc_eq)


section \<open>The bounding box\<close>

definition no_point :: alps_bitmap_point where "no_point = \<lparr>start_bit = 0, num_bits = 0\<rparr>"

text \<open>An axis with a single run: its electrodes are divided between the two points.\<close>

definition divide_single_contact ::
    "int \<Rightarrow> alps_bitmap_point \<Rightarrow> alps_bitmap_point \<Rightarrow> alps_bitmap_point \<times> alps_bitmap_point" where
  "divide_single_contact n low high =
     (if n = 1 then
        (let i = num_bits low sdiv 2
         in (low\<lparr>num_bits := num_bits low - i\<rparr>,
             \<lparr>start_bit = start_bit low + i, num_bits = max i 1\<rparr>))
      else (low, high))"

text \<open>The quotient every corner coordinate is: \<open>max * (2 * start_bit + num_bits - 1) / (2 * (bits - 1))\<close>.\<close>

definition bitmap_coordinate :: "int \<Rightarrow> int \<Rightarrow> alps_bitmap_point \<Rightarrow> int option" where
  "bitmap_coordinate mx bits q = cdiv (mx * (2 * start_bit q + num_bits q - 1)) (2 * (bits - 1))"

text \<open>\<open>distance\<close> of a corner from the single-touch position.\<close>

definition corner_distance :: "input_mt_pos \<Rightarrow> input_mt_pos \<Rightarrow> int" where
  "corner_distance s c =
     (let dx = i32 (mt_x s - mt_x c); dy = i32 (mt_y s - mt_y c) in dx * dx + dy * dy)"

text \<open>The loop over the corners that keeps the closest one.\<close>

definition closest_corner :: "input_mt_pos \<Rightarrow> input_mt_pos list \<Rightarrow> int \<Rightarrow> int" where
  "closest_corner s corner st0 =
     fst (fold (\<lambda>i (st, closest).
            let d = corner_distance s (corner ! i) in if d < closest then (int i, d) else (st, closest))
          [0..<4] (st0, 0x7fffffff))"

text \<open>The four corners, clockwise from the top left, with the axes the hardware reverses mirrored.\<close>

definition bitmap_corners ::
    "alps_data \<Rightarrow> alps_bitmap_point \<Rightarrow> alps_bitmap_point \<Rightarrow> alps_bitmap_point \<Rightarrow> alps_bitmap_point
     \<Rightarrow> input_mt_pos list option" where
  "bitmap_corners priv x_low x_high y_low y_high =
     do {
       xl \<leftarrow> bitmap_coordinate (x_max priv) (x_bits priv) x_low;
       yl \<leftarrow> bitmap_coordinate (y_max priv) (y_bits priv) y_low;
       xh \<leftarrow> bitmap_coordinate (x_max priv) (x_bits priv) x_high;
       yh \<leftarrow> bitmap_coordinate (y_max priv) (y_bits priv) y_high;
       let corner = [\<lparr>mt_x = u32 xl, mt_y = u32 yl\<rparr>, \<lparr>mt_x = u32 xh, mt_y = u32 yl\<rparr>,
                     \<lparr>mt_x = u32 xh, mt_y = u32 yh\<rparr>, \<lparr>mt_x = u32 xl, mt_y = u32 yh\<rparr>];
       let corner = (if proto_version priv = ALPS_PROTO_V5
                     then map (\<lambda>c. c\<lparr>mt_x := u32 (x_max priv) - mt_x c\<rparr>) corner else corner);
       Some (if proto_version priv = ALPS_PROTO_V3 \<or> proto_version priv = ALPS_PROTO_V4
             then map (\<lambda>c. c\<lparr>mt_y := u32 (y_max priv) - mt_y c\<rparr>) corner else corner)
     }"

definition alps_process_bitmap :: "alps_data \<Rightarrow> alps_fields \<Rightarrow> (int \<times> alps_data \<times> alps_fields) option" where
  "alps_process_bitmap priv fl =
     (if f_x_map fl = 0 \<or> f_y_map fl = 0 then Some (0, priv, fl)
      else
        (let (x_low, x_high, fingers_x) = alps_get_bitmap_points (f_x_map fl) no_point no_point 0;
             (y_low, y_high, fingers_y) = alps_get_bitmap_points (f_y_map fl) no_point no_point 0;
             n = max fingers_x fingers_y;
             (x_low, x_high) = divide_single_contact fingers_x x_low x_high;
             (y_low, y_high) = divide_single_contact fingers_y y_low y_high
         in do {
           corner \<leftarrow> bitmap_corners priv x_low x_high y_low y_high;
           let st = (if second_touch priv = -1
                     then (closest_corner (f_st fl) corner (-1) + 2) smod 4 else second_touch priv);
           if 0 \<le> st \<and> st < 4
           then Some (n, priv\<lparr>second_touch := st\<rparr>,
                      fl\<lparr>f_mt := (f_mt fl)[0 := f_st fl, 1 := corner ! nat st]\<rparr>)
           else None
         }))"

text \<open>
  C20. \<open>alps_get_bitmap_points\<close> is correct for every 32-bit map: with the runs of adjacent set bits listed
  from bit 0, \<open>low\<close> is the first run, \<open>high\<close> the last one when there are at least two, and
  \<open>*fingers\<close> grows by the number of runs.
\<close>

theorem bitmap_points_runs:
  "alps_get_bitmap_points m low high n =
     (let rs = runs 0 (map (bit m) [0..<32]) in
      (if rs = [] then low else hd rs, if length rs \<le> 1 then high else last rs, n + int (length rs)))"
proof -
  have "fits 32 m" using fits_ucast [of m, where ?'b = 32] by simp
  then show ?thesis by (rule bitmap_points_runs_fits)
qed

lemma runs_inside:
  "r \<in> set (runs i bs) \<Longrightarrow> i \<le> start_bit r \<and> 1 \<le> num_bits r \<and> start_bit r + num_bits r \<le> i + int (length bs)"
proof (induction i bs rule: runs.induct)
  case (3 i bs)
  let ?k = "length (takeWhile id bs)"
  have "?k \<le> length bs" by (rule length_takeWhile_le)
  then show ?case using 3 by (auto simp: Let_def)
qed auto

definition point_in :: "int \<Rightarrow> alps_bitmap_point \<Rightarrow> bool" where
  "point_in bits q \<longleftrightarrow> 0 \<le> start_bit q \<and> 1 \<le> num_bits q \<and> start_bit q + num_bits q \<le> bits"

lemma runs_empty: "runs i bs = [] \<longleftrightarrow> True \<notin> set bs"
  by (induction i bs rule: runs.induct) (auto simp: Let_def)

lemma axis_points:
  assumes m: "fits (nat bits) m" "m \<noteq> 0" "0 \<le> bits"
    and eq: "alps_get_bitmap_points m no_point no_point 0 = (low, high, n)"
    and dv: "divide_single_contact n low high = (low', high')"
  shows "1 \<le> n" "point_in bits low'" "point_in bits high'"
    and "n = int (length (runs 0 (map (bit m) [0..<32])))"
proof -
  define rs where "rs = runs 0 (map (bit m) [0..<nat bits])"
  have e: "low = hd rs" "n = int (length rs)" "rs \<noteq> []" "n \<noteq> 1 \<Longrightarrow> high = last rs"
  proof -
    have "\<exists>i. bit m i" using m(2) by (auto intro: bit_word_eqI)
    then obtain i where i: "bit m i" ..
    then have "i < nat bits" using m(1) by (meson fits_iff_bits not_le)
    then have "True \<in> set (map (bit m) [0..<nat bits])" using i by force
    then show ne: "rs \<noteq> []" unfolding rs_def runs_empty by blast
    show "low = hd rs" "n = int (length rs)" "n \<noteq> 1 \<Longrightarrow> high = last rs"
      using eq ne unfolding bitmap_points_runs_fits [OF m(1)] rs_def [symmetric] by (auto simp: le_Suc_eq)
  qed
  have inside: "point_in bits r" if "r \<in> set rs" for r
    using runs_inside [of r 0 "map (bit m) [0..<nat bits]"] that m(3) by (auto simp: rs_def point_in_def)
  show "1 \<le> n" using e by (cases rs) auto
  have low: "point_in bits low" using inside [of "hd rs"] e by simp
  have half: "0 \<le> num_bits low sdiv 2" "num_bits low sdiv 2 < num_bits low \<or> num_bits low \<le> 0"
     "2 * (num_bits low sdiv 2) \<le> num_bits low"
    using low by (auto simp: point_in_def sdiv_nonneg_eq)
  show "point_in bits low'" "point_in bits high'"
    using dv low half inside [of "last rs"] e by (auto simp: divide_single_contact_def Let_def point_in_def split: if_splits)
  show "n = int (length (runs 0 (map (bit m) [0..<32])))"
    using eq unfolding bitmap_points_runs by (auto simp: Let_def split: if_splits)
qed

lemma coordinate_inside:
  assumes "point_in bits q" "2 \<le> bits" "0 \<le> mx"
  shows "\<exists>v. bitmap_coordinate mx bits q = Some v \<and> 0 \<le> v \<and> v \<le> mx"
proof -
  let ?a = "2 * start_bit q + num_bits q - 1" and ?b = "2 * (bits - 1)"
  have a: "0 \<le> ?a" "?a \<le> ?b" using assms by (auto simp: point_in_def)
  have "mx * ?a div ?b \<le> mx * ?b div ?b"
    using a assms(2,3) by (intro zdiv_mono1 mult_left_mono) auto
  then have "mx * ?a div ?b \<le> mx"
    using assms(2) by simp
  moreover have "0 \<le> mx * ?a div ?b"
    using a assms(2,3) by (intro pos_imp_zdiv_nonneg_iff [THEN iffD2]) auto
  ultimately show ?thesis
    using a assms by (simp add: bitmap_coordinate_def sdiv_nonneg_eq)
qed


text \<open>The geometry the driver works with: at least two electrodes per axis, ranges below 2^13.\<close>

definition geometry_ok :: "alps_data \<Rightarrow> bool" where
  "geometry_ok priv \<longleftrightarrow> 2 \<le> x_bits priv \<and> 2 \<le> y_bits priv \<and> 0 \<le> x_max priv \<and> 0 \<le> y_max priv
     \<and> x_max priv < 2 ^ 13 \<and> y_max priv < 2 ^ 13 \<and> second_touch priv \<in> {-1, 0, 1, 2, 3}"

definition in_area :: "alps_data \<Rightarrow> input_mt_pos \<Rightarrow> bool" where
  "in_area priv q \<longleftrightarrow> uint (mt_x q) \<le> x_max priv \<and> uint (mt_y q) \<le> y_max priv"

lemma uint_u32: "0 \<le> v \<Longrightarrow> v < 2 ^ 13 \<Longrightarrow> uint (u32 v) = v"
  by (simp add: uint_word_of_int)

lemma uint_mirror: "0 \<le> v \<Longrightarrow> v \<le> mx \<Longrightarrow> mx < 2 ^ 13 \<Longrightarrow> uint (u32 mx - u32 v) = mx - v"
  by (simp add: uint_sub_if' uint_word_of_int)

lemma closest_corner_argmin:
  assumes "\<And>i. i < 4 \<Longrightarrow> corner_distance s (cs ! i) < 0x7fffffff"
  shows "\<exists>i < 4. closest_corner s cs st = int i \<and> (\<forall>j < 4. corner_distance s (cs ! i) \<le> corner_distance s (cs ! j))"
proof -
  have upt: "[0..<4] = [0, 1, 2, 3::nat]" by (simp add: upt_rec numeral_eq_Suc)
  have all: "(\<forall>j<4. P j) \<longleftrightarrow> P 0 \<and> P 1 \<and> P 2 \<and> P 3" and ex: "(\<exists>j<4. P j) \<longleftrightarrow> P 0 \<or> P 1 \<or> P 2 \<or> P 3" for P :: "nat \<Rightarrow> bool"
    by (auto simp: numeral_eq_Suc less_Suc_eq)
  show ?thesis
    using assms [of 0] assms [of 1] assms [of 2] assms [of 3]
    unfolding ex all by (simp add: closest_corner_def upt Let_def split: prod.splits)
qed

lemma corner_distance_small:
  assumes "uint (mt_x s) < 2 ^ 13" "uint (mt_y s) < 2 ^ 13" "uint (mt_x c) < 2 ^ 13" "uint (mt_y c) < 2 ^ 13"
  shows "corner_distance s c = (uint (mt_x s) - uint (mt_x c))\<^sup>2 + (uint (mt_y s) - uint (mt_y c))\<^sup>2"
    and "corner_distance s c < 0x7fffffff"
proof -
  have d: "i32 (a - b) = uint a - uint b" if "uint a < 2 ^ 13" "uint b < 2 ^ 13" for a b :: u32
  proof -
    have nn: "0 \<le> uint a" "0 \<le> uint b" by simp_all
    have "a - b = u32 (uint a - uint b)" by (simp add: word_of_int_inverse)
    then have "i32 (a - b) = signed_take_bit 31 (uint a - uint b)"
      by (simp add: sint_sbintrunc' del: of_int_diff)
    also have "\<dots> = uint a - uint b"
    proof (rule signed_take_bit_int_eq_self)
      have "- (2 ^ 13) \<le> uint a - uint b" "uint a - uint b < 2 ^ 13"
        using that nn by linarith+
      then show "- (2 ^ 31) \<le> uint a - uint b" "uint a - uint b < 2 ^ 31" by simp_all
    qed
    finally show ?thesis .
  qed
  show eq: "corner_distance s c = (uint (mt_x s) - uint (mt_x c))\<^sup>2 + (uint (mt_y s) - uint (mt_y c))\<^sup>2"
    using assms by (simp add: corner_distance_def d power2_eq_square Let_def)
  have sq: "(a - b)\<^sup>2 \<le> (2 ^ 13)\<^sup>2" if "0 \<le> a" "a < 2 ^ 13" "0 \<le> b" "b < 2 ^ 13" for a b :: int
    by (rule power2_le_iff_abs_le [THEN iffD2]) (use that in auto)
  show "corner_distance s c < 0x7fffffff"
    using sq [of "uint (mt_x s)" "uint (mt_x c)"] sq [of "uint (mt_y s)" "uint (mt_y c)"] assms
    unfolding eq by simp
qed

lemma corners_ok:
  assumes g: "geometry_ok priv" and p: "point_in (x_bits priv) xl" "point_in (x_bits priv) xh"
    "point_in (y_bits priv) yl" "point_in (y_bits priv) yh"
  shows "\<exists>cs. bitmap_corners priv xl xh yl yh = Some cs \<and> length cs = 4 \<and> (\<forall>i < 4. in_area priv (cs ! i))"
proof -
  have g': "2 \<le> x_bits priv" "2 \<le> y_bits priv" "0 \<le> x_max priv" "0 \<le> y_max priv"
    "x_max priv < 2 ^ 13" "y_max priv < 2 ^ 13"
    using g by (auto simp: geometry_ok_def)
  obtain a b c d where v: "bitmap_coordinate (x_max priv) (x_bits priv) xl = Some a" "0 \<le> a" "a \<le> x_max priv"
     "bitmap_coordinate (x_max priv) (x_bits priv) xh = Some b" "0 \<le> b" "b \<le> x_max priv"
     "bitmap_coordinate (y_max priv) (y_bits priv) yl = Some c" "0 \<le> c" "c \<le> y_max priv"
     "bitmap_coordinate (y_max priv) (y_bits priv) yh = Some d" "0 \<le> d" "d \<le> y_max priv"
    using coordinate_inside [OF p(1) g'(1,3)] coordinate_inside [OF p(2) g'(1,3)]
      coordinate_inside [OF p(3) g'(2,4)] coordinate_inside [OF p(4) g'(2,4)] by metis
  have w: "uint (u32 k) = k" "uint (u32 (x_max priv) - u32 k) = x_max priv - k" if "0 \<le> k" "k \<le> x_max priv" for k
    using that g' by (simp_all add: uint_u32 uint_mirror)
  have w': "uint (u32 k) = k" "uint (u32 (y_max priv) - u32 k) = y_max priv - k" if "0 \<le> k" "k \<le> y_max priv" for k
    using that g' by (simp_all add: uint_u32 uint_mirror)
  show ?thesis
    using v by (simp add: bitmap_corners_def Let_def numeral_eq_Suc All_less_Suc in_area_def w w')
qed

lemma opposite_range: "i < 4 \<Longrightarrow> 0 \<le> (int i + 2) smod 4 \<and> (int i + 2) smod 4 < 4"
  by (simp add: smod_nonneg_eq)

lemma process_bitmap_result:
  assumes g: "geometry_ok priv" and m: "f_x_map fl \<noteq> 0" "f_y_map fl \<noteq> 0"
    and b: "fits (nat (x_bits priv)) (f_x_map fl)" "fits (nat (y_bits priv)) (f_y_map fl)"
    and s: "fits 13 (mt_x (f_st fl))" "fits 13 (mt_y (f_st fl))"
  shows "\<exists>n st cs.
      alps_process_bitmap priv fl = Some (n, priv\<lparr>second_touch := int st\<rparr>,
        fl\<lparr>f_mt := (f_mt fl)[0 := f_st fl, 1 := cs ! st]\<rparr>)
      \<and> n = int (max (length (runs 0 (map (bit (f_x_map fl)) [0..<32]))) (length (runs 0 (map (bit (f_y_map fl)) [0..<32]))))
      \<and> 1 \<le> n \<and> st < 4 \<and> in_area priv (cs ! st)
      \<and> (if second_touch priv \<noteq> -1 then int st = second_touch priv
         else (\<forall>j < 4. corner_distance (f_st fl) (cs ! ((st + 2) mod 4)) \<le> corner_distance (f_st fl) (cs ! j)))"
proof -
  obtain xl xh nx where x: "alps_get_bitmap_points (f_x_map fl) no_point no_point 0 = (xl, xh, nx)" by (metis prod_cases3)
  obtain yl yh ny where y: "alps_get_bitmap_points (f_y_map fl) no_point no_point 0 = (yl, yh, ny)" by (metis prod_cases3)
  obtain xl' xh' where x': "divide_single_contact nx xl xh = (xl', xh')" by fastforce
  obtain yl' yh' where y': "divide_single_contact ny yl yh = (yl', yh')" by fastforce
  have g': "0 \<le> x_bits priv" "0 \<le> y_bits priv" "second_touch priv \<in> {-1, 0, 1, 2, 3}"
    "x_max priv < 2 ^ 13" "y_max priv < 2 ^ 13"
    using g by (auto simp: geometry_ok_def)
  note ax = axis_points [OF b(1) m(1) g'(1) x x'] and ay = axis_points [OF b(2) m(2) g'(2) y y']
  obtain cs where cs: "bitmap_corners priv xl' xh' yl' yh' = Some cs" "\<And>i. i < 4 \<Longrightarrow> in_area priv (cs ! i)"
    using corners_ok [OF g ax(2,3) ay(2,3)] by auto
  have "corner_distance (f_st fl) (cs ! i) < 0x7fffffff" if "i < 4" for i
    using corner_distance_small(2) [OF fits_uint [OF s(1)] fits_uint [OF s(2)]] cs(2) [OF that] g'(4,5)
    by (auto simp: in_area_def)
  from closest_corner_argmin [OF this] obtain i where i: "i < 4" "closest_corner (f_st fl) cs (-1) = int i"
    "\<forall>j < 4. corner_distance (f_st fl) (cs ! i) \<le> corner_distance (f_st fl) (cs ! j)" by auto
  define st where "st = (if second_touch priv = -1 then (i + 2) mod 4 else nat (second_touch priv))"
  have st: "st < 4" "(if second_touch priv = -1 then (int i + 2) smod 4 else second_touch priv) = int st"
    using g'(3) by (auto simp: st_def smod_nonneg_eq zmod_int add.commute)
  have opp: "second_touch priv = -1 \<Longrightarrow> (st + 2) mod 4 = i"
    using i(1) unfolding st_def by presburger 
  have "alps_process_bitmap priv fl = Some (max nx ny, priv\<lparr>second_touch := int st\<rparr>,
      fl\<lparr>f_mt := (f_mt fl)[0 := f_st fl, 1 := cs ! st]\<rparr>)"
  proof (cases "second_touch priv = -1")
    case True
    then show ?thesis
      using m st by (simp add: alps_process_bitmap_def x y x' y' cs i(2) Let_def)
  next
    case False
    then have "priv\<lparr>second_touch := int st\<rparr> = priv" using st(2) by (cases priv) simp
    with False show ?thesis
      using m st by (simp add: alps_process_bitmap_def x y x' y' cs i(2) Let_def)
  qed
  then show ?thesis
    using ax(1,4) ay(1,4) st(1) cs(2) [OF st(1)] i(3) opp st(2)
    by (intro exI [of _ "max nx ny"] exI [of _ st] exI [of _ cs]) (auto simp: of_nat_max)
qed



lemma single_electrode_traps:
  assumes "f_x_map fl \<noteq> 0" "f_y_map fl \<noteq> 0" "x_bits priv = 1 \<or> y_bits priv = 1"
  shows "alps_process_bitmap priv fl = None"
  using assms by (auto simp: alps_process_bitmap_def bitmap_corners_def bitmap_coordinate_def cdiv_def Let_def
      split: prod.splits)

end
