(* ===== verification/AlpsProcess.thy ===== *)
theory AlpsProcess
  imports Gestures AlpsBitmap
begin

text \<open>
  \<open>process_packet\<close>: one complete packet, in each of the seven protocols, to a report for
  \<open>dispatchEventsWithInfo\<close>, a pointer or scroll event of the trackstick, or nothing (the first half of a
  two-packet report, a rejected packet).

  A routine takes the packet as the list of its bytes.  The member pointer \<open>decode_fields\<close> may be null; the
  bitmap routine may trap: both are \<open>None\<close>.
\<close>

section \<open>Buttons and positions\<close>

definition button_mask :: "bool \<Rightarrow> bool \<Rightarrow> bool \<Rightarrow> u32" where
  "button_mask l r m = when_set l 0x01 OR when_set r 0x02 OR when_set m 0x04"

definition field_buttons :: "alps_fields \<Rightarrow> u32" where
  "field_buttons fl = button_mask (f_left fl \<noteq> 0) (f_right fl \<noteq> 0) (f_middle fl \<noteq> 0)"

text \<open>Reverse the y coordinates of the first two touches.\<close>

definition reverse_y :: "alps_data \<Rightarrow> input_mt_pos \<Rightarrow> input_mt_pos" where
  "reverse_y d q = q\<lparr>mt_y := u32 (y_max d) - mt_y q\<rparr>"

definition set_priv :: "alps_data \<Rightarrow> 'a alps_scheme \<Rightarrow> 'a alps_scheme" where
  "set_priv d s = s\<lparr>priv := d\<rparr>"

definition call_decode :: "alps_fields \<Rightarrow> u8 list \<Rightarrow> 'a alps_scheme \<Rightarrow> (bool \<times> alps_fields) option" where
  "call_decode fl p s = (case decode_fn s of None \<Rightarrow> None | Some d \<Rightarrow> Some (decode_fields d (priv s) fl p))"

section \<open>Protocols 1 and 2\<close>

text \<open>
  The buttons are collected before the block that adds the separate stick button bits; that block changes
  only variables that are not read again, so it does not appear here.
\<close>

definition alps_process_packet_v1_v2 :: "clock \<Rightarrow> u8 list \<Rightarrow> 'a alps_scheme \<Rightarrow> 'a alps_scheme option" where
  "alps_process_packet_v1_v2 E p s =
     (let (now_abs, s) = clock_get_uptime E s;
          v1 = (proto_version (priv s) = ALPS_PROTO_V1);
          left = (if v1 then isset (byte p 2) 0x10 else isset (byte p 3) 1);
          right = (if v1 then isset (byte p 2) 0x08 else isset (byte p 3) 2);
          middle = (\<not> v1 \<and> isset (byte p 3) 4);
          x = i32 (byte p 1 OR (if v1 then push_bit 7 (byte p 0 AND 0x07) else push_bit (7 - 3) (byte p 2 AND 0x78)));
          y = i32 (byte p 4 OR (if v1 then push_bit 7 (byte p 3 AND 0x07) else push_bit (7 - 4) (byte p 3 AND 0x70)));
          z = i32 (byte p 5);
          middle = (if isset (flags (priv s)) ALPS_FW_BK_2 then isset (byte p 2) 4 \<and> isset (byte p 3) 4 else middle);
          ges = isset (byte p 2) 1;
          fin = isset (byte p 2) 2;
          buttons = button_mask left right middle
      in if isset (flags (priv s)) ALPS_DUALPOINT \<and> z = 127 then
           Some (dispatchRelativePointerEventX (if x > 383 then x - 768 else x) (- (if y > 255 then y - 512 else y))
                   buttons now_abs s)
         else
           (let z = (if ges \<and> \<not> fin then 40 else z);
                s = (if ges \<and> fin \<and> prev_fin (priv s) = 0 then s\<lparr>touchmode := MODE_DRAG\<rparr> else s);
                s = set_priv ((priv s)\<lparr>prev_fin := i32 (byte p 2 AND 2)\<rparr>) s;
                fingers = (if z > 30 then 1 else 0)
            in do {
              s \<leftarrow> dispatchEventsWithInfo E x y z fingers buttons s;
              if isset (flags (priv s)) ALPS_WHEEL then
                (let scrollAmount = i32 (push_bit 1 (byte p 2) AND 0x08) - i32 (drop_bit 4 (byte p 0) AND 0x07)
                 in Some (if scrollAmount \<noteq> 0 then dispatchScrollWheelEventX scrollAmount 0 0 now_abs s else s))
              else Some s
            }))"

section \<open>Protocols 3 and 5\<close>

definition move_or_scroll :: "int \<Rightarrow> int \<Rightarrow> u32 \<Rightarrow> u64 \<Rightarrow> 'a touchpad_scheme \<Rightarrow> 'a touchpad_scheme" where
  "move_or_scroll x y buttons now_abs s =
     (if buttons AND 0x04 = 0 then dispatchRelativePointerEventX x y buttons now_abs s
      else dispatchScrollWheelEventX (- y) (- x) 0 now_abs s)"

definition alps_process_trackstick_packet_v3 :: "clock \<Rightarrow> u8 list \<Rightarrow> 'a alps_scheme \<Rightarrow> 'a alps_scheme" where
  "alps_process_trackstick_packet_v3 E p s =
     (if \<not> isset (flags (priv s)) ALPS_DUALPOINT then s
      else if \<not> isset (byte p 0) 0x40 then s
      else if p ! 1 = 0x7f \<and> p ! 2 = 0x7f \<and> p ! 3 = 0x7f then s
      else
        (let x = s8 (i32 (push_bit 2 (byte p 0 AND 0x20) OR (byte p 1 AND 0x7f)));
             y = s8 (i32 (push_bit 3 (byte p 0 AND 0x10) OR (byte p 2 AND 0x7f)));
             (x, y) = (if \<bar>x\<bar> \<ge> 0x7f \<and> \<bar>y\<bar> \<ge> 0x7f then (0, 0) else (x, y));
             x = x sdiv 3;
             y = - (y sdiv 3);
             (now_abs, s) = clock_get_uptime E s;
             pressed = (byte p 3 AND 0x07 \<noteq> 0);
             s = (if quirks (priv s) AND ALPS_QUIRK_TRACKSTICK_BUTTONS = 0 \<and> pressed
                  then set_priv ((priv s)\<lparr>quirks := quirks (priv s) OR ALPS_QUIRK_TRACKSTICK_BUTTONS\<rparr>) s else s);
             raw_buttons = (if quirks (priv s) AND ALPS_QUIRK_TRACKSTICK_BUTTONS \<noteq> 0
                            then button_mask (isset (byte p 3) 0x01) (isset (byte p 3) 0x02) (isset (byte p 3) 0x04)
                            else 0);
             (buttons, s) = (if raw_buttons = 0 then (lastbuttons s, s) else (raw_buttons, s\<lparr>lastbuttons := raw_buttons\<rparr>))
         in move_or_scroll x y buttons now_abs s))"

text \<open>
  The multi-packet stage of \<open>alps_process_touchpad_packet_v3_v5\<close>: decode, and when a second packet was
  expected and has come, decode the stored position packet over it and process the bitmaps.  The result is
  the finger count (0: use the single-touch data) and the fields.
\<close>

definition v3_v5_merge :: "u8 list \<Rightarrow> 'a alps_scheme \<Rightarrow> (int \<times> alps_fields \<times> 'a alps_scheme) option" where
  "v3_v5_merge p s =
     do {
       (_, fl) \<leftarrow> call_decode zero_fields p s;
       if multi_packet (priv s) \<noteq> 0 then
         (if f_is_mp fl \<noteq> 0 then do {
            let fingers = i32 (f_fingers fl);
            (_, fl) \<leftarrow> call_decode fl (multi_data (priv s)) s;
            (n, d, fl) \<leftarrow> alps_process_bitmap (priv s) fl;
            Some (if n = 0 then 0 else fingers, fl, set_priv d s)
          }
          else Some (0, fl, set_priv ((priv s)\<lparr>multi_packet := 0\<rparr>) s))
       else Some (0, fl, s)
     }"

definition v3_v5_report :: "clock \<Rightarrow> int \<Rightarrow> alps_fields \<Rightarrow> 'a alps_scheme \<Rightarrow> 'a alps_scheme option" where
  "v3_v5_report E fingers fl s =
     (let (fingers, fl, s) =
            (if fingers < 2
             then (if f_pressure fl > 0 then 1 else 0, fl\<lparr>f_mt := (f_mt fl)[0 := f_st fl]\<rparr>,
                   set_priv ((priv s)\<lparr>second_touch := -1\<rparr>) s)
             else (fingers, fl, s));
          buttons = field_buttons fl;
          buttons = (if isset (flags (priv s)) ALPS_DUALPOINT
                        \<and> quirks (priv s) AND ALPS_QUIRK_TRACKSTICK_BUTTONS = 0
                     then buttons OR button_mask (f_ts_left fl \<noteq> 0) (f_ts_right fl \<noteq> 0) (f_ts_middle fl \<noteq> 0)
                     else buttons);
          q = reverse_y (priv s) (f_mt fl ! 0)
      in dispatchEventsWithInfo E (i32 (mt_x q)) (i32 (mt_y q)) (f_pressure fl) fingers buttons s)"

definition alps_process_touchpad_packet_v3_v5 :: "clock \<Rightarrow> u8 list \<Rightarrow> 'a alps_scheme \<Rightarrow> 'a alps_scheme option" where
  "alps_process_touchpad_packet_v3_v5 E p s =
     do {
       (fingers, fl, s) \<leftarrow> v3_v5_merge p s;
       if f_is_mp fl \<noteq> 0 then Some s
       else if multi_packet (priv s) = 0 \<and> f_first_mp fl \<noteq> 0
       then Some (set_priv ((priv s)\<lparr>multi_packet := 1, multi_data := take 6 p\<rparr>) s)
       else v3_v5_report E fingers fl (set_priv ((priv s)\<lparr>multi_packet := 0\<rparr>) s)
     }"

definition alps_process_packet_v3 :: "clock \<Rightarrow> u8 list \<Rightarrow> 'a alps_scheme \<Rightarrow> 'a alps_scheme option" where
  "alps_process_packet_v3 E p s =
     (if p ! 5 = 0x3f then Some (alps_process_trackstick_packet_v3 E p s)
      else alps_process_touchpad_packet_v3_v5 E p s)"

section \<open>Protocol 6\<close>

definition alps_process_packet_v6 :: "clock \<Rightarrow> u8 list \<Rightarrow> 'a alps_scheme \<Rightarrow> 'a alps_scheme option" where
  "alps_process_packet_v6 E p s =
     (let (now_abs, s) = clock_get_uptime E s in
      if p ! 5 = 0x7F then
        (if \<not> isset (flags (priv s)) ALPS_DUALPOINT then Some s
         else
           (let x = i32 (byte p 1 OR push_bit 2 (byte p 3 AND 0x20));
                y = i32 (byte p 2 OR push_bit 1 (byte p 3 AND 0x40));
                z = i32 (byte p 4);
                buttons = button_mask (isset (byte p 3) 0x01) (isset (byte p 3) 0x02) (isset (byte p 3) 0x04);
                (x, y) = (if x = 0x7F \<and> y = 0x7F \<and> z = 0x7F then (0, 0) else (x, y))
            in Some (dispatchRelativePointerEventX (x sdiv 4) (y sdiv 4) buttons now_abs s)))
      else
        (let x = i32 (byte p 1 OR push_bit 4 (byte p 3 AND 0x78));
             y = i32 (byte p 2 OR push_bit 4 (byte p 4 AND 0x78));
             z = i32 (byte p 5);
             buttons = button_mask (isset (byte p 3) 0x01) (isset (byte p 3) 0x02) False
         in dispatchEventsWithInfo E x y z (if z > 0 then 1 else 0) buttons s))"

section \<open>Protocol 4\<close>

text \<open>
  The fields \<open>f\<close> are not initialised: \<open>f0\<close> is what the stack holds.  \<open>f.left\<close> and \<open>f.right\<close> are
  one-bit fields, so that storing \<open>packet[4] & 0x02\<close> keeps the lowest bit of the value.
\<close>

definition v4_x_map :: "u8 list \<Rightarrow> u32" where
  "v4_x_map d = push_bit 10 (byte d 2 AND 0x1f) OR push_bit 3 (byte d 3 AND 0x60)
     OR push_bit 2 (byte d 0 AND 0x3f) OR drop_bit 5 (byte d 1 AND 0x60)"

definition v4_y_map :: "u8 list \<Rightarrow> u32" where
  "v4_y_map d = push_bit 10 (byte d 5 AND 0x01) OR push_bit 5 (byte d 3 AND 0x1f) OR (byte d 1 AND 0x1f)"

definition v4_fields :: "alps_fields \<Rightarrow> u8 list \<Rightarrow> alps_fields" where
  "v4_fields f0 p =
     f0\<lparr>f_left := bitfield (byte p 4 AND 0x01), f_right := bitfield (byte p 4 AND 0x02),
        f_st := \<lparr>mt_x = push_bit 4 (byte p 1 AND 0x7f) OR drop_bit 2 (byte p 3 AND 0x30) OR drop_bit 4 (byte p 0 AND 0x30),
                 mt_y = push_bit 4 (byte p 2 AND 0x7f) OR (byte p 3 AND 0x0f)\<rparr>,
        f_pressure := i32 (byte p 5 AND 0x7f)\<rparr>"

definition v4_store :: "u8 list \<Rightarrow> alps_data \<Rightarrow> alps_data" where
  "v4_store p d =
     (let offset = nat (2 * multi_packet d)
      in d\<lparr>multi_data := (multi_data d)[offset := p ! 6, offset + 1 := p ! 7], multi_packet := multi_packet d + 1\<rparr>)"

definition alps_process_packet_v4 :: "clock \<Rightarrow> alps_fields \<Rightarrow> u8 list \<Rightarrow> 'a alps_scheme \<Rightarrow> 'a alps_scheme option" where
  "alps_process_packet_v4 E f0 p s =
     (let d = priv s;
          d = (if isset (byte p 6) 0x40 then d\<lparr>multi_packet := 0\<rparr> else d)
      in if multi_packet d > 2 then Some (set_priv d s)
         else if multi_packet d < 0 then None
         else
           (let d = v4_store p d;
                fl = v4_fields f0 p
            in do {
              (fingers, d, fl) \<leftarrow>
                (if multi_packet d > 2
                 then alps_process_bitmap (d\<lparr>multi_packet := 0\<rparr>)
                        (fl\<lparr>f_x_map := v4_x_map (multi_data d), f_y_map := v4_y_map (multi_data d)\<rparr>)
                 else Some (0, d, fl));
              dispatchEventsWithInfo E (i32 (mt_x (f_st fl))) (i32 (mt_y (f_st fl))) (f_pressure fl) fingers
                (button_mask (f_left fl \<noteq> 0) (f_right fl \<noteq> 0) False) (set_priv d s)
            }))"

section \<open>Protocol 7\<close>

definition alps_process_trackstick_packet_v7 :: "clock \<Rightarrow> u8 list \<Rightarrow> 'a alps_scheme \<Rightarrow> 'a alps_scheme" where
  "alps_process_trackstick_packet_v7 E p s =
     (let (now_abs, s) = clock_get_uptime E s in
      if \<not> isset (flags (priv s)) ALPS_DUALPOINT then s
      else
        (let x = s8 (i32 ((byte p 2 AND 0xbf) OR push_bit 2 (byte p 3 AND 0x10)));
             y = - s8 (i32 ((byte p 3 AND 0x07) OR (byte p 4 AND 0xb8) OR push_bit 1 (byte p 3 AND 0x20)));
             buttons = button_mask (isset (byte p 1) 0x01) (isset (byte p 1) 0x02) (isset (byte p 1) 0x04);
             s = s\<lparr>lastTrackStickButtons := buttons\<rparr>
         in move_or_scroll x y (buttons OR lastTouchpadButtons s) now_abs s))"

definition alps_process_touchpad_packet_v7 :: "clock \<Rightarrow> u8 list \<Rightarrow> 'a alps_scheme \<Rightarrow> 'a alps_scheme option" where
  "alps_process_touchpad_packet_v7 E p s =
     do {
       (ok, fl) \<leftarrow> call_decode zero_fields p s;
       if \<not> ok then Some s
       else
         (let buttons = field_buttons fl;
              s = s\<lparr>lastTouchpadButtons := buttons\<rparr>;
              fingers = i32 (f_fingers fl);
              q = reverse_y (priv s) (f_mt fl ! 0)
          in dispatchEventsWithInfo E (i32 (mt_x q)) (i32 (mt_y q)) (if fingers > 0 then 40 else 0) fingers
               (buttons OR lastTrackStickButtons s) s)
     }"

definition alps_process_packet_v7 :: "clock \<Rightarrow> u8 list \<Rightarrow> 'a alps_scheme \<Rightarrow> 'a alps_scheme option" where
  "alps_process_packet_v7 E p s =
     (if p ! 0 = 0x48 \<and> byte p 4 AND 0x47 = 0x06 then Some (alps_process_trackstick_packet_v7 E p s)
      else alps_process_touchpad_packet_v7 E p s)"

section \<open>Protocol 8\<close>

text \<open>A trackstick packet of this protocol ends without posting anything, on every path.\<close>

definition alps_process_packet_ss4_v2 :: "clock \<Rightarrow> u8 list \<Rightarrow> 'a alps_scheme \<Rightarrow> 'a alps_scheme option" where
  "alps_process_packet_ss4_v2 E p s =
     (let (now_abs, s) = clock_get_uptime E s in do {
       (_, fl) \<leftarrow> call_decode zero_fields p s;
       (fl, s) \<leftarrow>
         (if multi_packet (priv s) \<noteq> 0 then
            (if f_is_mp fl \<noteq> 0
             then do { (_, fl) \<leftarrow> call_decode fl (multi_data (priv s)) s; Some (fl, s) }
             else Some (fl, set_priv ((priv s)\<lparr>multi_packet := 0\<rparr>) s))
          else Some (fl, s));
       if f_is_mp fl \<noteq> 0 then Some s
       else if multi_packet (priv s) = 0 \<and> f_first_mp fl \<noteq> 0
       then Some (set_priv ((priv s)\<lparr>multi_packet := 1, multi_data := take 6 p\<rparr>) s)
       else
         (let s = set_priv ((priv s)\<lparr>multi_packet := 0\<rparr>) s in
          if alps_get_pkt_id_ss4_v2 p = SS4_PACKET_ID_STICK then Some s
          else
            (let q = reverse_y (priv s) (f_mt fl ! 0)
             in dispatchEventsWithInfo E (i32 (mt_x q)) (i32 (mt_y q)) (f_pressure fl) (i32 (f_fingers fl))
                  (field_buttons fl) s))
     })"

text \<open>The call through the member pointer \<open>process_packet\<close>.\<close>

definition process_packet :: "clock \<Rightarrow> alps_fields \<Rightarrow> u8 list \<Rightarrow> 'a alps_scheme \<Rightarrow> 'a alps_scheme option" where
  "process_packet E f0 p s =
     (case process_fn s of
        None \<Rightarrow> None
      | Some ProcessV1V2 \<Rightarrow> alps_process_packet_v1_v2 E p s
      | Some ProcessV3 \<Rightarrow> alps_process_packet_v3 E p s
      | Some ProcessV4 \<Rightarrow> alps_process_packet_v4 E f0 p s
      | Some ProcessTouchpadV3V5 \<Rightarrow> alps_process_touchpad_packet_v3_v5 E p s
      | Some ProcessV6 \<Rightarrow> alps_process_packet_v6 E p s
      | Some ProcessV7 \<Rightarrow> alps_process_packet_v7 E p s
      | Some ProcessSs4V2 \<Rightarrow> alps_process_packet_ss4_v2 E p s)"

end
