(* ===== verification/ProcessSafety.thy ===== *)
theory ProcessSafety
  imports AlpsProcess
begin

text \<open>
  No packet stops the driver.  The decoders keep every bitmap inside the electrode counts of the sensor, so
  that \<open>alps_process_bitmap\<close> meets the hypotheses under which it divides by no zero; the dispatcher is total
  on a valid configuration; and every protocol routine keeps both.
\<close>

section \<open>Bitmaps stay within the electrodes\<close>

definition maps_ok :: "alps_data \<Rightarrow> alps_fields \<Rightarrow> bool" where
  "maps_ok d fl \<longleftrightarrow> fits (nat (x_bits d)) (f_x_map fl) \<and> fits (nat (y_bits d)) (f_y_map fl)"

definition decoder_ok :: "alps_data \<Rightarrow> decode_fn \<Rightarrow> bool" where
  "decoder_ok d k \<longleftrightarrow>
     (k = DecodePinnacle \<longrightarrow> 15 \<le> x_bits d \<and> 11 \<le> y_bits d) \<and> (k = DecodeRushmore \<longrightarrow> 16 \<le> x_bits d \<and> 12 \<le> y_bits d)"

lemma fits_ucast_le: "fits n w \<Longrightarrow> fits n (ucast w :: u32)" for w :: u64
  by (auto simp: fits_iff_bits bit_ucast_iff)

lemma fits_mask: "fits n (w AND (2 ^ n - 1))" for w :: u64
  by (rule fits_andI) (auto simp: fits_iff_bits mask_eq_exp_minus_1 [symmetric] bit_mask_iff)

lemma BIT_power: "BIT n = 2 ^ nat n"
  by (simp add: BIT_def push_bit_eq_mult)

lemma maps_ok_buttons: "maps_ok d (alps_decode_buttons_v3 fl p) = maps_ok d fl"
  by (simp add: maps_ok_def alps_decode_buttons_v3_def)

lemma maps_ok_st: "maps_ok d (fl\<lparr>f_st := q, f_pressure := z\<rparr>) = maps_ok d fl"
  "maps_ok d (fl\<lparr>f_first_mp := a, f_is_mp := b\<rparr>) = maps_ok d fl"
  by (simp_all add: maps_ok_def)

lemma maps_ok_pinnacle:
  assumes "maps_ok d fl" and "15 \<le> x_bits d" and "11 \<le> y_bits d"
  shows "maps_ok d (snd (alps_decode_pinnacle fl p))"
proof -
  have x: "fits 15 (push_bit 8 (byte p 4 AND 0x7e) OR push_bit 2 (byte p 1 AND 0x7f) OR drop_bit 4 (byte p 0 AND 0x30))"
    and y: "fits 11 (push_bit 4 (byte p 3 AND 0x70) OR push_bit 1 (byte p 2 AND 0x7f) OR (byte p 4 AND 0x01))"
    by (simp_all add: fits)
  show ?thesis
    using assms(1) fits_mono [OF x, of "nat (x_bits d)"] fits_mono [OF y, of "nat (y_bits d)"] assms(2,3)
    by (simp add: alps_decode_pinnacle_def Let_def maps_ok_buttons maps_ok_st) (simp add: maps_ok_def)
qed

lemma maps_ok_rushmore:
  assumes "maps_ok d fl" and "16 \<le> x_bits d" and "12 \<le> y_bits d"
  shows "maps_ok d (snd (alps_decode_rushmore fl p))"
proof -
  have x: "fits 16 (push_bit 11 (byte p 5 AND 0x10) OR push_bit 8 (byte p 4 AND 0x7e)
      OR push_bit 2 (byte p 1 AND 0x7f) OR drop_bit 4 (byte p 0 AND 0x30))"
    and y: "fits 12 (push_bit 6 (byte p 5 AND 0x20) OR push_bit 4 (byte p 3 AND 0x70)
      OR push_bit 1 (byte p 2 AND 0x7f) OR (byte p 4 AND 0x01))"
    by (simp_all add: fits)
  show ?thesis
    using assms(1) fits_mono [OF x, of "nat (x_bits d)"] fits_mono [OF y, of "nat (y_bits d)"] assms(2,3)
    by (simp add: alps_decode_rushmore_def Let_def maps_ok_buttons maps_ok_st) (simp add: maps_ok_def)
qed

lemma maps_ok_dolphin: "maps_ok d fl \<Longrightarrow> maps_ok d (snd (alps_decode_dolphin d fl p))"
  by (simp add: alps_decode_dolphin_def Let_def maps_ok_buttons maps_ok_st)
    (simp add: maps_ok_def BIT_power fits_ucast_le fits_mask)

lemma maps_v7: "f_x_map (snd (alps_decode_packet_v7 d fl p)) = f_x_map fl"
  "f_y_map (snd (alps_decode_packet_v7 d fl p)) = f_y_map fl"
  by (simp_all add: alps_decode_packet_v7_def Let_def)

lemma maps_ok_zero: "maps_ok d zero_fields"
  by (simp add: maps_ok_def zero_fields_def)

text \<open>The SS4 decoder either keeps the bitmaps or zeroes the structure.\<close>

lemma maps_ss4: "maps_ok d fl \<Longrightarrow> maps_ok d (snd (alps_decode_ss4_v2 d fl p))"
  by (cases "alps_get_pkt_id_ss4_v2 p") (simp_all add: alps_decode_ss4_v2_def Let_def maps_ok_def zero_fields_def)

lemma maps_ok_decode:
  "decoder_ok d k \<Longrightarrow> maps_ok d fl \<Longrightarrow> maps_ok d (snd (decode_fields k d fl p))"
  using maps_ok_pinnacle maps_ok_rushmore maps_ok_dolphin maps_ss4
  by (cases k) (auto simp: decode_fields_def decoder_ok_def maps_ok_def maps_v7)

lemma fields_ok_decode: "fields_ok fl \<Longrightarrow> fields_ok (snd (decode_fields k d fl p))"
  using fields_ok_pinnacle fields_ok_rushmore fields_ok_dolphin fields_ok_v7 fields_ok_ss4
  by (cases k) (simp_all add: decode_fields_def)

lemma bitmap_total:
  assumes "geometry_ok d" and "maps_ok d fl" and "fits 11 (mt_x (f_st fl))" "fits 11 (mt_y (f_st fl))"
  shows "\<exists>n st m. alps_process_bitmap d fl = Some (n, d\<lparr>second_touch := st\<rparr>, fl\<lparr>f_mt := m\<rparr>) \<and> st \<in> {-1, 0, 1, 2, 3}"
proof (cases "f_x_map fl = 0 \<or> f_y_map fl = 0")
  case True
  then have "alps_process_bitmap d fl = Some (0, d\<lparr>second_touch := second_touch d\<rparr>, fl\<lparr>f_mt := f_mt fl\<rparr>)"
    by (simp add: alps_process_bitmap_def)
  moreover have "second_touch d \<in> {-1, 0, 1, 2, 3}" using assms(1) by (simp add: geometry_ok_def)
  ultimately show ?thesis by blast
next
  case False
  have st: "fits 13 (mt_x (f_st fl))" "fits 13 (mt_y (f_st fl))"
    using assms(3,4) by (simp_all add: fits_mono)
  have b: "fits (nat (x_bits d)) (f_x_map fl)" "fits (nat (y_bits d)) (f_y_map fl)"
    using assms(2) by (simp_all add: maps_ok_def)
  from False have ne: "f_x_map fl \<noteq> 0" "f_y_map fl \<noteq> 0" by simp_all
  obtain n st cs where "alps_process_bitmap d fl = Some (n, d\<lparr>second_touch := int st\<rparr>, fl\<lparr>f_mt := (f_mt fl)[0 := f_st fl, 1 := cs ! st]\<rparr>)"
    and "st < 4"
    using process_bitmap_result [OF assms(1) ne b st] by blast
  moreover from this(2) have "int st \<in> {-1, 0, 1, 2, 3}" by auto
  ultimately show ?thesis by blast
qed

section \<open>Packets\<close>

fun sensor_ok :: "process_fn option \<Rightarrow> decode_fn option \<Rightarrow> alps_data \<Rightarrow> bool" where
  "sensor_ok None k d \<longleftrightarrow> False"
| "sensor_ok (Some ProcessV3) k d \<longleftrightarrow> geometry_ok d \<and> k \<noteq> None \<and> decoder_ok d (the k)"
| "sensor_ok (Some ProcessTouchpadV3V5) k d \<longleftrightarrow> geometry_ok d \<and> k \<noteq> None \<and> decoder_ok d (the k)"
| "sensor_ok (Some ProcessV4) k d \<longleftrightarrow> geometry_ok d \<and> 15 \<le> x_bits d \<and> 11 \<le> y_bits d \<and> 0 \<le> multi_packet d"
| "sensor_ok (Some ProcessV7) k d \<longleftrightarrow> k \<noteq> None"
| "sensor_ok (Some ProcessSs4V2) k d \<longleftrightarrow> k \<noteq> None"
| "sensor_ok (Some ProcessV1V2) k d \<longleftrightarrow> True"
| "sensor_ok (Some ProcessV6) k d \<longleftrightarrow> True"

definition process_ok :: "'a alps_scheme \<Rightarrow> bool" where
  "process_ok s \<longleftrightarrow> dispatch_ready s \<and> scale_ok s \<and> sensor_ok (process_fn s) (decode_fn s) (priv s)"

text \<open>The part of the private data that packets never change.\<close>

definition same_sensor :: "alps_data \<Rightarrow> alps_data \<Rightarrow> bool" where
  "same_sensor d d' \<longleftrightarrow> x_bits d' = x_bits d \<and> y_bits d' = y_bits d \<and> x_max d' = x_max d \<and> y_max d' = y_max d
     \<and> (second_touch d' = second_touch d \<or> second_touch d' \<in> {-1, 0, 1, 2, 3})
     \<and> (0 \<le> multi_packet d \<longrightarrow> 0 \<le> multi_packet d')"

lemma more_fields:
  fixes s s' :: "'a alps_scheme"
  assumes "cfg s' = cfg s"
  shows "priv s' = priv s" "decode_fn s' = decode_fn s" "process_fn s' = process_fn s"
  using assms by (cases s; cases s'; simp add: cfg_def)+

lemma process_ok_cfg: "cfg s' = cfg s \<Longrightarrow> process_ok s' = process_ok s"
  using more_fields [of s' s] dispatch_ready_cfg [of s' s] scale_ok_cfg [of s' s] by (simp add: process_ok_def)

lemma sensor_fields:
  assumes "same_sensor d d'"
  shows "geometry_ok d \<Longrightarrow> geometry_ok d'" "decoder_ok d' k = decoder_ok d k" "x_bits d' = x_bits d" "y_bits d' = y_bits d"
    "0 \<le> multi_packet d \<Longrightarrow> 0 \<le> multi_packet d'" "x_max d' = x_max d" "y_max d' = y_max d"
  using assms by (auto simp: same_sensor_def geometry_ok_def decoder_ok_def)

lemma sensor_ok_same: "same_sensor d d' \<Longrightarrow> sensor_ok pf k d \<Longrightarrow> sensor_ok pf k d'"
  by (cases "(pf, k, d)" rule: sensor_ok.cases) (simp_all add: sensor_fields)

lemma scale_ok_same: "same_sensor (priv s) d \<Longrightarrow> scale_ok s \<Longrightarrow> scale_ok (set_priv d s)"
  by (simp add: sensor_fields scale_ok_def set_priv_def)

lemma process_ok_priv:
  assumes "same_sensor (priv s) d" and "process_ok s"
  shows "process_ok (set_priv d s)"
proof -
  have "dispatch_ready (set_priv d s) = dispatch_ready s" by (simp add: dispatch_ready_def set_priv_def)
  moreover have "process_fn (set_priv d s) = process_fn s" "decode_fn (set_priv d s) = decode_fn s" "priv (set_priv d s) = d"
    by (simp_all add: set_priv_def)
  ultimately show ?thesis
    using assms sensor_ok_same [OF assms(1)] scale_ok_same [OF assms(1)] by (simp add: process_ok_def)
qed

text \<open>
  \<open>succeeds r\<close>: the computation returns, in a state in which the next packet can be processed.  The collection
  \<open>succeed\<close> pushes it through the constructs of the packet routines.
\<close>

named_theorems succeed

definition succeeds :: "'a alps_scheme option \<Rightarrow> bool" where
  "succeeds r \<longleftrightarrow> (\<exists>s'. r = Some s' \<and> process_ok s')"

lemma succeeds_Some [succeed]: "succeeds (Some s) \<longleftrightarrow> process_ok s"
  by (simp add: succeeds_def)

lemma succeeds_if [succeed]: "succeeds (if c then r else r') \<longleftrightarrow> (c \<longrightarrow> succeeds r) \<and> (\<not> c \<longrightarrow> succeeds r')"
  by simp

lemma process_ok_if [succeed]: "process_ok (if c then s else s') \<longleftrightarrow> (c \<longrightarrow> process_ok s) \<and> (\<not> c \<longrightarrow> process_ok s')"
  by simp

lemma succeeds_bind: "succeeds r \<Longrightarrow> (\<And>s. process_ok s \<Longrightarrow> succeeds (f s)) \<Longrightarrow> succeeds (r \<bind> f)"
  by (auto simp: succeeds_def)

lemma succeeds_dispatch: "process_ok s \<Longrightarrow> succeeds (dispatchEventsWithInfo E x y z f b s)"
  using dispatch_total [of s E x y z f b] process_ok_cfg [of _ s] by (auto simp: succeeds_def process_ok_def)

lemmas process_frame = cfg.v_frame cfg.v_post

lemma process_ok_frame [succeed]:
  "process_ok (snd (clock_get_uptime E s)) = process_ok s"
  "process_ok (dispatchRelativePointerEventX dx dy b t s) = process_ok s"
  "process_ok (dispatchScrollWheelEventX w1 w2 w3 t s) = process_ok s"
  "process_ok (s\<lparr>touchmode := m\<rparr>) = process_ok s"
  "process_ok (s\<lparr>lastbuttons := b\<rparr>) = process_ok s"
  "process_ok (s\<lparr>lastTouchpadButtons := b\<rparr>) = process_ok s"
  "process_ok (s\<lparr>lastTrackStickButtons := b\<rparr>) = process_ok s"
        apply (rule process_ok_cfg, simp add: process_frame)
       apply (rule process_ok_cfg, simp add: process_frame)
      apply (rule process_ok_cfg, simp add: process_frame)
     apply (rule process_ok_cfg, simp add: cfg.v_mode)
    apply (rule process_ok_cfg, simp add: process_frame)
   apply (rule process_ok_cfg, simp add: cfg_def)
  apply (rule process_ok_cfg, simp add: cfg_def)
  done

lemma move_or_scroll_ok [succeed]: "process_ok (move_or_scroll x y b t s) = process_ok s"
  by (simp add: move_or_scroll_def succeed)

lemma process_ok_set [succeed]:
  "process_ok s \<Longrightarrow> process_ok (set_priv ((priv s)\<lparr>multi_packet := 0\<rparr>) s)"
  "process_ok s \<Longrightarrow> process_ok (set_priv ((priv s)\<lparr>multi_packet := 1, multi_data := md\<rparr>) s)"
  "process_ok s \<Longrightarrow> process_ok (set_priv ((priv s)\<lparr>second_touch := -1\<rparr>) s)"
  "process_ok s \<Longrightarrow> process_ok (set_priv ((priv s)\<lparr>quirks := q\<rparr>) s)"
  "process_ok s \<Longrightarrow> process_ok (set_priv ((priv s)\<lparr>prev_fin := pf\<rparr>) s)"
  by (rule process_ok_priv, simp add: same_sensor_def, assumption)+

lemma priv_if: "priv (if c then s else s') = (if c then priv s else priv s')" for s :: "'a alps_scheme"
  by simp

lemma v1_v2_succeeds: "process_ok s \<Longrightarrow> succeeds (alps_process_packet_v1_v2 E p s)"
  unfolding alps_process_packet_v1_v2_def Let_def split_beta
  by (intro succeeds_if [THEN iffD2] conjI impI succeeds_bind succeeds_dispatch)
    (simp_all add: succeed split del: if_split)

lemma v6_succeeds: "process_ok s \<Longrightarrow> succeeds (alps_process_packet_v6 E p s)"
  unfolding alps_process_packet_v6_def Let_def split_beta
  by (intro succeeds_if [THEN iffD2] conjI impI succeeds_dispatch) (simp_all add: succeed split del: if_split)

lemma trackstick_v7_ok: "process_ok s \<Longrightarrow> process_ok (alps_process_trackstick_packet_v7 E p s)"
  unfolding alps_process_trackstick_packet_v7_def Let_def split_beta by (simp add: succeed split del: if_split)

lemma trackstick_v3_ok: "process_ok s \<Longrightarrow> process_ok (alps_process_trackstick_packet_v3 E p s)"
  unfolding alps_process_trackstick_packet_v3_def Let_def split_beta
  by (simp add: succeed if_distrib [of snd] split del: if_split)

lemma v7_succeeds:
  assumes "process_ok s" and "process_fn s = Some ProcessV7"
  shows "succeeds (alps_process_packet_v7 E p s)"
proof -
  obtain k where "decode_fn s = Some k" using assms by (auto simp: process_ok_def)
  then show ?thesis
    using assms trackstick_v7_ok
    by (auto simp: alps_process_packet_v7_def alps_process_touchpad_packet_v7_def call_decode_def Let_def succeed split_beta
        intro!: succeeds_dispatch)
qed

lemma ss4_succeeds:
  assumes "process_ok s" and "process_fn s = Some ProcessSs4V2"
  shows "succeeds (alps_process_packet_ss4_v2 E p s)"
proof -
  obtain k where k: "decode_fn s = Some k" using assms by (auto simp: process_ok_def)
  define s0 where "s0 = snd (clock_get_uptime E s)"
  have ok: "process_ok s0" using assms(1) by (simp add: s0_def succeed)
  have k0: "decode_fn s0 = Some k" using k by (simp add: s0_def clock_get_uptime_def)
  show ?thesis
    using ok
    unfolding alps_process_packet_ss4_v2_def Let_def split_beta s0_def [symmetric] call_decode_def k0
    by (simp add: succeed succeeds_dispatch split_beta)
qed

text \<open>The merge of a two-packet report meets the hypotheses of the bitmap routine.\<close>

lemma v3_v5_merge_total:
  assumes "process_ok s" and "process_fn s \<in> {Some ProcessV3, Some ProcessTouchpadV3V5}"
  shows "\<exists>n fl s'. v3_v5_merge p s = Some (n, fl, s') \<and> process_ok s'"
proof -
  obtain k where k: "decode_fn s = Some k" "decoder_ok (priv s) k" "geometry_ok (priv s)"
    using assms by (auto simp: process_ok_def)
  define fl1 where "fl1 = snd (decode_fields k (priv s) zero_fields p)"
  define fl2 where "fl2 = snd (decode_fields k (priv s) fl1 (multi_data (priv s)))"
  have ok1: "maps_ok (priv s) fl1" "fields_ok fl1"
    using maps_ok_decode [OF k(2)] maps_ok_zero fields_ok_decode fields_ok_zero by (auto simp: fl1_def)
  have ok2: "maps_ok (priv s) fl2" "fields_ok fl2"
    using maps_ok_decode [OF k(2)] ok1 fields_ok_decode by (auto simp: fl2_def)
  have "fits 11 (mt_x (f_st fl2))" "fits 11 (mt_y (f_st fl2))" using ok2(2) by (simp_all add: fields_ok_def)
  then obtain n st m where bm: "alps_process_bitmap (priv s) fl2 = Some (n, (priv s)\<lparr>second_touch := st\<rparr>, fl2\<lparr>f_mt := m\<rparr>)"
    and st: "st \<in> {-1, 0, 1, 2, 3}"
    using bitmap_total [OF k(3) ok2(1)] by blast
  have "process_ok (set_priv ((priv s)\<lparr>second_touch := st\<rparr>) s)"
    using st assms(1) by (intro process_ok_priv) (auto simp: same_sensor_def)
  then show ?thesis
    using assms(1) bm
    by (simp add: v3_v5_merge_def call_decode_def k(1) split_beta fl1_def [symmetric] fl2_def [symmetric] Let_def succeed)
qed

lemma v3_v5_report_succeeds: "process_ok s \<Longrightarrow> succeeds (v3_v5_report E n fl s)"
  unfolding v3_v5_report_def Let_def split_beta by (intro succeeds_dispatch) (simp add: succeed)

lemma v3_v5_succeeds:
  assumes "process_ok s" and "process_fn s \<in> {Some ProcessV3, Some ProcessTouchpadV3V5}"
  shows "succeeds (alps_process_touchpad_packet_v3_v5 E p s)"
proof -
  obtain n fl s1 where "v3_v5_merge p s = Some (n, fl, s1)" and "process_ok s1"
    using v3_v5_merge_total [OF assms] by blast
  then show ?thesis
    by (simp add: alps_process_touchpad_packet_v3_v5_def succeed v3_v5_report_succeeds)
qed

lemma v4_maps: "fits 15 (v4_x_map d)" "fits 11 (v4_y_map d)"
  by (simp_all add: v4_x_map_def v4_y_map_def fits)

lemma v4_st: "fits 11 (mt_x (f_st (v4_fields f0 p)))" "fits 11 (mt_y (f_st (v4_fields f0 p)))"
  by (simp_all add: v4_fields_def fits)

lemma v4_succeeds:
  assumes ok: "process_ok s" and "process_fn s = Some ProcessV4"
  shows "succeeds (alps_process_packet_v4 E f0 p s)"
proof -
  have g: "geometry_ok (priv s)" "15 \<le> x_bits (priv s)" "11 \<le> y_bits (priv s)" "0 \<le> multi_packet (priv s)"
    using assms by (auto simp: process_ok_def)
  define d where "d = (if isset (byte p 6) 0x40 then (priv s)\<lparr>multi_packet := 0\<rparr> else priv s)"
  have d: "same_sensor (priv s) d" "0 \<le> multi_packet d" using g by (auto simp: d_def same_sensor_def)
  define d' where "d' = v4_store p d"
  have d': "same_sensor (priv s) d'" using d by (auto simp: d'_def v4_store_def same_sensor_def Let_def)
  have go: "geometry_ok (d'\<lparr>multi_packet := 0\<rparr>)" using sensor_fields(1) [OF d' g(1)] by (simp add: geometry_ok_def)
  let ?fl = "(v4_fields f0 p)\<lparr>f_x_map := v4_x_map (multi_data d'), f_y_map := v4_y_map (multi_data d')\<rparr>"
  have "maps_ok (d'\<lparr>multi_packet := 0\<rparr>) ?fl"
    using fits_mono [OF v4_maps(1), of "nat (x_bits d')" "multi_data d'"] fits_mono [OF v4_maps(2), of "nat (y_bits d')" "multi_data d'"]
      g(2,3) sensor_fields(3,4) [OF d'] by (simp add: maps_ok_def)
  then obtain n st m where bm: "alps_process_bitmap (d'\<lparr>multi_packet := 0\<rparr>) ?fl
      = Some (n, d'\<lparr>multi_packet := 0, second_touch := st\<rparr>, ?fl\<lparr>f_mt := m\<rparr>)" and st: "st \<in> {-1, 0, 1, 2, 3}"
    using bitmap_total [OF go, of ?fl] v4_st by auto
  have "same_sensor (priv s) (d'\<lparr>multi_packet := 0, second_touch := st\<rparr>)"
    using d' st by (auto simp: same_sensor_def)
  then have "process_ok (set_priv (d'\<lparr>multi_packet := 0, second_touch := st\<rparr>) s)" "process_ok (set_priv d' s)" "process_ok (set_priv d s)"
    using process_ok_priv [OF _ ok] d' d(1) by blast+
  then show ?thesis
    using d(2) bm
    by (simp add: alps_process_packet_v4_def d_def [symmetric] d'_def [symmetric] Let_def succeed succeeds_dispatch)
qed

lemma process_packet_succeeds: "process_ok s \<Longrightarrow> succeeds (process_packet E f0 p s)"
  using v1_v2_succeeds [of s E p] v6_succeeds [of s E p] v7_succeeds [of s E p] ss4_succeeds [of s E p]
    v3_v5_succeeds [of s E p] v4_succeeds [of s E f0 p] trackstick_v3_ok [of s E p]
  by (auto simp: process_packet_def alps_process_packet_v3_def succeed process_ok_def [of s] split: option.split process_fn.split)

section \<open>Streams of packets\<close>

fun process_packets :: "clock \<Rightarrow> (alps_fields \<times> u8 list) list \<Rightarrow> 'a alps_scheme \<Rightarrow> 'a alps_scheme option" where
  "process_packets E [] s = Some s"
| "process_packets E ((f0, p) # ps) s = do { s \<leftarrow> process_packet E f0 p s; process_packets E ps s }"

lemma process_packets_succeeds: "process_ok s \<Longrightarrow> succeeds (process_packets E ps s)"
  by (induction ps arbitrary: s) (auto simp: succeed intro!: succeeds_bind process_packet_succeeds)

text \<open>
  C2. Whatever bytes the trackpad sends, no sequence of packets stops the driver: on a valid configuration
  every packet is processed to the end (no division by zero in the bitmap geometry or in the dispatcher, no
  null pointer) and leaves a state in which the next one can be processed.
\<close>

theorem packets_never_trap:
  assumes "process_ok s"
  shows "\<exists>s'. process_packets E ps s = Some s' \<and> process_ok s'"
  using process_packets_succeeds [OF assms] by (simp add: succeeds_def)

definition sample_v3 :: alps where
  "sample_v3 = sample_alps\<lparr>decode_fn := Some DecodePinnacle, process_fn := Some ProcessV3,
     priv := zero_data\<lparr>x_max := 2000, y_max := 1400, x_bits := 15, y_bits := 11\<rparr>\<rparr>"

lemma sample_v3_ok: "process_ok sample_v3"
  using sample_ok(1)
  by (simp add: process_ok_def sample_v3_def scale_ok_def dispatch_ready_def geometry_ok_def decoder_ok_def zero_data_def
      sample_alps_def signed_divide_int_def)

lemma packets_never_trap_witness:
  "\<exists>s'. process_packets \<lparr>uptime = of_nat, to_ns = (\<lambda>t. t)\<rparr>
      [(zero_fields, [0xFF, 0xFF, 0xFF, 0xFF, 0xFF, 0xFF]), (zero_fields, [0x8F, 0x12, 0x34, 0x08, 0x45, 0x30])] sample_v3 = Some s'
    \<and> process_ok s'"
  by (rule packets_never_trap [OF sample_v3_ok])

end
