(* ===== verification/PacketReports.thy ===== *)
theory PacketReports
  imports ProcessSafety
begin

text \<open>
  From the bytes on the wire to the report: the two-packet reports of the V3 family end to end, what happens
  when one of the two packets is lost, and the right button of V4.
\<close>

section \<open>Two-packet reports\<close>

text \<open>The position packet that announces a bitmap packet has bit 6 of byte 4 set.\<close>

definition announce_mp :: "u8 list \<Rightarrow> u8 list" where
  "announce_mp p = p[4 := p ! 4 OR 0x40]"

definition enc_v3_first :: "u32 \<Rightarrow> u32 \<Rightarrow> u32 \<Rightarrow> u8 \<Rightarrow> u8 list" where
  "enc_v3_first px py z b = announce_mp (enc_v3_position px py z b)"

lemma decode_announced:
  assumes "fits 11 px" "fits 11 py" "fits 7 z" "b = button_byte l r m tsl tsr tsm"
  shows "alps_decode_pinnacle fl (announce_mp (enc_v3_position px py z b)) =
    (True, set_buttons (fl\<lparr>f_first_mp := 1, f_is_mp := 0, f_st := \<lparr>mt_x = px, mt_y = py\<rparr>, f_pressure := i32 z\<rparr>) l r m tsl tsr tsm)"
proof -
  let ?p = "enc_v3_position px py z b"
  have nth: "announce_mp ?p ! 3 = b"
    by (simp add: announce_mp_def enc_v3_position_def)
  have len: "length ?p = 6" by (simp add: enc_v3_position_def)
  have byte: "byte (announce_mp ?p) i = (if i = 4 then byte ?p 4 OR 0x40 else byte ?p i)" if "i < 6" for i
    using that by (simp add: announce_mp_def byte_def len nth_list_update unsigned_or_eq)
  have m: "(w OR 0x40) AND 0x30 = w AND 0x30" "(w OR 0x40) AND 0x0f = w AND 0x0f" "(w OR 0x40) AND 0x40 = 0x40" for w :: u32
    by (simp_all add: bitblast)
  note pos = v3_words [OF assms(1,2) refl, of z b] decode_button_byte [OF trans [OF nth assms(4)]]
  show ?thesis
    using pos assms(3) by (simp add: alps_decode_pinnacle_def bit_flag_def byte m)
qed

lemma decode_v3_bitmap:
  assumes "fits 15 xm" "fits 11 ym" "1 \<le> n" "n \<le> 4"
  shows "alps_decode_pinnacle fl (enc_v3_bitmap xm ym n) =
      (True, fl\<lparr>f_first_mp := bit_flag (bit xm 14), f_is_mp := 1, f_fingers := n, f_x_map := xm, f_y_map := ym\<rparr>)"
proof -
  have bit14: "drop_bit 8 w AND 0x40 \<noteq> 0 \<longleftrightarrow> bit w 14" for w :: u32
    by (simp add: bitblast)
  show ?thesis
    using bitmap_words [OF assms(1,2) refl, of n] bitmap_fingers [OF assms(3,4), of xm ym] bit14
    by (simp add: alps_decode_pinnacle_def bit_flag_def)
qed

lemma set_buttons_fields:
  "field_buttons (set_buttons fl l r m tsl tsr tsm) = button_mask l r m"
  "f_st (set_buttons fl l r m tsl tsr tsm) = f_st fl" "f_mt (set_buttons fl l r m tsl tsr tsm) = f_mt fl"
  "f_pressure (set_buttons fl l r m tsl tsr tsm) = f_pressure fl" "f_is_mp (set_buttons fl l r m tsl tsr tsm) = f_is_mp fl"
  "f_first_mp (set_buttons fl l r m tsl tsr tsm) = f_first_mp fl" "f_fingers (set_buttons fl l r m tsl tsr tsm) = f_fingers fl"
  "f_x_map (set_buttons fl l r m tsl tsr tsm) = f_x_map fl" "f_y_map (set_buttons fl l r m tsl tsr tsm) = f_y_map fl"
  "f_ts_left (set_buttons fl l r m tsl tsr tsm) = bit_flag tsl" "f_ts_right (set_buttons fl l r m tsl tsr tsm) = bit_flag tsr"
  "f_ts_middle (set_buttons fl l r m tsl tsr tsm) = bit_flag tsm"
  by (simp_all add: set_buttons_def field_buttons_def)

definition v3_buttons :: "alps_data \<Rightarrow> u32 \<Rightarrow> u32 \<Rightarrow> u32" where
  "v3_buttons d b ts = (if isset (flags d) ALPS_DUALPOINT \<and> quirks d AND ALPS_QUIRK_TRACKSTICK_BUTTONS = 0 then b OR ts else b)"



section \<open>Lost halves\<close>

text \<open>
  The multi-packet state never gets stuck: when the second half of a report is lost, the next packet
  that is not a bitmap is processed exactly as if no second half had been awaited; a bitmap packet without
  its first half is dropped and changes nothing.
\<close>

theorem lost_halves_recovered:
  assumes "decode_fn s = Some k" and "k \<in> {DecodePinnacle, DecodeRushmore, DecodeDolphin}"
  shows "(f_is_mp (snd (decode_fields k (priv s) zero_fields p)) = 0 \<longrightarrow>
      alps_process_touchpad_packet_v3_v5 E p s
        = alps_process_touchpad_packet_v3_v5 E p (set_priv ((priv s)\<lparr>multi_packet := 0\<rparr>) s))
    \<and> (f_is_mp (snd (decode_fields k (priv s) zero_fields p)) \<noteq> 0 \<and> multi_packet (priv s) = 0 \<longrightarrow>
      alps_process_touchpad_packet_v3_v5 E p s = Some s)"
proof -
  let ?s = "set_priv ((priv s)\<lparr>multi_packet := 0\<rparr>) s"
  have d: "decode_fields k (priv ?s) zero_fields p = decode_fields k (priv s) zero_fields p"
    using assms(2) by (auto simp: decode_fields_def alps_decode_dolphin_def set_priv_def Let_def)
  have same: "multi_packet (priv s) = 0 \<Longrightarrow> ?s = s" by (simp add: set_priv_def)
  have twice: "set_priv ((priv ?s)\<lparr>multi_packet := 0\<rparr>) ?s = ?s" by (simp add: set_priv_def)
  obtain c fl where fl: "decode_fields k (priv s) zero_fields p = (c, fl)" by fastforce
  have k: "decode_fn ?s = Some k" "multi_packet (priv ?s) = 0" using assms(1) by (simp_all add: set_priv_def)
  have "v3_v5_merge p s = v3_v5_merge p ?s" if "f_is_mp fl = 0"
    using that same by (simp add: v3_v5_merge_def call_decode_def assms(1) k d fl)
  moreover have "v3_v5_merge p s = Some (0, fl, s)" if "multi_packet (priv s) = 0"
    using that by (simp add: v3_v5_merge_def call_decode_def assms(1) fl)
  ultimately show ?thesis
    by (simp add: fl alps_process_touchpad_packet_v3_v5_def)
qed

lemma lost_halves_recovered_witness:
  "alps_process_touchpad_packet_v3_v5 \<lparr>uptime = of_nat, to_ns = (\<lambda>t. t)\<rparr> [0x4F, 0, 0, 0, 0, 0] sample_v3 = Some sample_v3"
  using lost_halves_recovered [of sample_v3 DecodePinnacle "[0x4F, 0, 0, 0, 0, 0]"]
  by (simp add: sample_v3_def zero_data_def decode_fields_def alps_decode_pinnacle_def byte_def)

section \<open>The right button of V4\<close>

text \<open>
  On a V4 trackpad the right button does nothing: \<open>packet[4] & 0x02\<close> is stored in a one-bit field, which
  keeps bit 0 of the value 2.  Flipping the button bit changes no report.
\<close>

theorem v4_right_button_lost:
  assumes "length p = 8"
  shows "alps_process_packet_v4 E f0 (p[4 := p ! 4 XOR 0x02]) s = alps_process_packet_v4 E f0 p s"
proof -
  let ?p = "p[4 := p ! 4 XOR 0x02]"
  have b: "byte ?p i = byte p i" if "i \<noteq> 4" for i using that by (simp add: byte_def)
  have b4: "byte ?p 4 AND 1 = byte p 4 AND 1"
    using assms by (simp add: byte_def unsigned_xor_eq bitblast)
  have r: "bitfield (w AND 2) = 0" for w :: u32
  proof (rule bit_eqI)
    show "bit (bitfield (w AND 2)) i = bit (0 :: 1 word) i" for i
      by (cases i) (simp_all add: bitfield_def bit_simps bit_1_iff)
  qed
  have eq: "v4_fields f0 ?p = v4_fields f0 p" "v4_store ?p d = v4_store p d" "byte ?p 6 = byte p 6" for d
    by (simp_all add: v4_fields_def v4_store_def b b4 r)
  show ?thesis by (simp only: alps_process_packet_v4_def eq)
qed

lemma v4_right_button_lost_witness:
  "\<forall>E f0 s. alps_process_packet_v4 E f0 [0x8f, 1, 2, 8, 2, 5, 0, 0] (s :: alps) = alps_process_packet_v4 E f0 [0x8f, 1, 2, 8, 0, 5, 0, 0] s"
  by (intro allI) (rule v4_right_button_lost [of "[0x8f, 1, 2, 8, 0, 5, 0, 0]", simplified])

end
