(* ===== verification/AlpsInterrupt.thy ===== *)
theory AlpsInterrupt
  imports PacketReports
begin

text \<open>
  The interrupt side of the driver: \<open>interruptOccurred\<close> collects bytes into the ring buffer and checks them
  as they come, \<open>packetReady\<close> empties the buffer in the work loop.

  The buffer has 192 bytes.  Every access through \<open>head ()\<close> is one of \<open>head_write\<close>, \<open>head_read\<close>, so
  that an index behind the array is \<open>None\<close>.  The conditions of the code are tests with \<open>&&\<close>: a byte is read
  only when the tests before it hold.
\<close>

datatype PS2InterruptResult = kPS2IR_packetBuffering | kPS2IR_packetReady

abbreviation (input) kRingSize :: nat where "kRingSize \<equiv> 192"

section \<open>One byte\<close>

definition bad_data :: "bool \<Rightarrow> 'a alps_scheme \<Rightarrow> 'a alps_scheme" where
  "bad_data b s = set_priv ((priv s)\<lparr>PSMOUSE_BAD_DATA := b\<rparr>) s"

definition publish :: "'a alps_scheme \<Rightarrow> 'a alps_scheme" where
  "publish s = s\<lparr>ringBuffer := advanceHead kRingSize (pktsize (priv s)) (ringBuffer s)\<rparr>"

definition drop_packet :: "'a alps_scheme \<Rightarrow> PS2InterruptResult \<times> 'a alps_scheme" where
  "drop_packet s = (kPS2IR_packetReady, publish (bad_data True s))"

definition store_byte :: "u8 \<Rightarrow> 'a alps_scheme \<Rightarrow> 'a alps_scheme option" where
  "store_byte data s =
     do {
       rb \<leftarrow> head_write kRingSize (ringBuffer s) (packetByteCount s) data;
       Some (s\<lparr>ringBuffer := rb, packetByteCount := packetByteCount s + 1\<rparr>)
     }"

text \<open>\<open>cond && (packet[i] & m) != v\<close>.\<close>

definition byte_differs :: "bool \<Rightarrow> nat \<Rightarrow> u8 \<Rightarrow> u8 \<Rightarrow> 'a alps_scheme \<Rightarrow> bool option" where
  "byte_differs c i m v s =
     (if c then map_option (\<lambda>b. b AND m \<noteq> v) (head_read kRingSize (ringBuffer s) i) else Some False)"

text \<open>The checks between the bare-packet test and the store, in order; \<open>True\<close> when one of them fails.\<close>

definition stuffed_ps2 :: "'a alps_scheme \<Rightarrow> bool option" where
  "stuffed_ps2 s =
     (if isset (flags (priv s)) ALPS_PS2_INTERLEAVED \<and> packetByteCount s \<ge> 4
      then map_option Not (byte_differs True 3 0x0f 0x0f s) else Some False)"

definition bad_first_byte :: "'a alps_scheme \<Rightarrow> bool option" where
  "bad_first_byte s = byte_differs True 0 (mask0 (priv s)) (byte0 (priv s)) s"

definition bad_high_bit :: "'a alps_scheme \<Rightarrow> bool option" where
  "bad_high_bit s =
     byte_differs (proto_version (priv s) < ALPS_PROTO_V5 \<and> packetByteCount s \<ge> 2 \<and> packetByteCount s \<le> pktsize (priv s))
       (packetByteCount s - 1) 0x80 0 s"

definition bad_package_v7 :: "'a alps_scheme \<Rightarrow> bool option" where
  "bad_package_v7 s =
     (let v7 = (proto_version (priv s) = ALPS_PROTO_V7) in do {
       a \<leftarrow> byte_differs (v7 \<and> packetByteCount s = 3) 2 0x40 0x40 s;
       b \<leftarrow> byte_differs (v7 \<and> packetByteCount s = 4) 3 0x48 0x48 s;
       c \<leftarrow> byte_differs (v7 \<and> packetByteCount s = 6) 5 0x40 0 s;
       Some (a \<or> b \<or> c)
     })"

definition bad_package_ss4_v2 :: "'a alps_scheme \<Rightarrow> bool option" where
  "bad_package_ss4_v2 s =
     (let v8 = (proto_version (priv s) = ALPS_PROTO_V8) in do {
       a \<leftarrow> byte_differs (v8 \<and> packetByteCount s = 4) 3 0x08 0x08 s;
       b \<leftarrow> byte_differs (v8 \<and> packetByteCount s = 6) 5 0x10 0 s;
       Some (a \<or> b)
     })"

definition interruptOccurred :: "u8 \<Rightarrow> 'a alps_scheme \<Rightarrow> (PS2InterruptResult \<times> 'a alps_scheme) option" where
  "interruptOccurred data s =
     do {
       rb \<leftarrow> (if packetByteCount s = 0 then head_write kRingSize (ringBuffer s) 0 data else Some (ringBuffer s));
       let s = bad_data False (s\<lparr>ringBuffer := rb\<rparr>);
       bare \<leftarrow> (if proto_version (priv s) \<noteq> ALPS_PROTO_V8
               then map_option Not (byte_differs True 0 0xc8 0x08 s) else Some False);
       if bare then
         (if packetByteCount s = 3 then Some (drop_packet s)
          else do { s \<leftarrow> store_byte data s; Some (kPS2IR_packetBuffering, s) })
       else do {
         bad \<leftarrow> stuffed_ps2 s;
         if bad then Some (drop_packet s) else do {
         bad \<leftarrow> bad_first_byte s;
         if bad then Some (drop_packet s) else do {
         bad \<leftarrow> bad_high_bit s;
         if bad then Some (drop_packet s) else do {
         bad \<leftarrow> bad_package_v7 s;
         if bad then Some (drop_packet s) else do {
         bad \<leftarrow> bad_package_ss4_v2 s;
         if bad then Some (drop_packet s) else do {
           s \<leftarrow> store_byte data s;
           Some (if packetByteCount s = pktsize (priv s) then (kPS2IR_packetReady, publish s)
                 else (kPS2IR_packetBuffering, s))
         }}}}}
       }
     }"

section \<open>Emptying the buffer\<close>

text \<open>The loop of \<open>packetReady\<close>; \<open>f0\<close> is what the stack holds when the V4 routine runs, iteration by iteration.\<close>

definition handle_tail :: "clock \<Rightarrow> alps_fields \<Rightarrow> 'a alps_scheme \<Rightarrow> 'a alps_scheme option" where
  "handle_tail E f0 s =
     do {
       s \<leftarrow> (if \<not> PSMOUSE_BAD_DATA (priv s) then process_packet E f0 (tail_packet (ringBuffer s) (pktsize (priv s))) s
             else Some s);
       Some (s\<lparr>packetByteCount := 0, ringBuffer := advanceTail kRingSize (pktsize (priv s)) (ringBuffer s)\<rparr>)
     }"

partial_function (option) packetReady :: "clock \<Rightarrow> (nat \<Rightarrow> alps_fields) \<Rightarrow> 'a alps_scheme \<Rightarrow> 'a alps_scheme option" where
  "packetReady E f0 s =
     (if ring_count kRingSize (ringBuffer s) \<ge> pktsize (priv s)
      then do { s \<leftarrow> handle_tail E (f0 (ring_count kRingSize (ringBuffer s))) s; packetReady E f0 s }
      else Some s)"

end
