(* ===== verification/Keyboard.thy ===== *)
theory Keyboard
  imports KeyboardMaps RingBuffer TouchPad PS2Request AlpsInterrupt
begin

text \<open>
  The keyboard driver: scan codes become packets at interrupt time; the work loop turns packets into ADB key events,
  after macros, remapping and the special keys.  Behind the driver lie the clock, the device nub with the trackpad
  driver and the controller (\<open>'m\<close>), and ACPI; they are the environment.  An access behind an array is \<open>None\<close>, as is a
  request that does not return.
\<close>

section \<open>State\<close>

datatype kb_timer = SleepEjectTimer | MacroTimer

datatype kb_handler = KbInterruptAction | KbPowerControlAction | KbMessageAction

datatype timer_func = kTimerSleep | kTimerEject

datatype kb_event = KeyEvent u32 bool u64 | ACPIMethod nat bool | SetBrightness u32 | SetBacklight u32 | SleepNow
  | KbSetTimer kb_timer u64 | KbCancelTimer kb_timer | SetFKeyMode bool

record 'm kb_env =
  kb_clock :: clock
  kb_message :: "tp_message \<Rightarrow> 'm \<Rightarrow> bool option \<times> 'm"
  kb_submit :: "PS2Command list \<Rightarrow> 'm \<Rightarrow> 'm"
  kb_submit_block :: "'m submit"
  kb_set_command_byte :: "u8 \<Rightarrow> u8 \<Rightarrow> 'm \<Rightarrow> 'm option"
  kb_install :: "kb_handler \<Rightarrow> bool \<Rightarrow> 'm \<Rightarrow> 'm option"
  kb_bqc :: "'m \<Rightarrow> u32 option"
  kb_kkqc :: "'m \<Rightarrow> u32 option"
  kb_version_major :: nat
  kb_hid_system :: bool
  kb_junk :: bool

record 'm kbd =
  mouse :: 'm
  keyBitVector :: "u32 list"
  extendCount :: u8
  kb_ring :: "u8 ring"
  lastdata :: u8
  ledState :: u8
  PS2modifierState :: u16
  PS2ToPS2Map :: "u16 list"
  PS2flags :: "u16 list"
  PS2ToADBMap :: "u8 list"
  PS2ToADBMapMapped :: "u8 list"
  fkeymode :: u32
  fkeymodesupported :: bool
  keysStandard :: "os_array option"
  keysSpecial :: "os_array option"
  swapcommandoption :: bool
  logscancodes :: u32
  f12ejectdelay :: u32
  timerFunc :: timer_func
  maxsleeppresstime :: u32
  actionSwipe :: "swipe_message \<Rightarrow> u16 list"
  kb_provider :: bool
  brightnessLevels :: "u32 list option"
  backlightLevels :: "u32 list option"
  brightnessHack :: bool
  macroTranslation :: "u8 list list option"
  macroInversion :: "u8 list list option"
  macroBuffer :: "u8 list option"
  macroCurrent :: nat
  macroMaxTime :: u64
  macroTimer :: bool
  capsFirstTime :: bool
  handlersInstalled :: "kb_handler list"
  kb_ticks :: nat
  kb_out :: "kb_event list"

text \<open>Checked access.\<close>

definition idx :: "'b list \<Rightarrow> nat \<Rightarrow> 'b option" where
  "idx xs i = (if i < length xs then Some (xs ! i) else None)"

definition kb_emit :: "kb_event \<Rightarrow> 'm kbd \<Rightarrow> 'm kbd" where
  "kb_emit e k = k\<lparr>kb_out := kb_out k @ [e]\<rparr>"

definition kb_uptime :: "'m kb_env \<Rightarrow> 'm kbd \<Rightarrow> u64 \<times> 'm kbd" where
  "kb_uptime E k = (uptime (kb_clock E) (kb_ticks k), k\<lparr>kb_ticks := kb_ticks k + 1\<rparr>)"

definition dispatchKeyboardEventX :: "u8 \<Rightarrow> bool \<Rightarrow> u64 \<Rightarrow> 'm kbd \<Rightarrow> 'm kbd" where
  "dispatchKeyboardEventX key down t k = kb_emit (KeyEvent (ucast key) down t) k"

text \<open>An event at the current time.\<close>

definition dispatch_now :: "'m kb_env \<Rightarrow> u8 \<Rightarrow> bool \<Rightarrow> 'm kbd \<Rightarrow> 'm kbd" where
  "dispatch_now E key down k = (let (t, k) = kb_uptime E k in dispatchKeyboardEventX key down t k)"

definition dispatchMouseMessage :: "'m kb_env \<Rightarrow> tp_message \<Rightarrow> 'm kbd \<Rightarrow> bool option \<times> 'm kbd" where
  "dispatchMouseMessage E msg k = (let (r, m) = kb_message E msg (mouse k) in (r, k\<lparr>mouse := m\<rparr>))"

section \<open>The key bit vector\<close>

definition KBV_KEYDOWN :: "nat \<Rightarrow> u32 list \<Rightarrow> u32 list" where
  "KBV_KEYDOWN n v = v[n div 32 := (v ! (n div 32)) OR push_bit (n mod 32) 1]"

definition KBV_KEYUP :: "nat \<Rightarrow> u32 list \<Rightarrow> u32 list" where
  "KBV_KEYUP n v = v[n div 32 := (v ! (n div 32)) AND NOT (push_bit (n mod 32) 1)]"

definition KBV_IS_KEYDOWN :: "nat \<Rightarrow> u32 list \<Rightarrow> bool" where
  "KBV_IS_KEYDOWN n v = isset (v ! (n div 32)) (push_bit (n mod 32) 1)"

section \<open>Interrupt time\<close>

abbreviation (input) kSC_Extend :: u8 where "kSC_Extend \<equiv> 0xE0"
abbreviation (input) kSC_Pause :: u8 where "kSC_Pause \<equiv> 0xE1"
abbreviation (input) kSC_UpBit :: u8 where "kSC_UpBit \<equiv> 0x80"

abbreviation (input) kPacketLength :: nat where "kPacketLength \<equiv> 16"
abbreviation (input) kb_ring_size :: nat where "kb_ring_size \<equiv> 512"
abbreviation (input) kPacketTimeOffset :: nat where "kPacketTimeOffset \<equiv> 8"

text \<open>A time as 8 bytes in memory.\<close>

definition time_bytes :: "u64 \<Rightarrow> u8 list" where
  "time_bytes t = map (\<lambda>i. ucast (drop_bit (8 * i) t)) [0..<8]"

definition packet_time :: "u8 list \<Rightarrow> u64" where
  "packet_time p = foldr (\<lambda>i t. push_bit (8 * i) (ucast (p ! (kPacketTimeOffset + i))) OR t) [0..<8] 0"

definition buffer_packet :: "'m kb_env \<Rightarrow> u8 \<Rightarrow> u8 \<Rightarrow> 'm kbd \<Rightarrow> 'm kbd option" where
  "buffer_packet E a b k =
     (let (t, k) = kb_uptime E k in do {
        rb \<leftarrow> stage_all (head_write kb_ring_size) 0 [a, b] (kb_ring k);
        rb \<leftarrow> stage_all (head_write kb_ring_size) kPacketTimeOffset (time_bytes t) rb;
        Some (k\<lparr>kb_ring := advanceHead kb_ring_size kPacketLength rb\<rparr>) })"

text \<open>\<open>None\<close> as new vector: the make code of a key that is already down.\<close>

definition key_edge :: "nat \<Rightarrow> bool \<Rightarrow> u32 list \<Rightarrow> u32 list option" where
  "key_edge n up v =
     (if up then Some (KBV_KEYUP n v) else if KBV_IS_KEYDOWN n v then None else Some (KBV_KEYDOWN n v))"

definition scan_code :: "'m kb_env \<Rightarrow> u8 \<Rightarrow> 'm kbd \<Rightarrow> (PS2InterruptResult \<times> 'm kbd) option" where
  "scan_code E data k =
     (let extended = extendCount k;
          k = k\<lparr>extendCount := (if extended = 0 then 0 else extended - 1)\<rparr> in
      if extendCount k = 0 then
        (let keyCodeRaw = 256 * unat extended + unat (data AND 0x7f) in do {
           fl \<leftarrow> idx (PS2flags k) keyCodeRaw;
           edge \<leftarrow> (if isset fl kBreaklessKey then Some (Some (keyBitVector k))
                   else if keyCodeRaw div 32 < length (keyBitVector k)
                   then Some (key_edge keyCodeRaw (isset data kSC_UpBit) (keyBitVector k)) else None);
           (case edge of
              None \<Rightarrow> Some (kPS2IR_packetBuffering, k)
            | Some v \<Rightarrow> do {
                k \<leftarrow> buffer_packet E (extended + 1) data (k\<lparr>keyBitVector := v\<rparr>);
                Some (kPS2IR_packetReady, k) }) })
      else Some (kPS2IR_packetBuffering, k))"

definition kb_interruptOccurred :: "'m kb_env \<Rightarrow> u8 \<Rightarrow> 'm kbd \<Rightarrow> (PS2InterruptResult \<times> 'm kbd) option" where
  "kb_interruptOccurred E data k =
     (if lastdata k = kSC_Reset \<and> data = 0 then do {
        k \<leftarrow> buffer_packet E 0 kSC_Reset k;
        Some (kPS2IR_packetReady, k\<lparr>extendCount := 0\<rparr>) }
      else
        (let k = k\<lparr>lastdata := data\<rparr> in
         if data = kSC_Acknowledge \<or> data = kSC_Resend then Some (kPS2IR_packetBuffering, k)
         else if data = kSC_Extend then Some (kPS2IR_packetBuffering, k\<lparr>extendCount := 1\<rparr>)
         else if data = kSC_Pause then Some (kPS2IR_packetBuffering, k\<lparr>extendCount := 2\<rparr>)
         else scan_code E data k))"

section \<open>Special keys\<close>

definition checkModifierState :: "u16 \<Rightarrow> 'm kbd \<Rightarrow> bool" where
  "checkModifierState msk k \<longleftrightarrow> msk = PS2modifierState k AND msk"

abbreviation (input) kMaskLeftControl :: u16 where "kMaskLeftControl \<equiv> 0x0001"
abbreviation (input) kMaskLeftShift :: u16 where "kMaskLeftShift \<equiv> 0x0004"
abbreviation (input) kMaskLeftAlt :: u16 where "kMaskLeftAlt \<equiv> 0x0010"
abbreviation (input) kMaskLeftWindows :: u16 where "kMaskLeftWindows \<equiv> 0x0040"

text \<open>The next or previous level above \<open>first\<close>.\<close>

definition step_level :: "nat \<Rightarrow> u32 list \<Rightarrow> u32 \<Rightarrow> bool \<Rightarrow> u32 option" where
  "step_level first levels current up =
     (let n = int (length levels);
          index = int (first + length (takeWhile (\<lambda>l. sint l < sint current) (drop first levels)));
          index = index + (if up then 1 else - 1);
          index = (if index \<ge> n then n - 1 else index);
          index = (if index < int first then int first else index)
      in idx levels (nat index))"

definition modifyScreenBrightness :: "'m kb_env \<Rightarrow> u8 \<Rightarrow> bool \<Rightarrow> u32 list \<Rightarrow> 'm kbd \<Rightarrow> 'm kbd option" where
  "modifyScreenBrightness E adb down levels k =
     (case kb_bqc E (mouse k) of
        None \<Rightarrow> Some k
      | Some current \<Rightarrow> do {
          l \<leftarrow> step_level 2 levels current (adb = 0x90);
          Some (if down then kb_emit (SetBrightness l) k else k) })"

definition modifyKeyboardBacklight :: "'m kb_env \<Rightarrow> nat \<Rightarrow> bool \<Rightarrow> u32 list \<Rightarrow> 'm kbd \<Rightarrow> 'm kbd option" where
  "modifyKeyboardBacklight E keyCode down levels k =
     (case kb_kkqc E (mouse k) of
        None \<Rightarrow> Some k
      | Some current \<Rightarrow> do {
          l \<leftarrow> step_level 0 levels current (keyCode = 0x4e);
          Some (if down then kb_emit (SetBacklight l) k else k) })"

definition onSleepEjectTimer :: "'m kb_env \<Rightarrow> 'm kbd \<Rightarrow> 'm kbd" where
  "onSleepEjectTimer E k = (case timerFunc k of kTimerSleep \<Rightarrow> kb_emit SleepNow k | kTimerEject \<Rightarrow> dispatch_now E 0x92 True k)"

text \<open>An event for those of the \<open>keys\<close> that are down.\<close>

primrec held_keys :: "nat list \<Rightarrow> bool \<Rightarrow> u64 \<Rightarrow> 'm kbd \<Rightarrow> 'm kbd option" where
  "held_keys [] down t k = Some k"
| "held_keys (n # ns) down t k =
     (if KBV_IS_KEYDOWN n (keyBitVector k)
      then do { adb \<leftarrow> idx (PS2ToADBMap k) n; held_keys ns down t (dispatchKeyboardEventX adb down t k) }
      else held_keys ns down t k)"

definition numpad_key :: "'m kb_env \<Rightarrow> nat \<Rightarrow> bool \<Rightarrow> u64 \<Rightarrow> 'm kbd \<Rightarrow> (nat \<times> 'm kbd) option" where
  "numpad_key E keyCode down t k =
     (case (backlightLevels k, checkModifierState (kMaskLeftControl OR kMaskLeftAlt) k) of
        (Some levels, True) \<Rightarrow> do { k \<leftarrow> modifyKeyboardBacklight E keyCode down levels k; Some (0, k) }
      | _ \<Rightarrow>
          if brightnessHack k \<and> checkModifierState (kMaskLeftControl OR kMaskLeftShift) k then do {
            let keys = (if checkModifierState kMaskLeftWindows k then [0x1d] else [0x2a, 0x1d]);
            k \<leftarrow> held_keys keys False t k;
            let k = dispatchKeyboardEventX (if keyCode = 0x4e then 0x90 else 0x91) down t k;
            k \<leftarrow> held_keys keys True t k;
            Some (0, k) }
          else Some (keyCode, k))"

definition delete_key :: "nat \<Rightarrow> bool \<Rightarrow> u64 \<Rightarrow> 'm kbd \<Rightarrow> nat \<times> 'm kbd" where
  "delete_key keyCode down t k =
     (if checkModifierState (kMaskLeftControl OR kMaskLeftAlt) k
      then (0, if down then k
               else dispatchKeyboardEventX 0x7f False t (dispatchKeyboardEventX 0x7f True t
                 (dispatchKeyboardEventX 0x3b False t (dispatchKeyboardEventX 0x37 False t k))))
      else (keyCode, k))"

definition sleep_key :: "'m kb_env \<Rightarrow> bool \<Rightarrow> 'm kbd \<Rightarrow> 'm kbd" where
  "sleep_key E down k =
     (if down then
        (let k = k\<lparr>timerFunc := kTimerSleep\<rparr> in
         if fkeymode k \<noteq> 0 \<or> maxsleeppresstime k = 0 then onSleepEjectTimer E k
         else kb_emit (KbSetTimer SleepEjectTimer (ucast (maxsleeppresstime k) * 1000000)) k)
      else kb_emit (KbCancelTimer SleepEjectTimer) k)"

definition toggle_touchpad :: "'m kb_env \<Rightarrow> 'm kbd \<Rightarrow> 'm kbd" where
  "toggle_touchpad E k =
     (let (r, k) = dispatchMouseMessage E GetDisableTouchpad k;
          enabled = (case r of Some b \<Rightarrow> b | None \<Rightarrow> kb_junk E)
      in snd (dispatchMouseMessage E (SetDisableTouchpad (\<not> enabled)) k))"

definition toggle_fkeys :: "'m kb_env \<Rightarrow> 'm kbd \<Rightarrow> 'm kbd" where
  "toggle_fkeys E k = (if fkeymodesupported k \<and> kb_hid_system E then kb_emit (SetFKeyMode (fkeymode k = 0)) k else k)"

text \<open>The switch over the remapped key: the key code that goes on, 0 when the key is used up.\<close>

definition special_key :: "'m kb_env \<Rightarrow> nat \<Rightarrow> bool \<Rightarrow> u64 \<Rightarrow> 'm kbd \<Rightarrow> (nat \<times> 'm kbd) option" where
  "special_key E keyCode down t k =
     (if keyCode = 0x4e \<or> keyCode = 0x4a then numpad_key E keyCode down t k
      else if keyCode = 0x153 then Some (delete_key keyCode down t k)
      else if keyCode = 0x15f then Some (0, sleep_key E down k)
      else if keyCode = 0x128 \<or> keyCode = 0x137 then
        Some (0, if \<not> down then k
                 else if \<not> checkModifierState kMaskLeftControl k then toggle_touchpad E k
                 else if keyCode \<noteq> 0x137 then k
                 else toggle_fkeys E k)
      else if keyCode = 0x127 then Some (0, if down then toggle_fkeys E k else k)
      else Some (keyCode, k))"

section \<open>Dispatching a packet\<close>

definition track_modifier :: "u16 \<Rightarrow> bool \<Rightarrow> 'm kbd \<Rightarrow> 'm kbd" where
  "track_modifier fl down k =
     (let bit = ucast (drop_bit 8 fl) :: u8 in
      if bit = 0 then k
      else (let msk = push_bit (unat bit - 1) 1 in
            k\<lparr>PS2modifierState := (if down then PS2modifierState k OR msk else PS2modifierState k AND NOT msk)\<rparr>))"

text \<open>The switch over the ADB code: the code that goes on and whether the key is held back.\<close>

definition special_adb :: "'m kb_env \<Rightarrow> u8 \<Rightarrow> bool \<Rightarrow> 'm kbd \<Rightarrow> (u8 \<times> bool \<times> 'm kbd) option" where
  "special_adb E adb down k =
     (if adb = 0x90 \<or> adb = 0x91 then
        (case brightnessLevels k of
           Some levels \<Rightarrow> do { k \<leftarrow> modifyScreenBrightness E adb down levels k; Some (DEADKEY, False, k) }
         | None \<Rightarrow> Some (adb, False, k))
      else if adb = 0x92 \<and> PS2modifierState k = 0 then
        (if down then
           (let k = k\<lparr>timerFunc := kTimerEject\<rparr> in
            Some (adb, True, if f12ejectdelay k = 0 then onSleepEjectTimer E k
                             else kb_emit (KbSetTimer SleepEjectTimer (ucast (f12ejectdelay k) * 1000000)) k))
         else Some (adb, False, kb_emit (KbCancelTimer SleepEjectTimer) k))
      else Some (adb, False, k))"

definition caps_lock :: "'m kb_env \<Rightarrow> u8 \<Rightarrow> bool \<Rightarrow> 'm kbd \<Rightarrow> 'm kbd" where
  "caps_lock E adb down k =
     (if down then
        (let k = dispatch_now E adb False (dispatch_now E adb True k);
             k = (if \<not> capsFirstTime k then dispatch_now E adb False (dispatch_now E adb True k) else k)
         in k\<lparr>capsFirstTime := False\<rparr>)
      else k)"

definition send_key :: "u16 \<Rightarrow> u8 \<Rightarrow> bool \<Rightarrow> u64 \<Rightarrow> 'm kbd \<Rightarrow> 'm kbd" where
  "send_key fl adb down t k =
     (let k = (if down \<or> \<not> isset fl kBreaklessKey then dispatchKeyboardEventX adb down t k else k)
      in (if down \<and> isset fl kBreaklessKey then dispatchKeyboardEventX adb False t k else k))"

definition finish_key :: "'m kb_env \<Rightarrow> nat \<Rightarrow> nat \<Rightarrow> bool \<Rightarrow> u64 \<Rightarrow> 'm kbd \<Rightarrow> 'm kbd option" where
  "finish_key E keyCodeRaw keyCode down t k = do {
     adb \<leftarrow> idx (PS2ToADBMap k) keyCode;
     (adb, eatKey, k) \<leftarrow> special_adb E adb down k;
     let k = snd (dispatchMouseMessage E (NotifyKeyPressed
               \<lparr>ki_time = to_ns (kb_clock E) t, adbKeyCode = ucast adb, goingDown = down\<rparr>) k);
     if adb = 0x39 \<and> 16 \<le> kb_version_major E then Some (caps_lock E adb down k)
     else if keyCode \<noteq> 0 \<and> \<not> eatKey then do {
       fl \<leftarrow> idx (PS2flags k) keyCodeRaw;
       Some (send_key fl adb down t k) }
     else Some k }"

definition dispatchKeyboardEventWithPacket :: "'m kb_env \<Rightarrow> u8 list \<Rightarrow> 'm kbd \<Rightarrow> (bool \<times> 'm kbd) option" where
  "dispatchKeyboardEventWithPacket E packet k = do {
     p0 \<leftarrow> idx packet 0;
     scanCode \<leftarrow> idx packet 1;
     let extended = p0 - 1;
     let down = (\<not> isset scanCode kSC_UpBit);
     let t = packet_time packet;
     if extended = 0 \<and> (scanCode = 0xf2 \<or> scanCode = 0xf1) then do {
       adb \<leftarrow> idx (PS2ToADBMap k) (unat scanCode);
       Some (True, dispatch_now E adb False (dispatch_now E adb True k)) }
     else do {
       let keyCodeRaw = unat (scanCode AND 0x7f) + (if extended = 0 then 0 else KBV_NUM_SCANCODES);
       mapped \<leftarrow> idx (PS2ToPS2Map k) keyCodeRaw;
       let keyCode = unat mapped;
       if extended \<noteq> 0 \<and> keyCodeRaw = 0x12a then Some (False, k)
       else do {
         fl \<leftarrow> idx (PS2flags k) keyCodeRaw;
         let k = track_modifier fl down k;
         let k = (if 0x1f0 \<le> keyCode \<and> keyCode \<le> 0x1ff \<and> kb_provider k
                  then kb_emit (ACPIMethod (keyCode - 0x1f0) down) k else k);
         (keyCode, k) \<leftarrow> special_key E keyCode down t k;
         k \<leftarrow> finish_key E keyCodeRaw keyCode down t k;
         Some (True, k) } } }"

section \<open>Macros\<close>

definition buffered_packet :: "u8 list \<Rightarrow> nat \<Rightarrow> u8 list" where
  "buffered_packet buf i = take kPacketLength (drop (i * kPacketLength) buf)"

definition compareMacro :: "u8 list \<Rightarrow> u8 list \<Rightarrow> nat \<Rightarrow> bool" where
  "compareMacro buf data n = list_all (\<lambda>i. buf ! (i * kPacketLength) = data ! (2 * i) \<and>
     buf ! (i * kPacketLength + 1) = data ! (2 * i + 1)) [0..<n]"

definition macro_modifiers_match :: "u8 list \<Rightarrow> u16 \<Rightarrow> bool" where
  "macro_modifiers_match d modifiers =
     (let msk = push_bit 8 (ucast (d ! 4)) + ucast (d ! 5);
          compare = push_bit 8 (ucast (d ! 6)) + ucast (d ! 7)
      in compare = 0xffff \<and> isset modifiers msk \<or> modifiers AND msk = compare)"

datatype macro_match = NoMatch | PartialMatch | ExactMatch "u8 list"

primrec match_macros :: "u8 list list \<Rightarrow> u8 list \<Rightarrow> nat \<Rightarrow> u16 \<Rightarrow> macro_match" where
  "match_macros [] buf buffered modifiers = NoMatch"
| "match_macros (d # ds) buf buffered modifiers =
     (let len = length d - kPrefixBytes; total = 2 * buffered in
      if total \<le> len \<and> compareMacro buf (drop kPrefixBytes d) buffered then
        (if total = len then
           (if macro_modifiers_match d modifiers then ExactMatch d else match_macros ds buf buffered modifiers)
         else PartialMatch)
      else match_macros ds buf buffered modifiers)"

text \<open>The buffered packets, from number \<open>i\<close> on, \<open>n\<close> of them.\<close>

fun dispatch_buffered :: "'m kb_env \<Rightarrow> u8 list \<Rightarrow> nat \<Rightarrow> nat \<Rightarrow> 'm kbd \<Rightarrow> 'm kbd option" where
  "dispatch_buffered E buf i 0 k = Some k"
| "dispatch_buffered E buf i (Suc n) k = do {
     (_, k) \<leftarrow> dispatchKeyboardEventWithPacket E (buffered_packet buf i) k;
     dispatch_buffered E buf (Suc i) n k }"

definition dispatchInvertBuffer :: "'m kb_env \<Rightarrow> u8 list \<Rightarrow> 'm kbd \<Rightarrow> 'm kbd option" where
  "dispatchInvertBuffer E buf k = do {
     k \<leftarrow> dispatch_buffered E buf 0 (macroCurrent k) k;
     Some (kb_emit (KbCancelTimer MacroTimer) (k\<lparr>macroCurrent := 0\<rparr>)) }"

definition too_late :: "'m kb_env \<Rightarrow> u64 \<Rightarrow> u8 list \<Rightarrow> 'm kbd \<Rightarrow> bool" where
  "too_late E t buf k \<longleftrightarrow>
     to_ns (kb_clock E) t - to_ns (kb_clock E) (packet_time (buffered_packet buf (macroCurrent k - 1))) > macroMaxTime k"

definition store_macro_packet :: "u8 list \<Rightarrow> nat \<Rightarrow> u8 list \<Rightarrow> u8 list option" where
  "store_macro_packet packet i buf =
     (if (i + 1) * kPacketLength \<le> length buf
      then Some (take (i * kPacketLength) buf @ packet @ drop ((i + 1) * kPacketLength) buf) else None)"

definition invertMacros :: "'m kb_env \<Rightarrow> u8 list list \<Rightarrow> u8 list \<Rightarrow> 'm kbd \<Rightarrow> (bool \<times> 'm kbd) option" where
  "invertMacros E macros packet k =
     (case macroBuffer k of
        None \<Rightarrow> Some (False, k)
      | Some buf \<Rightarrow>
          if \<not> macroTimer k then Some (False, k)
          else do {
            k \<leftarrow> (if 0 < macroCurrent k \<and> too_late E (packet_time packet) buf k then dispatchInvertBuffer E buf k else Some k);
            buf \<leftarrow> store_macro_packet packet (macroCurrent k) buf;
            let k = k\<lparr>macroBuffer := Some buf\<rparr>;
            case match_macros macros buf (macroCurrent k + 1) (PS2modifierState k) of
              ExactMatch d \<Rightarrow> do {
                let buf = buf[0 := d ! 2, 1 := d ! 3];
                (_, k) \<leftarrow> dispatchKeyboardEventWithPacket E (buffered_packet buf 0) (k\<lparr>macroBuffer := Some buf\<rparr>);
                Some (True, (kb_emit (KbCancelTimer MacroTimer) k)\<lparr>macroCurrent := 0\<rparr>) }
            | PartialMatch \<Rightarrow>
                Some (True, (kb_emit (KbSetTimer MacroTimer (macroMaxTime k)) (kb_emit (KbCancelTimer MacroTimer) k))\<lparr>macroCurrent := macroCurrent k + 1\<rparr>)
            | NoMatch \<Rightarrow>
                if 0 < macroCurrent k then do { k \<leftarrow> dispatchInvertBuffer E buf k; Some (False, k) } else Some (False, k) })"

definition dispatch_or_invert :: "'m kb_env \<Rightarrow> u8 list \<Rightarrow> 'm kbd \<Rightarrow> 'm kbd option" where
  "dispatch_or_invert E packet k = do {
     (used, k) \<leftarrow> (case macroInversion k of Some macros \<Rightarrow> invertMacros E macros packet k | None \<Rightarrow> Some (False, k));
     if used then Some k
     else do { (_, k) \<leftarrow> dispatchKeyboardEventWithPacket E packet k; Some k } }"

section \<open>Emptying the buffer\<close>

definition kb_tail_packet :: "'m kb_env \<Rightarrow> 'm kbd \<Rightarrow> 'm kbd option" where
  "kb_tail_packet E k = do {
     let packet = tail_packet (kb_ring k) kPacketLength;
     p0 \<leftarrow> idx packet 0;
     k \<leftarrow> (if p0 \<noteq> 0 then dispatch_or_invert E packet k else Some k);
     Some (k\<lparr>kb_ring := advanceTail kb_ring_size kPacketLength (kb_ring k)\<rparr>) }"

partial_function (option) kb_packetReady :: "'m kb_env \<Rightarrow> 'm kbd \<Rightarrow> 'm kbd option" where
  "kb_packetReady E k =
     (if ring_count kb_ring_size (kb_ring k) \<ge> kPacketLength
      then do { k \<leftarrow> kb_tail_packet E k; kb_packetReady E k }
      else Some k)"

definition onMacroTimer :: "'m kb_env \<Rightarrow> 'm kbd \<Rightarrow> 'm kbd option" where
  "onMacroTimer E k = do {
     k \<leftarrow> kb_packetReady E k;
     (case macroBuffer k of
        Some buf \<Rightarrow>
          if 0 < macroCurrent k then
            (let (t, k) = kb_uptime E k in if too_late E t buf k then dispatchInvertBuffer E buf k else Some k)
          else Some k
      | None \<Rightarrow> if 0 < macroCurrent k then None else Some k) }"

section \<open>Notifications and messages\<close>

text \<open>\<open>message\<close>: a notification of the ACPI device whose argument holds a packet; 3 and 4 stand for make and break.\<close>

definition kb_packet :: "u8 \<Rightarrow> u8 \<Rightarrow> u64 \<Rightarrow> u8 list" where
  "kb_packet a b t = [a, b] @ replicate 6 0 @ time_bytes t"

definition kb_notify :: "'m kb_env \<Rightarrow> u8 \<Rightarrow> u8 \<Rightarrow> 'm kbd \<Rightarrow> 'm kbd option" where
  "kb_notify E a b k = (let (t, k) = kb_uptime E k in dispatch_or_invert E (kb_packet a b t) k)"

definition kb_acpi_message :: "'m kb_env \<Rightarrow> u32 \<Rightarrow> 'm kbd \<Rightarrow> 'm kbd option" where
  "kb_acpi_message E arg k =
     (if arg AND 0xffff0000 = 0 then
        (let a = ucast (drop_bit 8 arg) :: u8; b = ucast arg :: u8 in
         if a = 1 \<or> a = 2 then kb_notify E a b k
         else if a = 3 \<or> a = 4 then do {
           k \<leftarrow> kb_notify E (a - 2) b k;
           kb_notify E (a - 2) (b OR 0x80) k }
         else Some k)
      else Some k)"

primrec send_keys :: "'m kb_env \<Rightarrow> u16 list \<Rightarrow> 'm kbd \<Rightarrow> 'm kbd" where
  "send_keys E [] k = k"
| "send_keys E (c # cs) k = send_keys E cs (dispatch_now E (ucast (c AND 0xff)) (\<not> isset c 0x1000) k)"

text \<open>The keys up to the 0 that ends them; without a 0 the loop reads behind the array.\<close>

definition sendKeySequence :: "'m kb_env \<Rightarrow> u16 list \<Rightarrow> 'm kbd \<Rightarrow> 'm kbd option" where
  "sendKeySequence E keys k = (if 0 \<in> set keys then Some (send_keys E (takeWhile (\<lambda>c. c \<noteq> 0) keys) k) else None)"

text \<open>The messages of the trackpad driver.\<close>

definition kb_receiveMessage :: "'m kb_env \<Rightarrow> swipe_message \<Rightarrow> 'm kbd \<Rightarrow> 'm kbd option" where
  "kb_receiveMessage E swipe k = sendKeySequence E (actionSwipe k swipe) k"

section \<open>Commands to the keyboard\<close>

abbreviation (input) kLED_NumLock :: u8 where "kLED_NumLock \<equiv> 0x02"
abbreviation (input) kLED_CapsLock :: u8 where "kLED_CapsLock \<equiv> 0x04"

definition write_data :: "u8 \<Rightarrow> PS2Command" where
  "write_data b = \<lparr>command = kPS2C_WriteDataPort, inOrOut32 = ucast b\<rparr>"

definition expect_ack :: PS2Command where
  "expect_ack = \<lparr>command = kPS2C_ReadDataPortAndCompare, inOrOut32 = ucast kSC_Acknowledge\<rparr>"

definition setLEDs :: "'m kb_env \<Rightarrow> u8 \<Rightarrow> 'm kbd \<Rightarrow> 'm kbd" where
  "setLEDs E leds k =
     k\<lparr>mouse := kb_submit E [write_data kDP_SetKeyboardLEDs, expect_ack, write_data leds, expect_ack] (mouse k)\<rparr>"

definition setAlphaLockFeedback :: "'m kb_env \<Rightarrow> bool \<Rightarrow> 'm kbd \<Rightarrow> 'm kbd" where
  "setAlphaLockFeedback E locked k =
     (let k = k\<lparr>ledState := (if locked then ledState k OR kLED_CapsLock else ledState k AND NOT kLED_CapsLock)\<rparr>
      in setLEDs E (ledState k) k)"

definition setNumLockFeedback :: "'m kb_env \<Rightarrow> bool \<Rightarrow> 'm kbd \<Rightarrow> 'm kbd" where
  "setNumLockFeedback E locked k =
     (let k = k\<lparr>ledState := (if locked then ledState k OR kLED_NumLock else ledState k AND NOT kLED_NumLock)\<rparr>
      in setLEDs E (ledState k) k)"

definition kb_block :: "'m kb_env \<Rightarrow> PS2Command list \<Rightarrow> 'm kbd \<Rightarrow> 'm kbd option" where
  "kb_block E cs k = do { (_, _, m) \<leftarrow> submit_stack 2 (kb_submit_block E) cs (mouse k); Some (k\<lparr>mouse := m\<rparr>) }"

definition setKeyboardEnable :: "'m kb_env \<Rightarrow> bool \<Rightarrow> 'm kbd \<Rightarrow> 'm kbd option" where
  "setKeyboardEnable E enable k =
     kb_block E [write_data (if enable then kDP_Enable else kDP_SetDefaultsAndDisable), expect_ack] k"

text \<open>Every key that is down is released; the packet's time is whatever was on the stack.\<close>

primrec release_keys :: "'m kb_env \<Rightarrow> u64 \<Rightarrow> nat list \<Rightarrow> 'm kbd \<Rightarrow> 'm kbd option" where
  "release_keys E t [] k = Some k"
| "release_keys E t (n # ns) k =
     (if KBV_IS_KEYDOWN n (keyBitVector k)
      then do {
        (_, k) \<leftarrow> dispatchKeyboardEventWithPacket E (kb_packet (if n < KBV_NUM_SCANCODES then 1 else 2) (of_nat n OR kSC_UpBit) t) k;
        release_keys E t ns k }
      else release_keys E t ns k)"

definition initKeyboard :: "'m kb_env \<Rightarrow> u64 \<Rightarrow> 'm kbd \<Rightarrow> 'm kbd option" where
  "initKeyboard E t k = do {
     k \<leftarrow> kb_block E [write_data kDP_SetDefaults, expect_ack] k;
     k \<leftarrow> release_keys E t [0..<KBV_NUM_KEYCODES] k;
     let k = k\<lparr>keyBitVector := replicate 16 0, PS2modifierState := 0\<rparr>;
     let k = setLEDs E (ledState k) k;
     let k = k\<lparr>extendCount := 0, kb_ring := ring_reset (kb_ring k)\<rparr>;
     k \<leftarrow> setKeyboardEnable E True k;
     m \<leftarrow> kb_set_command_byte E 0x40 0 (mouse k);
     Some (k\<lparr>mouse := m\<rparr>) }"

text \<open>\<open>enable\<close> for \<open>kPS2C_EnableDevice\<close>.\<close>

definition setDevicePowerState :: "'m kb_env \<Rightarrow> u64 \<Rightarrow> bool \<Rightarrow> 'm kbd \<Rightarrow> 'm kbd option" where
  "setDevicePowerState E t enable k = (if enable then initKeyboard E t k else setKeyboardEnable E False k)"

section \<open>Settings\<close>

text \<open>What the dictionary holds under each key at the type the code expects.\<close>

record kb_settings =
  set_SleepPressTime :: "u32 option"
  set_HIDF12EjectDelay :: "u32 option"
  set_MaximumMacroTime :: "u64 option"
  set_HIDFKeyMode :: "u32 option"
  set_SwapCapsLockLeftControl :: "bool option"
  set_SwapCommandOption :: "bool option"
  set_BrightnessHack :: "bool option"
  set_MakeApplicationKeyRightWindows :: "bool option"
  set_MakeApplicationKeyAppleFN :: "bool option"
  set_MakeRightModsHangulHanja :: "bool option"
  set_UseISOLayoutKeyboard :: "bool option"
  set_LogScanCodes :: "u32 option"
  set_ActionSwipe :: "swipe_message \<Rightarrow> string option"

definition when_some :: "'b option \<Rightarrow> ('b \<Rightarrow> 's \<Rightarrow> 's) \<Rightarrow> 's \<Rightarrow> 's" where
  "when_some v f s = (case v of Some x \<Rightarrow> f x s | None \<Rightarrow> s)"

text \<open>Entries of the working map, from the entries of the loaded map.\<close>

definition map_as :: "nat \<Rightarrow> nat \<Rightarrow> 'm kbd \<Rightarrow> 'm kbd" where
  "map_as dst src k = k\<lparr>PS2ToADBMap := (PS2ToADBMap k)[dst := PS2ToADBMapMapped k ! src]\<rparr>"

definition map_to :: "nat \<Rightarrow> u8 \<Rightarrow> 'm kbd \<Rightarrow> 'm kbd" where
  "map_to dst adb k = k\<lparr>PS2ToADBMap := (PS2ToADBMap k)[dst := adb]\<rparr>"

definition swap_keys :: "nat \<Rightarrow> nat \<Rightarrow> bool \<Rightarrow> 'm kbd \<Rightarrow> 'm kbd" where
  "swap_keys a b swap k = (if swap then map_as b a (map_as a b k) else map_as b b (map_as a a k))"

definition set_fkeymode :: "u32 option \<Rightarrow> 'm kbd \<Rightarrow> 'm kbd" where
  "set_fkeymode mode k =
     (if fkeymodesupported k then
        (let old = fkeymode k; k = when_some mode (\<lambda>m k. k\<lparr>fkeymode := m\<rparr>) k in
         if old \<noteq> fkeymode k
         then k\<lparr>PS2ToPS2Map := loadCustomPS2Map (if fkeymode k \<noteq> 0 then keysStandard k else keysSpecial k) (PS2ToPS2Map k)\<rparr>
         else k)
      else k)"

definition set_application_key :: "bool option \<Rightarrow> bool option \<Rightarrow> 'm kbd \<Rightarrow> 'm kbd" where
  "set_application_key rwin fn k =
     (let k = when_some rwin (\<lambda>b k. if b then map_to 0x15d (if swapcommandoption k then 0x3d else 0x36) k else map_as 0x15d 0x15d k) k
      in if rwin = Some True then k
         else when_some fn (\<lambda>b k. if b then map_to 0x15d 0x3f k else map_as 0x15d 0x15d k) k)"

definition set_hangul_hanja :: "bool \<Rightarrow> 'm kbd \<Rightarrow> 'm kbd" where
  "set_hangul_hanja b k =
     (if b then map_as 0x11d 0xf1 (map_as 0x138 0xf2 k)
      else map_as 0x11d 0x11d (if swapcommandoption k then map_as 0x138 0x15c k else map_as 0x138 0x138 k))"

definition set_action :: "swipe_message \<Rightarrow> string \<Rightarrow> 'm kbd \<Rightarrow> 'm kbd" where
  "set_action swipe s k =
     k\<lparr>actionSwipe := (actionSwipe k)(swipe := snd (parseAction s (actionSwipe k swipe)))\<rparr>"

definition kb_setParamPropertiesGated :: "kb_settings option \<Rightarrow> 'm kbd \<Rightarrow> 'm kbd" where
  "kb_setParamPropertiesGated dict k =
     (case dict of
        None \<Rightarrow> k
      | Some d \<Rightarrow>
         (let k = when_some (set_SleepPressTime d) (\<lambda>n k. k\<lparr>maxsleeppresstime := n\<rparr>) k;
              k = when_some (set_HIDF12EjectDelay d) (\<lambda>n k. k\<lparr>f12ejectdelay := n\<rparr>) k;
              k = when_some (set_MaximumMacroTime d) (\<lambda>n k. k\<lparr>macroMaxTime := n\<rparr>) k;
              k = set_fkeymode (set_HIDFKeyMode d) k;
              k = when_some (set_SwapCapsLockLeftControl d) (swap_keys 0x3a 0x1d) k;
              k = when_some (set_SwapCommandOption d)
                    (\<lambda>b k. swap_keys 0x138 0x15c b (swap_keys 0x38 0x15b b (k\<lparr>swapcommandoption := b\<rparr>))) k;
              k = when_some (set_BrightnessHack d) (\<lambda>b k. if b then k\<lparr>brightnessHack := True\<rparr> else k) k;
              k = set_application_key (set_MakeApplicationKeyRightWindows d) (set_MakeApplicationKeyAppleFN d) k;
              k = when_some (set_MakeRightModsHangulHanja d) set_hangul_hanja k;
              k = when_some (set_UseISOLayoutKeyboard d) (swap_keys 0x29 0x56) k;
              k = when_some (set_LogScanCodes d) (\<lambda>n k. k\<lparr>logscancodes := n\<rparr>) k
          in fold (\<lambda>sw. when_some (set_ActionSwipe d sw) (set_action sw)) [SwipeUp, SwipeDown, SwipeLeft, SwipeRight] k))"

section \<open>Life cycle\<close>

text \<open>What \<open>init\<close> uses of the platform profile.\<close>

record kb_config =
  cfg_DisableDevice :: bool
  cfg_CustomPS2Map :: "os_array option"
  cfg_BreaklessPS2 :: "os_array option"
  cfg_CustomADBMap :: "os_array option"
  cfg_FunctionKeysStandard :: "os_array option"
  cfg_FunctionKeysSpecial :: "os_array option"
  cfg_MacroTranslation :: "u8 list option list option"
  cfg_MacroInversion :: "u8 list option list option"
  cfg_settings :: kb_settings

definition default_action :: "swipe_message \<Rightarrow> string" where
  "default_action swipe =
     (case swipe of
        SwipeUp \<Rightarrow> ''3b d, 37 d, 7e d, 7e u, 37 u, 3b u''
      | SwipeDown \<Rightarrow> ''3b d, 37 d, 7d d, 7d u, 37 u, 3b u''
      | SwipeLeft \<Rightarrow> ''3b d, 37 d, 7b d, 7b u, 37 u, 3b u''
      | SwipeRight \<Rightarrow> ''3b d, 37 d, 7c d, 7c u, 37 u, 3b u''
      | Swipe4Up \<Rightarrow> ''3b d, 3a d, 7e d, 7e u, 3a u, 3b u''
      | Swipe4Down \<Rightarrow> ''3b d, 3a d, 7d d, 7d u, 3a u, 3b u''
      | Swipe4Left \<Rightarrow> ''3b d, 3a d, 7b d, 7b u, 3a u, 3b u''
      | Swipe4Right \<Rightarrow> ''3b d, 3a d, 7c d, 7c u, 3a u, 3b u'')"

text \<open>The state before the profile is read; memory of the object starts as zeros.\<close>

definition kb_blank :: "'m \<Rightarrow> 'm kbd" where
  "kb_blank m = \<lparr>mouse = m, keyBitVector = replicate 16 0, extendCount = 0,
     kb_ring = \<lparr>m_buffer = replicate 512 0, m_head = 0, m_tail = 0\<rparr>, lastdata = 0, ledState = 0, PS2modifierState = 0,
     PS2ToPS2Map = map of_nat [0..<512], PS2flags = PS2flagsStock,
     PS2ToADBMap = replicate 512 0, PS2ToADBMapMapped = PS2ToADBMapStock,
     fkeymode = 0, fkeymodesupported = False, keysStandard = None, keysSpecial = None,
     swapcommandoption = False, logscancodes = 0, f12ejectdelay = 250, timerFunc = kTimerSleep, maxsleeppresstime = 0,
     actionSwipe = (\<lambda>swipe. snd (parseAction (default_action swipe) (replicate 16 0))),
     kb_provider = False, brightnessLevels = None, backlightLevels = None, brightnessHack = False,
     macroTranslation = None, macroInversion = None, macroBuffer = None, macroCurrent = 0, macroMaxTime = 25000000,
     macroTimer = False, capsFirstTime = True, handlersInstalled = [], kb_ticks = 0, kb_out = []\<rparr>"

definition load_fkeys :: "kb_config \<Rightarrow> 'm kbd \<Rightarrow> 'm kbd" where
  "load_fkeys c k =
     (if cfg_FunctionKeysStandard c \<noteq> None \<and> cfg_FunctionKeysSpecial c \<noteq> None
      then k\<lparr>fkeymodesupported := True, keysStandard := cfg_FunctionKeysStandard c, keysSpecial := cfg_FunctionKeysSpecial c,
             PS2ToPS2Map := loadCustomPS2Map (cfg_FunctionKeysSpecial c) (PS2ToPS2Map k)\<rparr>
      else k)"

definition load_macros :: "kb_config \<Rightarrow> 'm kbd \<Rightarrow> 'm kbd" where
  "load_macros c k =
     (let k = k\<lparr>macroTranslation := loadMacroData (cfg_MacroTranslation c), macroInversion := loadMacroData (cfg_MacroInversion c)\<rparr> in
      case macroInversion k of
        Some ds \<Rightarrow> k\<lparr>macroBuffer := Some (replicate (fold max (map (\<lambda>d. length d - kPrefixBytes) ds) 0 * kPacketLength) 0)\<rparr>
      | None \<Rightarrow> k)"

definition load_config :: "kb_config \<Rightarrow> 'm kbd \<Rightarrow> 'm kbd" where
  "load_config c k =
     (let k = k\<lparr>PS2ToPS2Map := loadCustomPS2Map (cfg_CustomPS2Map c) (PS2ToPS2Map k),
                PS2flags := loadBreaklessPS2 (cfg_BreaklessPS2 c) (PS2flags k),
                PS2ToADBMapMapped := loadCustomADBMap (cfg_CustomADBMap c) (PS2ToADBMapMapped k)\<rparr>
      in load_macros c (load_fkeys c k))"

text \<open>\<open>None\<close> when \<open>init\<close> fails because the profile disables the device.\<close>

definition kb_init :: "'m \<Rightarrow> kb_config option \<Rightarrow> 'm kbd option" where
  "kb_init m config =
     (if (case config of Some c \<Rightarrow> cfg_DisableDevice c | None \<Rightarrow> False) then None
      else
        (let k = kb_blank m;
             k = (case config of Some c \<Rightarrow> load_config c k | None \<Rightarrow> k);
             k = k\<lparr>PS2ToADBMap := PS2ToADBMapMapped k\<rparr>
         in Some (kb_setParamPropertiesGated (map_option cfg_settings config) k)))"

text \<open>The levels an ACPI method answers; elements that are no numbers count as 0.\<close>

definition acpi_levels :: "nat \<Rightarrow> u32 option list option \<Rightarrow> u32 list option" where
  "acpi_levels least answer =
     (case answer of
        Some xs \<Rightarrow> if length xs < least then None else Some (map (\<lambda>x. case x of Some n \<Rightarrow> n | None \<Rightarrow> 0) xs)
      | None \<Rightarrow> None)"

definition install_handler :: "'m kb_env \<Rightarrow> kb_handler \<Rightarrow> 'm kbd \<Rightarrow> 'm kbd option" where
  "install_handler E h k = do {
     m \<leftarrow> kb_install E h True (mouse k);
     Some (k\<lparr>mouse := m, handlersInstalled := h # handlersInstalled k\<rparr>) }"

definition uninstall_handler :: "'m kb_env \<Rightarrow> kb_handler \<Rightarrow> 'm kbd \<Rightarrow> 'm kbd option" where
  "uninstall_handler E h k =
     (if h \<in> set (handlersInstalled k)
      then do {
        m \<leftarrow> kb_install E h False (mouse k);
        Some (k\<lparr>mouse := m, handlersInstalled := removeAll h (handlersInstalled k)\<rparr>) }
      else Some k)"

text \<open>\<open>gate\<close>: the work loop, the command gate and the sleep timer exist; otherwise \<open>start\<close> answers \<open>False\<close>.\<close>

definition kb_start ::
    "'m kb_env \<Rightarrow> u64 \<Rightarrow> bool \<Rightarrow> bool \<Rightarrow> bool \<Rightarrow> u32 option list option \<Rightarrow> u32 option list option \<Rightarrow> 'm kbd \<Rightarrow> (bool \<times> 'm kbd) option" where
  "kb_start E t gate timer acpi bcl kkcl k =
     (if \<not> gate then Some (False, k)
      else do {
        k \<leftarrow> initKeyboard E t (k\<lparr>macroTimer := timer, kb_provider := acpi,
          brightnessLevels := (if acpi then acpi_levels 4 bcl else None),
          backlightLevels := (if acpi then acpi_levels 2 kkcl else None)\<rparr>);
        k \<leftarrow> install_handler E KbInterruptAction k;
        k \<leftarrow> install_handler E KbPowerControlAction k;
        k \<leftarrow> install_handler E KbMessageAction k;
        Some (True, k) })"

definition kb_stop :: "'m kb_env \<Rightarrow> 'm kbd \<Rightarrow> 'm kbd option" where
  "kb_stop E k = do {
     k \<leftarrow> setKeyboardEnable E False k;
     let k = k\<lparr>macroTimer := False\<rparr>;
     k \<leftarrow> uninstall_handler E KbInterruptAction k;
     k \<leftarrow> uninstall_handler E KbPowerControlAction k;
     k \<leftarrow> uninstall_handler E KbMessageAction k;
     Some (k\<lparr>kb_provider := False, brightnessLevels := None, backlightLevels := None\<rparr>) }"

end
