(* ===== verification/KeyboardSafety.thy ===== *)
theory KeyboardSafety
  imports Keyboard
begin

text \<open>
  What the keyboard driver keeps: the shape of its tables and buffers, so that no scan code, packet, timer, message
  or setting makes it access memory behind an array.
\<close>

section \<open>What a dispatch changes\<close>

definition kb_step :: "'m kbd \<Rightarrow> 'm kbd \<Rightarrow> bool" where
  "kb_step k k' \<longleftrightarrow> (\<exists>m mods tf cf t es. k' = k\<lparr>mouse := m, PS2modifierState := mods, timerFunc := tf,
     capsFirstTime := cf, kb_ticks := t, kb_out := kb_out k @ es\<rparr>)"

lemma kb_stepI:
  "kb_step k (k\<lparr>mouse := m, PS2modifierState := mods, timerFunc := tf, capsFirstTime := cf, kb_ticks := t, kb_out := kb_out k @ es\<rparr>)"
  unfolding kb_step_def by blast

lemma kb_step_refl [simp]: "kb_step k k"
  using kb_stepI [where k = k and m = "mouse k" and mods = "PS2modifierState k" and tf = "timerFunc k" and cf = "capsFirstTime k" and t = "kb_ticks k" and es = "[]"] by simp

lemma kb_step_trans [trans]: "kb_step a b \<Longrightarrow> kb_step b c \<Longrightarrow> kb_step a c"
  unfolding kb_step_def by (elim exE) (auto intro!: exI)

lemma kb_step_mouse: "kb_step k (k\<lparr>mouse := m\<rparr>)"
  using kb_stepI [where k = k and m = m and mods = "PS2modifierState k" and tf = "timerFunc k" and cf = "capsFirstTime k" and t = "kb_ticks k" and es = "[]"] by simp

lemma kb_step_mods: "kb_step k (k\<lparr>PS2modifierState := m\<rparr>)"
  using kb_stepI [where k = k and m = "mouse k" and mods = m and tf = "timerFunc k" and cf = "capsFirstTime k" and t = "kb_ticks k" and es = "[]"] by simp

lemma kb_step_timer: "kb_step k (k\<lparr>timerFunc := f\<rparr>)"
  using kb_stepI [where k = k and m = "mouse k" and mods = "PS2modifierState k" and tf = f and cf = "capsFirstTime k" and t = "kb_ticks k" and es = "[]"] by simp

lemma kb_step_caps: "kb_step k (k\<lparr>capsFirstTime := c\<rparr>)"
  using kb_stepI [where k = k and m = "mouse k" and mods = "PS2modifierState k" and tf = "timerFunc k" and cf = c and t = "kb_ticks k" and es = "[]"] by simp

lemma kb_step_ticks: "kb_step k (k\<lparr>kb_ticks := n\<rparr>)"
  using kb_stepI [where k = k and m = "mouse k" and mods = "PS2modifierState k" and tf = "timerFunc k" and cf = "capsFirstTime k" and t = n and es = "[]"] by simp

lemma kb_step_emit: "kb_step k (kb_emit e k)"
  using kb_stepI [where k = k and m = "mouse k" and mods = "PS2modifierState k" and tf = "timerFunc k" and cf = "capsFirstTime k" and t = "kb_ticks k" and es = "[e]"] by (simp add: kb_emit_def)

lemmas kb_step_basic = kb_step_mouse kb_step_mods kb_step_timer kb_step_caps kb_step_ticks kb_step_emit

lemma kb_step_event: "kb_step k (dispatchKeyboardEventX key down t k)"
  by (simp add: dispatchKeyboardEventX_def kb_step_emit)

lemma kb_step_now: "kb_step k (dispatch_now E key down k)"
  unfolding dispatch_now_def kb_uptime_def Let_def prod.case
  by (rule kb_step_trans [OF kb_step_ticks kb_step_event])

lemma kb_step_message: "dispatchMouseMessage E msg k = (r, k') \<Longrightarrow> kb_step k k'"
  by (auto simp: dispatchMouseMessage_def kb_step_mouse split: prod.splits)

lemma kb_step_fields:
  assumes "kb_step k k'"
  shows "keyBitVector k' = keyBitVector k \<and> extendCount k' = extendCount k \<and> kb_ring k' = kb_ring k \<and> lastdata k' = lastdata k
    \<and> PS2ToPS2Map k' = PS2ToPS2Map k \<and> PS2flags k' = PS2flags k \<and> PS2ToADBMap k' = PS2ToADBMap k
    \<and> PS2ToADBMapMapped k' = PS2ToADBMapMapped k \<and> brightnessLevels k' = brightnessLevels k \<and> backlightLevels k' = backlightLevels k
    \<and> macroInversion k' = macroInversion k \<and> macroBuffer k' = macroBuffer k \<and> macroCurrent k' = macroCurrent k
    \<and> macroTimer k' = macroTimer k \<and> actionSwipe k' = actionSwipe k \<and> macroMaxTime k' = macroMaxTime k \<and> ledState k' = ledState k"
  using assms by (auto simp: kb_step_def)

section \<open>Well-formed states\<close>

definition codes_ok :: "u16 list \<Rightarrow> bool" where
  "codes_ok m \<longleftrightarrow> length m = 512 \<and> (\<forall>x \<in> set m. unat x < 512)"

definition tables_ok :: "'m kbd \<Rightarrow> bool" where
  "tables_ok k \<longleftrightarrow> length (keyBitVector k) = 16 \<and> codes_ok (PS2ToPS2Map k)
     \<and> length (PS2flags k) = 512 \<and> length (PS2ToADBMap k) = 512 \<and> length (PS2ToADBMapMapped k) = 512
     \<and> (\<forall>ls. brightnessLevels k = Some ls \<longrightarrow> 4 \<le> length ls) \<and> (\<forall>ls. backlightLevels k = Some ls \<longrightarrow> 2 \<le> length ls)
     \<and> (\<forall>swipe. 0 \<in> set (actionSwipe k swipe))"

lemma tables_ok_step: "tables_ok k \<Longrightarrow> kb_step k k' \<Longrightarrow> tables_ok k'"
  by (auto simp: tables_ok_def dest!: kb_step_fields)

text \<open>Computations that succeed and change only what a dispatch changes.\<close>

definition steps :: "'m kbd \<Rightarrow> 'm kbd option \<Rightarrow> bool" where
  "steps k r \<longleftrightarrow> (\<exists>k'. r = Some k' \<and> kb_step k k')"

definition steps2 :: "'m kbd \<Rightarrow> ('b \<times> 'm kbd) option \<Rightarrow> bool" where
  "steps2 k r \<longleftrightarrow> (\<exists>b k'. r = Some (b, k') \<and> kb_step k k')"

lemma steps_Some: "steps k (Some k') = kb_step k k'" "steps2 k (Some (b, k')) = kb_step k k'"
  by (auto simp: steps_def steps2_def)

lemma idx_Some: "i < length xs \<Longrightarrow> idx xs i = Some (xs ! i)"
  by (simp add: idx_def)

lemma step_level_Some:
  assumes "first < length levels"
  shows "\<exists>l. step_level first levels current up = Some l"
  using assms by (auto simp: step_level_def Let_def idx_def nat_less_iff)

lemma brightness_steps: "tables_ok k \<Longrightarrow> brightnessLevels k = Some ls \<Longrightarrow> steps k (modifyScreenBrightness E adb down ls k)"
  using step_level_Some [of 2 ls "the (kb_bqc E (mouse k))" "adb = 0x90"]
  by (auto simp: modifyScreenBrightness_def tables_ok_def steps_Some kb_step_emit split: option.split)

lemma backlight_steps: "tables_ok k \<Longrightarrow> backlightLevels k = Some ls \<Longrightarrow> steps k (modifyKeyboardBacklight E key down ls k)"
  using step_level_Some [of 0 ls "the (kb_kkqc E (mouse k))" "key = 0x4e"] list.size(3) [where 'a = u32]
  by (cases "ls = []") (auto simp: modifyKeyboardBacklight_def tables_ok_def steps_Some kb_step_emit split: option.split)

lemma timer_step: "kb_step k (onSleepEjectTimer E k)"
  by (auto simp: onSleepEjectTimer_def kb_step_emit kb_step_now split: timer_func.split)

lemma held_keys_steps: "tables_ok k \<Longrightarrow> \<forall>n \<in> set ns. n < 512 \<Longrightarrow> steps k (held_keys ns down t k)"
proof (induction ns arbitrary: k)
  case (Cons n ns)
  let ?k = "dispatchKeyboardEventX (PS2ToADBMap k ! n) down t k"
  have "tables_ok ?k" by (rule tables_ok_step [OF Cons.prems(1) kb_step_event])
  then have "steps ?k (held_keys ns down t ?k)" using Cons by simp
  then have "steps k (held_keys ns down t ?k)" unfolding steps_def using kb_step_trans kb_step_event by metis
  with Cons show ?case by (simp add: tables_ok_def idx_Some)
qed (simp add: steps_Some)

lemma numpad_steps: "tables_ok k \<Longrightarrow> keyCode < 512 \<Longrightarrow> \<exists>c k'. numpad_key E keyCode down t k = Some (c, k') \<and> c < 512 \<and> kb_step k k'"
proof -
  assume ok: "tables_ok k" and c: "keyCode < 512"
  have light: "\<exists>k'. modifyKeyboardBacklight E keyCode down ls k = Some k' \<and> kb_step k k'" if "backlightLevels k = Some ls" for ls
    using backlight_steps [OF ok that] by (simp add: steps_def)
  have hack: "\<exists>k'. held_keys keys False t k = Some k' \<and>
      (\<exists>k''. held_keys keys True t (dispatchKeyboardEventX x down t k') = Some k'' \<and> kb_step k k'')"
    if "keys = [0x1d] \<or> keys = [0x2a, 0x1d]" for x keys
  proof -
    from that have k: "\<forall>n \<in> set keys. n < 512" by auto
    obtain k' where k': "held_keys keys False t k = Some k'" "kb_step k k'"
      using held_keys_steps [OF ok k] by (auto simp: steps_def)
    then have s: "kb_step k (dispatchKeyboardEventX x down t k')" using kb_step_trans kb_step_event by metis
    then obtain k'' where "held_keys keys True t (dispatchKeyboardEventX x down t k') = Some k''"
        "kb_step (dispatchKeyboardEventX x down t k') k''"
      using held_keys_steps [OF tables_ok_step [OF ok s] k] by (auto simp: steps_def)
    with k' s show ?thesis using kb_step_trans by metis
  qed
  show ?thesis
  proof (cases "\<exists>ls. backlightLevels k = Some ls \<and> checkModifierState (kMaskLeftControl OR kMaskLeftAlt) k")
    case True
    then show ?thesis using light by (fastforce simp: numpad_key_def)
  next
    case False
    then have eq: "(case (backlightLevels k, checkModifierState (kMaskLeftControl OR kMaskLeftAlt) k) of
        (Some levels, True) \<Rightarrow> f levels | _ \<Rightarrow> g) = g" for f and g :: "(nat \<times> 'a kbd) option"
      by (auto split: option.split bool.split)
    show ?thesis
    proof (cases "brightnessHack k \<and> checkModifierState (kMaskLeftControl OR kMaskLeftShift) k")
      case True
      let ?keys = "if checkModifierState kMaskLeftWindows k then [0x1d] else [0x2a, 0x1d]"
      have "?keys = [0x1d] \<or> ?keys = [0x2a, 0x1d]" by simp
      from hack [OF this] obtain k1 k2 where "held_keys ?keys False t k = Some k1"
          "held_keys ?keys True t (dispatchKeyboardEventX (if keyCode = 0x4e then 0x90 else 0x91) down t k1) = Some k2" "kb_step k k2"
        by blast
      with True show ?thesis unfolding numpad_key_def eq Let_def by simp
    next
      case False
      with c show ?thesis unfolding numpad_key_def eq if_not_P [OF False] by simp
    qed
  qed
qed

lemma toggle_step: "kb_step k (toggle_touchpad E k)" "kb_step k (toggle_fkeys E k)" "kb_step k (sleep_key E down k)"
proof -
  obtain r k1 where m: "dispatchMouseMessage E GetDisableTouchpad k = (r, k1)" by fastforce
  have "kb_step a (snd (dispatchMouseMessage E msg a))" for a :: "'a kbd" and msg
    by (metis kb_step_message prod.collapse)
  with kb_step_message [OF m] show "kb_step k (toggle_touchpad E k)"
    unfolding toggle_touchpad_def m Let_def prod.case by (rule kb_step_trans)
  show "kb_step k (toggle_fkeys E k)" by (simp add: toggle_fkeys_def kb_step_emit)
  have "kb_step k (onSleepEjectTimer E (k\<lparr>timerFunc := kTimerSleep\<rparr>))" "kb_step k (kb_emit e (k\<lparr>timerFunc := kTimerSleep\<rparr>))" for e
    using kb_step_trans [OF kb_step_timer timer_step] kb_step_trans [OF kb_step_timer kb_step_emit] by metis+
  then show "kb_step k (sleep_key E down k)" by (simp add: sleep_key_def Let_def kb_step_emit)
qed

lemma delete_step: "delete_key keyCode down t k = (c, k') \<Longrightarrow> keyCode < 512 \<Longrightarrow> c < 512 \<and> kb_step k k'"
proof -
  have "kb_step k (dispatchKeyboardEventX a x t (dispatchKeyboardEventX b y t (dispatchKeyboardEventX c z t (dispatchKeyboardEventX d w t k))))"
    for a x b y c z d w
    by (rule kb_step_trans [OF kb_step_trans [OF kb_step_trans [OF kb_step_event kb_step_event] kb_step_event] kb_step_event])
  then show "delete_key keyCode down t k = (c, k') \<Longrightarrow> keyCode < 512 \<Longrightarrow> c < 512 \<and> kb_step k k'"
    by (auto simp: delete_key_def split: if_splits)
qed

lemma special_steps:
  assumes "tables_ok k" "keyCode < 512"
  shows "\<exists>c k'. special_key E keyCode down t k = Some (c, k') \<and> c < 512 \<and> kb_step k k'"
  using assms numpad_steps [OF assms, of E down t] delete_step [of keyCode down t k]
  unfolding special_key_def
  by (cases "delete_key keyCode down t k") (auto simp: toggle_step)

lemma track_step: "kb_step k (track_modifier fl down k)"
  by (simp add: track_modifier_def Let_def kb_step_mods)

lemma special_adb_steps:
  assumes "tables_ok k"
  shows "\<exists>a e k'. special_adb E adb down k = Some (a, e, k') \<and> kb_step k k'"
proof -
  have 1: "\<exists>k'. modifyScreenBrightness E adb down ls k = Some k' \<and> kb_step k k'" if "brightnessLevels k = Some ls" for ls
    using brightness_steps [OF assms that] by (simp add: steps_def)
  have 2: "kb_step k (onSleepEjectTimer E (k\<lparr>timerFunc := f\<rparr>))" "kb_step k (kb_emit e (k\<lparr>timerFunc := f\<rparr>))" for e f
    using kb_step_trans [OF kb_step_timer timer_step] kb_step_trans [OF kb_step_timer kb_step_emit] by metis+
  show ?thesis using 1 2 by (fastforce simp: special_adb_def Let_def kb_step_emit split: option.split)
qed

lemma caps_step: "kb_step k (caps_lock E adb down k)"
proof -
  have two: "kb_step a (dispatch_now E adb x (dispatch_now E adb y a))" for a :: "'a kbd" and x y
    by (rule kb_step_trans [OF kb_step_now kb_step_now])
  show ?thesis
    using kb_step_trans [OF two kb_step_caps] kb_step_trans [OF kb_step_trans [OF two two] kb_step_caps]
    by (auto simp: caps_lock_def Let_def)
qed

lemma send_step: "kb_step k (send_key fl adb down t k)"
  using kb_step_trans [OF kb_step_event kb_step_event] by (auto simp: send_key_def Let_def kb_step_event)

lemma finish_steps:
  assumes "tables_ok k" "keyCode < 512" "raw < 512"
  shows "steps k (finish_key E raw keyCode down t k)"
proof -
  have a: "idx (PS2ToADBMap k) keyCode = Some (PS2ToADBMap k ! keyCode)" using assms by (simp add: tables_ok_def idx_Some)
  obtain adb e k1 where b: "special_adb E (PS2ToADBMap k ! keyCode) down k = Some (adb, e, k1)" "kb_step k k1"
    using special_adb_steps [OF assms(1)] by blast
  let ?k = "snd (dispatchMouseMessage E (NotifyKeyPressed \<lparr>ki_time = to_ns (kb_clock E) t, adbKeyCode = ucast adb, goingDown = down\<rparr>) k1)"
  have s: "kb_step k ?k" using b(2) kb_step_trans kb_step_message by (metis prod.collapse)
  then have "raw < length (PS2flags ?k)" using assms(3) tables_ok_step [OF assms(1) s] by (simp add: tables_ok_def)
  then show ?thesis
    using kb_step_trans [OF s caps_step] kb_step_trans [OF s send_step] s
    unfolding finish_key_def a b Option.bind.bind_lunit prod.case Let_def
    by (auto simp: idx_Some steps_Some)
qed

lemma unat_u8: "unat (w :: u8) < 256"
proof -
  have "unat w < 2 ^ LENGTH(8)" by (rule unsigned_less)
  then show ?thesis by simp
qed

lemma dispatch_steps:
  assumes ok: "tables_ok k" and p: "2 \<le> length p"
  shows "steps2 k (dispatchKeyboardEventWithPacket E p k)"
proof -
  define raw where "raw = unat (p ! 1 AND 0x7f) + (if p ! 0 - 1 = 0 then 0 else KBV_NUM_SCANCODES)"
  have "unat (p ! 1 AND 0x7f) < 256" by (rule unat_u8)
  then have raw: "raw < 512" by (simp add: raw_def)
  have i: "idx p 0 = Some (p ! 0)" "idx p 1 = Some (p ! 1)" using p by (auto simp: idx_def)
  have j: "idx (PS2ToADBMap k) (unat (p ! 1)) = Some (PS2ToADBMap k ! unat (p ! 1))"
    using ok unat_u8 [of "p ! 1"] by (simp add: tables_ok_def idx_Some)
  have m: "idx (PS2ToPS2Map k) raw = Some (PS2ToPS2Map k ! raw)" "unat (PS2ToPS2Map k ! raw) < 512"
    using ok raw by (simp_all add: tables_ok_def codes_ok_def idx_Some)
  have f: "idx (PS2flags k) raw = Some (PS2flags k ! raw)" using ok raw by (simp add: tables_ok_def idx_Some)
  let ?down = "\<not> isset (p ! 1) kSC_UpBit" and ?key = "unat (PS2ToPS2Map k ! raw)"
  let ?k1 = "track_modifier (PS2flags k ! raw) ?down k"
  let ?k2 = "if 0x1f0 \<le> ?key \<and> ?key \<le> 0x1ff \<and> kb_provider ?k1 then kb_emit (ACPIMethod (?key - 0x1f0) ?down) ?k1 else ?k1"
  have s2: "kb_step k ?k2" using kb_step_trans [OF track_step kb_step_emit] track_step by (auto intro: track_step kb_step_trans [OF track_step kb_step_emit])
  obtain c k3 where c: "special_key E ?key ?down (packet_time p) ?k2 = Some (c, k3)" "c < 512" "kb_step ?k2 k3"
    using special_steps [OF tables_ok_step [OF ok s2] m(2)] by metis
  have s3: "kb_step k k3" by (rule kb_step_trans [OF s2 c(3)])
  have "steps k3 (finish_key E raw c ?down (packet_time p) k3)"
    by (rule finish_steps [OF tables_ok_step [OF ok s3] c(2) raw])
  then obtain k4 where k4: "finish_key E raw c ?down (packet_time p) k3 = Some k4" "kb_step k k4"
    using kb_step_trans [OF s3] by (auto simp: steps_def)
  show ?thesis
  proof (cases "p ! 0 - 1 = 0 \<and> (p ! 1 = 0xf2 \<or> p ! 1 = 0xf1)")
    case True
    have "kb_step k (dispatch_now E a False (dispatch_now E a True k))" for a
      by (rule kb_step_trans [OF kb_step_now kb_step_now])
    then show ?thesis
      unfolding dispatchKeyboardEventWithPacket_def i Option.bind.bind_lunit Let_def if_P [OF True] j steps_Some by blast
  next
    case False
    then show ?thesis
      using k4 unfolding dispatchKeyboardEventWithPacket_def i Option.bind.bind_lunit Let_def if_not_P [OF False]
      unfolding raw_def [symmetric] m(1) f Option.bind.bind_lunit Let_def c(1) prod.case
      by (simp add: steps_Some)
  qed
qed

section \<open>The packet buffer\<close>

lemma length_time_bytes [simp]: "length (time_bytes t) = 8" by (simp add: time_bytes_def)

text \<open>A packet of which only the key bytes and the time matter.\<close>

definition key_bytes :: "u8 list \<Rightarrow> u8 list" where "key_bytes p = take 2 p"

lemma buffer_packet_ok:
  assumes "slot_ok 512 16 (kb_ring k)"
  obtains rb p where "buffer_packet E a b k = Some (k\<lparr>kb_ticks := kb_ticks k + 1, kb_ring := rb\<rparr>)" "slot_ok 512 16 rb"
    and "length p = 16" "key_bytes p = [a, b]" "take 8 (drop 8 p) = time_bytes (uptime (kb_clock E) (kb_ticks k))"
    and "packets 512 16 rb = packets 512 16 (kb_ring k) @ (if length (packets 512 16 (kb_ring k)) < 31 then [p] else [])"
proof -
  let ?t = "time_bytes (uptime (kb_clock E) (kb_ticks k))"
  obtain r1 where r1: "stage_all (head_write 512) 0 [a, b] (kb_ring k) = Some r1" "slot_ok 512 16 r1"
      "packets 512 16 r1 = packets 512 16 (kb_ring k)" "staged 16 r1 = [a, b] @ drop 2 (staged 16 (kb_ring k))"
    using slots.stage_all_ok [OF assms, of 0 "[a, b]"] by (auto simp: numeral_2_eq_2 simp del: stage_all.simps)
  have l: "length (staged 16 r1) = 16" by (rule slots.slot_length [OF r1(2)])
  obtain r2 where r2: "stage_all (head_write 512) 8 ?t r1 = Some r2" "slot_ok 512 16 r2"
      "packets 512 16 r2 = packets 512 16 (kb_ring k)" "staged 16 r2 = take 8 (staged 16 r1) @ ?t @ drop 16 (staged 16 r1)"
    using slots.stage_all_ok [OF r1(2), of 8 ?t] r1(3) by (auto simp del: stage_all.simps)
  let ?p = "staged 16 r2"
  have p: "length ?p = 16" by (rule slots.slot_length [OF r2(2)])
  have pk: "packets 512 16 (advanceHead 512 16 r2) = packets 512 16 (kb_ring k) @ (if length (packets 512 16 (kb_ring k)) < 31 then [?p] else [])"
    using slots.commit_room [OF r2(2)] slots.commit_full [OF r2(2)] r2(3) by auto
  have "take 2 ?p = [a, b]" "take 8 (drop 8 ?p) = ?t" using l by (simp_all add: r2(4) r1(4))
  moreover have "buffer_packet E a b k = Some (k\<lparr>kb_ticks := kb_ticks k + 1, kb_ring := advanceHead 512 16 r2\<rparr>)"
    using r1(1) r2(1) by (simp add: buffer_packet_def kb_uptime_def Let_def del: stage_all.simps)
  ultimately show thesis using that [of "advanceHead 512 16 r2" ?p] slots.valid_commit [OF r2(2)] p pk
    by (simp add: key_bytes_def)
qed

section \<open>The macro buffer\<close>

definition macro_ok :: "'m kbd \<Rightarrow> bool" where
  "macro_ok k \<longleftrightarrow>
     (case macroBuffer k of
        Some buf \<Rightarrow> (macroCurrent k + 1) * 16 \<le> length buf \<and> 32 \<le> length buf
          \<and> (\<forall>ds. macroInversion k = Some ds \<longrightarrow> (\<forall>d \<in> set ds. even (length d) \<and> 10 \<le> length d \<and> 16 * (length d - kPrefixBytes) \<le> length buf))
      | None \<Rightarrow> macroCurrent k = 0)"

lemma macro_ok_cong:
  "macroBuffer k' = macroBuffer k \<Longrightarrow> macroCurrent k' = macroCurrent k \<Longrightarrow> macroInversion k' = macroInversion k \<Longrightarrow> macro_ok k' = macro_ok k"
  by (cases "macroBuffer k") (simp_all add: macro_ok_def)

definition kb_ok :: "'m kbd \<Rightarrow> bool" where
  "kb_ok k \<longleftrightarrow> tables_ok k \<and> slot_ok 512 16 (kb_ring k) \<and> unat (extendCount k) \<le> 2 \<and> macro_ok k"

lemma kb_ok_step: "kb_ok k \<Longrightarrow> kb_step k k' \<Longrightarrow> kb_ok k'"
  using tables_ok_step [of k k'] kb_step_fields [of k k'] macro_ok_cong [of k' k] by (simp add: kb_ok_def)

lemma match_exact: "match_macros ds buf n mods = ExactMatch d \<Longrightarrow> d \<in> set ds"
  by (induction ds) (auto simp: Let_def split: if_splits)

lemma match_partial: "match_macros ds buf n mods = PartialMatch \<Longrightarrow> \<exists>d \<in> set ds. 2 * n < length d - kPrefixBytes"
  by (induction ds) (auto simp: Let_def split: if_splits)

lemma buffered_length: "(i + 1) * 16 \<le> length buf \<Longrightarrow> length (buffered_packet buf i) = 16"
  by (simp add: buffered_packet_def)

lemma dispatch_buffered_steps:
  "tables_ok k \<Longrightarrow> (i + n) * 16 \<le> length buf \<Longrightarrow> steps k (dispatch_buffered E buf i n k)"
proof (induction n arbitrary: i k)
  case (Suc n)
  have "length (buffered_packet buf i) = 16" using Suc.prems(2) by (intro buffered_length) simp
  then obtain b k1 where k1: "dispatchKeyboardEventWithPacket E (buffered_packet buf i) k = Some (b, k1)" "kb_step k k1"
    using dispatch_steps [OF Suc.prems(1), of "buffered_packet buf i" E] by (auto simp: steps2_def)
  have "steps k1 (dispatch_buffered E buf (Suc i) n k1)"
    using Suc.prems(2) by (intro Suc.IH [OF tables_ok_step [OF Suc.prems(1) k1(2)]]) simp
  with k1 show ?case by (auto simp: steps_def intro: kb_step_trans)
qed (simp add: steps_Some)

lemma kb_ok_current: "kb_ok k \<Longrightarrow> kb_ok (k\<lparr>macroCurrent := 0\<rparr>)"
  by (auto simp: kb_ok_def tables_ok_def macro_ok_def split: option.splits)

text \<open>What the work loop leaves alone.\<close>

definition same_input :: "'m kbd \<Rightarrow> 'm kbd \<Rightarrow> bool" where
  "same_input k k' \<longleftrightarrow> kb_ring k' = kb_ring k \<and> macroInversion k' = macroInversion k \<and> keyBitVector k' = keyBitVector k
     \<and> extendCount k' = extendCount k \<and> lastdata k' = lastdata k \<and> PS2flags k' = PS2flags k
     \<and> macroTimer k' = macroTimer k \<and> macroMaxTime k' = macroMaxTime k"

lemma same_input_step: "kb_step k k' \<Longrightarrow> same_input k k'"
  by (auto simp: same_input_def dest: kb_step_fields)

lemma same_input_trans: "same_input a b \<Longrightarrow> same_input b c \<Longrightarrow> same_input a c"
  by (simp add: same_input_def)

lemma invert_buffer_ok:
  assumes ok: "kb_ok k" and buf: "macroCurrent k * 16 \<le> length buf"
  shows "\<exists>k'. dispatchInvertBuffer E buf k = Some k' \<and> kb_ok k' \<and> same_input k k' \<and> macroBuffer k' = macroBuffer k \<and> macroCurrent k' = 0"
proof -
  obtain k1 where k1: "dispatch_buffered E buf 0 (macroCurrent k) k = Some k1" "kb_step k k1"
    using dispatch_buffered_steps [of k 0 "macroCurrent k" buf E] ok buf by (auto simp: kb_ok_def steps_def)
  let ?k = "kb_emit (KbCancelTimer MacroTimer) (k1\<lparr>macroCurrent := 0\<rparr>)"
  have "kb_ok ?k" by (rule kb_ok_step [OF kb_ok_current [OF kb_ok_step [OF ok k1(2)]] kb_step_emit])
  moreover have "same_input k ?k" using same_input_step [OF k1(2)] by (simp add: same_input_def kb_emit_def)
  moreover have "macroBuffer ?k = macroBuffer k" using kb_step_fields [OF k1(2)] by (simp add: kb_emit_def)
  moreover have "macroCurrent ?k = 0" by (simp add: kb_emit_def)
  ultimately show ?thesis using k1(1) by (simp add: dispatchInvertBuffer_def)
qed

lemma kb_ok_buffer: "kb_ok k \<Longrightarrow> macroBuffer k = Some buf \<Longrightarrow> length buf' = length buf \<Longrightarrow> kb_ok (k\<lparr>macroBuffer := Some buf'\<rparr>)"
  by (auto simp: kb_ok_def tables_ok_def macro_ok_def split: option.splits)

lemma kb_ok_advance:
  "kb_ok k \<Longrightarrow> macroBuffer k = Some buf \<Longrightarrow> (macroCurrent k + 2) * 16 \<le> length buf \<Longrightarrow> kb_ok (k\<lparr>macroCurrent := macroCurrent k + 1\<rparr>)"
  by (auto simp: kb_ok_def tables_ok_def macro_ok_def split: option.splits)

lemma invert_macros_ok:
  assumes ok: "kb_ok k" and ds: "macroInversion k = Some ds" and p: "length packet = 16"
  shows "\<exists>b k'. invertMacros E ds packet k = Some (b, k') \<and> kb_ok k' \<and> same_input k k'"
proof (cases "\<exists>buf. macroBuffer k = Some buf \<and> macroTimer k")
  case False
  then show ?thesis using ok by (auto simp: invertMacros_def same_input_def split: option.split)
next
  case True
  then obtain buf where buf: "macroBuffer k = Some buf" "macroTimer k" by blast
  have room: "(macroCurrent k + 1) * 16 \<le> length buf" using ok buf by (simp add: kb_ok_def macro_ok_def)
  define start where "start = (if 0 < macroCurrent k \<and> too_late E (packet_time packet) buf k then dispatchInvertBuffer E buf k else Some k)"
  obtain k1 where k1: "start = Some k1" "kb_ok k1" "same_input k k1" "macroBuffer k1 = Some buf"
  proof (cases "0 < macroCurrent k \<and> too_late E (packet_time packet) buf k")
    case True
    then show thesis using that invert_buffer_ok [OF ok, of buf E] room buf(1) by (auto simp: start_def)
  next
    case False
    then show thesis using that [of k] ok buf(1) by (simp add: start_def same_input_def if_not_P [OF False])
  qed
  have room1: "(macroCurrent k1 + 1) * 16 \<le> length buf" using k1 by (simp add: kb_ok_def macro_ok_def)
  define buf2 where "buf2 = take (macroCurrent k1 * 16) buf @ packet @ drop ((macroCurrent k1 + 1) * 16) buf"
  have st: "store_macro_packet packet (macroCurrent k1) buf = Some buf2" "length buf2 = length buf"
    using room1 p by (simp_all add: store_macro_packet_def buf2_def)
  let ?k2 = "k1\<lparr>macroBuffer := Some buf2\<rparr>"
  have ok2: "kb_ok ?k2" by (rule kb_ok_buffer [OF k1(2,4) st(2)])
  have same2: "same_input k ?k2" using k1(3) by (simp add: same_input_def)
  have inv: "invertMacros E ds packet k = (case match_macros ds buf2 (macroCurrent ?k2 + 1) (PS2modifierState ?k2) of
              ExactMatch d \<Rightarrow> do {
                let buf = buf2[0 := d ! 2, 1 := d ! 3];
                (_, k) \<leftarrow> dispatchKeyboardEventWithPacket E (buffered_packet buf 0) (?k2\<lparr>macroBuffer := Some buf\<rparr>);
                Some (True, (kb_emit (KbCancelTimer MacroTimer) k)\<lparr>macroCurrent := 0\<rparr>) }
            | PartialMatch \<Rightarrow>
                Some (True, (kb_emit (KbSetTimer MacroTimer (macroMaxTime ?k2)) (kb_emit (KbCancelTimer MacroTimer) ?k2))\<lparr>macroCurrent := macroCurrent ?k2 + 1\<rparr>)
            | NoMatch \<Rightarrow>
                if 0 < macroCurrent ?k2 then do { k \<leftarrow> dispatchInvertBuffer E buf2 ?k2; Some (False, k) } else Some (False, ?k2))"
    using buf k1(1) [unfolded start_def] st(1) by (simp add: invertMacros_def Let_def)
  show ?thesis
  proof (cases "match_macros ds buf2 (macroCurrent ?k2 + 1) (PS2modifierState ?k2)")
    case NoMatch
    have "macroCurrent ?k2 * 16 \<le> length buf2" using room1 st(2) by simp
    from invert_buffer_ok [OF ok2 this, of E] show ?thesis using NoMatch inv ok2 same2 same_input_trans [OF same2] by auto
  next
    case PartialMatch
    from match_partial [OF this] obtain d where d: "d \<in> set ds" "2 * (macroCurrent k1 + 1) < length d - kPrefixBytes" by auto
    have "even (length d)" "16 * (length d - kPrefixBytes) \<le> length buf2"
      using ok2 d(1) ds k1(3) by (auto simp: kb_ok_def macro_ok_def same_input_def)
    with d(2) have "(macroCurrent k1 + 2) * 16 \<le> length buf2" by simp
    then have "kb_ok (?k2\<lparr>macroCurrent := macroCurrent ?k2 + 1\<rparr>)"
      using kb_ok_advance [OF ok2, of buf2] by simp
    then have "kb_ok ((kb_emit e (kb_emit f ?k2))\<lparr>macroCurrent := macroCurrent ?k2 + 1\<rparr>)" for e f
      by (simp add: kb_ok_def tables_ok_def macro_ok_def kb_emit_def)
    then show ?thesis using PartialMatch inv same2 by (auto simp: same_input_def kb_emit_def)
  next
    case (ExactMatch d)
    let ?buf = "buf2[0 := d ! 2, 1 := d ! 3]"
    let ?k3 = "?k2\<lparr>macroBuffer := Some ?buf\<rparr>"
    have ok3: "kb_ok ?k3" using kb_ok_buffer [OF ok2, of buf2 ?buf] by simp
    have "length (buffered_packet ?buf 0) = 16" using room1 st(2) by (intro buffered_length) simp
    then obtain b k4 where k4: "dispatchKeyboardEventWithPacket E (buffered_packet ?buf 0) ?k3 = Some (b, k4)" "kb_step ?k3 k4"
      using dispatch_steps [of ?k3 "buffered_packet ?buf 0" E] ok3 by (auto simp: steps2_def kb_ok_def)
    have "kb_ok ((kb_emit (KbCancelTimer MacroTimer) k4)\<lparr>macroCurrent := 0\<rparr>)"
      by (rule kb_ok_current [OF kb_ok_step [OF kb_ok_step [OF ok3 k4(2)] kb_step_emit]])
    moreover have "same_input k ((kb_emit (KbCancelTimer MacroTimer) k4)\<lparr>macroCurrent := 0\<rparr>)"
      using same2 same_input_step [OF k4(2)] by (simp add: same_input_def kb_emit_def)
    ultimately show ?thesis using ExactMatch inv k4(1) by auto
  qed
qed

section \<open>Emptying the buffer\<close>

lemma dispatch_or_invert_ok:
  assumes ok: "kb_ok k" and p: "length packet = 16"
  shows "\<exists>k'. dispatch_or_invert E packet k = Some k' \<and> kb_ok k' \<and> same_input k k'"
proof -
  obtain b k1 where k1: "(case macroInversion k of Some macros \<Rightarrow> invertMacros E macros packet k | None \<Rightarrow> Some (False, k)) = Some (b, k1)"
      "kb_ok k1" "same_input k k1"
    using invert_macros_ok [OF ok _ p, of _ E] ok by (cases "macroInversion k") (auto simp: same_input_def)
  obtain c k2 where k2: "dispatchKeyboardEventWithPacket E packet k1 = Some (c, k2)" "kb_step k1 k2"
    using dispatch_steps [of k1 packet E] k1(2) p by (auto simp: steps2_def kb_ok_def)
  show ?thesis
    using k1 k2 kb_ok_step [OF k1(2) k2(2)] same_input_trans [OF k1(3) same_input_step [OF k2(2)]]
    by (simp add: dispatch_or_invert_def)
qed


lemma tail_packet_ok:
  assumes ok: "kb_ok k" and c: "16 \<le> ring_count 512 (kb_ring k)"
  shows "\<exists>k'. kb_tail_packet E k = Some k' \<and> kb_ok k' \<and> kb_ring k' = advanceTail 512 16 (kb_ring k)"
proof -
  have slot: "slot_ok 512 16 (kb_ring k)" using ok by (simp add: kb_ok_def)
  let ?p = "tail_packet (kb_ring k) 16"
  have len: "length ?p = 16"
    using slot_room(3) [OF slot] slot by (simp add: tail_packet_def slot_ok_def ring_ok_def)
  obtain k1 where k1: "(if ?p ! 0 \<noteq> 0 then dispatch_or_invert E ?p k else Some k) = Some k1" "kb_ok k1" "same_input k k1"
    using dispatch_or_invert_ok [OF ok len, of E] ok by (cases "?p ! 0 = 0") (auto simp: same_input_def)
  have "kb_ok (k1\<lparr>kb_ring := advanceTail 512 16 (kb_ring k1)\<rparr>)"
    using k1(2) slot_ok_advanceTail [of 512 16 "kb_ring k1"] macro_ok_cong [of "k1\<lparr>kb_ring := advanceTail 512 16 (kb_ring k1)\<rparr>" k1]
    by (simp add: kb_ok_def tables_ok_def)
  then show ?thesis using k1 len by (simp add: kb_tail_packet_def idx_Some same_input_def)
qed

lemma packetReady_ok:
  "kb_ok k \<Longrightarrow> \<exists>k'. kb_packetReady E k = Some k' \<and> kb_ok k' \<and> ring_count 512 (kb_ring k') < 16"
proof (induction "ring_count 512 (kb_ring k)" arbitrary: k rule: less_induct)
  case less
  show ?case
  proof (cases "16 \<le> ring_count 512 (kb_ring k)")
    case True
    obtain k1 where k1: "kb_tail_packet E k = Some k1" "kb_ok k1" "kb_ring k1 = advanceTail 512 16 (kb_ring k)"
      using tail_packet_ok [OF less.prems True] by blast
    have "ring_count 512 (kb_ring k1) < ring_count 512 (kb_ring k)"
      using advanceTail_count [of 512 "kb_ring k" 16] True less.prems by (simp add: k1(3) kb_ok_def slot_ok_def)
    from less.hyps [OF this k1(2)] show ?thesis using True k1(1) by (subst kb_packetReady.simps) simp
  next
    case False
    then show ?thesis using less.prems by (subst kb_packetReady.simps) simp
  qed
qed

lemma macro_timer_ok: "kb_ok k \<Longrightarrow> \<exists>k'. onMacroTimer E k = Some k' \<and> kb_ok k'"
proof -
  assume "kb_ok k"
  from packetReady_ok [OF this] obtain k1 where k1: "kb_packetReady E k = Some k1" "kb_ok k1" by blast
  let ?k = "k1\<lparr>kb_ticks := kb_ticks k1 + 1\<rparr>"
  have ok: "kb_ok ?k" by (rule kb_ok_step [OF k1(2) kb_step_ticks])
  show ?thesis
  proof (cases "macroBuffer k1")
    case None
    then show ?thesis using k1 by (simp add: onMacroTimer_def kb_ok_def macro_ok_def)
  next
    case (Some buf)
    have "macroCurrent ?k * 16 \<le> length buf" using k1(2) Some by (simp add: kb_ok_def macro_ok_def)
    from invert_buffer_ok [OF ok this, of E] show ?thesis
      using k1 ok Some by (auto simp: onMacroTimer_def kb_uptime_def Let_def)
  qed
qed

section \<open>Commands and the life cycle\<close>

text \<open>Requests of the keyboard return.\<close>

definition kb_returning :: "'m kb_env \<Rightarrow> bool" where
  "kb_returning E \<longleftrightarrow> returning_port (kb_submit_block E) \<and> (\<forall>set clear m. kb_set_command_byte E set clear m \<noteq> None)
     \<and> (\<forall>h b m. kb_install E h b m \<noteq> None)"

lemma kb_ok_cong:
  assumes "keyBitVector k' = keyBitVector k" "PS2ToPS2Map k' = PS2ToPS2Map k" "PS2flags k' = PS2flags k"
    "PS2ToADBMap k' = PS2ToADBMap k" "PS2ToADBMapMapped k' = PS2ToADBMapMapped k" "brightnessLevels k' = brightnessLevels k"
    "backlightLevels k' = backlightLevels k" "actionSwipe k' = actionSwipe k" "kb_ring k' = kb_ring k" "extendCount k' = extendCount k"
    "macroBuffer k' = macroBuffer k" "macroCurrent k' = macroCurrent k" "macroInversion k' = macroInversion k"
  shows "kb_ok k' \<longleftrightarrow> kb_ok k"
  using assms macro_ok_cong [of k' k] by (simp add: kb_ok_def tables_ok_def)

lemma kb_ok_mouse: "kb_ok (k\<lparr>mouse := m\<rparr>) = kb_ok k"
  by (rule kb_ok_cong) simp_all

lemma block_ok:
  assumes "kb_returning E" "kb_ok k" "length cs \<le> 2"
  obtains m where "kb_block E cs k = Some (k\<lparr>mouse := m\<rparr>)" "kb_ok (k\<lparr>mouse := m\<rparr>)"
proof -
  have "returning_port (kb_submit_block E)" using assms(1) by (simp add: kb_returning_def)
  then obtain n cs' m where "submit_stack 2 (kb_submit_block E) cs (mouse k) = Some (n, cs', m)"
    using assms(3) by (rule returning_port.stack_returns)
  then show thesis using that [of m] assms(2) by (simp add: kb_block_def kb_ok_mouse)
qed

lemma enable_ok:
  assumes "kb_returning E" "kb_ok k"
  obtains m where "setKeyboardEnable E enable k = Some (k\<lparr>mouse := m\<rparr>)" "kb_ok (k\<lparr>mouse := m\<rparr>)"
proof -
  obtain m where "kb_block E [write_data (if enable then kDP_Enable else kDP_SetDefaultsAndDisable), expect_ack] k = Some (k\<lparr>mouse := m\<rparr>)"
      "kb_ok (k\<lparr>mouse := m\<rparr>)"
    by (rule block_ok [OF assms, where cs = "[write_data (if enable then kDP_Enable else kDP_SetDefaultsAndDisable), expect_ack]"]) simp_all
  then show thesis using that by (simp add: setKeyboardEnable_def)
qed

lemma kb_ok_ledState: "kb_ok (k\<lparr>ledState := l\<rparr>) = kb_ok k"
  by (rule kb_ok_cong) simp_all

lemma leds_ok: "kb_ok k \<Longrightarrow> kb_ok (setLEDs E l k)"
  by (simp add: setLEDs_def kb_ok_mouse)

lemma feedback_ok: "kb_ok k \<Longrightarrow> kb_ok (setAlphaLockFeedback E b k)" "kb_ok k \<Longrightarrow> kb_ok (setNumLockFeedback E b k)"
  by (simp_all add: setAlphaLockFeedback_def setNumLockFeedback_def Let_def leds_ok kb_ok_ledState)

lemma release_steps:
  "tables_ok k \<Longrightarrow> steps k (release_keys E t ns k)"
proof (induction ns arbitrary: k)
  case (Cons n ns)
  show ?case
  proof (cases "KBV_IS_KEYDOWN n (keyBitVector k)")
    case True
    let ?p = "kb_packet (if n < 256 then 1 else 2) (of_nat n OR 0x80) t"
    have "2 \<le> length ?p" by (simp add: kb_packet_def)
    from dispatch_steps [OF Cons.prems this, of E] obtain b k1
      where k1: "dispatchKeyboardEventWithPacket E ?p k = Some (b, k1)" "kb_step k k1" unfolding steps2_def by blast
    then show ?thesis using True Cons.IH [OF tables_ok_step [OF Cons.prems k1(2)]]
      by (auto simp: steps_def intro: kb_step_trans)
  next
    case False
    then show ?thesis using Cons by simp
  qed
qed (simp add: steps_Some)

lemma kb_ok_released:
  assumes "kb_ok k"
  shows "kb_ok (setLEDs E l (k\<lparr>keyBitVector := replicate 16 0, PS2modifierState := 0\<rparr>))"
    "kb_ok (k\<lparr>extendCount := 0, kb_ring := ring_reset (kb_ring k)\<rparr>)"
proof -
  show "kb_ok (setLEDs E l (k\<lparr>keyBitVector := replicate 16 0, PS2modifierState := 0\<rparr>))"
    using assms macro_ok_cong [of "k\<lparr>keyBitVector := replicate 16 0, PS2modifierState := 0\<rparr>" k]
    by (intro leds_ok) (simp add: kb_ok_def tables_ok_def)
  show "kb_ok (k\<lparr>extendCount := 0, kb_ring := ring_reset (kb_ring k)\<rparr>)"
    using assms macro_ok_cong [of "k\<lparr>extendCount := 0, kb_ring := ring_reset (kb_ring k)\<rparr>" k]
    by (simp add: kb_ok_def tables_ok_def slot_ok_def ring_ok_def ring_reset_def)
qed

lemma initKeyboard_ok:
  assumes E: "kb_returning E" and ok: "kb_ok k"
  obtains k' where "initKeyboard E t k = Some k'" "kb_ok k'" "keyBitVector k' = replicate 16 0" "PS2modifierState k' = 0"
    "packets 512 16 (kb_ring k') = []" "extendCount k' = 0" "macroBuffer k' = macroBuffer k" "ledState k' = ledState k"
proof -
  obtain m1 where 1: "kb_block E [write_data kDP_SetDefaults, expect_ack] k = Some (k\<lparr>mouse := m1\<rparr>)" "kb_ok (k\<lparr>mouse := m1\<rparr>)"
    by (rule block_ok [OF E ok, where cs = "[write_data kDP_SetDefaults, expect_ack]"]) simp_all
  let ?k1 = "k\<lparr>mouse := m1\<rparr>"
  obtain k2 where 2: "release_keys E t [0..<512] ?k1 = Some k2" "kb_step ?k1 k2"
    using release_steps [of ?k1 E t "[0..<512]"] 1(2) by (auto simp: kb_ok_def steps_def)
  let ?k3 = "setLEDs E (ledState k2) (k2\<lparr>keyBitVector := replicate 16 0, PS2modifierState := 0\<rparr>)"
  let ?k4 = "?k3\<lparr>extendCount := 0, kb_ring := ring_reset (kb_ring ?k3)\<rparr>"
  have ok4: "kb_ok ?k4" by (rule kb_ok_released(2) [OF kb_ok_released(1) [OF kb_ok_step [OF 1(2) 2(2)]]])
  obtain m5 where 5: "setKeyboardEnable E True ?k4 = Some (?k4\<lparr>mouse := m5\<rparr>)" by (rule enable_ok [OF E ok4])
  obtain m6 where 6: "kb_set_command_byte E 0x40 0 m5 = Some m6" using E unfolding kb_returning_def by blast
  have "initKeyboard E t k = Some (?k4\<lparr>mouse := m6\<rparr>)"
    unfolding initKeyboard_def 1(1) 2(1) Option.bind.bind_lunit Let_def using 5 6 by simp
  then show thesis
  proof (rule that)
    show "kb_ok (?k4\<lparr>mouse := m6\<rparr>)" using ok4 by (simp add: kb_ok_mouse)
  qed (use kb_step_fields [OF 2(2)] in \<open>simp_all add: setLEDs_def packets_def chunks.simps\<close>)
qed

section \<open>Settings and the start\<close>

lemma map_index: "map_index scan < 512"
proof -
  have "scan AND 0xff \<le> 0xff" by (rule word_and_le1)
  then have "unat (scan AND 0xff) \<le> unat (0xff :: u16)" by (simp add: word_le_nat_alt)
  then show ?thesis by (simp add: map_index_def)
qed

lemma remap_ok: "codes_ok m \<Longrightarrow> codes_ok (remap_entry e m)"
proof -
  assume m: "codes_ok m"
  have "unat (of_nat (map_index scan) :: u16) < 512" for scan
    using map_index [of scan] by (simp add: unat_of_nat)
  then have "codes_ok (m[i := of_nat (map_index scan)])" for i scan
    using m set_update_subset_insert [of m i "of_nat (map_index scan)"] by (auto simp: codes_ok_def)
  then show ?thesis using m by (simp add: remap_entry_def split: option.split)
qed

lemma loadCustom_ok: "codes_ok m \<Longrightarrow> codes_ok (loadCustomPS2Map arr m)"
  unfolding loadCustomPS2Map_def
  by (cases arr) (auto intro: fold_invariant [where Q = "\<lambda>_. True" and P = codes_ok] remap_ok)

lemma loadBreakless_length: "length (loadBreaklessPS2 arr fl) = length fl"
proof -
  have "length (breakless_entry e fl) = length fl" for e fl
    by (auto simp: breakless_entry_def Let_def split: option.split)
  then have "length (fold breakless_entry es fl) = length fl" for es fl by (induction es arbitrary: fl) auto
  then show ?thesis by (simp add: loadBreaklessPS2_def split: option.split)
qed

lemma loadADB_length: "length (loadCustomADBMap arr m) = length m"
proof -
  have "length (adb_entry e m) = length m" for e m by (auto simp: adb_entry_def split: option.split)
  then have "length (fold adb_entry es m) = length m" for es m by (induction es arbitrary: m) auto
  then show ?thesis by (simp add: loadCustomADBMap_def split: option.split)
qed

lemma parseAction_zero:
  assumes "dest \<noteq> []"
  shows "0 \<in> set (snd (parseAction s dest))"
proof -
  have l: "length (snd (snd (parse_action s i d))) = length d" for s i d
  proof (induction "length s" arbitrary: s i d rule: less_induct)
    case less
    show ?case
      by (subst parse_action.simps)
        (auto simp: Let_def dest!: parseHex_length intro!: less.hyps [THEN trans] le_less_trans [OF length_dropWhile_le]
          split: option.split list.split)
  qed
  obtain ok i d where p: "parse_action s 0 dest = (ok, i, d)" by (cases "parse_action s 0 dest") auto
  have "length d = length dest" using l [of s 0 dest] p by simp
  then have "d \<noteq> []" using assms by auto
  then show ?thesis by (auto simp: parseAction_def p set_update_memI)
qed


lemma kb_ok_adb: "kb_ok k \<Longrightarrow> length m = 512 \<Longrightarrow> kb_ok (k\<lparr>PS2ToADBMap := m\<rparr>)"
  using macro_ok_cong [of "k\<lparr>PS2ToADBMap := m\<rparr>" k] by (simp add: kb_ok_def tables_ok_def)

lemma kb_ok_codes: "kb_ok k \<Longrightarrow> codes_ok m \<Longrightarrow> kb_ok (k\<lparr>PS2ToPS2Map := m\<rparr>)"
  using macro_ok_cong [of "k\<lparr>PS2ToPS2Map := m\<rparr>" k] by (simp add: kb_ok_def tables_ok_def)

lemma kb_ok_length: "kb_ok k \<Longrightarrow> length (PS2ToADBMap k) = 512" "kb_ok k \<Longrightarrow> codes_ok (PS2ToPS2Map k)"
  by (simp_all add: kb_ok_def tables_ok_def)

lemma map_ok: "kb_ok k \<Longrightarrow> kb_ok (map_as a b k)" "kb_ok k \<Longrightarrow> kb_ok (map_to a x k)"
  by (simp_all add: map_as_def map_to_def kb_ok_adb kb_ok_length)

lemma swap_ok: "kb_ok k \<Longrightarrow> kb_ok (swap_keys a b s k)"
  by (simp add: swap_keys_def map_ok)

lemma when_some_ok: "kb_ok k \<Longrightarrow> (\<And>x k. kb_ok k \<Longrightarrow> kb_ok (f x k)) \<Longrightarrow> kb_ok (when_some v f k)"
  by (simp add: when_some_def split: option.split)

lemma kb_ok_options [simp]:
  "kb_ok (k\<lparr>maxsleeppresstime := n\<rparr>) = kb_ok k" "kb_ok (k\<lparr>f12ejectdelay := n\<rparr>) = kb_ok k"
  "kb_ok (k\<lparr>macroMaxTime := t\<rparr>) = kb_ok k" "kb_ok (k\<lparr>swapcommandoption := b\<rparr>) = kb_ok k"
  "kb_ok (k\<lparr>brightnessHack := b\<rparr>) = kb_ok k" "kb_ok (k\<lparr>logscancodes := n\<rparr>) = kb_ok k"
  "kb_ok (k\<lparr>fkeymode := n\<rparr>) = kb_ok k" "kb_ok (k\<lparr>macroTimer := b\<rparr>) = kb_ok k"
  "kb_ok (k\<lparr>kb_provider := b\<rparr>) = kb_ok k" "kb_ok (k\<lparr>handlersInstalled := hs\<rparr>) = kb_ok k"
  "kb_ok (k\<lparr>fkeymodesupported := b\<rparr>) = kb_ok k" "kb_ok (k\<lparr>keysStandard := a\<rparr>) = kb_ok k" "kb_ok (k\<lparr>keysSpecial := a\<rparr>) = kb_ok k"
  "kb_ok (k\<lparr>lastdata := d\<rparr>) = kb_ok k" "kb_ok (k\<lparr>kb_ticks := i\<rparr>) = kb_ok k"
  by (rule kb_ok_cong; simp)+

lemma fkeymode_ok: "kb_ok k \<Longrightarrow> kb_ok (set_fkeymode m k)"
proof -
  assume ok: "kb_ok k"
  have "kb_ok (when_some m (\<lambda>m k. k\<lparr>fkeymode := m\<rparr>) k)" by (rule when_some_ok [OF ok]) simp
  then show ?thesis by (simp add: set_fkeymode_def Let_def ok kb_ok_codes loadCustom_ok kb_ok_length)
qed

lemma action_ok: "kb_ok k \<Longrightarrow> kb_ok (set_action sw s k)"
proof -
  assume ok: "kb_ok k"
  then have "actionSwipe k sw \<noteq> []" by (metis empty_iff empty_set kb_ok_def tables_ok_def)
  then show ?thesis
    using ok parseAction_zero macro_ok_cong [of "set_action sw s k" k] by (simp add: kb_ok_def tables_ok_def set_action_def)
qed

lemma special_settings_ok: "kb_ok k \<Longrightarrow> kb_ok (set_application_key a b k)" "kb_ok k \<Longrightarrow> kb_ok (set_hangul_hanja c k)"
  by (auto simp: set_application_key_def set_hangul_hanja_def Let_def map_ok intro!: when_some_ok)

lemma settings_ok: "kb_ok k \<Longrightarrow> kb_ok (kb_setParamPropertiesGated d k)"
  by (cases d)
    (auto simp: kb_setParamPropertiesGated_def Let_def intro!: when_some_ok fkeymode_ok swap_ok special_settings_ok action_ok)


lemma blank_ok: "kb_ok (kb_blank m)"
proof -
  have "codes_ok (map of_nat [0..<512])" by (auto simp: codes_ok_def unat_of_nat)
  then show ?thesis
    by (simp add: kb_ok_def tables_ok_def macro_ok_def kb_blank_def length_stock slot_ok_def ring_ok_def parseAction_zero)
qed

lemma macros_valid:
  assumes "loadMacroData arr = Some ds"
  shows "ds \<noteq> []" "\<forall>d \<in> set ds. valid_macro d"
  using assms by (auto simp: loadMacroData_def Let_def split: option.splits if_splits)

lemma le_fold_max: "x \<in> set xs \<Longrightarrow> x \<le> fold max xs (a :: nat)"
proof (induction xs arbitrary: a)
  case (Cons y xs)
  have "b \<le> fold max xs b" for b :: nat
    by (induction xs arbitrary: b) (auto intro: le_trans [OF max.cobounded2])
  then show ?case using Cons by (auto intro: le_trans [OF max.cobounded1])
qed simp

lemma load_macros_ok:
  assumes "kb_ok k" "macroCurrent k = 0" "macroBuffer k = None"
  shows "kb_ok (load_macros c k)"
proof (cases "loadMacroData (cfg_MacroInversion c)")
  case None
  have "kb_ok (k\<lparr>macroTranslation := t, macroInversion := None\<rparr>)" for t
    using assms by (simp add: kb_ok_def tables_ok_def macro_ok_def)
  then show ?thesis using None by (simp add: load_macros_def Let_def)
next
  case (Some ds)
  let ?n = "fold max (map (\<lambda>d. length d - kPrefixBytes) ds) 0"
  have le: "length d - 8 \<le> ?n" if "d \<in> set ds" for d
    using that by (intro le_fold_max) auto
  have v: "even (length d) \<and> 10 \<le> length d" if "d \<in> set ds" for d
    using macros_valid(2) [OF Some] that by (auto simp: valid_macro_def)
  obtain d where d: "d \<in> set ds" using macros_valid(1) [OF Some] by (cases ds) auto
  then have "2 \<le> ?n" using le [OF d] v [OF d] by arith
  moreover have "16 * (length d - 8) \<le> ?n * 16" if "d \<in> set ds" for d
    using le [OF that] by simp
  ultimately have "kb_ok (k\<lparr>macroTranslation := t, macroInversion := Some ds, macroBuffer := Some (replicate (?n * 16) 0)\<rparr>)" for t
    using assms v by (simp add: kb_ok_def tables_ok_def macro_ok_def)
  then show ?thesis using Some by (simp add: load_macros_def Let_def)
qed

lemma load_fkeys_ok: "kb_ok k \<Longrightarrow> kb_ok (load_fkeys c k)"
  by (simp add: load_fkeys_def kb_ok_codes loadCustom_ok kb_ok_length)

lemma load_config_ok: "kb_ok (load_config c (kb_blank m))"
proof -
  let ?k = "(kb_blank m)\<lparr>PS2ToPS2Map := loadCustomPS2Map (cfg_CustomPS2Map c) (PS2ToPS2Map (kb_blank m)),
     PS2flags := loadBreaklessPS2 (cfg_BreaklessPS2 c) (PS2flags (kb_blank m)),
     PS2ToADBMapMapped := loadCustomADBMap (cfg_CustomADBMap c) (PS2ToADBMapMapped (kb_blank m))\<rparr>"
  have ok: "kb_ok ?k"
    using blank_ok [of m] macro_ok_cong [of ?k "kb_blank m"]
    by (simp add: kb_ok_def tables_ok_def loadCustom_ok loadBreakless_length loadADB_length)
  have "kb_ok (load_fkeys c ?k)" by (rule load_fkeys_ok [OF ok])
  moreover have "macroCurrent (load_fkeys c ?k) = 0" "macroBuffer (load_fkeys c ?k) = None"
    by (simp_all add: load_fkeys_def kb_blank_def)
  ultimately show ?thesis unfolding load_config_def Let_def by (rule load_macros_ok)
qed

lemma init_ok:
  assumes "kb_init m config = Some k"
  shows "kb_ok k"
proof -
  have "kb_ok (case config of Some c \<Rightarrow> load_config c (kb_blank m) | None \<Rightarrow> kb_blank m)"
    by (simp add: blank_ok load_config_ok split: option.split)
  moreover have "kb_ok (k\<lparr>PS2ToADBMap := PS2ToADBMapMapped k\<rparr>)" if "kb_ok k" for k :: "'a kbd"
    using that by (intro kb_ok_adb) (simp_all add: kb_ok_def tables_ok_def)
  ultimately show ?thesis using assms by (auto simp: kb_init_def Let_def settings_ok split: if_splits)
qed

lemma levels_length: "acpi_levels n a = Some ls \<Longrightarrow> n \<le> length ls"
  by (auto simp: acpi_levels_def split: option.splits if_splits)

lemma kb_ok_levels:
  assumes "kb_ok k" "\<forall>ls. b = Some ls \<longrightarrow> 4 \<le> length ls" "\<forall>ls. l = Some ls \<longrightarrow> 2 \<le> length ls"
  shows "kb_ok (k\<lparr>brightnessLevels := b, backlightLevels := l\<rparr>)"
  using assms macro_ok_cong [of "k\<lparr>brightnessLevels := b, backlightLevels := l\<rparr>" k] by (simp add: kb_ok_def tables_ok_def)

lemma install_ok:
  assumes "kb_returning E"
  obtains m where "install_handler E h k = Some (k\<lparr>mouse := m, handlersInstalled := h # handlersInstalled k\<rparr>)"
    "kb_ok (k\<lparr>mouse := m, handlersInstalled := h # handlersInstalled k\<rparr>) = kb_ok k"
proof -
  obtain m where "kb_install E h True (mouse k) = Some m" using assms unfolding kb_returning_def by blast
  moreover have "kb_ok (k\<lparr>mouse := m, handlersInstalled := h # handlersInstalled k\<rparr>) = kb_ok k" by (rule kb_ok_cong) simp_all
  ultimately show thesis using that by (simp add: install_handler_def)
qed

lemma uninstall_ok:
  assumes "kb_returning E"
  obtains m where "uninstall_handler E h k = Some (k\<lparr>mouse := m, handlersInstalled := removeAll h (handlersInstalled k)\<rparr>)"
    "kb_ok (k\<lparr>mouse := m, handlersInstalled := removeAll h (handlersInstalled k)\<rparr>) = kb_ok k"
proof -
  obtain m where m: "kb_install E h False (mouse k) = Some m" using assms unfolding kb_returning_def by blast
  have *: "kb_ok (k\<lparr>mouse := m, handlersInstalled := hs\<rparr>) = kb_ok k" for m hs by (rule kb_ok_cong) simp_all
  show thesis
  proof (cases "h \<in> set (handlersInstalled k)")
    case True
    then show ?thesis using that [of m] m * by (simp add: uninstall_handler_def)
  next
    case False
    then have "k\<lparr>mouse := mouse k, handlersInstalled := removeAll h (handlersInstalled k)\<rparr> = k" by simp
    then show ?thesis using that [of "mouse k"] False by (simp add: uninstall_handler_def)
  qed
qed

lemma start_ok:
  assumes E: "kb_returning E" and ok: "kb_ok k"
  shows "\<exists>b k'. kb_start E t gate timer acpi bcl kkcl k = Some (b, k') \<and> kb_ok k'"
proof -
  let ?k = "k\<lparr>macroTimer := timer, kb_provider := acpi, brightnessLevels := (if acpi then acpi_levels 4 bcl else None),
     backlightLevels := (if acpi then acpi_levels 2 kkcl else None)\<rparr>"
  have "kb_ok ?k" by (rule kb_ok_levels) (auto simp: ok dest: levels_length)
  then obtain k1 where k1: "initKeyboard E t ?k = Some k1" "kb_ok k1" by (rule initKeyboard_ok [OF E, where t = t])
  have i: "\<exists>k'. install_handler E h k = Some k' \<and> (kb_ok k \<longrightarrow> kb_ok k')" for h k
    by (rule install_ok [OF E, where h = h and k = k]) blast
  obtain k2 where k2: "install_handler E KbInterruptAction k1 = Some k2" "kb_ok k2" using i k1(2) by blast
  obtain k3 where k3: "install_handler E KbPowerControlAction k2 = Some k3" "kb_ok k3" using i k2(2) by blast
  obtain k4 where k4: "install_handler E KbMessageAction k3 = Some k4" "kb_ok k4" using i k3(2) by blast
  show ?thesis using ok k1(1) k2(1) k3(1) k4 by (cases gate) (auto simp: kb_start_def)
qed

lemma stop_ok:
  assumes E: "kb_returning E" and ok: "kb_ok k"
  shows "\<exists>k'. kb_stop E k = Some k' \<and> kb_ok k' \<and> handlersInstalled k' = []"
proof -
  obtain m where m: "setKeyboardEnable E False k = Some (k\<lparr>mouse := m\<rparr>)" "kb_ok (k\<lparr>mouse := m\<rparr>)" by (rule enable_ok [OF E ok])
  let ?k = "k\<lparr>mouse := m, macroTimer := False\<rparr>"
  have u: "\<exists>k'. uninstall_handler E h k = Some k' \<and> (kb_ok k \<longrightarrow> kb_ok k') \<and> handlersInstalled k' = removeAll h (handlersInstalled k)" for h k
    by (rule uninstall_ok [OF E, where h = h and k = k]) simp
  have "kb_ok ?k" using m(2) by simp
  then obtain k1 where k1: "uninstall_handler E KbInterruptAction ?k = Some k1" "kb_ok k1"
      "handlersInstalled k1 = removeAll KbInterruptAction (handlersInstalled ?k)" using u by blast
  obtain k2 where k2: "uninstall_handler E KbPowerControlAction k1 = Some k2" "kb_ok k2"
      "handlersInstalled k2 = removeAll KbPowerControlAction (handlersInstalled k1)" using u k1(2) by blast
  obtain k3 where k3: "uninstall_handler E KbMessageAction k2 = Some k3" "kb_ok k3"
      "handlersInstalled k3 = removeAll KbMessageAction (handlersInstalled k2)" using u k2(2) by blast
  have "handlersInstalled k3 = []"
  proof -
    have "set (handlersInstalled k3) = {}"
      unfolding k3(3) k2(3) k1(3) by (auto intro: kb_handler.exhaust)
    then show ?thesis by simp
  qed
  moreover have "kb_ok (k3\<lparr>kb_provider := False, brightnessLevels := None, backlightLevels := None\<rparr>)"
    by (rule kb_ok_levels) (simp_all add: k3(2))
  ultimately show ?thesis by (simp add: kb_stop_def m(1) k1(1) k2(1) k3(1))
qed

section \<open>Notifications and swipes\<close>

lemma acpi_ok: "kb_ok k \<Longrightarrow> \<exists>k'. kb_acpi_message E arg k = Some k' \<and> kb_ok k'"
proof -
  have n: "\<exists>k'. kb_notify E a b k = Some k' \<and> kb_ok k'" if "kb_ok k" for a b and k :: "'a kbd"
    using dispatch_or_invert_ok [of "k\<lparr>kb_ticks := kb_ticks k + 1\<rparr>" "kb_packet a b (uptime (kb_clock E) (kb_ticks k))" E] that
    by (auto simp: kb_notify_def kb_uptime_def Let_def kb_packet_def)
  assume ok: "kb_ok k"
  obtain k1 where k1: "kb_notify E (ucast (drop_bit 8 arg) - 2) (ucast arg) k = Some k1" "kb_ok k1" using n [OF ok] by blast
  show ?thesis using n [OF ok] n [OF k1(2)] k1(1) ok by (simp add: kb_acpi_message_def Let_def)
qed

lemma swipe_ok: "kb_ok k \<Longrightarrow> \<exists>k'. kb_receiveMessage E sw k = Some k' \<and> kb_ok k'"
proof -
  have s: "kb_step k (send_keys E cs k)" for cs and k :: "'a kbd"
    by (induction cs arbitrary: k) (auto intro: kb_step_trans [OF kb_step_now])
  assume ok: "kb_ok k"
  then show ?thesis using kb_ok_step [OF ok s]
    by (simp add: kb_receiveMessage_def sendKeySequence_def kb_ok_def tables_ok_def)
qed

end
