(* ===== verification/KeyboardInput.thy ===== *)
theory KeyboardInput
  imports KeyboardSafety
begin

text \<open>
  The keyboard driver at interrupt time, refined to an abstract machine: the bytes form scan codes (a small grammar
  with the prefixes \<open>e0\<close> and \<open>e1\<close>), a set of keys that are down removes the auto-repeat, and what is left is
  appended to a queue of at most 31 packets.
\<close>

section \<open>The key bit vector is a set of keys\<close>

text \<open>What the interrupt routine relies on: the vector as a set, one entry per key.\<close>

locale key_set =
  fixes down :: "nat \<Rightarrow> 'v \<Rightarrow> 'v"
    and up :: "nat \<Rightarrow> 'v \<Rightarrow> 'v"
    and is_down :: "nat \<Rightarrow> 'v \<Rightarrow> bool"
    and keys :: "'v \<Rightarrow> nat set"
    and valid :: "'v \<Rightarrow> bool"
    and cap :: nat
  assumes is_down: "valid v \<Longrightarrow> n < cap \<Longrightarrow> is_down n v \<longleftrightarrow> n \<in> keys v"
    and keys_down: "valid v \<Longrightarrow> n < cap \<Longrightarrow> keys (down n v) = insert n (keys v)"
    and keys_up: "valid v \<Longrightarrow> n < cap \<Longrightarrow> keys (up n v) = keys v - {n}"
    and valid_down: "valid v \<Longrightarrow> n < cap \<Longrightarrow> valid (down n v)"
    and valid_up: "valid v \<Longrightarrow> n < cap \<Longrightarrow> valid (up n v)"
begin

text \<open>A history of presses and releases: a key is down iff its last event was a press.\<close>

definition track :: "(nat \<times> bool) list \<Rightarrow> 'v \<Rightarrow> 'v" where
  "track es v = fold (\<lambda>(n, release). if release then up n else down n) es v"

lemma track_valid: "valid v \<Longrightarrow> \<forall>(n, r) \<in> set es. n < cap \<Longrightarrow> valid (track es v)"
  unfolding track_def by (induction es arbitrary: v) (auto simp: valid_down valid_up)

lemma track_keys:
  "valid v \<Longrightarrow> \<forall>(n, r) \<in> set es. n < cap \<Longrightarrow>
     n \<in> keys (track es v) \<longleftrightarrow> (case map_of (rev es) n of Some release \<Rightarrow> \<not> release | None \<Rightarrow> n \<in> keys v)"
proof (induction es arbitrary: v)
  case (Cons e es)
  obtain m r where e: "e = (m, r)" by fastforce
  show ?case
    using Cons.IH [of "if r then up m v else down m v"] Cons.prems
    by (auto simp: track_def e valid_up valid_down keys_up keys_down map_add_def split: option.splits)
qed (simp add: track_def)

end

definition pressed :: "u32 list \<Rightarrow> nat set" where
  "pressed v = {n. n < 32 * length v \<and> KBV_IS_KEYDOWN n v}"

lemma KBV_bit: "KBV_IS_KEYDOWN n v \<longleftrightarrow> bit (v ! (n div 32)) (n mod 32)"
  by (simp add: KBV_IS_KEYDOWN_def and_exp_eq_0_iff_not_bit)

lemma same_key: "n div 32 = m div 32 \<Longrightarrow> n mod 32 = m mod 32 \<Longrightarrow> n = (m :: nat)"
  by (metis div_mult_mod_eq)

interpretation kbv: key_set KBV_KEYDOWN KBV_KEYUP KBV_IS_KEYDOWN pressed "\<lambda>v. length v = 16" 512
proof unfold_locales
  fix v :: "u32 list" and n :: nat
  assume v: "length v = 16" and n: "n < 512"
  then have d: "n div 32 < length v" by simp
  show "KBV_IS_KEYDOWN n v \<longleftrightarrow> n \<in> pressed v" using v n by (simp add: pressed_def)
  have "KBV_IS_KEYDOWN m (KBV_KEYDOWN n v) \<longleftrightarrow> m = n \<or> KBV_IS_KEYDOWN m v" for m
    using d by (cases "n div 32 = m div 32") (auto simp: KBV_bit KBV_KEYDOWN_def bit_simps dest: same_key)
  then show "pressed (KBV_KEYDOWN n v) = insert n (pressed v)"
    using v n by (auto simp: pressed_def KBV_KEYDOWN_def)
  have "KBV_IS_KEYDOWN m (KBV_KEYUP n v) \<longleftrightarrow> m \<noteq> n \<and> KBV_IS_KEYDOWN m v" for m
    using d by (cases "n div 32 = m div 32") (auto simp: KBV_bit KBV_KEYUP_def bit_simps dest: same_key)
  then show "pressed (KBV_KEYUP n v) = pressed v - {n}"
    using v n by (auto simp: pressed_def KBV_KEYUP_def)
  show "length (KBV_KEYDOWN n v) = 16" "length (KBV_KEYUP n v) = 16"
    using v by (simp_all add: KBV_KEYDOWN_def KBV_KEYUP_def)
qed

section \<open>The abstract machine\<close>

text \<open>The scan codes in a byte stream, given the byte before it and the number of bytes a prefix still covers: the
  extension and the code, or \<open>(0, aa)\<close> for a spontaneous reset.\<close>

fun scan_codes :: "u8 \<Rightarrow> nat \<Rightarrow> u8 list \<Rightarrow> (u8 \<times> u8) list" where
  "scan_codes prev e [] = []"
| "scan_codes prev e (b # bs) =
     (if prev = 0xaa \<and> b = 0 then (0, 0xaa) # scan_codes prev 0 bs
      else if b = 0xfa \<or> b = 0xfe then scan_codes b e bs
      else if b = 0xe0 then scan_codes b 1 bs
      else if b = 0xe1 then scan_codes b 2 bs
      else if 2 \<le> e then scan_codes b (e - 1) bs
      else (of_nat e + 1, b) # scan_codes b 0 bs)"

definition raw_key :: "u8 \<times> u8 \<Rightarrow> nat" where
  "raw_key c = 256 * (unat (fst c) - 1) + unat (snd c AND 0x7f)"

text \<open>The scan codes that are not the repetition of a key that is down, and the keys that are down after them.\<close>

fun key_edges :: "u16 list \<Rightarrow> nat set \<Rightarrow> (u8 \<times> u8) list \<Rightarrow> (u8 \<times> u8) list \<times> nat set" where
  "key_edges fl S [] = ([], S)"
| "key_edges fl S (c # cs) =
     (if fst c = 0 \<or> isset (fl ! raw_key c) kBreaklessKey then apfst ((#) c) (key_edges fl S cs)
      else if isset (snd c) 0x80 then apfst ((#) c) (key_edges fl (S - {raw_key c}) cs)
      else if raw_key c \<in> S then key_edges fl S cs
      else apfst ((#) c) (key_edges fl (insert (raw_key c) S) cs))"

text \<open>A stream of bytes at the interrupt.\<close>

primrec kb_interrupts :: "'m kb_env \<Rightarrow> u8 list \<Rightarrow> 'm kbd \<Rightarrow> 'm kbd option" where
  "kb_interrupts E [] k = Some k"
| "kb_interrupts E (b # bs) k = do { (_, k) \<leftarrow> kb_interruptOccurred E b k; kb_interrupts E bs k }"

text \<open>The queue of packets: the scan code and the time of the interrupt.\<close>

definition queued :: "'m kbd \<Rightarrow> ((u8 \<times> u8) \<times> u64) list" where
  "queued k = map (\<lambda>p. ((p ! 0, p ! 1), packet_time p)) (packets 512 16 (kb_ring k))"

primrec stamped :: "clock \<Rightarrow> nat \<Rightarrow> 'b list \<Rightarrow> ('b \<times> u64) list" where
  "stamped C n [] = []"
| "stamped C n (c # cs) = (c, uptime C n) # stamped C (Suc n) cs"

lemma stamped_append: "stamped C n (cs @ ds) = stamped C n cs @ stamped C (n + length cs) ds"
  by (induction cs arbitrary: n) simp_all

lemma map_fst_stamped [simp]: "map fst (stamped C n cs) = cs" "length (stamped C n cs) = length cs"
  by (induction cs arbitrary: n) simp_all

text \<open>Appending to the queue.\<close>

definition enqueue :: "'b list \<Rightarrow> 'b list \<Rightarrow> 'b list" where
  "enqueue q xs = q @ take (31 - length q) xs"

lemma bit_bytes:
  fixes b :: "nat \<Rightarrow> u8"
  assumes "n < 64"
  shows "bit (foldr (\<lambda>i u. push_bit (8 * i) (ucast (b i)) OR u) is (0 :: u64)) n
    \<longleftrightarrow> (\<exists>i \<in> set is. 8 * i \<le> n \<and> n - 8 * i < 8 \<and> bit (b i) (n - 8 * i))"
  using assms by (induction "is") (auto simp: bit_simps dest: bit_imp_le_length)

lemma packet_time_bytes:
  assumes "take 8 (drop 8 p) = time_bytes t" "length p = 16"
  shows "packet_time p = t"
proof -
  have n: "p ! (8 + i) = ucast (drop_bit (8 * i) t)" if "i < 8" for i
  proof -
    have "p ! (8 + i) = take 8 (drop 8 p) ! i" using that assms(2) by simp
    then show ?thesis using that by (simp add: assms(1) time_bytes_def)
  qed
  show ?thesis
  proof (rule bit_word_eqI)
    fix j assume j: "j < LENGTH(64)"
    have "bit (packet_time p) j \<longleftrightarrow> (\<exists>i \<in> set [0..<8]. 8 * i \<le> j \<and> j - 8 * i < 8 \<and> bit (p ! (8 + i)) (j - 8 * i))"
      unfolding packet_time_def by (rule bit_bytes) (use j in simp)
    also have "\<dots> \<longleftrightarrow> (\<exists>i \<in> set [0..<8]. 8 * i \<le> j \<and> j - 8 * i < 8 \<and> bit t j)"
      by (rule bex_cong) (use n in \<open>auto simp: bit_simps\<close>)
    also have "\<dots> \<longleftrightarrow> bit t j"
    proof
      assume "bit t j"
      moreover have "j div 8 \<in> set [0..<8]" "8 * (j div 8) \<le> j" "j - 8 * (j div 8) < 8" using j by auto
      ultimately show "\<exists>i \<in> set [0..<8]. 8 * i \<le> j \<and> j - 8 * i < 8 \<and> bit t j" by blast
    qed blast
    finally show "bit (packet_time p) j = bit t j" .
  qed
qed

lemma buffer_queued:
  assumes "kb_ok k"
  obtains k' where "buffer_packet E a b k = Some k'" "kb_ok k'" "queued k' = enqueue (queued k) (stamped (kb_clock E) (kb_ticks k) [(a, b)])"
    and "kb_ticks k' = kb_ticks k + 1"
    and "extendCount k' = extendCount k" "lastdata k' = lastdata k" "keyBitVector k' = keyBitVector k" "PS2flags k' = PS2flags k"
proof -
  have slot: "slot_ok 512 16 (kb_ring k)" using assms by (simp add: kb_ok_def)
  obtain rb p where r: "buffer_packet E a b k = Some (k\<lparr>kb_ticks := kb_ticks k + 1, kb_ring := rb\<rparr>)" "slot_ok 512 16 rb"
      and p: "length p = 16" "key_bytes p = [a, b]" "take 8 (drop 8 p) = time_bytes (uptime (kb_clock E) (kb_ticks k))"
      and q: "packets 512 16 rb = packets 512 16 (kb_ring k) @ (if length (packets 512 16 (kb_ring k)) < 31 then [p] else [])"
    by (rule buffer_packet_ok [OF slot])
  from p obtain rest where "p = a # b # rest" by (cases p; cases "tl p") (auto simp: key_bytes_def numeral_2_eq_2)
  then have "queued (k\<lparr>kb_ticks := kb_ticks k + 1, kb_ring := rb\<rparr>) = enqueue (queued k) (stamped (kb_clock E) (kb_ticks k) [(a, b)])"
    using packet_time_bytes [OF p(3,1)] by (simp add: queued_def q enqueue_def)
  moreover have "kb_ok (k\<lparr>kb_ticks := kb_ticks k + 1, kb_ring := rb\<rparr>)"
    using assms r(2) macro_ok_cong [of "k\<lparr>kb_ticks := kb_ticks k + 1, kb_ring := rb\<rparr>" k] by (simp add: kb_ok_def tables_ok_def)
  ultimately show thesis using that r(1) by simp
qed

lemma kb_ok_vector: "kb_ok k \<Longrightarrow> length v = 16 \<Longrightarrow> kb_ok (k\<lparr>keyBitVector := v\<rparr>)"
  using macro_ok_cong [of "k\<lparr>keyBitVector := v\<rparr>" k] by (simp add: kb_ok_def tables_ok_def)

lemma kb_ok_prefix: "kb_ok k \<Longrightarrow> unat e \<le> 2 \<Longrightarrow> kb_ok (k\<lparr>extendCount := e\<rparr>)"
  using macro_ok_cong [of "k\<lparr>extendCount := e\<rparr>" k] by (simp add: kb_ok_def tables_ok_def)

lemma kb_ok_last: "kb_ok k \<Longrightarrow> kb_ok (k\<lparr>lastdata := d\<rparr>)"
  using macro_ok_cong [of "k\<lparr>lastdata := d\<rparr>" k] by (simp add: kb_ok_def tables_ok_def)

lemma unat_mask_7f: "unat (w AND 0x7f :: u8) < 128"
proof -
  have "w AND 0x7f \<le> 0x7f" by (rule word_and_le1)
  then have "unat (w AND 0x7f) \<le> unat (0x7f :: u8)" by (simp add: word_le_nat_alt)
  then show ?thesis by simp
qed

lemma scan_ok:
  assumes ok: "kb_ok k" and e: "extendCount k = 0 \<or> extendCount k = 1"
    and edges: "key_edges (PS2flags k) (pressed (keyBitVector k)) [(extendCount k + 1, data)] = (cs, S)"
  obtains r k' where "scan_code E data k = Some (r, k')" "kb_ok k'" "queued k' = enqueue (queued k) (stamped (kb_clock E) (kb_ticks k) cs)"
      "kb_ticks k' = kb_ticks k + length cs" "pressed (keyBitVector k') = S"
    and "PS2flags k' = PS2flags k" "lastdata k' = lastdata k" "extendCount k' = 0"
proof -
  define n where "n = 256 * unat (extendCount k) + unat (data AND 0x7f)"
  have n: "raw_key (extendCount k + 1, data) = n" "n < 512" "n div 32 < 16"
    using e unat_mask_7f [of data] by (auto simp: raw_key_def n_def)
  let ?k0 = "k\<lparr>extendCount := 0\<rparr>"
  have k0: "(if extendCount k = 0 then 0 else extendCount k - 1) = 0" using e by auto
  have tab: "length (PS2flags k) = 512" "length (keyBitVector k) = 16" using ok by (simp_all add: kb_ok_def tables_ok_def)
  then have fl: "idx (PS2flags k) n = Some (PS2flags k ! n)" using n by (simp add: idx_Some)
  have eq: "scan_code E data k =
      (case if isset (PS2flags k ! n) kBreaklessKey then Some (keyBitVector k)
            else key_edge n (isset data kSC_UpBit) (keyBitVector k) of
         None \<Rightarrow> Some (kPS2IR_packetBuffering, ?k0)
       | Some v \<Rightarrow> do {
           k \<leftarrow> buffer_packet E (extendCount k + 1) data (?k0\<lparr>keyBitVector := v\<rparr>);
           Some (kPS2IR_packetReady, k) })"
    unfolding scan_code_def Let_def k0 using n(3) by (simp add: n_def [symmetric] fl tab)
  show thesis
  proof (cases "if isset (PS2flags k ! n) kBreaklessKey then Some (keyBitVector k)
            else key_edge n (isset data kSC_UpBit) (keyBitVector k)")
    case None
    then have "cs = [] \<and> S = pressed (keyBitVector k)"
      using edges n tab e kbv.is_down [OF tab(2) n(2)] by (auto simp: key_edge_def split: if_splits)
    then show thesis using that [of _ ?k0] eq None kb_ok_prefix [OF ok, of 0] by (simp add: enqueue_def queued_def)
  next
    case (Some v)
    have v: "length v = 16" "cs = [(extendCount k + 1, data)]" "pressed v = S"
      using Some edges n tab e kbv.keys_down [OF tab(2) n(2)] kbv.keys_up [OF tab(2) n(2)] kbv.is_down [OF tab(2) n(2)]
        kbv.valid_up [OF tab(2) n(2)] kbv.valid_down [OF tab(2) n(2)]
      by (auto simp: key_edge_def split: if_splits)
    have ok0: "kb_ok (?k0\<lparr>keyBitVector := v\<rparr>)" by (rule kb_ok_vector [OF kb_ok_prefix [OF ok] v(1)]) simp
    obtain k' where "buffer_packet E (extendCount k + 1) data (?k0\<lparr>keyBitVector := v\<rparr>) = Some k'" "kb_ok k'"
        "queued k' = enqueue (queued (?k0\<lparr>keyBitVector := v\<rparr>)) (stamped (kb_clock E) (kb_ticks k) [(extendCount k + 1, data)])"
        "kb_ticks k' = kb_ticks k + 1" "extendCount k' = 0"
        "lastdata k' = lastdata k" "keyBitVector k' = v" "PS2flags k' = PS2flags k"
      by (rule buffer_queued [OF ok0, of E "extendCount k + 1" data]) simp
    then show thesis using that [of _ k'] eq Some v by (simp add: queued_def)
  qed
qed

section \<open>Simulation\<close>

lemma enqueue_Nil [simp]: "enqueue q [] = q"
  by (simp add: enqueue_def)

lemma enqueue_append: "enqueue (enqueue q xs) ys = enqueue q (xs @ ys)"
  by (simp add: enqueue_def min_def)

lemma key_edges_append:
  "key_edges fl S (cs @ ds) =
     (fst (key_edges fl S cs) @ fst (key_edges fl (snd (key_edges fl S cs)) ds), snd (key_edges fl (snd (key_edges fl S cs)) ds))"
  by (induction fl S cs rule: key_edges.induct) (auto simp: apfst_def map_prod_def split: prod.splits)

definition sim :: "'m kb_env \<Rightarrow> 'm kbd \<Rightarrow> (u8 \<times> u8) list \<Rightarrow> 'm kbd \<Rightarrow> bool" where
  "sim E k cs k' \<longleftrightarrow> kb_ok k' \<and> PS2flags k' = PS2flags k
     \<and> queued k' = enqueue (queued k) (stamped (kb_clock E) (kb_ticks k) (fst (key_edges (PS2flags k) (pressed (keyBitVector k)) cs)))
     \<and> kb_ticks k' = kb_ticks k + length (fst (key_edges (PS2flags k) (pressed (keyBitVector k)) cs))
     \<and> pressed (keyBitVector k') = snd (key_edges (PS2flags k) (pressed (keyBitVector k)) cs)"

lemma sim_trans: "sim E a cs b \<Longrightarrow> sim E b ds c \<Longrightarrow> sim E a (cs @ ds) c"
  by (simp add: sim_def key_edges_append enqueue_append stamped_append)

lemma sim_silent:
  assumes "kb_ok k" "unat e \<le> 2"
  shows "sim E k [] (k\<lparr>lastdata := d, extendCount := e\<rparr>)"
  using kb_ok_prefix [OF kb_ok_last [OF assms(1)] assms(2)] by (simp add: sim_def queued_def)

lemma unat_le_2: "unat (e :: u8) \<le> 2 \<longleftrightarrow> e = 0 \<or> e = 1 \<or> e = 2"
  by (auto simp: word_unat_eq_iff)

definition interrupt_step :: "'m kb_env \<Rightarrow> u8 \<Rightarrow> 'm kbd \<Rightarrow> 'm kbd \<Rightarrow> bool" where
  "interrupt_step E b k k' \<longleftrightarrow> (\<exists>r cs. kb_interruptOccurred E b k = Some (r, k') \<and> sim E k cs k' \<and>
     (\<forall>bs. scan_codes (lastdata k) (unat (extendCount k)) (b # bs) = cs @ scan_codes (lastdata k') (unat (extendCount k')) bs))"

lemma interrupt_stepI:
  "kb_interruptOccurred E b k = Some (r, k') \<Longrightarrow> sim E k cs k' \<Longrightarrow>
   (\<And>bs. scan_codes (lastdata k) (unat (extendCount k)) (b # bs) = cs @ scan_codes (lastdata k') (unat (extendCount k')) bs)
   \<Longrightarrow> interrupt_step E b k k'"
  unfolding interrupt_step_def by blast

lemma interrupt_sim:
  assumes ok: "kb_ok k"
  shows "\<exists>k'. interrupt_step E b k k'"
proof -
  have e: "extendCount k = 0 \<or> extendCount k = 1 \<or> extendCount k = 2" using ok by (simp add: kb_ok_def unat_le_2)
  have silent: "sim E k [] (k\<lparr>lastdata := b, extendCount := x\<rparr>)" if "x = 0 \<or> x = 1 \<or> x = 2" for x
    using that ok by (intro sim_silent) auto
  consider (reset) "lastdata k = 0xaa" "b = 0"
    | (ack) "\<not> (lastdata k = 0xaa \<and> b = 0)" "b = 0xfa \<or> b = 0xfe"
    | (prefix) "\<not> (lastdata k = 0xaa \<and> b = 0)" "b = 0xe0 \<or> b = 0xe1"
    | (drop) "\<not> (lastdata k = 0xaa \<and> b = 0)" "b \<notin> {0xfa, 0xfe, 0xe0, 0xe1}" "extendCount k = 2"
    | (code) "\<not> (lastdata k = 0xaa \<and> b = 0)" "b \<notin> {0xfa, 0xfe, 0xe0, 0xe1}" "extendCount k = 0 \<or> extendCount k = 1"
    using e by auto
  then show ?thesis
  proof cases
    case reset
    obtain k1 where k1: "buffer_packet E 0 0xaa k = Some k1" "kb_ok k1" "queued k1 = enqueue (queued k) (stamped (kb_clock E) (kb_ticks k) [(0, 0xaa)])"
        "kb_ticks k1 = kb_ticks k + 1"
        "extendCount k1 = extendCount k" "lastdata k1 = lastdata k" "keyBitVector k1 = keyBitVector k" "PS2flags k1 = PS2flags k"
      by (rule buffer_queued [OF ok])
    have "sim E k [(0, 0xaa)] (k1\<lparr>extendCount := 0\<rparr>)"
      using k1 kb_ok_prefix [OF k1(2), of 0] by (simp add: sim_def queued_def)
    then have "interrupt_step E b k (k1\<lparr>extendCount := 0\<rparr>)"
      by (rule interrupt_stepI [rotated]) (simp_all add: kb_interruptOccurred_def reset k1)
    then show ?thesis by blast
  next
    case ack
    have "sim E k [] (k\<lparr>lastdata := b\<rparr>)" using kb_ok_last [OF ok, of b] by (simp add: sim_def queued_def)
    then have "interrupt_step E b k (k\<lparr>lastdata := b\<rparr>)"
      by (rule interrupt_stepI [rotated]) (use ack in \<open>auto simp: kb_interruptOccurred_def Let_def\<close>)
    then show ?thesis by blast
  next
    case prefix
    let ?e = "if b = 0xe0 then 1 else 2 :: u8"
    have "sim E k [] (k\<lparr>lastdata := b, extendCount := ?e\<rparr>)" by (rule silent) simp
    then have "interrupt_step E b k (k\<lparr>lastdata := b, extendCount := ?e\<rparr>)"
      by (rule interrupt_stepI [rotated]) (use prefix in \<open>auto simp: kb_interruptOccurred_def Let_def\<close>)
    then show ?thesis by blast
  next
    case drop
    have "sim E k [] (k\<lparr>lastdata := b, extendCount := 1\<rparr>)" by (rule silent) simp
    then have "interrupt_step E b k (k\<lparr>lastdata := b, extendCount := 1\<rparr>)"
      by (rule interrupt_stepI [rotated]) (use drop in \<open>auto simp: kb_interruptOccurred_def Let_def scan_code_def\<close>)
    then show ?thesis by blast
  next
    case code
    obtain cs S where c: "key_edges (PS2flags k) (pressed (keyBitVector k)) [(extendCount k + 1, b)] = (cs, S)" by fastforce
    let ?k = "k\<lparr>lastdata := b\<rparr>"
    obtain r k' where "scan_code E b ?k = Some (r, k')" "kb_ok k'" "queued k' = enqueue (queued ?k) (stamped (kb_clock E) (kb_ticks ?k) cs)"
        "kb_ticks k' = kb_ticks ?k + length cs" "pressed (keyBitVector k') = S"
        "PS2flags k' = PS2flags ?k" "lastdata k' = lastdata ?k" "extendCount k' = 0"
      by (rule scan_ok [OF kb_ok_last [OF ok], of b b cs S E]) (use code c in simp_all)
    then have "sim E k [(extendCount k + 1, b)] k'" "kb_interruptOccurred E b k = Some (r, k')"
        "lastdata k' = b" "extendCount k' = 0"
      using c code by (auto simp: sim_def queued_def kb_interruptOccurred_def Let_def)
    then have "interrupt_step E b k k'" using code by (intro interrupt_stepI [where cs = "[(extendCount k + 1, b)]"]) auto
    then show ?thesis by blast
  qed
qed

lemma interrupts_sim:
  "kb_ok k \<Longrightarrow> \<exists>k'. kb_interrupts E bs k = Some k' \<and> sim E k (scan_codes (lastdata k) (unat (extendCount k)) bs) k'"
proof (induction bs arbitrary: k)
  case Nil
  then show ?case by (simp add: sim_def)
next
  case (Cons b bs)
  obtain r k1 cs where k1: "kb_interruptOccurred E b k = Some (r, k1)" "sim E k cs k1"
      "scan_codes (lastdata k) (unat (extendCount k)) (b # bs) = cs @ scan_codes (lastdata k1) (unat (extendCount k1)) bs"
    using interrupt_sim [OF Cons.prems] unfolding interrupt_step_def by blast
  then show ?case using Cons.IH [of k1] sim_trans [OF k1(2)] by (auto simp: sim_def)
qed

end
