(* ===== verification/KeyboardProps.thy ===== *)
theory KeyboardProps
  imports KeyboardInput KeyboardSafety
begin

text \<open>
  What the keyboard driver guarantees: no event makes it fail, scan codes become a set of pressed keys and a queue of
  events, and settings, special keys and the trackpad driver work together.
\<close>

section \<open>A trackpad behind the keyboard\<close>

text \<open>A desk: a trackpad that takes the messages, requests that are answered at once, two brightness steps.\<close>

definition answer_all :: "'m submit" where
  "answer_all cs m = Some (length cs, cs, m)"

interpretation answer_all: returning_port answer_all
  by unfold_locales (simp_all add: answer_all_def)

definition desk_env :: "touchpad kb_env" where
  "desk_env = \<lparr>kb_clock = \<lparr>uptime = of_nat, to_ns = (\<lambda>t. t)\<rparr>, kb_message = receiveMessage, kb_submit = (\<lambda>cs m. m),
     kb_submit_block = answer_all, kb_set_command_byte = (\<lambda>s c m. Some m), kb_install = (\<lambda>h b m. Some m),
     kb_bqc = (\<lambda>m. Some 50), kb_kkqc = (\<lambda>m. None), kb_version_major = 16, kb_hid_system = True, kb_junk = False\<rparr>"

lemma desk_returning: "kb_returning desk_env"
  using answer_all.returning_port_axioms by (simp add: kb_returning_def desk_env_def)

section \<open>Every operation\<close>

datatype kb_op = Byte u8 | RunPacketReady | MacroTimerFires | SleepTimerFires | Notification u32 | Swipe swipe_message
  | AlphaLock bool | NumLock bool | Settings "kb_settings option" | Power u64 bool

definition kb_op_step :: "'m kb_env \<Rightarrow> kb_op \<Rightarrow> 'm kbd \<Rightarrow> 'm kbd option" where
  "kb_op_step E x k =
     (case x of
        Byte b \<Rightarrow> map_option snd (kb_interruptOccurred E b k)
      | RunPacketReady \<Rightarrow> kb_packetReady E k
      | MacroTimerFires \<Rightarrow> onMacroTimer E k
      | SleepTimerFires \<Rightarrow> Some (onSleepEjectTimer E k)
      | Notification arg \<Rightarrow> kb_acpi_message E arg k
      | Swipe sw \<Rightarrow> kb_receiveMessage E sw k
      | AlphaLock b \<Rightarrow> Some (setAlphaLockFeedback E b k)
      | NumLock b \<Rightarrow> Some (setNumLockFeedback E b k)
      | Settings d \<Rightarrow> Some (kb_setParamPropertiesGated d k)
      | Power t on \<Rightarrow> setDevicePowerState E t on k)"

primrec kb_run :: "'m kb_env \<Rightarrow> kb_op list \<Rightarrow> 'm kbd \<Rightarrow> 'm kbd option" where
  "kb_run E [] k = Some k"
| "kb_run E (x # xs) k = do { k \<leftarrow> kb_op_step E x k; kb_run E xs k }"

lemma op_ok:
  assumes E: "kb_returning E" and ok: "kb_ok k"
  shows "\<exists>k'. kb_op_step E x k = Some k' \<and> kb_ok k'"
proof (cases x)
  case (Byte b)
  obtain r k' cs where "kb_interruptOccurred E b k = Some (r, k')" "sim E k cs k'"
    using interrupt_sim [OF ok, of E b] unfolding interrupt_step_def by blast
  then show ?thesis using Byte by (simp add: kb_op_step_def sim_def)
next
  case SleepTimerFires
  then show ?thesis using kb_ok_step [OF ok timer_step] by (simp add: kb_op_step_def)
next
  case (Power t on)
  have "\<exists>k'. initKeyboard E t k = Some k' \<and> kb_ok k'" by (rule initKeyboard_ok [OF E ok]) blast
  moreover have "\<exists>k'. setKeyboardEnable E False k = Some k' \<and> kb_ok k'" by (rule enable_ok [OF E ok]) blast
  ultimately show ?thesis using Power by (simp add: kb_op_step_def setDevicePowerState_def)
next
  case RunPacketReady
  then show ?thesis using packetReady_ok [OF ok, of E] by (auto simp: kb_op_step_def)
qed (use macro_timer_ok [OF ok] acpi_ok [OF ok] swipe_ok [OF ok] feedback_ok [OF ok] settings_ok [OF ok]
  in \<open>auto simp: kb_op_step_def\<close>)

lemma run_ok: "kb_returning E \<Longrightarrow> kb_ok k \<Longrightarrow> \<exists>k'. kb_run E xs k = Some k' \<and> kb_ok k'"
proof (induction xs arbitrary: k)
  case (Cons x xs)
  then show ?case using op_ok [OF Cons.prems, of x] by auto
qed simp

text \<open>
  C5. The keyboard driver never accesses memory outside its tables and buffers: after \<open>init\<close> with any platform
  profile (remappings, macros, actions) and \<open>start\<close>, every sequence of scan codes, work-loop runs, timers, ACPI
  notifications, swipe messages, LED and power changes and settings succeeds, and so does \<open>stop\<close>, which leaves no handler
  installed, provided that blocking requests return.
\<close>

theorem keyboard_never_traps:
  assumes "kb_returning E" and "kb_init m config = Some k"
  shows "\<exists>b k1 k2 k3. kb_start E t gate timer acpi bcl kkcl k = Some (b, k1) \<and> kb_run E xs k1 = Some k2 \<and> kb_ok k2
    \<and> kb_stop E k2 = Some k3 \<and> handlersInstalled k3 = []"
proof -
  obtain b k1 where k1: "kb_start E t gate timer acpi bcl kkcl k = Some (b, k1)" "kb_ok k1"
    using start_ok [OF assms(1) init_ok [OF assms(2)]] by blast
  obtain k2 where k2: "kb_run E xs k1 = Some k2" "kb_ok k2" using run_ok [OF assms(1) k1(2)] by blast
  show ?thesis using k1(1) k2 stop_ok [OF assms(1) k2(2)] by blast
qed


lemma keyboard_never_traps_witness:
  "\<exists>b k1 k2 k3. kb_start desk_env 0 True True True (Some (replicate 5 (Some 20))) None (the (kb_init new_touchpad None)) = Some (b, k1)
     \<and> kb_run desk_env [Byte 0xe0, Byte 0x1d, Byte 0x9d, RunPacketReady, Swipe SwipeUp, Notification 0x0305, Power 0 True] k1 = Some k2 \<and> kb_ok k2
     \<and> kb_stop desk_env k2 = Some k3 \<and> handlersInstalled k3 = []"
  by (rule keyboard_never_traps [OF desk_returning, of new_touchpad None]) (simp add: kb_init_def Let_def)

section \<open>Scan codes\<close>

text \<open>
  C3. The interrupt routine refines an abstract keyboard: a stream of bytes is a sequence of scan codes with the
  prefixes \<open>e0\<close> and \<open>e1\<close>, acknowledgements apart; a set of keys tells which are down, so that the repetitions of a
  key that is held are left out; what remains is appended to the queue of packets in order, with the time of the
  interrupt, as far as its 31 places reach; the key bit vector is that set.
\<close>

theorem interrupts_refine_key_set:
  assumes "kb_ok k"
    and "key_edges (PS2flags k) (pressed (keyBitVector k)) (scan_codes (lastdata k) (unat (extendCount k)) bs) = (cs, S)"
  shows "\<exists>k'. kb_interrupts E bs k = Some k' \<and> queued k' = queued k @ take (31 - length (queued k)) (stamped (kb_clock E) (kb_ticks k) cs)
    \<and> pressed (keyBitVector k') = S"
  using interrupts_sim [OF assms(1), of E bs] assms(2) by (auto simp: sim_def enqueue_def)

lemma interrupts_refine_key_set_witness:
  "\<exists>k'. kb_interrupts desk_env [0x1e, 0x1e, 0xe0, 0x1d, 0x9e, 0xe1, 0x1d, 0x45] (kb_blank new_touchpad) = Some k'
    \<and> queued k' = [((1, 0x1e), 0), ((2, 0x1d), 1), ((1, 0x9e), 2), ((2, 0x45), 3)] \<and> pressed (keyBitVector k') = {0x11d, 0x145}"
proof -
  have "pressed (keyBitVector (kb_blank new_touchpad)) = {}"
    by (auto simp: kb_blank_def pressed_def KBV_bit less_mult_imp_div_less)
  moreover have "queued (kb_blank new_touchpad) = []"
    by (simp add: queued_def kb_blank_def packets_def contents_def ring_count_def count2_def chunks.simps)
  moreover have fl: "PS2flags (kb_blank new_touchpad) = PS2flagsStock" "lastdata (kb_blank new_touchpad) = 0" "extendCount (kb_blank new_touchpad) = 0"
      "kb_ticks (kb_blank new_touchpad) = 0" "kb_clock desk_env = \<lparr>uptime = of_nat, to_ns = (\<lambda>t. t)\<rparr>"
    by (simp_all add: kb_blank_def desk_env_def)
  moreover have "key_edges PS2flagsStock {} (scan_codes 0 0 [0x1e, 0x1e, 0xe0, 0x1d, 0x9e, 0xe1, 0x1d, 0x45])
     = ([(1, 0x1e), (2, 0x1d), (1, 0x9e), (2, 0x45)], {0x11d, 0x145})"
    by (simp add: raw_key_def stock_defs) auto
  ultimately show ?thesis
    using interrupts_refine_key_set [where k = "kb_blank new_touchpad" and bs = "[0x1e, 0x1e, 0xe0, 0x1d, 0x9e, 0xe1, 0x1d, 0x45]" and E = desk_env, OF blank_ok]
    by auto
qed

end
