(* ===== verification/KeyboardEvents.thy ===== *)
theory KeyboardEvents
  imports KeyboardProps
begin

text \<open>
  From bytes to events: the keys that no special handling touches.
\<close>

section \<open>Ordinary keys\<close>

definition adb_of :: "'m kbd \<Rightarrow> u8 \<times> u8 \<Rightarrow> u8" where
  "adb_of k c = PS2ToADBMap k ! unat (PS2ToPS2Map k ! raw_key c)"

text \<open>Keys that are neither remapped to a special key or an ACPI method, nor breakless, nor caps lock, eject or brightness.\<close>

definition ordinary :: "'m kbd \<Rightarrow> u8 \<times> u8 \<Rightarrow> bool" where
  "ordinary k c \<longleftrightarrow> (fst c = 1 \<and> snd c \<notin> {0xf1, 0xf2} \<or> fst c = 2 \<and> raw_key c \<noteq> 0x12a)
     \<and> unat (PS2ToPS2Map k ! raw_key c) \<notin> {0, 0x4e, 0x4a, 0x153, 0x15f, 0x128, 0x137, 0x127} \<union> {0x1f0..0x1ff}
     \<and> \<not> isset (PS2flags k ! raw_key c) kBreaklessKey \<and> adb_of k c \<notin> {0x90, 0x91, 0x92, 0x39}"

definition is_press :: "u8 \<times> u8 \<Rightarrow> bool" where
  "is_press c \<longleftrightarrow> \<not> isset (snd c) 0x80"

lemma message_frame:
  "PS2flags (snd (dispatchMouseMessage E msg k)) = PS2flags k" "kb_out (snd (dispatchMouseMessage E msg k)) = kb_out k"
  "kb_ticks (snd (dispatchMouseMessage E msg k)) = kb_ticks k"
  by (simp_all add: dispatchMouseMessage_def split: prod.split)

lemma track_frame:
  "PS2ToADBMap (track_modifier fl down k) = PS2ToADBMap k" "PS2flags (track_modifier fl down k) = PS2flags k"
  "kb_out (track_modifier fl down k) = kb_out k" "kb_ticks (track_modifier fl down k) = kb_ticks k"
  by (simp_all add: track_modifier_def Let_def)

lemma ordinary_dispatch:
  assumes ok: "tables_ok k" and o: "ordinary k (p ! 0, p ! 1)" and p: "length p = 16"
  obtains k' where "dispatchKeyboardEventWithPacket E p k = Some (True, k')" "kb_step k k'"
    "kb_out k' = kb_out k @ [KeyEvent (ucast (adb_of k (p ! 0, p ! 1))) (is_press (p ! 0, p ! 1)) (packet_time p)]"
    "kb_ticks k' = kb_ticks k"
proof -
  let ?c = "(p ! 0, p ! 1)"
  have e: "p ! 0 = 1 \<or> p ! 0 = 2" using o by (auto simp: ordinary_def)
  have raw: "unat (p ! 1 AND 0x7f) + (if p ! 0 - 1 = 0 then 0 else KBV_NUM_SCANCODES) = raw_key ?c" "raw_key ?c < 512"
    using e unat_mask_7f [of "p ! 1"] by (auto simp: raw_key_def)
  let ?key = "unat (PS2ToPS2Map k ! raw_key ?c)" and ?fl = "PS2flags k ! raw_key ?c" and ?down = "\<not> isset (p ! 1) kSC_UpBit"
  let ?k1 = "track_modifier ?fl ?down k"
  have key: "?key < 512" using ok raw(2) by (simp add: tables_ok_def codes_ok_def)
  have i: "idx p 0 = Some (p ! 0)" "idx p 1 = Some (p ! 1)" "idx (PS2ToPS2Map k) (raw_key ?c) = Some (PS2ToPS2Map k ! raw_key ?c)"
      "idx (PS2flags k) (raw_key ?c) = Some ?fl"
    using p ok raw(2) by (simp_all add: idx_Some tables_ok_def codes_ok_def)
  have s1: "kb_step k ?k1" by (rule track_step)
  have a: "special_key E ?key ?down (packet_time p) ?k1 = Some (?key, ?k1)"
    using o by (simp add: ordinary_def special_key_def)
  let ?k2 = "snd (dispatchMouseMessage E (NotifyKeyPressed \<lparr>ki_time = to_ns (kb_clock E) (packet_time p), adbKeyCode = ucast (adb_of k ?c), goingDown = ?down\<rparr>) ?k1)"
  let ?k3 = "dispatchKeyboardEventX (adb_of k ?c) ?down (packet_time p) ?k2"
  have s3: "kb_step k ?k3"
    using kb_step_trans [OF kb_step_trans [OF s1 kb_step_message] kb_step_event] by (metis prod.collapse)
  have m: "PS2flags ?k2 = PS2flags k" "kb_out ?k2 = kb_out k" "kb_ticks ?k2 = kb_ticks k"
    unfolding message_frame track_frame by (rule refl)+
  have "finish_key E (raw_key ?c) ?key ?down (packet_time p) ?k1 = Some ?k3"
    using o i(4) key ok unfolding finish_key_def special_adb_def track_frame(1)
    by (simp add: ordinary_def adb_of_def [symmetric] idx_Some tables_ok_def Let_def message_frame track_frame send_key_def)
  moreover have no: "\<not> (p ! 0 - 1 = 0 \<and> (p ! 1 = 0xf2 \<or> p ! 1 = 0xf1))" "\<not> (p ! 0 - 1 \<noteq> 0 \<and> raw_key ?c = 0x12a)"
      "\<not> (0x1f0 \<le> ?key \<and> ?key \<le> 0x1ff \<and> kb_provider ?k1)"
    using o by (auto simp: ordinary_def)
  ultimately have "dispatchKeyboardEventWithPacket E p k = Some (True, ?k3)"
    unfolding dispatchKeyboardEventWithPacket_def i(1,2) Option.bind.bind_lunit Let_def raw(1) i(3,4) if_not_P [OF no(1)] if_not_P [OF no(2)]
      if_not_P [OF no(3)] a prod.case by simp
  then show thesis using that s3 m by (simp add: dispatchKeyboardEventX_def kb_emit_def is_press_def)
qed

lemma ordinary_cong:
  "PS2ToADBMap k' = PS2ToADBMap k \<Longrightarrow> PS2ToPS2Map k' = PS2ToPS2Map k \<Longrightarrow> PS2flags k' = PS2flags k
    \<Longrightarrow> adb_of k' c = adb_of k c \<and> ordinary k' c = ordinary k c"
  by (simp add: ordinary_def adb_of_def)

definition event_of :: "'m kbd \<Rightarrow> (u8 \<times> u8) \<times> u64 \<Rightarrow> kb_event" where
  "event_of k ct = KeyEvent (ucast (adb_of k (fst ct))) (is_press (fst ct)) (snd ct)"

lemma tail_ordinary:
  assumes ok: "kb_ok k" and none: "macroInversion k = None" and q: "queued k = ct # q" and o: "ordinary k (fst ct)"
  obtains k' where "kb_tail_packet E k = Some k'" "kb_ok k'" "macroInversion k' = None" "queued k' = q"
    "kb_out k' = kb_out k @ [event_of k ct]" "\<forall>c. adb_of k' c = adb_of k c \<and> ordinary k' c = ordinary k c"
proof -
  have slot: "slot_ok 512 16 (kb_ring k)" using ok by (simp add: kb_ok_def)
  have ne: "packets 512 16 (kb_ring k) \<noteq> []" using q by (auto simp: queued_def)
  let ?p = "tail_packet (kb_ring k) 16"
  have pk: "packets 512 16 (kb_ring k) = ?p # packets 512 16 (advanceTail 512 16 (kb_ring k))"
    by (rule slots.front_release [OF slot ne])
  have len: "length ?p = 16"
    using slot_room(3) [OF slot] slot by (simp add: tail_packet_def slot_ok_def ring_ok_def)
  have ct: "ct = ((?p ! 0, ?p ! 1), packet_time ?p)" and rest: "q = map (\<lambda>p. ((p ! 0, p ! 1), packet_time p)) (packets 512 16 (advanceTail 512 16 (kb_ring k)))"
    using q by (simp_all add: queued_def pk)
  obtain k1 where k1: "dispatchKeyboardEventWithPacket E ?p k = Some (True, k1)" "kb_step k k1"
      "kb_out k1 = kb_out k @ [KeyEvent (ucast (adb_of k (?p ! 0, ?p ! 1))) (is_press (?p ! 0, ?p ! 1)) (packet_time ?p)]"
    by (rule ordinary_dispatch [of k ?p E]) (use ok o ct len in \<open>simp_all add: kb_ok_def\<close>)
  have p0: "?p ! 0 \<noteq> 0" using o ct by (auto simp: ordinary_def)
  let ?k = "k1\<lparr>kb_ring := advanceTail 512 16 (kb_ring k)\<rparr>"
  have same: "kb_ring k1 = kb_ring k" "macroInversion k1 = None" using kb_step_fields [OF k1(2)] none by simp_all
  have "kb_tail_packet E k = Some ?k"
    using k1(1) p0 len by (simp add: kb_tail_packet_def idx_Some dispatch_or_invert_def none same)
  moreover have "kb_ok ?k"
    using kb_ok_step [OF ok k1(2)] slot_ok_advanceTail [OF slot] macro_ok_cong [of ?k k1] by (simp add: kb_ok_def tables_ok_def)
  moreover have "kb_out ?k = kb_out k @ [event_of k ct]" using k1(3) ct by (simp add: event_of_def)
  moreover have "queued ?k = q" by (simp add: queued_def rest)
  moreover have "\<forall>c. adb_of ?k c = adb_of k c \<and> ordinary ?k c = ordinary k c"
    by (intro allI ordinary_cong) (use kb_step_fields [OF k1(2)] in simp_all)
  ultimately show thesis using that same by simp
qed

lemma ready_ordinary:
  "kb_ok k \<Longrightarrow> macroInversion k = None \<Longrightarrow> \<forall>ct \<in> set (queued k). ordinary k (fst ct) \<Longrightarrow>
     \<exists>k'. kb_packetReady E k = Some k' \<and> queued k' = [] \<and> kb_out k' = kb_out k @ map (event_of k) (queued k)"
proof (induction "queued k" arbitrary: k)
  case Nil
  have "\<not> 16 \<le> ring_count 512 (kb_ring k)"
    using Nil slots.ready_iff [of 512 16 "kb_ring k"] by (simp add: kb_ok_def queued_def)
  then show ?case using Nil by (subst kb_packetReady.simps) simp
next
  case (Cons ct q)
  have r: "16 \<le> ring_count 512 (kb_ring k)"
    using Cons slots.ready_iff [of 512 16 "kb_ring k"] by (auto simp: kb_ok_def queued_def)
  have o: "ordinary k (fst ct)" using Cons by (metis list.set_intros(1))
  obtain k1 where k1: "kb_tail_packet E k = Some k1" "kb_ok k1" "macroInversion k1 = None" "queued k1 = q"
      "kb_out k1 = kb_out k @ [event_of k ct]" "\<forall>c. adb_of k1 c = adb_of k c \<and> ordinary k1 c = ordinary k c"
    by (rule tail_ordinary [OF Cons.prems(1,2) Cons.hyps(2) [symmetric] o])
  have "\<forall>ct \<in> set (queued k1). ordinary k1 (fst ct)" using Cons k1(4,6) by (metis list.set_intros(2))
  then obtain k2 where k2: "kb_packetReady E k1 = Some k2" "queued k2 = []" "kb_out k2 = kb_out k1 @ map (event_of k1) (queued k1)"
    using Cons.hyps(1) [OF k1(4) [symmetric] k1(2,3)] by blast
  have "event_of k1 = event_of k" using k1(6) by (simp add: event_of_def fun_eq_iff)
  then show ?case using r k1(1,4,5) k2 Cons.hyps(2) [symmetric] by (subst kb_packetReady.simps) simp
qed

section \<open>Bytes in, events out\<close>

lemma buffer_frame:
  "buffer_packet E a b k = Some k' \<Longrightarrow> kb_out k' = kb_out k \<and> PS2ToADBMap k' = PS2ToADBMap k \<and> PS2ToPS2Map k' = PS2ToPS2Map k
     \<and> PS2flags k' = PS2flags k \<and> macroInversion k' = macroInversion k"
  by (auto simp: buffer_packet_def kb_uptime_def Let_def bind_eq_Some_conv simp del: stage_all.simps)

lemma interrupt_frame:
  "kb_interruptOccurred E b k = Some (r, k') \<Longrightarrow> kb_out k' = kb_out k \<and> PS2ToADBMap k' = PS2ToADBMap k \<and> PS2ToPS2Map k' = PS2ToPS2Map k
     \<and> PS2flags k' = PS2flags k \<and> macroInversion k' = macroInversion k"
  by (auto simp: kb_interruptOccurred_def scan_code_def Let_def bind_eq_Some_conv dest!: buffer_frame split: if_splits option.splits)

lemma interrupts_frame:
  "kb_interrupts E bs k = Some k' \<Longrightarrow> kb_out k' = kb_out k \<and> PS2ToADBMap k' = PS2ToADBMap k \<and> PS2ToPS2Map k' = PS2ToPS2Map k
     \<and> PS2flags k' = PS2flags k \<and> macroInversion k' = macroInversion k"
  by (induction bs arbitrary: k) (auto simp: bind_eq_Some_conv dest!: interrupt_frame)

lemma interrupts_ready:
  assumes "kb_ok k" and "queued k = []" and "macroInversion k = None"
    and "key_edges (PS2flags k) (pressed (keyBitVector k)) (scan_codes (lastdata k) (unat (extendCount k)) bs) = (cs, S)"
    and "length cs \<le> 31" and "\<forall>c \<in> set cs. ordinary k c" and k1: "kb_interrupts E bs k = Some k1"
  obtains k2 where "kb_packetReady E k1 = Some k2" "queued k2 = []"
    "kb_out k2 = kb_out k @ map (\<lambda>(c, t). KeyEvent (ucast (adb_of k c)) (is_press c) t) (stamped (kb_clock E) (kb_ticks k) cs)"
proof -
  have sim: "sim E k (scan_codes (lastdata k) (unat (extendCount k)) bs) k1"
    using interrupts_sim [OF assms(1), of E bs] k1 by simp
  have q: "queued k1 = stamped (kb_clock E) (kb_ticks k) cs" "kb_ok k1"
    using sim assms(2,4,5) by (simp_all add: sim_def enqueue_def)
  have f: "kb_out k1 = kb_out k" "macroInversion k1 = None" "adb_of k1 c = adb_of k c \<and> ordinary k1 c = ordinary k c" for c
    using interrupts_frame [OF k1] ordinary_cong [of k1 k c] assms(3) by simp_all
  have "ct \<in> set (stamped C n ds) \<Longrightarrow> fst ct \<in> set ds" for ct :: "(u8 \<times> u8) \<times> u64" and C n ds
    by (metis image_eqI list.set_map map_fst_stamped(1))
  then have "\<forall>ct \<in> set (queued k1). ordinary k1 (fst ct)" using assms(6) by (auto simp: q(1) f(3))
  from ready_ordinary [OF q(2) f(2) this, of E] obtain k2
    where "kb_packetReady E k1 = Some k2" "queued k2 = []" "kb_out k2 = kb_out k1 @ map (event_of k1) (queued k1)" by blast
  then show thesis using that f by (auto simp: q(1) event_of_def split_beta)
qed

text \<open>
  C9. Keys are reported as typed: when a stream of bytes holds at most 31 new presses and releases, all of ordinary keys,
  then after the next work-loop run the events sent to the system are exactly those, in order, each with the ADB code
  that the tables give and with the time of its interrupt.
\<close>

theorem keys_reported_as_typed:
  assumes "kb_ok k" and "queued k = []" and "macroInversion k = None"
    and "key_edges (PS2flags k) (pressed (keyBitVector k)) (scan_codes (lastdata k) (unat (extendCount k)) bs) = (cs, S)"
    and "length cs \<le> 31" and "\<forall>c \<in> set cs. ordinary k c"
  shows "\<exists>k1 k2. kb_interrupts E bs k = Some k1 \<and> kb_packetReady E k1 = Some k2 \<and> queued k2 = []
    \<and> kb_out k2 = kb_out k @ map (\<lambda>(c, t). KeyEvent (ucast (adb_of k c)) (is_press c) t) (stamped (kb_clock E) (kb_ticks k) cs)"
proof -
  obtain k1 where k1: "kb_interrupts E bs k = Some k1" using interrupts_sim [OF assms(1)] by blast
  then show ?thesis by (rule interrupts_ready [OF assms]) (use k1 in simp)
qed

definition stock_keyboard :: "touchpad kbd" where
  "stock_keyboard = (kb_blank new_touchpad)\<lparr>PS2ToADBMap := PS2ToADBMapStock\<rparr>"

lemma stock_keyboard_init: "kb_init new_touchpad None = Some stock_keyboard"
  by (simp add: kb_init_def stock_keyboard_def Let_def kb_setParamPropertiesGated_def kb_blank_def)

lemma stock_keyboard_fields:
  "PS2flags stock_keyboard = PS2flagsStock" "lastdata stock_keyboard = 0" "extendCount stock_keyboard = 0" "kb_ticks stock_keyboard = 0"
  "PS2ToADBMap stock_keyboard = PS2ToADBMapStock" "PS2ToPS2Map stock_keyboard = map of_nat [0..<512]" "kb_out stock_keyboard = []"
  "macroInversion stock_keyboard = None" "queued stock_keyboard = []" "pressed (keyBitVector stock_keyboard) = {}"
  by (auto simp: stock_keyboard_def kb_blank_def queued_def packets_def contents_def ring_count_def count2_def chunks.simps
      pressed_def KBV_bit less_mult_imp_div_less)

lemma keys_reported_as_typed_witness:
  "\<exists>k1 k2. kb_interrupts desk_env [0xe0, 0x1d, 0x2e, 0x2e, 0xae] stock_keyboard = Some k1 \<and> kb_packetReady desk_env k1 = Some k2
     \<and> queued k2 = [] \<and> kb_out k2 = [KeyEvent 0x3e True 0, KeyEvent 0x08 True 1, KeyEvent 0x08 False 2]"
proof -
  have edges: "key_edges PS2flagsStock {} (scan_codes 0 0 [0xe0, 0x1d, 0x2e, 0x2e, 0xae]) = ([(2, 0x1d), (1, 0x2e), (1, 0xae)], {0x11d})"
    by (simp add: raw_key_def stock_defs)
  have adb: "adb_of stock_keyboard (2, 0x1d) = 0x3e" "adb_of stock_keyboard (1, 0x2e) = 0x08" "adb_of stock_keyboard (1, 0xae) = 0x08"
    by (simp_all add: adb_of_def raw_key_def stock_keyboard_fields stock_defs)
  have flags: "PS2flagsStock ! 0x11d AND 1 = 0" "PS2flagsStock ! 0x2e AND 1 = 0"
    by (simp_all add: stock_defs)
  have "ordinary stock_keyboard c" if "c \<in> {(2, 0x1d), (1, 0x2e), (1, 0xae)}" for c
    using that adb flags by (auto simp: ordinary_def raw_key_def stock_keyboard_fields)
  moreover have "kb_clock desk_env = \<lparr>uptime = of_nat, to_ns = (\<lambda>t. t)\<rparr>" by (simp add: desk_env_def)
  ultimately show ?thesis
    using keys_reported_as_typed [where k = stock_keyboard and bs = "[0xe0, 0x1d, 0x2e, 0x2e, 0xae]" and E = desk_env
        and cs = "[(2, 0x1d), (1, 0x2e), (1, 0xae)]" and S = "{0x11d}", OF init_ok [OF stock_keyboard_init]]
    by (simp add: stock_keyboard_fields edges adb is_press_def del: kb_interrupts.simps scan_codes.simps key_edges.simps)
qed

end
