(* ===== verification/KeyboardMacros.thy ===== *)
theory KeyboardMacros
  imports KeyboardEvents "HOL-Library.Sublist"
begin

text \<open>
  Macros: the packet loop holds packets back while they are the beginning of a macro, replaces a complete macro by its
  output and hands everything else on.  What leaves the macro buffer is what entered it, in order, with complete
  macros replaced.
\<close>

section \<open>What is handed on\<close>

text \<open>The packets that are held back, and the keys of packets and of a macro.\<close>

definition held :: "'m kbd \<Rightarrow> u8 list list" where
  "held k = (case macroBuffer k of Some buf \<Rightarrow> map (buffered_packet buf) [0..<macroCurrent k] | None \<Rightarrow> [])"

lemma held_cong: "macroBuffer k' = macroBuffer k \<Longrightarrow> macroCurrent k' = macroCurrent k \<Longrightarrow> held k' = held k"
  by (cases "macroBuffer k") (simp_all add: held_def)

lemma last_held: "macroBuffer k = Some buf \<Longrightarrow> 0 < macroCurrent k \<Longrightarrow> last (held k) = buffered_packet buf (macroCurrent k - 1)"
  by (simp add: held_def last_map)

abbreviation keys_of :: "u8 list list \<Rightarrow> u8 list" where "keys_of ps \<equiv> concat (map (take 2) ps)"

definition macro_keys :: "u8 list \<Rightarrow> u8 list" where "macro_keys d = drop kPrefixBytes d"

definition macro_output :: "u8 list \<Rightarrow> u8 list \<Rightarrow> u8 list" where "macro_output d p = p[0 := d ! 2, 1 := d ! 3]"

text \<open>Only the buffers and the macro timer change, and the clock is read.\<close>

definition waits :: "'m kbd \<Rightarrow> 'm kbd \<Rightarrow> bool" where
  "waits k k' \<longleftrightarrow> (\<exists>r b n t es. set es \<subseteq> insert (KbCancelTimer MacroTimer) (range (KbSetTimer MacroTimer)) \<and>
     k' = k\<lparr>kb_ring := r, macroBuffer := b, macroCurrent := n, kb_ticks := t, kb_out := kb_out k @ es\<rparr>)"

lemma waitsI: "set es \<subseteq> insert (KbCancelTimer MacroTimer) (range (KbSetTimer MacroTimer)) \<Longrightarrow>
    k' = k\<lparr>kb_ring := r, macroBuffer := b, macroCurrent := n, kb_ticks := t, kb_out := kb_out k @ es\<rparr> \<Longrightarrow> waits k k'"
  unfolding waits_def by blast

lemma waits_trans [trans]:
  assumes "waits a b" and "waits b c"
  shows "waits a c"
proof -
  obtain r s n t es r' s' n' t' es' where e: "set es \<subseteq> insert (KbCancelTimer MacroTimer) (range (KbSetTimer MacroTimer))"
      "b = a\<lparr>kb_ring := r, macroBuffer := s, macroCurrent := n, kb_ticks := t, kb_out := kb_out a @ es\<rparr>"
      "set es' \<subseteq> insert (KbCancelTimer MacroTimer) (range (KbSetTimer MacroTimer))"
      "c = b\<lparr>kb_ring := r', macroBuffer := s', macroCurrent := n', kb_ticks := t', kb_out := kb_out b @ es'\<rparr>"
    using assms unfolding waits_def by blast
  show ?thesis
    by (rule waitsI [where es = "es @ es'" and r = r' and b = s' and n = n' and t = t']) (use e(1,3) in \<open>simp_all add: e(2,4)\<close>)
qed

lemma waits_basic: "waits k k" "waits k (k\<lparr>kb_ring := r\<rparr>)" "waits k (k\<lparr>macroBuffer := b\<rparr>)" "waits k (k\<lparr>macroCurrent := n\<rparr>)"
    "waits k (kb_emit (KbCancelTimer MacroTimer) k)" "waits k (kb_emit (KbSetTimer MacroTimer u) k)" "waits k (k\<lparr>kb_ticks := t\<rparr>)"
  by (rule waitsI [where es = "[]" and r = "kb_ring k" and b = "macroBuffer k" and n = "macroCurrent k" and t = "kb_ticks k"]
        waitsI [where es = "[]" and r = r and b = "macroBuffer k" and n = "macroCurrent k" and t = "kb_ticks k"]
        waitsI [where es = "[]" and r = "kb_ring k" and b = b and n = "macroCurrent k" and t = "kb_ticks k"]
        waitsI [where es = "[]" and r = "kb_ring k" and b = "macroBuffer k" and n = n and t = "kb_ticks k"]
        waitsI [where es = "[KbCancelTimer MacroTimer]" and r = "kb_ring k" and b = "macroBuffer k" and n = "macroCurrent k" and t = "kb_ticks k"]
        waitsI [where es = "[KbSetTimer MacroTimer u]" and r = "kb_ring k" and b = "macroBuffer k" and n = "macroCurrent k" and t = "kb_ticks k"]
        waitsI [where es = "[]" and r = "kb_ring k" and b = "macroBuffer k" and n = "macroCurrent k" and t = t];
      simp add: kb_emit_def; fail)+

lemma waits_fields:
  assumes "waits k k'"
  shows "PS2modifierState k' = PS2modifierState k \<and> macroInversion k' = macroInversion k \<and> macroTimer k' = macroTimer k
    \<and> macroMaxTime k' = macroMaxTime k"
  using assms by (auto simp: waits_def)

text \<open>
  \<open>typed E ds k ps k'\<close>: from \<open>k\<close> to \<open>k'\<close> exactly the packets \<open>ps\<close> were consumed, in this order, each by a dispatch of
  the packet itself or together with others as the keys of a macro of \<open>ds\<close> whose condition on the modifiers holds, by a
  dispatch of the output of the macro with the time of the first.
\<close>

inductive typed :: "'m kb_env \<Rightarrow> u8 list list \<Rightarrow> 'm kbd \<Rightarrow> u8 list list \<Rightarrow> 'm kbd \<Rightarrow> bool" for E ds k where
  typed_none: "typed E ds k [] k"
| typed_held: "typed E ds k ps k1 \<Longrightarrow> waits k1 k2 \<Longrightarrow> typed E ds k ps k2"
| typed_key: "typed E ds k ps k1 \<Longrightarrow> dispatchKeyboardEventWithPacket E p k1 = Some (c, k2) \<Longrightarrow> typed E ds k (ps @ [p]) k2"
| typed_macro: "typed E ds k ps k1 \<Longrightarrow> d \<in> set ds \<Longrightarrow> keys_of xs = macro_keys d \<Longrightarrow>
    macro_modifiers_match d (PS2modifierState k1) \<Longrightarrow>
    dispatchKeyboardEventWithPacket E (macro_output d (hd xs)) k1 = Some (c, k2) \<Longrightarrow> typed E ds k (ps @ xs) k2"

lemma typed_trans: "typed E ds k1 qs k2 \<Longrightarrow> typed E ds k ps k1 \<Longrightarrow> typed E ds k (ps @ qs) k2"
proof (induction rule: typed.induct)
  case (typed_key qs k1 p c k2)
  then show ?case using typed.typed_key [of E ds k "ps @ qs" k1 p c k2] by simp
next
  case (typed_macro qs k1 d xs c k2)
  then show ?case using typed.typed_macro [of E ds k "ps @ qs" k1 d xs c k2] by simp
qed (auto intro: typed.typed_held)

section \<open>The macro buffer\<close>

lemma typed_buffered:
  "dispatch_buffered E buf i n k = Some k' \<Longrightarrow> typed E ds k (map (buffered_packet buf) [i..<i + n]) k'"
proof (induction n arbitrary: i k)
  case (Suc n)
  from Suc.prems obtain c k1 where 1: "dispatchKeyboardEventWithPacket E (buffered_packet buf i) k = Some (c, k1)"
      "dispatch_buffered E buf (Suc i) n k1 = Some k'" by (auto simp: bind_eq_Some_conv)
  have "typed E ds k [buffered_packet buf i] k1" using typed_key [OF typed_none 1(1)] by simp
  from typed_trans [OF Suc.IH [OF 1(2)] this] show ?case by (simp add: upt_conv_Cons del: upt_Suc)
qed (simp add: typed_none)

lemma typed_invert_buffer:
  assumes "dispatchInvertBuffer E buf k = Some k'" and "macroBuffer k = Some buf"
  shows "typed E ds k (held k) k'"
proof -
  obtain k1 where 1: "dispatch_buffered E buf 0 (macroCurrent k) k = Some k1" "k' = kb_emit (KbCancelTimer MacroTimer) (k1\<lparr>macroCurrent := 0\<rparr>)"
    using assms(1) by (auto simp: dispatchInvertBuffer_def bind_eq_Some_conv)
  from typed_buffered [OF 1(1)] have "typed E ds k (held k) k1" by (simp add: held_def assms(2))
  then show ?thesis unfolding 1(2) by (rule typed_held) (rule waits_trans [OF waits_basic(4,5)])
qed

lemma buffered_store:
  assumes "store_macro_packet p n buf = Some buf'" and "length p = 16"
  shows "map (buffered_packet buf') [0..<n + 1] = map (buffered_packet buf) [0..<n] @ [p]" "length buf' = length buf"
proof -
  have b: "(n + 1) * 16 \<le> length buf" "buf' = take (n * 16) buf @ p @ drop ((n + 1) * 16) buf"
    using assms(1) by (auto simp: store_macro_packet_def split: if_splits)
  have "buffered_packet buf' i = buffered_packet buf i" if "i < n" for i
  proof -
    have i: "i * 16 + 16 \<le> n * 16" using that by simp
    have "length (take (n * 16) buf) = n * 16" using b(1) by simp
    then have "take 16 (drop (i * 16) buf') = take 16 (drop (i * 16) (take (n * 16) buf))" using i by (simp add: b(2))
    then show ?thesis using i by (simp add: buffered_packet_def drop_take min_absorb1)
  qed
  moreover have "buffered_packet buf' n = p" using b(1) assms(2) by (simp add: b(2) buffered_packet_def)
  ultimately show "map (buffered_packet buf') [0..<n + 1] = map (buffered_packet buf) [0..<n] @ [p]" by simp
  show "length buf' = length buf" using b assms(2) by simp
qed

lemma keys_length:
  assumes "n * 16 \<le> length buf"
  shows "length (keys_of (map (buffered_packet buf) [0..<n])) = 2 * n"
proof -
  have "length (take 2 (buffered_packet buf i)) = 2" if "i < n" for i
    using that assms by (simp add: buffered_packet_def)
  then have "map (length \<circ> (take 2 \<circ> buffered_packet buf)) [0..<n] = replicate n 2"
    by (intro nth_equalityI) simp_all
  then have "sum_list (map (length \<circ> (take 2 \<circ> buffered_packet buf)) [0..<n]) = n * 2" by (simp add: sum_list_replicate)
  then show ?thesis by (simp add: length_concat)
qed

lemma compare_keys:
  "compareMacro buf ds n \<longleftrightarrow> keys_of (map (buffered_packet buf) [0..<n]) = take (2 * n) ds"
  if "n * 16 \<le> length buf" "2 * n \<le> length ds"
  using that
proof (induction n)
  case (Suc n)
  have k: "take 2 (buffered_packet buf n) = [buf ! (n * 16), buf ! (n * 16 + 1)]"
    using Suc.prems(1) by (simp add: buffered_packet_def numeral_2_eq_2 take_Suc_conv_app_nth min_def nth_append)
  have "take (2 * Suc n) ds = take (2 * n) ds @ [ds ! (2 * n), ds ! (2 * n + 1)]"
    using Suc.prems(2) by (simp add: take_Suc_conv_app_nth)
  moreover have "compareMacro buf ds (Suc n) \<longleftrightarrow> compareMacro buf ds n \<and> buf ! (n * 16) = ds ! (2 * n) \<and> buf ! (n * 16 + 1) = ds ! (2 * n + 1)"
    by (simp add: compareMacro_def)
  moreover have "length (keys_of (map (buffered_packet buf) [0..<n])) = length (take (2 * n) ds)"
    using keys_length [of n buf] Suc.prems by simp
  ultimately show ?case using Suc by (simp add: k)
qed (simp add: compareMacro_def)

lemma match_exact_full: "match_macros ds buf n mods = ExactMatch d \<Longrightarrow>
    d \<in> set ds \<and> 2 * n = length d - kPrefixBytes \<and> compareMacro buf (drop kPrefixBytes d) n \<and> macro_modifiers_match d mods"
  by (induction ds) (auto simp: Let_def split: if_splits)

section \<open>One packet\<close>

lemma typed_flush:
  assumes ok: "kb_ok k" and buf: "macroBuffer k = Some buf"
    and r: "(if P then dispatchInvertBuffer E buf k else Some k) = Some k1"
  shows "kb_ok k1" "same_input k k1" "macroBuffer k1 = Some buf" "\<exists>ps. typed E ds k ps k1 \<and> held k = ps @ held k1"
proof -
  have room: "macroCurrent k * 16 \<le> length buf" using ok buf by (simp add: kb_ok_def macro_ok_def)
  show "kb_ok k1" "same_input k k1" "macroBuffer k1 = Some buf"
    using invert_buffer_ok [OF ok room, of E] r ok buf by (auto simp: same_input_def split: if_splits)
  show "\<exists>ps. typed E ds k ps k1 \<and> held k = ps @ held k1"
  proof (cases P)
    case True
    then have d: "dispatchInvertBuffer E buf k = Some k1" using r by simp
    have "held k1 = []" using invert_buffer_ok [OF ok room, of E] d by (auto simp: held_def split: option.split)
    then show ?thesis using typed_invert_buffer [OF d buf] by auto
  next
    case False
    then show ?thesis using r typed_none [of E ds k] by auto
  qed
qed

lemma invert_unfold:
  assumes ok: "kb_ok k" and buf: "macroBuffer k = Some buf" and timer: "macroTimer k" and p: "length p = 16"
    and flush: "(if 0 < macroCurrent k \<and> too_late E (packet_time p) buf k then dispatchInvertBuffer E buf k else Some k) = Some k1"
  obtains buf2 where "(macroCurrent k1 + 1) * 16 \<le> length buf2" "kb_ok (k1\<lparr>macroBuffer := Some buf2\<rparr>)"
    "held k1 @ [p] = map (buffered_packet buf2) [0..<macroCurrent k1 + 1]" "held (k1\<lparr>macroBuffer := Some buf2\<rparr>) = held k1"
    "invertMacros E ds p k = (case match_macros ds buf2 (macroCurrent k1 + 1) (PS2modifierState k1) of
        ExactMatch d \<Rightarrow> do {
          (_, k) \<leftarrow> dispatchKeyboardEventWithPacket E (macro_output d (hd (held k1 @ [p]))) (k1\<lparr>macroBuffer := Some (buf2[0 := d ! 2, 1 := d ! 3])\<rparr>);
          Some (True, (kb_emit (KbCancelTimer MacroTimer) k)\<lparr>macroCurrent := 0\<rparr>) }
      | PartialMatch \<Rightarrow>
          Some (True, (kb_emit (KbSetTimer MacroTimer (macroMaxTime k1)) (kb_emit (KbCancelTimer MacroTimer)
            (k1\<lparr>macroBuffer := Some buf2\<rparr>)))\<lparr>macroCurrent := macroCurrent k1 + 1\<rparr>)
      | NoMatch \<Rightarrow>
          if 0 < macroCurrent k1 then do { k \<leftarrow> dispatchInvertBuffer E buf2 (k1\<lparr>macroBuffer := Some buf2\<rparr>); Some (False, k) }
          else Some (False, k1\<lparr>macroBuffer := Some buf2\<rparr>))"
proof -
  note f = typed_flush [OF ok buf flush]
  have room: "(macroCurrent k1 + 1) * 16 \<le> length buf" using f(1,3) by (simp add: kb_ok_def macro_ok_def)
  obtain buf2 where b2: "store_macro_packet p (macroCurrent k1) buf = Some buf2" using room by (simp add: store_macro_packet_def)
  note bs = buffered_store [OF b2 p]
  have h: "held k1 @ [p] = map (buffered_packet buf2) [0..<macroCurrent k1 + 1]" using bs(1) by (simp add: held_def f(3))
  have "buffered_packet (buf2[0 := d ! 2, 1 := d ! 3]) 0 = (buffered_packet buf2 0)[0 := d ! 2, 1 := d ! 3]" for d :: "u8 list"
    by (simp add: buffered_packet_def take_update_swap)
  moreover have "hd (held k1 @ [p]) = buffered_packet buf2 0" unfolding h by (simp add: upt_conv_Cons del: upt_Suc)
  ultimately have out: "buffered_packet (buf2[0 := d ! 2, 1 := d ! 3]) 0 = macro_output d (hd (held k1 @ [p]))" for d
    by (simp add: macro_output_def)
  have "held (k1\<lparr>macroBuffer := Some buf2\<rparr>) = held k1" using bs(1) by (simp add: held_def f(3))
  moreover have "invertMacros E ds p k = (case match_macros ds buf2 (macroCurrent k1 + 1) (PS2modifierState k1) of
        ExactMatch d \<Rightarrow> do {
          (_, k) \<leftarrow> dispatchKeyboardEventWithPacket E (macro_output d (hd (held k1 @ [p]))) (k1\<lparr>macroBuffer := Some (buf2[0 := d ! 2, 1 := d ! 3])\<rparr>);
          Some (True, (kb_emit (KbCancelTimer MacroTimer) k)\<lparr>macroCurrent := 0\<rparr>) }
      | PartialMatch \<Rightarrow>
          Some (True, (kb_emit (KbSetTimer MacroTimer (macroMaxTime k1)) (kb_emit (KbCancelTimer MacroTimer)
            (k1\<lparr>macroBuffer := Some buf2\<rparr>)))\<lparr>macroCurrent := macroCurrent k1 + 1\<rparr>)
      | NoMatch \<Rightarrow>
          if 0 < macroCurrent k1 then do { k \<leftarrow> dispatchInvertBuffer E buf2 (k1\<lparr>macroBuffer := Some buf2\<rparr>); Some (False, k) }
          else Some (False, k1\<lparr>macroBuffer := Some buf2\<rparr>))"
    unfolding invertMacros_def buf option.case if_not_P [OF not_not [THEN iffD2, OF timer]] flush Option.bind.bind_lunit b2 Let_def
    by (cases "match_macros ds buf2 (macroCurrent k1 + 1) (PS2modifierState k1)") (simp_all add: out [unfolded One_nat_def])
  ultimately show thesis using that [OF _ kb_ok_buffer [OF f(1,3) bs(2)] h] room bs(2) by simp
qed

lemma typed_invert:
  assumes ok: "kb_ok k" and p: "length p = 16" and timer: "macroTimer k" and r: "invertMacros E ds p k = Some (used, k')"
  shows "\<exists>ps. typed E ds k ps k' \<and> held k @ (if used then [p] else []) = ps @ held k' \<and> (used \<or> held k' = [])"
proof (cases "macroBuffer k")
  case None
  then show ?thesis using r typed_none [of E ds k] by (auto simp: invertMacros_def held_def)
next
  case (Some buf)
  obtain k1 where k1: "(if 0 < macroCurrent k \<and> too_late E (packet_time p) buf k then dispatchInvertBuffer E buf k else Some k) = Some k1"
    using r Some timer by (auto simp: invertMacros_def bind_eq_Some_conv)
  from typed_flush(4) [OF ok Some k1] obtain ps1 where ps1: "typed E ds k ps1 k1" "held k = ps1 @ held k1" by blast
  obtain buf2 where room: "(macroCurrent k1 + 1) * 16 \<le> length buf2" and ok2: "kb_ok (k1\<lparr>macroBuffer := Some buf2\<rparr>)"
    and h: "held k1 @ [p] = map (buffered_packet buf2) [0..<macroCurrent k1 + 1]" "held (k1\<lparr>macroBuffer := Some buf2\<rparr>) = held k1"
    and inv: "invertMacros E ds p k = (case match_macros ds buf2 (macroCurrent k1 + 1) (PS2modifierState k1) of
        ExactMatch d \<Rightarrow> do {
          (_, k) \<leftarrow> dispatchKeyboardEventWithPacket E (macro_output d (hd (held k1 @ [p]))) (k1\<lparr>macroBuffer := Some (buf2[0 := d ! 2, 1 := d ! 3])\<rparr>);
          Some (True, (kb_emit (KbCancelTimer MacroTimer) k)\<lparr>macroCurrent := 0\<rparr>) }
      | PartialMatch \<Rightarrow>
          Some (True, (kb_emit (KbSetTimer MacroTimer (macroMaxTime k1)) (kb_emit (KbCancelTimer MacroTimer)
            (k1\<lparr>macroBuffer := Some buf2\<rparr>)))\<lparr>macroCurrent := macroCurrent k1 + 1\<rparr>)
      | NoMatch \<Rightarrow>
          if 0 < macroCurrent k1 then do { k \<leftarrow> dispatchInvertBuffer E buf2 (k1\<lparr>macroBuffer := Some buf2\<rparr>); Some (False, k) }
          else Some (False, k1\<lparr>macroBuffer := Some buf2\<rparr>))"
    by (rule invert_unfold [OF ok Some timer p k1, of ds])
  let ?k2 = "k1\<lparr>macroBuffer := Some buf2\<rparr>"
  have t2: "typed E ds k ps1 ?k2" by (rule typed_held [OF ps1(1) waits_basic(3)])
  show ?thesis
  proof (cases "match_macros ds buf2 (macroCurrent k1 + 1) (PS2modifierState k1)")
    case NoMatch
    show ?thesis
    proof (cases "0 < macroCurrent k1")
      case True
      then have d: "dispatchInvertBuffer E buf2 ?k2 = Some k'" and u: "\<not> used"
        using r inv NoMatch by (auto simp: bind_eq_Some_conv)
      have "held k' = []" using invert_buffer_ok [OF ok2, of buf2 E] d room by (auto simp: held_def split: option.split)
      moreover have "typed E ds k (ps1 @ held ?k2) k'" by (rule typed_trans [OF typed_invert_buffer [OF d] t2]) simp
      ultimately show ?thesis using ps1(2) h(2) u by auto
    next
      case False
      then have "held k1 = []" by (simp add: held_def split: option.split)
      then show ?thesis using r inv NoMatch False t2 ps1(2) h(2) by auto
    qed
  next
    case PartialMatch
    let ?e = "kb_emit (KbSetTimer MacroTimer (macroMaxTime k1)) (kb_emit (KbCancelTimer MacroTimer) ?k2)"
    have k': "used" "k' = ?e\<lparr>macroCurrent := macroCurrent k1 + 1\<rparr>" using r inv PartialMatch by simp_all
    have "waits ?k2 k'" unfolding k'(2) by (rule waits_trans [OF waits_trans [OF waits_basic(5,6)] waits_basic(4)])
    then have "typed E ds k ps1 k'" by (rule typed_held [OF t2])
    moreover have "held k' = held k1 @ [p]" unfolding h(1) k'(2) by (simp add: held_def kb_emit_def)
    ultimately show ?thesis using k'(1) ps1(2) by auto
  next
    case (ExactMatch d)
    note m = match_exact_full [OF ExactMatch]
    obtain c k4 where k4: "dispatchKeyboardEventWithPacket E (macro_output d (hd (held k1 @ [p])))
          (k1\<lparr>macroBuffer := Some (buf2[0 := d ! 2, 1 := d ! 3])\<rparr>) = Some (c, k4)" "used"
        "k' = (kb_emit (KbCancelTimer MacroTimer) k4)\<lparr>macroCurrent := 0\<rparr>"
      using r inv ExactMatch by (auto simp: bind_eq_Some_conv)
    have keys: "keys_of (held k1 @ [p]) = macro_keys d"
      using compare_keys [of "macroCurrent k1 + 1" buf2 "drop kPrefixBytes d"] m room
      by (simp add: h(1) macro_keys_def del: upt_Suc map_append)
    have "typed E ds k (ps1 @ held k1 @ [p]) k4"
      by (rule typed_macro [OF typed_held [OF ps1(1) waits_basic(3)] _ keys _ k4(1)]) (use m in simp_all)
    then have "typed E ds k (ps1 @ held k1 @ [p]) k'"
      unfolding k4(3) by (rule typed_held) (rule waits_trans [OF waits_basic(5,4)])
    moreover have "held k' = []" unfolding k4(3) by (simp add: held_def split: option.split)
    ultimately show ?thesis using k4(2) ps1(2) by auto
  qed
qed

section \<open>The packet loop\<close>

text \<open>What the work loop finds in the ring buffer; packets that start with 0 are notes of a reset, which it drops.\<close>

abbreviation incoming :: "'m kbd \<Rightarrow> u8 list list" where
  "incoming k \<equiv> filter (\<lambda>p. p ! 0 \<noteq> 0) (packets 512 16 (kb_ring k))"

lemma typed_packet:
  assumes ok: "kb_ok k" and ds: "macroInversion k = Some ds" and timer: "macroTimer k" and p: "length p = 16"
  shows "\<exists>ps k'. dispatch_or_invert E p k = Some k' \<and> kb_ok k' \<and> same_input k k' \<and> typed E ds k ps k' \<and> held k @ [p] = ps @ held k'"
proof -
  obtain k' where k': "dispatch_or_invert E p k = Some k'" "kb_ok k'" "same_input k k'"
    using dispatch_or_invert_ok [OF ok p] by blast
  obtain used k1 where k1: "invertMacros E ds p k = Some (used, k1)" "kb_ok k1" "same_input k k1"
    using invert_macros_ok [OF ok ds p] by blast
  from typed_invert [OF ok p timer k1(1)] obtain ps where ps: "typed E ds k ps k1"
      "held k @ (if used then [p] else []) = ps @ held k1" "used \<or> held k1 = []" by blast
  show ?thesis
  proof (cases used)
    case True
    then have "k' = k1" using k'(1) k1(1) ds by (simp add: dispatch_or_invert_def)
    then show ?thesis using k' ps True by auto
  next
    case False
    then obtain c where c: "dispatchKeyboardEventWithPacket E p k1 = Some (c, k')"
      using k'(1) k1(1) ds by (auto simp: dispatch_or_invert_def bind_eq_Some_conv)
    obtain c' k2 where "dispatchKeyboardEventWithPacket E p k1 = Some (c', k2)" "kb_step k1 k2"
      using dispatch_steps [of k1 p E] k1(2) p by (auto simp: steps2_def kb_ok_def)
    then have "macroBuffer k' = macroBuffer k1 \<and> macroCurrent k' = macroCurrent k1" using c kb_step_fields [of k1 k'] by simp
    then have "held k' = held k1" by (intro held_cong) simp_all
    moreover have "typed E ds k (ps @ [p]) k'" by (rule typed_key [OF ps(1) c])
    ultimately show ?thesis using k' ps False by auto
  qed
qed

lemma typed_loop:
  "kb_ok k \<Longrightarrow> macroInversion k = Some ds \<Longrightarrow> macroTimer k \<Longrightarrow>
    \<exists>ps k'. kb_packetReady E k = Some k' \<and> packets 512 16 (kb_ring k') = [] \<and> typed E ds k ps k' \<and> held k @ incoming k = ps @ held k'"
proof (induction "packets 512 16 (kb_ring k)" arbitrary: k)
  case Nil
  have "\<not> 16 \<le> ring_count 512 (kb_ring k)"
    using Nil slots.ready_iff [of 512 16 "kb_ring k"] by (simp add: kb_ok_def)
  then show ?case using Nil typed_none [of E ds k] by (subst kb_packetReady.simps) fastforce
next
  case (Cons p q)
  have slot: "slot_ok 512 16 (kb_ring k)" using Cons.prems(1) by (simp add: kb_ok_def)
  have c: "16 \<le> ring_count 512 (kb_ring k)" using Cons.hyps(2) [symmetric] slots.ready_iff [OF slot] by auto
  have pq: "p = tail_packet (kb_ring k) 16" "q = packets 512 16 (advanceTail 512 16 (kb_ring k))"
    using slots.front_release [OF slot] Cons.hyps(2) [symmetric] by simp_all
  have len: "length p = 16"
    using slot_room(3) [OF slot] slot by (simp add: pq(1) tail_packet_def slot_ok_def ring_ok_def)
  obtain ps1 k1 where k1: "(if p ! 0 \<noteq> 0 then dispatch_or_invert E p k else Some k) = Some k1" "kb_ok k1" "same_input k k1"
      "typed E ds k ps1 k1" "held k @ (if p ! 0 \<noteq> 0 then [p] else []) = ps1 @ held k1"
  proof (cases "p ! 0 \<noteq> 0")
    case True
    from typed_packet [OF Cons.prems len, of E] show thesis using that True by auto
  next
    case False
    then show thesis using that [of k "[]"] Cons.prems(1) typed_none [of E ds k] by (simp add: same_input_def)
  qed
  let ?k = "k1\<lparr>kb_ring := advanceTail 512 16 (kb_ring k1)\<rparr>"
  have tail: "kb_tail_packet E k = Some ?k" using k1(1) len by (simp add: kb_tail_packet_def idx_Some pq(1) [symmetric])
  moreover obtain k' where "kb_tail_packet E k = Some k'" "kb_ok k'" using tail_packet_ok [OF Cons.prems(1) c] by blast
  ultimately have ok: "kb_ok ?k" by simp
  have q: "q = packets 512 16 (kb_ring ?k)" using k1(3) pq(2) by (simp add: same_input_def)
  obtain ps2 k2 where k2: "kb_packetReady E ?k = Some k2" "packets 512 16 (kb_ring k2) = []" "typed E ds ?k ps2 k2"
      "held ?k @ incoming ?k = ps2 @ held k2"
    using Cons.hyps(1) [OF q ok] k1(3) Cons.prems by (auto simp: same_input_def)
  have "typed E ds k (ps1 @ ps2) k2" by (rule typed_trans [OF k2(3) typed_held [OF k1(4) waits_basic(2)]])
  moreover have "held k @ incoming k = (ps1 @ ps2) @ held k2"
  proof -
    have "incoming k = (if p ! 0 \<noteq> 0 then [p] else []) @ incoming ?k"
      unfolding Cons.hyps(2) [symmetric] q [symmetric] by simp
    moreover have "held ?k = held k1" by (rule held_cong) simp_all
    ultimately show ?thesis using k1(5) k2(4) by (metis append.assoc)
  qed
  ultimately show ?case using c tail k2 by (subst kb_packetReady.simps) auto
qed

section \<open>A macro that is typed\<close>

lemma match_partialI:
  "d \<in> set ds \<Longrightarrow> 2 * n < length d - kPrefixBytes \<Longrightarrow> compareMacro buf (drop kPrefixBytes d) n \<Longrightarrow>
    \<forall>d' \<in> set ds. 2 * n = length d' - kPrefixBytes \<longrightarrow> \<not> compareMacro buf (drop kPrefixBytes d') n \<Longrightarrow>
    match_macros ds buf n mods = PartialMatch"
  by (induction ds) (auto simp: Let_def)

lemma match_exactI:
  "d \<in> set ds \<Longrightarrow> 2 * n = length d - kPrefixBytes \<Longrightarrow> compareMacro buf (drop kPrefixBytes d) n \<Longrightarrow> macro_modifiers_match d mods \<Longrightarrow>
    \<forall>d' \<in> set ds. d' \<noteq> d \<longrightarrow> 2 * n \<le> length d' - kPrefixBytes \<longrightarrow> \<not> compareMacro buf (drop kPrefixBytes d') n \<Longrightarrow>
    match_macros ds buf n mods = ExactMatch d"
  by (induction ds) (auto simp: Let_def)

text \<open>No other macro begins with the keys of \<open>d\<close> or is a beginning of them; a packet follows another in time.\<close>

definition macro_unique :: "u8 list list \<Rightarrow> u8 list \<Rightarrow> bool" where
  "macro_unique ds d \<longleftrightarrow> (\<forall>d' \<in> set ds. d' \<noteq> d \<longrightarrow>
     \<not> prefix (macro_keys d') (macro_keys d) \<and> \<not> prefix (macro_keys d) (macro_keys d'))"

definition in_time :: "'m kb_env \<Rightarrow> 'm kbd \<Rightarrow> u8 list \<Rightarrow> u8 list \<Rightarrow> bool" where
  "in_time E k p q \<longleftrightarrow> to_ns (kb_clock E) (packet_time q) - to_ns (kb_clock E) (packet_time p) \<le> macroMaxTime k"

lemma prefix_full: "prefix xs ys \<Longrightarrow> length xs = length ys \<Longrightarrow> xs = ys"
  by (auto simp: prefix_def)

lemma match_prefix:
  assumes "n * 16 \<le> length buf" and d: "d \<in> set ds" and u: "macro_unique ds d"
    and k: "prefix (keys_of (map (buffered_packet buf) [0..<n])) (macro_keys d)" and m: "macro_modifiers_match d mods"
  shows "match_macros ds buf n mods = (if 2 * n = length (macro_keys d) then ExactMatch d else PartialMatch)"
proof -
  let ?ks = "keys_of (map (buffered_packet buf) [0..<n])"
  note len = keys_length [OF assms(1)]
  have c: "compareMacro buf (drop kPrefixBytes d') n \<longleftrightarrow> prefix ?ks (macro_keys d')" if "2 * n \<le> length d' - kPrefixBytes" for d'
    using compare_keys [OF assms(1), of "drop kPrefixBytes d'"] that len
    by (simp add: macro_keys_def) (metis append_eq_conv_conj prefix_def append_take_drop_id)
  have n: "2 * n \<le> length (macro_keys d)" using prefix_length_le [OF k] len by simp
  show ?thesis
  proof (cases "2 * n = length (macro_keys d)")
    case True
    then have ks: "?ks = macro_keys d" using prefix_full [OF k] len by simp
    have "match_macros ds buf n mods = ExactMatch d"
      by (rule match_exactI [OF d _ _ m]) (use True c ks u d in \<open>auto simp: macro_unique_def macro_keys_def\<close>)
    then show ?thesis using True by simp
  next
    case False
    have "\<not> compareMacro buf (drop kPrefixBytes d') n" if d': "d' \<in> set ds" "2 * n = length d' - kPrefixBytes" for d'
    proof
      assume "compareMacro buf (drop kPrefixBytes d') n"
      then have "prefix ?ks (macro_keys d')" using c d'(2) by simp
      then have "?ks = macro_keys d'" by (rule prefix_full) (use d'(2) len in \<open>simp add: macro_keys_def\<close>)
      then show False using k u d'(1) d'(2) False by (auto simp: macro_unique_def macro_keys_def)
    qed
    then have "match_macros ds buf n mods = PartialMatch"
      by (intro match_partialI [OF d]) (use n False c k in \<open>auto simp: macro_keys_def\<close>)
    then show ?thesis using False by simp
  qed
qed

lemma invert_in_time:
  assumes ok: "kb_ok k" and buf: "macroBuffer k \<noteq> None" and timer: "macroTimer k" and p: "length p = 16"
    and t: "held k = [] \<or> in_time E k (last (held k)) p" and d: "d \<in> set ds" "macro_unique ds d"
    and k: "prefix (keys_of (held k @ [p])) (macro_keys d)" and m: "macro_modifiers_match d (PS2modifierState k)"
  shows "if keys_of (held k @ [p]) = macro_keys d
         then \<exists>k1. waits k k1 \<and> invertMacros E ds p k = do {
             (_, k) \<leftarrow> dispatchKeyboardEventWithPacket E (macro_output d (hd (held k @ [p]))) k1;
             Some (True, (kb_emit (KbCancelTimer MacroTimer) k)\<lparr>macroCurrent := 0\<rparr>) }
         else \<exists>k'. invertMacros E ds p k = Some (True, k') \<and> waits k k' \<and> held k' = held k @ [p] \<and> macroBuffer k' \<noteq> None"
proof -
  obtain b where b: "macroBuffer k = Some b" using buf by auto
  then have "\<not> (0 < macroCurrent k \<and> too_late E (packet_time p) b k)"
    using t last_held [OF b] by (auto simp: in_time_def too_late_def held_def b not_less [symmetric])
  then have flush: "(if 0 < macroCurrent k \<and> too_late E (packet_time p) b k then dispatchInvertBuffer E b k else Some k) = Some k"
    by (rule if_not_P)
  obtain buf2 where room: "(macroCurrent k + 1) * 16 \<le> length buf2"
    and h: "held k @ [p] = map (buffered_packet buf2) [0..<macroCurrent k + 1]"
    and inv: "invertMacros E ds p k = (case match_macros ds buf2 (macroCurrent k + 1) (PS2modifierState k) of
        ExactMatch d \<Rightarrow> do {
          (_, k) \<leftarrow> dispatchKeyboardEventWithPacket E (macro_output d (hd (held k @ [p]))) (k\<lparr>macroBuffer := Some (buf2[0 := d ! 2, 1 := d ! 3])\<rparr>);
          Some (True, (kb_emit (KbCancelTimer MacroTimer) k)\<lparr>macroCurrent := 0\<rparr>) }
      | PartialMatch \<Rightarrow>
          Some (True, (kb_emit (KbSetTimer MacroTimer (macroMaxTime k)) (kb_emit (KbCancelTimer MacroTimer)
            (k\<lparr>macroBuffer := Some buf2\<rparr>)))\<lparr>macroCurrent := macroCurrent k + 1\<rparr>)
      | NoMatch \<Rightarrow>
          if 0 < macroCurrent k then do { k \<leftarrow> dispatchInvertBuffer E buf2 (k\<lparr>macroBuffer := Some buf2\<rparr>); Some (False, k) }
          else Some (False, k\<lparr>macroBuffer := Some buf2\<rparr>))"
    by (rule invert_unfold [OF ok b timer p flush, of ds])
  have pre: "prefix (keys_of (map (buffered_packet buf2) [0..<macroCurrent k + 1])) (macro_keys d)" using k unfolding h .
  note match = match_prefix [OF room d pre m]
  have full: "keys_of (held k @ [p]) = macro_keys d \<longleftrightarrow> 2 * (macroCurrent k + 1) = length (macro_keys d)"
    using keys_length [OF room] k unfolding h [symmetric] by (metis prefix_length_prefix prefix_order.eq_iff order_refl)
  show ?thesis
  proof (cases "keys_of (held k @ [p]) = macro_keys d")
    case True
    then show ?thesis unfolding if_P [OF True] inv match if_P [OF full [THEN iffD1, OF True]] macro_match.case
      using waits_basic(3) by blast
  next
    case False
    let ?e = "kb_emit (KbSetTimer MacroTimer (macroMaxTime k)) (kb_emit (KbCancelTimer MacroTimer) (k\<lparr>macroBuffer := Some buf2\<rparr>))"
    have "waits k (?e\<lparr>macroCurrent := macroCurrent k + 1\<rparr>)"
      by (rule waits_trans [OF waits_basic(3) waits_trans [OF waits_trans [OF waits_basic(5,6)] waits_basic(4)]])
    moreover have "held (?e\<lparr>macroCurrent := macroCurrent k + 1\<rparr>) = held k @ [p]" unfolding h by (simp add: held_def kb_emit_def)
    ultimately show ?thesis using False inv match full by (auto simp: kb_emit_def)
  qed
qed

lemma chunk_length: "0 < n \<Longrightarrow> n dvd length xs \<Longrightarrow> p \<in> set (chunks n xs) \<Longrightarrow> length p = n"
proof (induction n xs rule: chunks.induct)
  case (1 n xs)
  then have "xs \<noteq> []" by (auto simp: chunks.simps [of n xs] split: if_splits)
  then have "n \<le> length xs" "n dvd length (drop n xs)" using 1 by (auto dest: dvd_imp_le)
  then show ?case using 1 \<open>xs \<noteq> []\<close> by (subst (asm) (2) chunks.simps) auto
qed

lemma packet_length: "slot_ok N n rb \<Longrightarrow> p \<in> set (packets N n rb) \<Longrightarrow> length p = n"
  using slot_room(1) [of N n rb] by (auto simp: packets_def slot_ok_def intro: chunk_length [of n "contents N rb"])

lemma macro_loop:
  "kb_ok k \<Longrightarrow> macroInversion k = Some ds \<Longrightarrow> macroTimer k \<Longrightarrow> macroBuffer k \<noteq> None \<Longrightarrow> d \<in> set ds \<Longrightarrow> macro_unique ds d \<Longrightarrow>
    macro_modifiers_match d (PS2modifierState k) \<Longrightarrow> \<forall>p \<in> set (packets 512 16 (kb_ring k)). p ! 0 \<noteq> 0 \<Longrightarrow>
    packets 512 16 (kb_ring k) \<noteq> [] \<Longrightarrow> keys_of (held k @ packets 512 16 (kb_ring k)) = macro_keys d \<Longrightarrow>
    successively (in_time E k) (held k @ packets 512 16 (kb_ring k)) \<Longrightarrow>
    \<exists>k1 c k2 k'. waits k k1 \<and> dispatchKeyboardEventWithPacket E (macro_output d (hd (held k @ packets 512 16 (kb_ring k)))) k1 = Some (c, k2)
      \<and> waits k2 k' \<and> kb_packetReady E k = Some k' \<and> held k' = [] \<and> packets 512 16 (kb_ring k') = []"
proof (induction "packets 512 16 (kb_ring k)" arbitrary: k)
  case (Cons p q)
  note pq = Cons.hyps(2) [symmetric]
  have slot: "slot_ok 512 16 (kb_ring k)" using Cons.prems(1) by (simp add: kb_ok_def)
  have c: "16 \<le> ring_count 512 (kb_ring k)" using pq slots.ready_iff [OF slot] by auto
  have tp: "tail_packet (kb_ring k) 16 = p" and q: "packets 512 16 (advanceTail 512 16 (kb_ring k)) = q"
    using slots.front_release [OF slot] pq by simp_all
  have len: "length p = 16" using packet_length [OF slot] pq by simp
  have keys: "macro_keys d = keys_of (held k @ [p]) @ keys_of q" using Cons.prems(10) pq by simp
  have t: "held k = [] \<or> in_time E k (last (held k)) p"
    using Cons.prems(11) pq by (auto simp: successively_append_iff)
  note inv = invert_in_time [OF Cons.prems(1,4,3) len t Cons.prems(5,6) _ Cons.prems(7)]
  have p0: "p ! 0 \<noteq> 0" using Cons.prems(8) pq by simp
  obtain k3 where k3: "kb_tail_packet E k = Some k3" "kb_ok k3" using tail_packet_ok [OF Cons.prems(1) c] by blast
  obtain k4 where k4: "dispatch_or_invert E p k = Some k4" "same_input k k4" using dispatch_or_invert_ok [OF Cons.prems(1) len] by blast
  have k34: "k3 = k4\<lparr>kb_ring := advanceTail 512 16 (kb_ring k)\<rparr>"
    using k3(1) k4 p0 len by (simp add: kb_tail_packet_def idx_Some tp same_input_def)
  have q3: "packets 512 16 (kb_ring k3) = q" using q k34 by simp
  show ?case
  proof (cases q)
    case Nil
    then have full: "keys_of (held k @ [p]) = macro_keys d" using keys by simp
    obtain k1 where k1: "waits k k1" "invertMacros E ds p k = do {
             (_, k) \<leftarrow> dispatchKeyboardEventWithPacket E (macro_output d (hd (held k @ [p]))) k1;
             Some (True, (kb_emit (KbCancelTimer MacroTimer) k)\<lparr>macroCurrent := 0\<rparr>) }"
      using inv full by auto
    obtain x k2 where k2: "dispatchKeyboardEventWithPacket E (macro_output d (hd (held k @ [p]))) k1 = Some (x, k2)"
        "k4 = (kb_emit (KbCancelTimer MacroTimer) k2)\<lparr>macroCurrent := 0\<rparr>"
      using k4(1) k1(2) Cons.prems(2) by (auto simp: dispatch_or_invert_def bind_eq_Some_conv)
    have "\<not> 16 \<le> ring_count 512 (kb_ring k3)"
      using slots.ready_iff [of 512 16 "kb_ring k3"] k3(2) q3 Nil by (simp add: kb_ok_def)
    then have "kb_packetReady E k = Some k3"
      using c k3(1) by (subst kb_packetReady.simps) (simp add: kb_packetReady.simps [of E k3])
    moreover have "waits k2 k3" unfolding k34 k2(2) by (rule waits_trans [OF waits_trans [OF waits_basic(5,4)] waits_basic(2)])
    moreover have "held k3 = []" unfolding k34 k2(2) by (simp add: held_def split: option.split)
    ultimately show ?thesis using k1(1) k2(1) pq Nil q3 by auto
  next
    case (Cons p' q')
    have "length p' = 16" using packet_length [OF slot] pq Cons by simp
    then have "take 2 p' \<noteq> []" by auto
    then have part: "keys_of (held k @ [p]) \<noteq> macro_keys d" using keys Cons by simp
    have "prefix (keys_of (held k @ [p])) (macro_keys d)" using keys by (simp add: prefix_def)
    from inv [OF this] part obtain k5 where "invertMacros E ds p k = Some (True, k5)" "waits k k5" "held k5 = held k @ [p]" "macroBuffer k5 \<noteq> None"
      by auto
    then have w: "waits k k4" "held k4 = held k @ [p]" "macroBuffer k4 \<noteq> None" using k4(1) Cons.prems(2) by (simp_all add: dispatch_or_invert_def)
    have w3: "waits k k3" unfolding k34 by (rule waits_trans [OF w(1) waits_basic(2)])
    have h3: "held k3 = held k @ [p]" "macroBuffer k3 \<noteq> None" using w(2,3) k34 held_cong [of k3 k4] by simp_all
    note f = waits_fields [OF w3]
    have all: "held k3 @ packets 512 16 (kb_ring k3) = held k @ packets 512 16 (kb_ring k)" using h3(1) q3 pq by simp
    have "in_time E k3 = in_time E k" using f by (simp add: in_time_def fun_eq_iff)
    then obtain k1 x k2 k' where "waits k3 k1" "waits k2 k'" "kb_packetReady E k3 = Some k'" "held k' = []" "packets 512 16 (kb_ring k') = []"
        "dispatchKeyboardEventWithPacket E (macro_output d (hd (held k @ packets 512 16 (kb_ring k)))) k1 = Some (x, k2)"
      using Cons.hyps(1) [OF q3 [symmetric] k3(2)] Cons.prems f h3(2) q3 pq Cons all by auto
    moreover have "kb_packetReady E k = kb_packetReady E k3" using c k3(1) by (subst kb_packetReady.simps) simp
    ultimately show ?thesis using waits_trans [OF w3] by metis
  qed
qed simp

section \<open>The properties\<close>

text \<open>
  C11. The macro buffer loses, repeats and reorders no key: after the packet loop, what was held back before and what came
  in is, in order, what was handed on and what is still held back, and only complete macros whose modifiers match were
  replaced.  The macro timer does the same, and when the last packet is older than the time limit nothing is held back.
\<close>

theorem macros_lose_no_key:
  assumes "kb_ok k" and "macroInversion k = Some ds" and "macroTimer k"
  shows "\<exists>ps k'. kb_packetReady E k = Some k' \<and> packets 512 16 (kb_ring k') = [] \<and> typed E ds k ps k' \<and> held k @ incoming k = ps @ held k' \<and>
    (\<exists>qs k2. onMacroTimer E k = Some k2 \<and> packets 512 16 (kb_ring k2) = [] \<and> typed E ds k qs k2 \<and> held k @ incoming k = qs @ held k2 \<and>
      (held k2 = [] \<or> \<not> macroMaxTime k' < to_ns (kb_clock E) (uptime (kb_clock E) (kb_ticks k')) - to_ns (kb_clock E) (packet_time (last (held k')))))"
proof -
  obtain ps k' where k': "kb_packetReady E k = Some k'" "packets 512 16 (kb_ring k') = []" "typed E ds k ps k'"
      "held k @ incoming k = ps @ held k'" using typed_loop [OF assms] by blast
  have ok: "kb_ok k'" using packetReady_ok [OF assms(1), of E] k'(1) by auto
  let ?t = "uptime (kb_clock E) (kb_ticks k')" and ?k = "k'\<lparr>kb_ticks := kb_ticks k' + 1\<rparr>"
  have tick: "typed E ds k ps ?k" by (rule typed_held [OF k'(3) waits_basic(7)])
  have held: "held ?k = held k'" by (rule held_cong) simp_all
  have "\<exists>qs k2. onMacroTimer E k = Some k2 \<and> packets 512 16 (kb_ring k2) = [] \<and> typed E ds k qs k2 \<and> held k @ incoming k = qs @ held k2 \<and>
      (held k2 = [] \<or> \<not> macroMaxTime k' < to_ns (kb_clock E) ?t - to_ns (kb_clock E) (packet_time (last (held k'))))"
  proof (cases "macroBuffer k'")
    case None
    then have "onMacroTimer E k = Some k'" "held k' = []" using ok k'(1) by (simp_all add: onMacroTimer_def kb_ok_def macro_ok_def held_def)
    then show ?thesis using k' by auto
  next
    case (Some buf)
    have timer: "onMacroTimer E k = (if 0 < macroCurrent k' then if too_late E ?t buf ?k then dispatchInvertBuffer E buf ?k else Some ?k else Some k')"
      using k'(1) Some by (simp add: onMacroTimer_def kb_uptime_def)
    show ?thesis
    proof (cases "0 < macroCurrent k' \<and> too_late E ?t buf ?k")
      case True
      have "macroCurrent ?k * 16 \<le> length buf" using ok Some by (simp add: kb_ok_def macro_ok_def)
      from invert_buffer_ok [OF kb_ok_step [OF ok kb_step_ticks] this, of E]
      obtain k2 where k2: "dispatchInvertBuffer E buf ?k = Some k2" "same_input ?k k2" "macroCurrent k2 = 0" by blast
      have "typed E ds k (ps @ held k') k2"
        using typed_trans [OF typed_invert_buffer [OF k2(1)] tick] Some held by simp
      moreover have "held k2 = []" using k2(3) by (simp add: held_def split: option.split)
      ultimately show ?thesis using timer True k2(1,2) k'(2,4) by (auto simp: same_input_def)
    next
      case False
      show ?thesis
      proof (cases "0 < macroCurrent k'")
        case True
        then have "onMacroTimer E k = Some ?k" using timer False by auto
        moreover have "\<not> macroMaxTime k' < to_ns (kb_clock E) ?t - to_ns (kb_clock E) (packet_time (last (held k')))"
          using False True last_held [OF Some True] by (simp add: too_late_def)
        ultimately show ?thesis using tick held k'(2,4) by auto
      next
        case no: False
        then have "onMacroTimer E k = Some k'" "held k' = []" using timer by (simp_all add: held_def split: option.split)
        then show ?thesis using k' by auto
      qed
    qed
  qed
  with k' show ?thesis by blast
qed

text \<open>
  C39. A macro that is typed in time, with its modifiers down and not mixed up with another macro, is handed on as one
  dispatch of its output with the time of its first key, whatever part of it was held back before.
\<close>

theorem macro_typed:
  assumes "kb_ok k" and "macroInversion k = Some ds" and "macroTimer k" and "macroBuffer k \<noteq> None"
    and "d \<in> set ds" and "macro_unique ds d" and "macro_modifiers_match d (PS2modifierState k)"
    and "\<forall>p \<in> set (packets 512 16 (kb_ring k)). p ! 0 \<noteq> 0" and "packets 512 16 (kb_ring k) \<noteq> []"
    and "keys_of (held k @ packets 512 16 (kb_ring k)) = macro_keys d"
    and "successively (in_time E k) (held k @ packets 512 16 (kb_ring k))"
  shows "\<exists>k1 c k2 k'. waits k k1 \<and> dispatchKeyboardEventWithPacket E (macro_output d (hd (held k @ packets 512 16 (kb_ring k)))) k1 = Some (c, k2)
      \<and> waits k2 k' \<and> kb_packetReady E k = Some k' \<and> held k' = [] \<and> packets 512 16 (kb_ring k') = []"
  by (rule macro_loop [OF assms])

text \<open>The macros of a laptop in the profile: the second one of two keys that come together stands for both.\<close>

definition dell_macros :: "u8 list list" where
  "dell_macros = [[0xff, 0xff, 0x02, 0x6e, 0, 0, 0, 0, 0x02, 0x5b, 0x01, 0x19],
     [0xff, 0xff, 0x02, 0xee, 0, 0, 0, 0, 0x02, 0xdb, 0x01, 0x99],
     [0xff, 0xff, 0x02, 0xee, 0, 0, 0, 0, 0x01, 0x99, 0x02, 0xdb]]"

definition macro_keyboard :: "touchpad kbd" where
  "macro_keyboard = stock_keyboard\<lparr>macroInversion := Some dell_macros, macroBuffer := Some (replicate 64 0), macroTimer := True,
     kb_ring := \<lparr>m_buffer = kb_packet 2 0x5b 1000 @ kb_packet 1 0x19 2000 @ replicate 480 0, m_head = 32, m_tail = 0\<rparr>\<rparr>"

lemma kb_packet_length: "length (kb_packet a b t) = 16"
  by (simp add: kb_packet_def time_bytes_def)

lemma macro_keyboard_ring: "slot_ok 512 16 (kb_ring macro_keyboard)"
  by (simp add: macro_keyboard_def slot_ok_def ring_ok_def kb_packet_length)

lemma macro_keyboard_packets: "packets 512 16 (kb_ring macro_keyboard) = [kb_packet 2 0x5b 1000, kb_packet 1 0x19 2000]"
proof -
  let ?b = "kb_packet 2 0x5b 1000 @ kb_packet 1 0x19 2000 @ replicate 480 0"
  let ?r = "\<lambda>t. \<lparr>m_buffer = ?b, m_head = 32, m_tail = t\<rparr>"
  have ok: "slot_ok 512 16 (?r 0)" "slot_ok 512 16 (?r 16)" "slot_ok 512 16 (?r 32)" by (simp_all add: slot_ok_def ring_ok_def kb_packet_length)
  have "packets 512 16 (?r t) = tail_packet (?r t) 16 # packets 512 16 (advanceTail 512 16 (?r t))" if "slot_ok 512 16 (?r t)" "t \<in> {0, 16}" for t
    by (rule slots.front_release [OF that(1)]) (use slots.ready_iff [OF that(1)] that(2) in \<open>auto simp: ring_count_def count2_def\<close>)
  from this [OF ok(1)] this [OF ok(2)] slots.ready_iff [OF ok(3)] show ?thesis
    by (simp add: macro_keyboard_def tail_packet_def advanceTail_def kb_packet_length ring_count_def count2_def)
qed

lemma macro_keyboard_ok: "kb_ok macro_keyboard"
proof -
  have "kb_ok stock_keyboard" by (rule init_ok [OF stock_keyboard_init])
  moreover have "macroCurrent stock_keyboard = 0" by (simp add: stock_keyboard_def kb_blank_def)
  ultimately show ?thesis using macro_keyboard_ring
    by (simp add: kb_ok_def tables_ok_def macro_ok_def macro_keyboard_def stock_keyboard_fields dell_macros_def)
qed

lemma macro_keyboard_fields: "macroInversion macro_keyboard = Some dell_macros" "macroTimer macro_keyboard"
    "macroBuffer macro_keyboard \<noteq> None" "held macro_keyboard = []" "PS2modifierState macro_keyboard = 0" "macroMaxTime macro_keyboard = 25000000"
  by (simp_all add: macro_keyboard_def held_def stock_keyboard_def kb_blank_def)

lemma macros_lose_no_key_witness:
  "\<exists>ps k'. kb_packetReady desk_env macro_keyboard = Some k' \<and> ps @ held k' = [kb_packet 2 0x5b 1000, kb_packet 1 0x19 2000]"
  using macros_lose_no_key [OF macro_keyboard_ok macro_keyboard_fields(1,2), of desk_env]
  by (auto simp: macro_keyboard_packets macro_keyboard_fields kb_packet_def)

lemma macro_typed_witness:
  "\<exists>k1 c k2 k'. dispatchKeyboardEventWithPacket desk_env (kb_packet 2 0x6e 1000) k1 = Some (c, k2) \<and>
     kb_packetReady desk_env macro_keyboard = Some k' \<and> held k' = []"
proof -
  let ?d = "[0xff, 0xff, 0x02, 0x6e, 0, 0, 0, 0, 0x02, 0x5b, 0x01, 0x19] :: u8 list"
  have d: "?d \<in> set dell_macros" "macro_unique dell_macros ?d" "macro_modifiers_match ?d 0"
    by (simp_all add: dell_macros_def macro_unique_def macro_keys_def macro_modifiers_match_def)
  have t: "packet_time (kb_packet 2 0x5b 1000) = 1000" "packet_time (kb_packet 1 0x19 2000) = 2000"
    by (simp_all add: packet_time_bytes kb_packet_length kb_packet_def)
  have "in_time desk_env macro_keyboard (kb_packet 2 0x5b 1000) (kb_packet 1 0x19 2000)"
    by (simp add: in_time_def t desk_env_def macro_keyboard_fields)
  then show ?thesis
    using macro_typed [OF macro_keyboard_ok macro_keyboard_fields(1,2,3) d(1,2), of desk_env] d(3)
    by (fastforce simp: macro_keyboard_packets macro_keyboard_fields kb_packet_def macro_keys_def macro_output_def)
qed

end
