(* ===== verification/Controller.thy ===== *)
theory Controller
  imports PS2Request AlpsInterrupt
begin

text \<open>
  The PS/2 controller driver: access to the two ports of the 8042, processing of requests, delivery of bytes to
  the keyboard and mouse drivers, the reset sequence.  The hardware and the interrupt actions the drivers have
  installed are the environment: \<open>inb\<close> and \<open>outb\<close> act on its state, an action takes a byte and answers whether
  a packet is complete.  Every port access and every delivery is recorded in \<open>trace\<close>.  Loops that wait for the
  hardware without a bound are \<open>None\<close> when they never end.
\<close>

section \<open>State\<close>

datatype PS2DeviceType = kDT_Keyboard | kDT_Mouse

datatype ctl_event = PortIn u16 u8 | PortOut u16 u8 | Dispatch PS2DeviceType u8 | Wake PS2DeviceType | WakeQueue
  | IOSleep u32 | Freed | EnableIRQ PS2DeviceType | DisableIRQ PS2DeviceType | AckPowerState

record 'h env =
  env_inb :: "u16 \<Rightarrow> 'h \<Rightarrow> u8 \<times> 'h"
  env_outb :: "u16 \<Rightarrow> u8 \<Rightarrow> 'h \<Rightarrow> 'h"
  env_action :: "PS2DeviceType \<Rightarrow> u8 \<Rightarrow> 'h \<Rightarrow> PS2InterruptResult \<times> 'h"
  env_packet :: "PS2DeviceType \<Rightarrow> 'h \<Rightarrow> 'h"
  env_completion :: "nat \<Rightarrow> 'h \<Rightarrow> 'h"

text \<open>Whose memory a request is: on the stack of a blocked caller, freed by a completion action, or nobody's.\<close>

datatype completion = StackRequest | CompletionAction nat | NoCompletion

record PS2Request =
  commands :: "PS2Command list"
  completion :: completion

record 'h ctl =
  world :: 'h
  ignoreInterrupts :: int
  ignoreOutOfOrder :: int
  hardwareOffline :: bool
  suppressTimeout :: bool
  currentPowerState :: u32
  wakedelay :: int
  mouseWakeFirst :: bool
  interruptSource :: "PS2DeviceType \<Rightarrow> bool"
  interruptInstalled :: "PS2DeviceType \<Rightarrow> bool"
  powerControlInstalled :: "PS2DeviceType \<Rightarrow> bool"
  messageInstalled :: "PS2DeviceType \<Rightarrow> bool"
  requestQueue :: "PS2Request list"
  trace :: "ctl_event list"

abbreviation (input) kDataPort :: u16 where "kDataPort \<equiv> 0x60"
abbreviation (input) kCommandPort :: u16 where "kCommandPort \<equiv> 0x64"
abbreviation (input) kOutputReady :: u8 where "kOutputReady \<equiv> 0x01"
abbreviation (input) kInputBusy :: u8 where "kInputBusy \<equiv> 0x02"
abbreviation (input) kMouseData :: u8 where "kMouseData \<equiv> 0x20"

abbreviation (input) kCP_GetCommandByte :: u8 where "kCP_GetCommandByte \<equiv> 0x20"
abbreviation (input) kCP_SetCommandByte :: u8 where "kCP_SetCommandByte \<equiv> 0x60"
abbreviation (input) kCP_DisableMouseClock :: u8 where "kCP_DisableMouseClock \<equiv> 0xA7"
abbreviation (input) kCP_EnableMouseClock :: u8 where "kCP_EnableMouseClock \<equiv> 0xA8"
abbreviation (input) kCP_TestMousePort :: u8 where "kCP_TestMousePort \<equiv> 0xA9"
abbreviation (input) kCP_TestController :: u8 where "kCP_TestController \<equiv> 0xAA"
abbreviation (input) kCP_TestKeyboardPort :: u8 where "kCP_TestKeyboardPort \<equiv> 0xAB"
abbreviation (input) kCP_DisableKeyboardClock :: u8 where "kCP_DisableKeyboardClock \<equiv> 0xAD"
abbreviation (input) kCP_EnableKeyboardClock :: u8 where "kCP_EnableKeyboardClock \<equiv> 0xAE"
abbreviation (input) kCP_TransmitToMouse :: u8 where "kCP_TransmitToMouse \<equiv> 0xD4"

abbreviation (input) kCB_EnableKeyboardIRQ :: u8 where "kCB_EnableKeyboardIRQ \<equiv> 0x01"
abbreviation (input) kCB_EnableMouseIRQ :: u8 where "kCB_EnableMouseIRQ \<equiv> 0x02"
abbreviation (input) kCB_SystemFlag :: u8 where "kCB_SystemFlag \<equiv> 0x04"
abbreviation (input) kCB_DisableKeyboardClock :: u8 where "kCB_DisableKeyboardClock \<equiv> 0x10"
abbreviation (input) kCB_DisableMouseClock :: u8 where "kCB_DisableMouseClock \<equiv> 0x20"
abbreviation (input) kCB_TranslateMode :: u8 where "kCB_TranslateMode \<equiv> 0x40"

definition log :: "ctl_event \<Rightarrow> 'h ctl \<Rightarrow> 'h ctl" where
  "log e c = c\<lparr>trace := trace c @ [e]\<rparr>"

section \<open>Ports\<close>

definition inb :: "'h env \<Rightarrow> u16 \<Rightarrow> 'h ctl \<Rightarrow> u8 \<times> 'h ctl" where
  "inb E p c = (let (b, w) = env_inb E p (world c) in (b, log (PortIn p b) (c\<lparr>world := w\<rparr>)))"

definition outb :: "'h env \<Rightarrow> u16 \<Rightarrow> u8 \<Rightarrow> 'h ctl \<Rightarrow> 'h ctl" where
  "outb E p b c = log (PortOut p b) (c\<lparr>world := env_outb E p b (world c)\<rparr>)"

text \<open>\<open>while (inb (kCommandPort) & kInputBusy)\<close>.\<close>

partial_function (option) wait_input :: "'h env \<Rightarrow> 'h ctl \<Rightarrow> 'h ctl option" where
  "wait_input E c = (case inb E kCommandPort c of (status, c) \<Rightarrow> if isset status kInputBusy then wait_input E c else Some c)"

definition writeDataPort :: "'h env \<Rightarrow> u8 \<Rightarrow> 'h ctl \<Rightarrow> 'h ctl option" where
  "writeDataPort E b c = do { c \<leftarrow> wait_input E c; Some (outb E kDataPort b c) }"

definition writeCommandPort :: "'h env \<Rightarrow> u8 \<Rightarrow> 'h ctl \<Rightarrow> 'h ctl option" where
  "writeCommandPort E b c = do { c \<leftarrow> wait_input E c; Some (outb E kCommandPort b c) }"

text \<open>\<open>while (inb (kCommandPort) & kOutputReady) inb (kDataPort)\<close>, with the number of bytes thrown away.\<close>

partial_function (option) flush_output :: "'h env \<Rightarrow> u32 \<Rightarrow> 'h ctl \<Rightarrow> (u32 \<times> 'h ctl) option" where
  "flush_output E n c = (case inb E kCommandPort c of (status, c) \<Rightarrow>
     if isset status kOutputReady then flush_output E (n + 1) (snd (inb E kDataPort c)) else Some (n, c))"

section \<open>Delivery to the drivers\<close>

definition dispatch_driver_interrupt :: "'h env \<Rightarrow> PS2DeviceType \<Rightarrow> u8 \<Rightarrow> 'h ctl \<Rightarrow> PS2InterruptResult \<times> 'h ctl" where
  "dispatch_driver_interrupt E dt b c =
     (let c = log (Dispatch dt b) c in
      if interruptInstalled c dt
      then (let (r, w) = env_action E dt b (world c) in (r, c\<lparr>world := w\<rparr>))
      else (kPS2IR_packetBuffering, c))"

definition dispatchDriverInterrupt :: "'h env \<Rightarrow> PS2DeviceType \<Rightarrow> u8 \<Rightarrow> 'h ctl \<Rightarrow> 'h ctl" where
  "dispatchDriverInterrupt E dt b c =
     (let (r, c) = dispatch_driver_interrupt E dt b c in if r = kPS2IR_packetReady then log (Wake dt) c else c)"

definition device_of :: "u8 \<Rightarrow> PS2DeviceType" where
  "device_of status = (if isset status kMouseData then kDT_Mouse else kDT_Keyboard)"

definition other_device :: "PS2DeviceType \<Rightarrow> PS2DeviceType" where
  "other_device dt = (if dt = kDT_Keyboard then kDT_Mouse else kDT_Keyboard)"

text \<open>The loop of the interrupt handler; which work-loop sources it wakes at the end.\<close>

partial_function (option) handle_interrupt_loop :: "'h env \<Rightarrow> bool \<Rightarrow> bool \<Rightarrow> 'h ctl \<Rightarrow> 'h ctl option" where
  "handle_interrupt_loop E wakeMouse wakeKeyboard c =
     (case inb E kCommandPort c of (status, c) \<Rightarrow>
       if \<not> isset status kOutputReady then
         Some ((if wakeKeyboard then log (Wake kDT_Keyboard) else id) ((if wakeMouse then log (Wake kDT_Mouse) else id) c))
       else
         (case inb E kDataPort c of (data, c) \<Rightarrow>
          (case dispatch_driver_interrupt E (device_of status) data c of (r, c) \<Rightarrow>
             handle_interrupt_loop E (wakeMouse \<or> device_of status = kDT_Mouse \<and> r = kPS2IR_packetReady)
               (wakeKeyboard \<or> device_of status = kDT_Keyboard \<and> r = kPS2IR_packetReady) c)))"

definition handleInterrupt :: "'h env \<Rightarrow> 'h ctl \<Rightarrow> 'h ctl option" where
  "handleInterrupt E c = handle_interrupt_loop E False False c"

definition interruptHandler :: "'h env \<Rightarrow> 'h ctl \<Rightarrow> 'h ctl option" where
  "interruptHandler E c = (if ignoreInterrupts c \<noteq> 0 then Some c else handleInterrupt E c)"

text \<open>A woken source runs the packet action of its driver.\<close>

definition packet_ready :: "'h env \<Rightarrow> PS2DeviceType \<Rightarrow> 'h ctl \<Rightarrow> 'h ctl" where
  "packet_ready E dt c = (if interruptInstalled c dt then c\<lparr>world := env_packet E dt (world c)\<rparr> else c)"

section \<open>Reading\<close>

abbreviation (input) timeout :: nat where "timeout \<equiv> 10000"

text \<open>\<open>while (timeoutCounter && !((status = inb (kCommandPort)) & kOutputReady)) timeoutCounter--\<close>; counter 0
  means that the time is over.\<close>

primrec wait_output :: "'h env \<Rightarrow> nat \<Rightarrow> 'h ctl \<Rightarrow> nat \<times> u8 \<times> 'h ctl" where
  "wait_output E 0 c = (0, 0, c)"
| "wait_output E (Suc n) c =
     (let (status, c) = inb E kCommandPort c in if isset status kOutputReady then (Suc n, status, c) else wait_output E n c)"

text \<open>The counter is not restarted, and not counted down, by bytes of the other device.\<close>

partial_function (option) read_loop :: "'h env \<Rightarrow> PS2DeviceType \<Rightarrow> nat \<Rightarrow> 'h ctl \<Rightarrow> (u8 \<times> 'h ctl) option" where
  "read_loop E dt n c =
     (case wait_output E n c of (n, status, c) \<Rightarrow>
        if n = 0 then Some (0, c)
        else
          (case inb E kDataPort c of (b, c) \<Rightarrow>
             if suppressTimeout c \<or> device_of status = dt then Some (b, c)
             else read_loop E dt n (dispatchDriverInterrupt E (other_device dt) b c)))"

definition readDataPort :: "'h env \<Rightarrow> PS2DeviceType \<Rightarrow> 'h ctl \<Rightarrow> (u8 \<times> 'h ctl) option" where
  "readDataPort E dt c = read_loop E dt timeout c"

definition dispatch_in_order :: "'h env \<Rightarrow> PS2DeviceType \<Rightarrow> u8 \<Rightarrow> 'h ctl \<Rightarrow> 'h ctl" where
  "dispatch_in_order E dt b c = (if ignoreOutOfOrder c = 0 then dispatchDriverInterrupt E dt b c else c)"

text \<open>\<open>held\<close>: the first byte, put aside because it is not the expected one.\<close>

partial_function (option) expect_loop ::
    "'h env \<Rightarrow> PS2DeviceType \<Rightarrow> u8 \<Rightarrow> nat \<Rightarrow> u8 option \<Rightarrow> 'h ctl \<Rightarrow> (u8 \<times> 'h ctl) option" where
  "expect_loop E dt expected n held c =
     (case wait_output E n c of (n, status, c) \<Rightarrow>
        if n = 0 then Some (case held of Some first \<Rightarrow> first | None \<Rightarrow> 0, c)
        else
          (case inb E kDataPort c of (b, c) \<Rightarrow>
             if device_of status \<noteq> dt then expect_loop E dt expected n held (dispatch_in_order E (other_device dt) b c)
             else if b = expected then
               Some (b, case held of Some first \<Rightarrow> dispatch_in_order E dt first c | None \<Rightarrow> c)
             else
               (case held of
                  None \<Rightarrow> expect_loop E dt expected n (Some b) c
                | Some first \<Rightarrow> Some (first, dispatch_in_order E dt b c))))"

definition readDataPort_expecting :: "'h env \<Rightarrow> PS2DeviceType \<Rightarrow> u8 \<Rightarrow> 'h ctl \<Rightarrow> (u8 \<times> 'h ctl) option" where
  "readDataPort_expecting E dt expected c = expect_loop E dt expected timeout None c"

end
