(* ===== verification/ControllerRequest.thy ===== *)
theory ControllerRequest
  imports Controller
begin

text \<open>
  The operations of the controller driver: requests and their queue, the command byte, the interrupt,
  power and message actions of the drivers, the reset sequence, power states.
\<close>

section \<open>Requests\<close>

text \<open>What the loop over the commands keeps: the stream the next read is for, whether the next byte written
  goes to the mouse, whether the last command failed.\<close>

record progress =
  deviceMode :: PS2DeviceType
  transmitToMouse :: bool
  failed :: bool

definition readDataPort_into ::
    "'h env \<Rightarrow> PS2DeviceType \<Rightarrow> PS2Command \<Rightarrow> progress \<Rightarrow> 'h ctl \<Rightarrow> (PS2Command \<times> progress \<times> 'h ctl) option" where
  "readDataPort_into E dt cmd p c = do {
     (b, c) \<leftarrow> readDataPort E dt c;
     Some (set_inOrOut b cmd, p\<lparr>deviceMode := dt\<rparr>, c) }"

definition process_command ::
    "'h env \<Rightarrow> PS2Command \<Rightarrow> progress \<Rightarrow> 'h ctl \<Rightarrow> (PS2Command \<times> progress \<times> 'h ctl) option" where
  "process_command E cmd p c =
     (case command cmd of
        kPS2C_ReadDataPort \<Rightarrow> readDataPort_into E (deviceMode p) cmd p c
      | kPS2C_ReadDataPortAndCompare \<Rightarrow> do {
          (b, c) \<leftarrow> readDataPort_expecting E (deviceMode p) (inOrOut cmd) c;
          Some (set_inOrOut b cmd, p\<lparr>failed := b \<noteq> inOrOut cmd\<rparr>, c) }
      | kPS2C_WriteDataPort \<Rightarrow> do {
          c \<leftarrow> writeDataPort E (inOrOut cmd) c;
          Some (cmd, p\<lparr>deviceMode := if transmitToMouse p then kDT_Mouse else kDT_Keyboard, transmitToMouse := False\<rparr>, c) }
      | kPS2C_WriteCommandPort \<Rightarrow> do {
          c \<leftarrow> writeCommandPort E (inOrOut cmd) c;
          Some (cmd, if inOrOut cmd = kCP_TransmitToMouse then p\<lparr>transmitToMouse := True\<rparr> else p, c) }
      | kPS2C_SendMouseCommandAndCompareAck \<Rightarrow> do {
          c \<leftarrow> writeCommandPort E kCP_TransmitToMouse c;
          c \<leftarrow> writeDataPort E (inOrOut cmd) c;
          (b, c) \<leftarrow> readDataPort_expecting E kDT_Mouse kSC_Acknowledge c;
          Some (cmd, p\<lparr>deviceMode := kDT_Mouse, failed := b \<noteq> kSC_Acknowledge\<rparr>, c) }
      | kPS2C_ReadMouseDataPort \<Rightarrow> readDataPort_into E kDT_Mouse cmd p c
      | kPS2C_ReadMouseDataPortAndCompare \<Rightarrow> do {
          (b, c) \<leftarrow> readDataPort_expecting E kDT_Mouse (inOrOut cmd) c;
          Some (cmd, p\<lparr>deviceMode := kDT_Mouse, failed := b \<noteq> inOrOut cmd\<rparr>, c) }
      | kPS2C_FlushDataPort \<Rightarrow> do {
          (n, c) \<leftarrow> flush_output E 0 c;
          Some (cmd\<lparr>inOrOut32 := n\<rparr>, p, c) }
      | kPS2C_SleepMS \<Rightarrow> Some (cmd, p, log (IOSleep (inOrOut32 cmd)) c)
      | kPS2C_ModifyCommandByte \<Rightarrow> do {
          c \<leftarrow> writeCommandPort E kCP_GetCommandByte c;
          (commandByte, c) \<leftarrow> readDataPort E kDT_Keyboard c;
          c \<leftarrow> writeCommandPort E kCP_SetCommandByte c;
          c \<leftarrow> writeDataPort E ((commandByte OR inOrOut cmd) AND NOT (clearBits cmd)) c;
          Some (set_oldBits commandByte cmd, p, c) })"

text \<open>The commands in order, until one fails: how many were done, the commands with what was read.\<close>

primrec process_commands ::
    "'h env \<Rightarrow> PS2Command list \<Rightarrow> progress \<Rightarrow> 'h ctl \<Rightarrow> (nat \<times> PS2Command list \<times> progress \<times> 'h ctl) option" where
  "process_commands E [] p c = Some (0, [], p, c)"
| "process_commands E (cmd # cs) p c = do {
     (cmd, p, c) \<leftarrow> process_command E cmd p c;
     if failed p then Some (0, cmd # cs, p, c)
     else do {
       (n, cs, p, c) \<leftarrow> process_commands E cs p c;
       Some (Suc n, cmd # cs, p, c) } }"

definition complete :: "'h env \<Rightarrow> PS2Request \<Rightarrow> 'h ctl \<Rightarrow> 'h ctl" where
  "complete E r c =
     (case completion r of
        CompletionAction n \<Rightarrow> c\<lparr>world := env_completion E n (world c)\<rparr>
      | StackRequest \<Rightarrow> c
      | NoCompletion \<Rightarrow> log Freed c)"

text \<open>The result holds the value of \<open>commandsCount\<close> afterwards.\<close>

definition processRequest :: "'h env \<Rightarrow> PS2Request \<Rightarrow> 'h ctl \<Rightarrow> (nat \<times> PS2Request \<times> 'h ctl) option" where
  "processRequest E r c =
     (if hardwareOffline c then Some (0, r, complete E r c)
      else do {
        (n, cs, p, c) \<leftarrow> process_commands E (commands r) \<lparr>deviceMode = kDT_Keyboard, transmitToMouse = False, failed = False\<rparr>
                          (c\<lparr>ignoreInterrupts := ignoreInterrupts c + 1\<rparr>);
        Some (n, r\<lparr>commands := cs\<rparr>, complete E r (c\<lparr>ignoreInterrupts := ignoreInterrupts c - 1\<rparr>)) })"

section \<open>The request queue\<close>

definition submitRequest :: "PS2Request \<Rightarrow> 'h ctl \<Rightarrow> 'h ctl" where
  "submitRequest r c = log WakeQueue (c\<lparr>requestQueue := requestQueue c @ [r]\<rparr>)"

primrec process_local_queue :: "'h env \<Rightarrow> PS2Request list \<Rightarrow> 'h ctl \<Rightarrow> 'h ctl option" where
  "process_local_queue E [] c = Some c"
| "process_local_queue E (r # rs) c = do {
     (n, r, c) \<leftarrow> processRequest E r c;
     process_local_queue E rs c }"

definition processRequestQueue :: "'h env \<Rightarrow> 'h ctl \<Rightarrow> 'h ctl option" where
  "processRequestQueue E c = process_local_queue E (requestQueue c) (c\<lparr>requestQueue := []\<rparr>)"

definition submitRequestAndBlock :: "'h env \<Rightarrow> PS2Request \<Rightarrow> 'h ctl \<Rightarrow> (nat \<times> PS2Request \<times> 'h ctl) option" where
  "submitRequestAndBlock E r c = do {
     c \<leftarrow> processRequestQueue E c;
     processRequest E r c }"

text \<open>A request on the stack of a driver: the port the drivers' command sequences are written over.\<close>

definition stack_port :: "'h env \<Rightarrow> 'h ctl submit" where
  "stack_port E cs c = do {
     (n, r, c) \<leftarrow> submitRequestAndBlock E \<lparr>commands = cs, completion = StackRequest\<rparr> c;
     Some (n, commands r, c) }"

section \<open>The command byte\<close>

definition setCommandByte :: "'h env \<Rightarrow> u8 \<Rightarrow> u8 \<Rightarrow> 'h ctl \<Rightarrow> (u8 \<times> 'h ctl) option" where
  "setCommandByte E setBits clear c = do {
     c \<leftarrow> writeCommandPort E kCP_GetCommandByte (c\<lparr>ignoreInterrupts := ignoreInterrupts c + 1\<rparr>);
     (old, c) \<leftarrow> readDataPort E kDT_Keyboard c;
     let c = c\<lparr>ignoreInterrupts := ignoreInterrupts c - 1\<rparr>;
     let new = (old OR setBits) AND NOT clear;
     if old \<noteq> new
     then do {
       c \<leftarrow> writeCommandPort E kCP_SetCommandByte c;
       c \<leftarrow> writeDataPort E new c;
       Some (old, c) }
     else Some (old, c) }"

section \<open>The drivers' actions\<close>

definition enable_irq_bit :: "PS2DeviceType \<Rightarrow> u8" where
  "enable_irq_bit dt = (if dt = kDT_Keyboard then kCB_EnableKeyboardIRQ else kCB_EnableMouseIRQ)"

definition installInterruptAction :: "'h env \<Rightarrow> PS2DeviceType \<Rightarrow> 'h ctl \<Rightarrow> 'h ctl option" where
  "installInterruptAction E dt c =
     (if \<not> interruptInstalled c dt \<and> interruptSource c dt
      then do {
        (old, c) \<leftarrow> setCommandByte E (enable_irq_bit dt) 0 c;
        let c = log (EnableIRQ dt) c;
        Some (c\<lparr>interruptInstalled := (interruptInstalled c)(dt := True)\<rparr>) }
      else Some c)"

definition uninstallInterruptAction :: "'h env \<Rightarrow> PS2DeviceType \<Rightarrow> 'h ctl \<Rightarrow> 'h ctl option" where
  "uninstallInterruptAction E dt c =
     (if interruptInstalled c dt
      then do {
        (old, c) \<leftarrow> setCommandByte E 0 (enable_irq_bit dt) c;
        let c = log (DisableIRQ dt) c;
        Some (c\<lparr>interruptInstalled := (interruptInstalled c)(dt := False)\<rparr>) }
      else Some c)"

definition installPowerControlAction :: "PS2DeviceType \<Rightarrow> 'h ctl \<Rightarrow> 'h ctl" where
  "installPowerControlAction dt c =
     (if \<not> powerControlInstalled c dt then c\<lparr>powerControlInstalled := (powerControlInstalled c)(dt := True)\<rparr> else c)"

definition uninstallPowerControlAction :: "PS2DeviceType \<Rightarrow> 'h ctl \<Rightarrow> 'h ctl" where
  "uninstallPowerControlAction dt c =
     (if powerControlInstalled c dt then c\<lparr>powerControlInstalled := (powerControlInstalled c)(dt := False)\<rparr> else c)"

definition installMessageAction :: "PS2DeviceType \<Rightarrow> 'h ctl \<Rightarrow> 'h ctl" where
  "installMessageAction dt c =
     (if \<not> messageInstalled c dt then c\<lparr>messageInstalled := (messageInstalled c)(dt := True)\<rparr> else c)"

definition uninstallMessageAction :: "PS2DeviceType \<Rightarrow> 'h ctl \<Rightarrow> 'h ctl" where
  "uninstallMessageAction dt c =
     (if messageInstalled c dt then c\<lparr>messageInstalled := (messageInstalled c)(dt := False)\<rparr> else c)"

text \<open>\<open>M\<close>: what the message actions of the drivers do to the world.\<close>

definition dispatchMessage :: "(PS2DeviceType \<Rightarrow> 'm \<Rightarrow> 'h \<Rightarrow> 'h) \<Rightarrow> PS2DeviceType \<Rightarrow> 'm \<Rightarrow> 'h ctl \<Rightarrow> 'h ctl" where
  "dispatchMessage M dt message c = (if messageInstalled c dt then c\<lparr>world := M dt message (world c)\<rparr> else c)"

section \<open>Reset\<close>

definition resetController :: "'h env \<Rightarrow> 'h ctl \<Rightarrow> 'h ctl option" where
  "resetController E c = do {
     let c = c\<lparr>suppressTimeout := True\<rparr>;
     c \<leftarrow> writeCommandPort E kCP_DisableKeyboardClock c;
     c \<leftarrow> writeCommandPort E kCP_DisableMouseClock c;
     (n, c) \<leftarrow> flush_output E 0 c;
     c \<leftarrow> writeCommandPort E kCP_EnableMouseClock c;
     c \<leftarrow> writeCommandPort E kCP_EnableKeyboardClock c;
     c \<leftarrow> writeCommandPort E kCP_GetCommandByte c;
     (commandByte, c) \<leftarrow> readDataPort E kDT_Keyboard c;
     c \<leftarrow> writeCommandPort E kCP_TestController c;
     (b, c) \<leftarrow> readDataPort E kDT_Keyboard c;
     (b, c) \<leftarrow> readDataPort E kDT_Mouse c;
     c \<leftarrow> writeCommandPort E kCP_TestKeyboardPort c;
     (b, c) \<leftarrow> readDataPort E kDT_Keyboard c;
     c \<leftarrow> writeCommandPort E kCP_TestMousePort c;
     (b, c) \<leftarrow> readDataPort E kDT_Mouse c;
     let c = c\<lparr>suppressTimeout := False\<rparr>;
     let commandByte = (commandByte AND NOT (kCB_EnableKeyboardIRQ OR kCB_EnableMouseIRQ OR kCB_DisableMouseClock OR kCB_DisableMouseClock))
                       OR kCB_TranslateMode;
     c \<leftarrow> writeCommandPort E kCP_SetCommandByte c;
     c \<leftarrow> writeDataPort E commandByte c;
     c \<leftarrow> writeDataPort E kDP_SetDefaultsAndDisable c;
     (b, c) \<leftarrow> readDataPort E kDT_Keyboard c;
     c \<leftarrow> writeCommandPort E kCP_TransmitToMouse c;
     c \<leftarrow> writeDataPort E kDP_SetDefaultsAndDisable c;
     (b, c) \<leftarrow> readDataPort E kDT_Mouse c;
     (n, c) \<leftarrow> flush_output E 0 c;
     Some c }"

section \<open>Power states\<close>

abbreviation (input) kPS2PowerStateSleep :: u32 where "kPS2PowerStateSleep \<equiv> 0"
abbreviation (input) kPS2PowerStateDoze :: u32 where "kPS2PowerStateDoze \<equiv> 1"
abbreviation (input) kPS2PowerStateNormal :: u32 where "kPS2PowerStateNormal \<equiv> 2"

datatype whatToDo = kPS2C_DisableDevice | kPS2C_EnableDevice

text \<open>\<open>P\<close>: the power-control actions of the drivers, which submit requests themselves.\<close>

type_synonym 'h power_actions = "PS2DeviceType \<Rightarrow> whatToDo \<Rightarrow> 'h ctl \<Rightarrow> 'h ctl option"

definition dispatchDriverPowerControl :: "'h power_actions \<Rightarrow> whatToDo \<Rightarrow> PS2DeviceType \<Rightarrow> 'h ctl \<Rightarrow> 'h ctl option" where
  "dispatchDriverPowerControl P what dt c = (if powerControlInstalled c dt then P dt what c else Some c)"

definition go_to_sleep :: "'h env \<Rightarrow> 'h power_actions \<Rightarrow> 'h ctl \<Rightarrow> 'h ctl option" where
  "go_to_sleep E P c = do {
     (old, c) \<leftarrow> setCommandByte E 0 (kCB_EnableKeyboardIRQ OR kCB_EnableMouseIRQ) (c\<lparr>ignoreInterrupts := ignoreInterrupts c + 1\<rparr>);
     c \<leftarrow> dispatchDriverPowerControl P kPS2C_DisableDevice kDT_Mouse c;
     c \<leftarrow> dispatchDriverPowerControl P kPS2C_DisableDevice kDT_Keyboard c;
     (old, c) \<leftarrow> setCommandByte E (kCB_DisableKeyboardClock OR kCB_DisableMouseClock) 0 (c\<lparr>hardwareOffline := True\<rparr>);
     Some c }"

definition wake_order :: "'h ctl \<Rightarrow> PS2DeviceType \<times> PS2DeviceType" where
  "wake_order c = (if \<not> mouseWakeFirst c then (kDT_Keyboard, kDT_Mouse) else (kDT_Mouse, kDT_Keyboard))"

definition wake_up :: "'h env \<Rightarrow> 'h power_actions \<Rightarrow> 'h ctl \<Rightarrow> 'h ctl option" where
  "wake_up E P c = do {
     let c = (if wakedelay c \<noteq> 0 then log (IOSleep (word_of_int (wakedelay c))) c else c);
     c \<leftarrow> resetController E c;
     (old, c) \<leftarrow> setCommandByte E 0 (kCB_DisableKeyboardClock OR kCB_DisableMouseClock OR kCB_EnableKeyboardIRQ OR kCB_EnableMouseIRQ) c;
     let c = c\<lparr>hardwareOffline := False\<rparr>;
     let (first, second) = wake_order c;
     c \<leftarrow> dispatchDriverPowerControl P kPS2C_EnableDevice first c;
     c \<leftarrow> dispatchDriverPowerControl P kPS2C_EnableDevice second c;
     (old, c) \<leftarrow> setCommandByte E (kCB_EnableKeyboardIRQ OR kCB_EnableMouseIRQ OR kCB_SystemFlag) 0 c;
     Some (c\<lparr>ignoreInterrupts := ignoreInterrupts c - 1\<rparr>) }"

definition setPowerStateGated :: "'h env \<Rightarrow> 'h power_actions \<Rightarrow> u32 \<Rightarrow> 'h ctl \<Rightarrow> 'h ctl option" where
  "setPowerStateGated E P powerState c =
     (if currentPowerState c \<noteq> powerState
      then do {
        c \<leftarrow> (if powerState = kPS2PowerStateSleep then go_to_sleep E P c
              else if powerState = kPS2PowerStateDoze \<or> powerState = kPS2PowerStateNormal
              then (if currentPowerState c \<noteq> kPS2PowerStateSleep then Some c else wake_up E P c)
              else Some c);
        Some (log AckPowerState (c\<lparr>currentPowerState := powerState\<rparr>)) }
      else Some (log AckPowerState c))"

section \<open>Start, stop and settings\<close>

definition ctl_init :: "'h \<Rightarrow> 'h ctl" where
  "ctl_init w = \<lparr>world = w, ignoreInterrupts = 0, ignoreOutOfOrder = 0, hardwareOffline = False, suppressTimeout = False,
     currentPowerState = kPS2PowerStateNormal, wakedelay = 10, mouseWakeFirst = False, interruptSource = (\<lambda>_. False),
     interruptInstalled = (\<lambda>_. False), powerControlInstalled = (\<lambda>_. False), messageInstalled = (\<lambda>_. False),
     requestQueue = [], trace = []\<rparr>"

text \<open>\<open>nub\<close>: for which devices a nub could be made; the other interrupt source is dropped again.\<close>

definition ctl_start :: "'h env \<Rightarrow> (PS2DeviceType \<Rightarrow> bool) \<Rightarrow> 'h ctl \<Rightarrow> 'h ctl option" where
  "ctl_start E nub c = do {
     c \<leftarrow> resetController E c;
     Some (c\<lparr>interruptSource := nub\<rparr>) }"

text \<open>Settings of the platform profile: \<open>WakeDelay\<close> and \<open>MouseWakeFirst\<close>, where present.\<close>

definition ctl_setPropertiesGated :: "u32 option \<Rightarrow> bool option \<Rightarrow> 'h ctl \<Rightarrow> 'h ctl" where
  "ctl_setPropertiesGated delay first c =
     (let c = (case delay of Some n \<Rightarrow> c\<lparr>wakedelay := sint (n :: u32)\<rparr> | None \<Rightarrow> c)
      in (case first of Some b \<Rightarrow> c\<lparr>mouseWakeFirst := b\<rparr> | None \<Rightarrow> c))"

text \<open>The queue is emptied with the hardware offline: no request left in it reaches a port.\<close>

definition ctl_stop :: "'h env \<Rightarrow> 'h ctl \<Rightarrow> 'h ctl option" where
  "ctl_stop E c = processRequestQueue E (c\<lparr>interruptSource := (\<lambda>_. False), hardwareOffline := True\<rparr>)"

end
