(* ===== verification/ControllerSafety.thy ===== *)
theory ControllerSafety
  imports ControllerRequest
begin

text \<open>
  Frames: which fields of the controller the port operations, the processing of a request and the interrupt loop
  leave alone.
\<close>

section \<open>What port accesses leave alone\<close>

text \<open>Only the hardware, the drivers behind the actions and the trace change.\<close>

definition port_step :: "'h ctl \<Rightarrow> 'h ctl \<Rightarrow> bool" where
  "port_step c c' \<longleftrightarrow> (\<exists>w es. c' = c\<lparr>world := w, trace := trace c @ es\<rparr>)"

lemma port_step_refl [simp]: "port_step c c"
  unfolding port_step_def by (rule exI [of _ "world c"], rule exI [of _ "[]"]) simp

lemma port_step_trans [trans]: "port_step a b \<Longrightarrow> port_step b c \<Longrightarrow> port_step a c"
  unfolding port_step_def by (elim exE) (auto intro!: exI)

lemma port_stepI: "port_step c (c\<lparr>world := w, trace := trace c @ es\<rparr>)"
  unfolding port_step_def by blast

lemma port_step_fields:
  assumes "port_step c c'"
  shows "hardwareOffline c' = hardwareOffline c \<and> ignoreInterrupts c' = ignoreInterrupts c \<and>
    ignoreOutOfOrder c' = ignoreOutOfOrder c \<and> currentPowerState c' = currentPowerState c \<and> suppressTimeout c' = suppressTimeout c \<and>
    requestQueue c' = requestQueue c \<and> interruptInstalled c' = interruptInstalled c"
  using assms by (auto simp: port_step_def)

lemma port_step_ignore:
  "port_step (c\<lparr>ignoreInterrupts := i\<rparr>) c' \<Longrightarrow> port_step c (c'\<lparr>ignoreInterrupts := ignoreInterrupts c\<rparr>)"
  unfolding port_step_def by (elim exE) (auto intro!: exI)

lemma port_step_log: "port_step c (log e c)"
  unfolding port_step_def log_def by (rule exI [of _ "world c"], rule exI [of _ "[e]"]) simp

lemma port_step_world: "port_step c (c\<lparr>world := w\<rparr>)"
  unfolding port_step_def by (rule exI [of _ w], rule exI [of _ "[]"]) simp

lemma port_step_inb: "inb E p c = (b, c') \<Longrightarrow> port_step c c'"
  by (auto simp: inb_def log_def port_step_def split: prod.splits)

lemma port_step_outb: "port_step c (outb E p b c)"
  by (auto simp: outb_def log_def port_step_def)

lemma port_step_dispatch_driver: "dispatch_driver_interrupt E dt b c = (r, c') \<Longrightarrow> port_step c c'"
  by (auto simp: dispatch_driver_interrupt_def Let_def intro: port_step_log port_step_trans [OF port_step_log port_step_world]
      split: prod.splits if_splits)

lemma port_step_dispatch: "port_step c (dispatchDriverInterrupt E dt b c)"
  unfolding dispatchDriverInterrupt_def
  by (auto split: prod.splits intro: port_step_dispatch_driver port_step_trans [OF _ port_step_log])

lemma port_step_in_order: "port_step c (dispatch_in_order E dt b c)"
  by (simp add: dispatch_in_order_def port_step_dispatch)

lemma port_step_wait_output: "wait_output E n c = (m, s, c') \<Longrightarrow> port_step c c'"
  by (induction n arbitrary: c)
    (auto simp: Let_def split: prod.splits if_splits dest: port_step_inb intro: port_step_trans)

lemma port_step_wait_input: "wait_input E c = Some c' \<Longrightarrow> port_step c c'"
  by (rule wait_input.raw_induct [of "\<lambda>E. port_step"])
    (auto split: prod.splits if_splits dest: port_step_inb intro: port_step_trans)

lemma port_step_write:
  "writeDataPort E b c = Some c' \<Longrightarrow> port_step c c'" "writeCommandPort E b c = Some c' \<Longrightarrow> port_step c c'"
  by (auto simp: writeDataPort_def writeCommandPort_def bind_eq_Some_conv
        intro: port_step_trans [OF port_step_wait_input port_step_outb])

lemma port_step_flush: "flush_output E k c = Some (n, c') \<Longrightarrow> port_step c c'"
  by (rule flush_output.raw_induct [of "\<lambda>E k c (n, c'). port_step c c'" E k c "(n, c')", simplified])
    (auto split: prod.splits if_splits intro: port_step_trans dest!: port_step_inb, metis port_step_inb port_step_trans prod.collapse)

lemma port_step_read_loop: "read_loop E dt n c = Some (b, c') \<Longrightarrow> port_step c c'"
  by (rule read_loop.raw_induct [of "\<lambda>E dt n c (b, c'). port_step c c'" E dt n c "(b, c')", simplified])
    (auto split: prod.splits if_splits dest!: port_step_inb port_step_wait_output,
      (metis port_step_dispatch port_step_trans)+)

lemma port_step_expect_loop: "expect_loop E dt x n held c = Some (b, c') \<Longrightarrow> port_step c c'"
  by (rule expect_loop.raw_induct [of "\<lambda>E dt x n held c (b, c'). port_step c c'" E dt x n held c "(b, c')", simplified])
    (auto split: prod.splits if_splits option.splits dest!: port_step_inb port_step_wait_output,
      (metis port_step_in_order port_step_trans)+)

lemma port_step_read:
  "readDataPort E dt c = Some (b, c') \<Longrightarrow> port_step c c'"
  "readDataPort_expecting E dt x c = Some (b, c') \<Longrightarrow> port_step c c'"
  by (simp_all add: readDataPort_def readDataPort_expecting_def port_step_read_loop port_step_expect_loop)

lemmas port_step_ops = port_step_write port_step_flush port_step_read

lemma port_step_handle_loop: "handle_interrupt_loop E wm wk c = Some c' \<Longrightarrow> port_step c c'"
  by (rule handle_interrupt_loop.raw_induct [of "\<lambda>E wm wk. port_step"])
    (auto split: prod.splits if_splits dest!: port_step_inb port_step_dispatch_driver intro: port_step_log,
      (metis port_step_log port_step_trans)+)

lemma port_step_command: "process_command E cmd p c = Some (cmd', p', c') \<Longrightarrow> port_step c c'"
  unfolding process_command_def readDataPort_into_def
  by (auto split: PS2CommandEnum.splits simp: bind_eq_Some_conv intro: port_step_log
      dest!: port_step_ops; meson port_step_trans)

lemma port_step_commands: "process_commands E cs p c = Some (n, cs', p', c') \<Longrightarrow> port_step c c'"
  by (induction cs arbitrary: p c n cs')
    (auto simp: bind_eq_Some_conv split: if_splits dest!: port_step_command intro: port_step_trans)

lemma port_step_complete: "port_step c (complete E r c)"
  by (auto simp: complete_def port_step_log port_step_world split: completion.split)

lemma port_step_processRequest: "processRequest E r c = Some (n, r', c') \<Longrightarrow> port_step c c'"
proof (cases "hardwareOffline c")
  case True
  moreover assume "processRequest E r c = Some (n, r', c')"
  ultimately show ?thesis by (auto simp: processRequest_def port_step_complete)
next
  case False
  assume "processRequest E r c = Some (n, r', c')"
  with False obtain cs p c1 where cmds: "process_commands E (commands r) \<lparr>deviceMode = kDT_Keyboard, transmitToMouse = False, failed = False\<rparr>
      (c\<lparr>ignoreInterrupts := ignoreInterrupts c + 1\<rparr>) = Some (n, cs, p, c1)"
    and c': "c' = complete E r (c1\<lparr>ignoreInterrupts := ignoreInterrupts c1 - 1\<rparr>)"
    by (auto simp: processRequest_def bind_eq_Some_conv)
  have step: "port_step (c\<lparr>ignoreInterrupts := ignoreInterrupts c + 1\<rparr>) c1" by (rule port_step_commands [OF cmds])
  then have "ignoreInterrupts c1 - 1 = ignoreInterrupts c" by (auto dest: port_step_fields)
  with port_step_ignore [OF step] show ?thesis unfolding c' by (metis port_step_complete port_step_trans)
qed

end
