(* ===== verification/InterruptSafety.thy ===== *)
theory InterruptSafety
  imports AlpsInterrupt
begin

text \<open>
  The path of a packet from the interrupt handler through the ring buffer to its protocol routine: valid
  packets are delivered, the loop of \<open>packetReady\<close> ends and empties the buffer, and what the shared flag
  \<open>PSMOUSE_BAD_DATA\<close> and the byte counter do when \<open>packetReady\<close> is late.
\<close>

section \<open>Packet routines do not touch the link\<close>

context frame_view begin

lemma v_gesture_stage:
  assumes "gesture_stage now ns px py z f b s = Some s'"
  shows "v s' = v s"
proof -
  from assms obtain b1 s1 d b3 s3 s4 s5 where
    1: "(if z < z_finger s \<and> isTouchMode s then finger_lifted now ns b s else Some (b, s)) = Some (b1, s1)" and
    3: "move_by_mode now ns px py z f b1 (cancel_tap px py z f (cancel_predrag ns s1)) = Some (d, b3, s3)" and
    4: "capture_touch ns px py z f s3 = Some s4" and 5: "switch_mode z f s4 = Some s5" and
    s': "v s' = v s5"
    unfolding gesture_stage_def
    by (auto simp: bind_eq_Some_conv v_post v_frame split_beta)
  have "v s1 = v s" using 1 by (auto split: if_splits dest: v_lifted_all)
  then show ?thesis
    using v_move_by_mode [OF 3] v_capture [OF 4] v_switch [OF 5] s' by (simp add: v_cancel_tap v_cancel_predrag)
qed

end

definition link_view where "link_view s = (cfg s, ringBuffer s, packetByteCount s)"

interpretation link: frame_view link_view
  by unfold_locales (simp_all add: link_view_def cfg_def emit_def)

interpretation link: report_view link_view
  by unfold_locales (simp_all add: link_view_def cfg_def)

lemma link_dispatch: "dispatchEventsWithInfo E x y z f b s = Some s' \<Longrightarrow> link_view s' = link_view s"
  by (erule link.v_report) (auto dest: link.v_gesture_stage)

text \<open>The state that interrupt handler and packet routines share.\<close>

definition link where
  "link s = (ringBuffer s, packetByteCount s, pktsize (priv s), PSMOUSE_BAD_DATA (priv s), proto_version (priv s),
     byte0 (priv s), mask0 (priv s), flags (priv s))" for s :: "'a alps_scheme"

lemma link_of_view: "link_view s' = link_view s \<Longrightarrow> link s' = link s" for s s' :: "'a alps_scheme"
  using more_fields [of s' s] by (simp add: link_view_def link_def)

definition keeps :: "'a alps_scheme \<Rightarrow> 'a alps_scheme option \<Rightarrow> bool" where
  "keeps s r \<longleftrightarrow> (\<forall>s'. r = Some s' \<longrightarrow> link s' = link s)"

named_theorems keep

lemma keeps_basic [keep]: "keeps s None" "keeps s (Some s') \<longleftrightarrow> link s' = link s"
  by (simp_all add: keeps_def)

lemma keeps_if: "(c \<Longrightarrow> keeps s r) \<Longrightarrow> (\<not> c \<Longrightarrow> keeps s r') \<Longrightarrow> keeps s (if c then r else r')"
  by simp

lemma keeps_bind: "keeps s r \<Longrightarrow> (\<And>s1. link s1 = link s \<Longrightarrow> keeps s (f s1)) \<Longrightarrow> keeps s (r \<bind> f)"
  unfolding keeps_def bind_eq_Some_conv by metis

lemma keeps_bind_any: "(\<And>x. keeps s (f x)) \<Longrightarrow> keeps s (r \<bind> f)"
  unfolding keeps_def bind_eq_Some_conv by metis

lemma keeps_dispatch: "link s1 = link s \<Longrightarrow> keeps s (dispatchEventsWithInfo E x y z f b s1)"
  unfolding keeps_def using link_of_view [OF link_dispatch] by metis

lemma link_frame [keep]:
  "link (snd (clock_get_uptime E s)) = link s" "link (dispatchRelativePointerEventX dx dy b t s) = link s"
  "link (dispatchScrollWheelEventX w1 w2 w3 t s) = link s" "link (s\<lparr>touchmode := m\<rparr>) = link s"
  "link (s\<lparr>lastbuttons := b\<rparr>) = link s" "link (s\<lparr>lastTouchpadButtons := b\<rparr>) = link s"
  "link (s\<lparr>lastTrackStickButtons := b\<rparr>) = link s" "link (move_or_scroll dx dy b t s) = link s"
  by (simp_all add: link_def clock_get_uptime_def dispatchRelativePointerEventX_def dispatchScrollWheelEventX_def
      move_or_scroll_def emit_def)

lemma link_set [keep]:
  "link (set_priv ((priv s)\<lparr>multi_packet := n\<rparr>) s) = link s"
  "link (set_priv ((priv s)\<lparr>multi_packet := n, multi_data := md\<rparr>) s) = link s"
  "link (set_priv ((priv s)\<lparr>second_touch := st\<rparr>) s) = link s"
  "link (set_priv ((priv s)\<lparr>quirks := q\<rparr>) s) = link s"
  "link (set_priv ((priv s)\<lparr>prev_fin := pf\<rparr>) s) = link s"
  by (simp_all add: link_def set_priv_def)

lemma link_if [keep]: "link (if c then s else s') = link t \<longleftrightarrow> (c \<longrightarrow> link s = link t) \<and> (\<not> c \<longrightarrow> link s' = link t)"
  by simp

lemma keeps_v1_v2: "keeps s (alps_process_packet_v1_v2 E p s)"
  unfolding alps_process_packet_v1_v2_def Let_def split_beta
  by (intro keeps_if keeps_bind keeps_dispatch) (simp_all add: keep split del: if_split)

lemma keeps_v6: "keeps s (alps_process_packet_v6 E p s)"
  unfolding alps_process_packet_v6_def Let_def split_beta
  by (intro keeps_if keeps_bind keeps_dispatch) (simp_all add: keep split del: if_split)

lemma link_trackstick: "link (alps_process_trackstick_packet_v7 E p s) = link s"
  "link (alps_process_trackstick_packet_v3 E p s) = link s"
  unfolding alps_process_trackstick_packet_v7_def alps_process_trackstick_packet_v3_def Let_def split_beta
  by (simp_all add: keep if_distrib [of snd] split del: if_split)

lemma keeps_v7: "keeps s (alps_process_packet_v7 E p s)"
  unfolding alps_process_packet_v7_def alps_process_touchpad_packet_v7_def Let_def split_beta
  by (intro keeps_if keeps_bind_any keeps_dispatch) (simp_all add: keep link_trackstick)

lemma keeps_case: "(\<And>a b. r = Some (a, b) \<Longrightarrow> keeps s (f a b)) \<Longrightarrow> keeps s (r \<bind> (\<lambda>(a, b). f a b))"
  by (cases r) (auto simp: keeps_def)

lemma ss4_merge_link:
  assumes "(if multi_packet (priv s) \<noteq> 0 then
            (if f_is_mp fl \<noteq> 0
             then do { (_, fl) \<leftarrow> call_decode fl (multi_data (priv s)) s; Some (fl, s) }
             else Some (fl, set_priv ((priv s)\<lparr>multi_packet := 0\<rparr>) s))
          else Some (fl, s)) = Some (fl', s')"
  shows "link s' = link s"
  using assms by (auto simp: bind_eq_Some_conv keep split: if_splits)

lemma keeps_ss4: "keeps s (alps_process_packet_ss4_v2 E p s)"
proof -
  define s0 where "s0 = snd (clock_get_uptime E s)"
  have l: "link s0 = link s" by (simp add: s0_def keep)
  show ?thesis
    unfolding alps_process_packet_ss4_v2_def Let_def s0_def [symmetric] case_prod_beta [of _ "clock_get_uptime E s"]
    by (intro keeps_case keeps_if keeps_dispatch)
      (simp_all only: keep l ss4_merge_link)
qed

lemma some_if: "(if c then Some x else None) = Some y \<longleftrightarrow> c \<and> x = y"
  by simp

lemma bitmap_link:
  assumes "alps_process_bitmap d fl = Some (n, d', fl')"
  shows "\<exists>st. d' = d\<lparr>second_touch := st\<rparr>"
proof (cases "f_x_map fl = 0 \<or> f_y_map fl = 0")
  case True
  then have "d' = d\<lparr>second_touch := second_touch d\<rparr>" using assms by (simp add: alps_process_bitmap_def)
  then show ?thesis ..
next
  case False
  then show ?thesis
    using assms
    by (auto simp: some_if alps_process_bitmap_def Let_def split_beta bind_eq_Some_conv)
qed

lemma v3_v5_merge_link:
  assumes "v3_v5_merge p s = Some (n, fl, s')"
  shows "link s' = link s"
  using assms
  by (auto simp: v3_v5_merge_def Let_def split_beta bind_eq_Some_conv keep split: if_splits dest!: bitmap_link)

lemma keeps_v3_v5: "keeps s (alps_process_touchpad_packet_v3_v5 E p s)"
proof -
  have "keeps s (alps_process_touchpad_packet_v3_v5 E p s)" if "v3_v5_merge p s = Some (n, fl, s1)" for n fl s1
    using v3_v5_merge_link [OF that]
    unfolding alps_process_touchpad_packet_v3_v5_def that v3_v5_report_def Let_def split_beta
    by (auto simp: keep intro!: keeps_dispatch)
  then show ?thesis
    by (cases "v3_v5_merge p s") (auto simp: alps_process_touchpad_packet_v3_v5_def keep)
qed

definition link_data :: "alps_data \<Rightarrow> _" where
  "link_data d = (pktsize d, PSMOUSE_BAD_DATA d, proto_version d, byte0 d, mask0 d, flags d)"

lemma link_set_priv: "link_data d = link_data (priv s) \<Longrightarrow> link (set_priv d s) = link s"
  by (simp add: link_def set_priv_def link_data_def)

lemma keeps_v4: "keeps s (alps_process_packet_v4 E f0 p s)"
proof -
  define d where "d = (if isset (byte p 6) 0x40 then (priv s)\<lparr>multi_packet := 0\<rparr> else priv s)"
  have d: "link_data d = link_data (priv s)" by (simp add: d_def link_data_def)
  define d' where "d' = v4_store p d"
  have d': "link_data d' = link_data (priv s)" "link_data (d'\<lparr>multi_packet := 0\<rparr>) = link_data (priv s)"
    using d by (simp_all add: d'_def v4_store_def link_data_def Let_def)
  have bm: "link_data d2 = link_data (priv s)"
    if "alps_process_bitmap (d'\<lparr>multi_packet := 0\<rparr>) fl = Some (n, d2, fl2)" for fl n d2 fl2
    using bitmap_link [OF that] d'(2) by (auto simp: link_data_def)
  show ?thesis
    using d d' bm
    by (auto simp: alps_process_packet_v4_def d_def [symmetric] d'_def [symmetric] Let_def keeps_def bind_eq_Some_conv
        link_set_priv split: if_splits dest!: link_dispatch [THEN link_of_view])
qed

lemma process_link:
  assumes "process_packet E f0 p s = Some s'"
  shows "link s' = link s"
proof -
  have "keeps s (process_packet E f0 p s)"
    by (auto simp: process_packet_def alps_process_packet_v3_def keep link_trackstick keeps_v1_v2 keeps_v6 keeps_v7 keeps_ss4
        keeps_v3_v5 keeps_v4 split: option.split process_fn.split)
  then show ?thesis using assms by (simp add: keeps_def)
qed

section \<open>Delivery of a packet\<close>

text \<open>A packet that passes the checks the handler makes on the bytes it has already stored.\<close>

definition valid_packet :: "alps_data \<Rightarrow> u8 list \<Rightarrow> bool" where
  "valid_packet d p \<longleftrightarrow> length p = pktsize d \<and> 4 < pktsize d
     \<and> (proto_version d \<noteq> ALPS_PROTO_V8 \<longrightarrow> p ! 0 AND 0xc8 \<noteq> 0x08)
     \<and> p ! 0 AND mask0 d = byte0 d
     \<and> (isset (flags d) ALPS_PS2_INTERLEAVED \<longrightarrow> p ! 3 AND 0x0f \<noteq> 0x0f)
     \<and> (proto_version d < ALPS_PROTO_V5 \<longrightarrow> (\<forall>i. 1 \<le> i \<and> i + 1 < pktsize d \<longrightarrow> p ! i AND 0x80 = 0))
     \<and> (proto_version d = ALPS_PROTO_V7 \<longrightarrow> pktsize d = 6 \<and> p ! 2 AND 0x40 = 0x40 \<and> p ! 3 AND 0x48 = 0x48)
     \<and> (proto_version d = ALPS_PROTO_V8 \<longrightarrow> pktsize d = 6 \<and> p ! 3 AND 0x08 = 0x08)"

definition stored :: "nat \<Rightarrow> u8 \<Rightarrow> 'a alps_scheme \<Rightarrow> 'a alps_scheme" where
  "stored i b s = (bad_data False s)\<lparr>ringBuffer := (ringBuffer s)\<lparr>m_buffer := (m_buffer (ringBuffer s))[m_head (ringBuffer s) + i := b]\<rparr>,
     packetByteCount := i + 1\<rparr>"

lemma slot_write: "slot_ok N k rb \<Longrightarrow> i < k \<Longrightarrow> head_write N rb i v = Some (rb\<lparr>m_buffer := (m_buffer rb)[m_head rb + i := v]\<rparr>)"
  using slot_room(2) [of N k rb] by (simp add: head_write_def)

lemma slot_read: "slot_ok N k rb \<Longrightarrow> i < k \<Longrightarrow> head_read N rb i = Some (staged k rb ! i)"
  using slot_room(2) [of N k rb]
  by (simp add: head_read_def staged_def slot_ok_def ring_ok_def)

lemma interrupt_step:
  assumes ok: "slot_ok kRingSize (pktsize (priv s)) (ringBuffer s)" and i: "packetByteCount s = i" "i < pktsize (priv s)"
    and so_far: "\<And>j. j < i \<Longrightarrow> staged (pktsize (priv s)) (ringBuffer s) ! j = p ! j" and v: "valid_packet (priv s) p"
  shows "interruptOccurred (p ! i) s = Some (if i + 1 = pktsize (priv s)
     then (kPS2IR_packetReady, publish (stored i (p ! i) s)) else (kPS2IR_packetBuffering, stored i (p ! i) s))"
proof -
  define k where "k = pktsize (priv s)"
  define rb where "rb = (if i = 0 then (ringBuffer s)\<lparr>m_buffer := (m_buffer (ringBuffer s))[m_head (ringBuffer s) := p ! 0]\<rparr> else ringBuffer s)"
  define s1 where "s1 = bad_data False (s\<lparr>ringBuffer := rb\<rparr>)"
  have k: "4 < k" using v by (simp add: valid_packet_def k_def)
  have ok1: "slot_ok kRingSize k rb" using ok by (simp add: rb_def k_def slot_ok_def ring_ok_def)
  have p1: "pktsize (priv s1) = k" "proto_version (priv s1) = proto_version (priv s)" "flags (priv s1) = flags (priv s)"
    "mask0 (priv s1) = mask0 (priv s)" "byte0 (priv s1) = byte0 (priv s)" "ringBuffer s1 = rb" "packetByteCount s1 = i"
    using i(1) by (simp_all add: s1_def bad_data_def set_priv_def k_def)
  have rd0: "head_read kRingSize rb 0 = Some (p ! 0)"
  proof (cases "i = 0")
    case True
    have "m_head (ringBuffer s) < length (m_buffer (ringBuffer s))" using ok by (simp add: slot_ok_def ring_ok_def)
    then show ?thesis using True ok by (simp add: rb_def head_read_def slot_ok_def ring_ok_def)
  next
    case False
    then show ?thesis using slot_read [OF ok1, of 0] so_far [of 0] k by (simp add: rb_def k_def)
  qed
  have rd: "head_read kRingSize rb j = Some (p ! j)" if "j < i" for j
    using slot_read [OF ok1, of j] so_far [OF that] that i(2) by (auto simp: rb_def k_def)
  have st: "store_byte (p ! i) s1 = Some (stored i (p ! i) s)"
    using slot_write [OF ok1, of i "p ! i"] i
    by (auto simp: store_byte_def p1 k_def stored_def s1_def rb_def bad_data_def set_priv_def)
  have "stuffed_ps2 s1 = Some False"
    using v rd [of 3] by (simp add: stuffed_ps2_def byte_differs_def p1 valid_packet_def)
  moreover have "bad_first_byte s1 = Some False"
    using v by (simp add: bad_first_byte_def byte_differs_def p1 rd0 valid_packet_def)
  moreover have "p ! (i - 1) AND 0x80 = 0" if "proto_version (priv s) < ALPS_PROTO_V5" "2 \<le> i"
    using v i(2) that unfolding valid_packet_def by auto
  then have "bad_high_bit s1 = Some False"
    using rd [of "i - 1"] by (simp add: bad_high_bit_def byte_differs_def p1)
  moreover have six: "i \<noteq> 6" if "proto_version (priv s) = ALPS_PROTO_V7 \<or> proto_version (priv s) = ALPS_PROTO_V8"
    using v that i(2) by (auto simp: valid_packet_def)
  have "bad_package_v7 s1 = Some False"
    using v rd [of 2] rd [of 3] six by (auto simp: bad_package_v7_def byte_differs_def p1 valid_packet_def Let_def)
  moreover have "bad_package_ss4_v2 s1 = Some False"
    using v rd [of 3] six by (auto simp: bad_package_ss4_v2_def byte_differs_def p1 valid_packet_def Let_def)
  ultimately have c: "stuffed_ps2 s1 = Some False" "bad_first_byte s1 = Some False" "bad_high_bit s1 = Some False"
    "bad_package_v7 s1 = Some False" "bad_package_ss4_v2 s1 = Some False" by simp_all
  have bare: "(if proto_version (priv s1) \<noteq> ALPS_PROTO_V8 then map_option Not (byte_differs True 0 0xc8 0x08 s1) else Some False)
      = Some False"
    using v by (simp add: byte_differs_def p1 rd0 valid_packet_def)
  have w: "(if packetByteCount s = 0 then head_write kRingSize (ringBuffer s) 0 (p ! i) else Some (ringBuffer s)) = Some rb"
    using slot_write [OF ok, of 0] i k by (simp add: rb_def k_def)
  have n: "packetByteCount (stored i (p ! i) s) = i + 1" "pktsize (priv (stored i (p ! i) s)) = k"
    by (simp_all add: stored_def bad_data_def set_priv_def k_def)
  show ?thesis
    unfolding interruptOccurred_def w Option.bind.bind_lunit Let_def s1_def [symmetric] bare
    by (simp add: c st n k_def [symmetric])
qed

fun feed :: "u8 list \<Rightarrow> 'a alps_scheme \<Rightarrow> (PS2InterruptResult list \<times> 'a alps_scheme) option" where
  "feed [] s = Some ([], s)"
| "feed (b # bs) s = do { (r, s) \<leftarrow> interruptOccurred b s; (rs, s) \<leftarrow> feed bs s; Some (r # rs, s) }"

text \<open>\<open>collecting p i t s\<close>: from state \<open>t\<close>, the first \<open>i\<close> bytes of \<open>p\<close> have been collected in \<open>s\<close>.\<close>

definition collecting :: "u8 list \<Rightarrow> nat \<Rightarrow> 'a alps_scheme \<Rightarrow> 'a alps_scheme \<Rightarrow> bool" where
  "collecting p i t s \<longleftrightarrow> slot_ok kRingSize (pktsize (priv t)) (ringBuffer s) \<and> packetByteCount s = i
     \<and> (\<forall>j < i. staged (pktsize (priv t)) (ringBuffer s) ! j = p ! j)
     \<and> packets kRingSize (pktsize (priv t)) (ringBuffer s) = packets kRingSize (pktsize (priv t)) (ringBuffer t)
     \<and> (\<exists>rb c d. s = (bad_data d t)\<lparr>ringBuffer := rb, packetByteCount := c\<rparr> \<and> (0 < i \<longrightarrow> \<not> d))"

lemma collecting_step:
  assumes c: "collecting p i t s" and i: "i < pktsize (priv t)" and v: "valid_packet (priv t) p"
  shows "collecting p (i + 1) t (stored i (p ! i) s)"
    and "interruptOccurred (p ! i) s = Some (if i + 1 = pktsize (priv t)
     then (kPS2IR_packetReady, publish (stored i (p ! i) s)) else (kPS2IR_packetBuffering, stored i (p ! i) s))"
proof -
  let ?k = "pktsize (priv t)"
  from c obtain rb n d where s: "s = (bad_data d t)\<lparr>ringBuffer := rb, packetByteCount := n\<rparr>" by (auto simp: collecting_def)
  have k: "pktsize (priv s) = ?k" by (simp add: s bad_data_def set_priv_def)
  have v': "valid_packet (priv s) p" using v by (simp add: s bad_data_def set_priv_def valid_packet_def)
  have ok: "slot_ok kRingSize ?k (ringBuffer s)" and n: "packetByteCount s = i" using c by (simp_all add: collecting_def)
  show "interruptOccurred (p ! i) s = Some (if i + 1 = ?k
     then (kPS2IR_packetReady, publish (stored i (p ! i) s)) else (kPS2IR_packetBuffering, stored i (p ! i) s))"
    using interrupt_step [of s i p] c i v' ok n k by (simp add: collecting_def)
  obtain rb' where rb': "head_write kRingSize (ringBuffer s) i (p ! i) = Some rb'" "slot_ok kRingSize ?k rb'"
    "contents kRingSize rb' = contents kRingSize (ringBuffer s)" "staged ?k rb' = (staged ?k (ringBuffer s))[i := p ! i]"
    using head_write_slot [OF ok i, of "p ! i"] by metis
  then have eq: "ringBuffer (stored i (p ! i) s) = rb'" using slot_write [OF ok i, of "p ! i"] by (simp add: stored_def)
  have len: "length (staged ?k (ringBuffer s)) = ?k"
    using ok slot_room(2) [OF ok] by (simp add: staged_def slot_ok_def ring_ok_def)
  have "stored i (p ! i) s = (bad_data False t)\<lparr>ringBuffer := rb', packetByteCount := i + 1\<rparr>"
    using eq by (simp add: stored_def s bad_data_def set_priv_def)
  moreover have "packetByteCount (stored i (p ! i) s) = i + 1" by (simp add: stored_def)
  moreover have "staged ?k rb' ! j = p ! j" if "j < i + 1" for j
    using that c len i by (cases "j = i") (simp_all add: rb'(4) collecting_def)
  ultimately show "collecting p (i + 1) t (stored i (p ! i) s)"
    using rb'(2,3) c unfolding collecting_def eq by (auto simp: packets_def)
qed

lemma feed_rest:
  assumes v: "valid_packet (priv t) p" and "collecting p i t s" and "i < pktsize (priv t)"
  shows "\<exists>s'. feed (drop i p) s = Some (replicate (pktsize (priv t) - Suc i) kPS2IR_packetBuffering @ [kPS2IR_packetReady], publish s')
    \<and> collecting p (pktsize (priv t)) t s'"
  using assms(2,3)
proof (induction "pktsize (priv t) - i" arbitrary: i s)
  case (Suc n)
  have len: "length p = pktsize (priv t)" using v by (simp add: valid_packet_def)
  then have d: "drop i p = p ! i # drop (i + 1) p" using Suc.prems(2) by (simp add: Cons_nth_drop_Suc)
  note step = collecting_step [OF Suc.prems v]
  show ?case
  proof (cases "i + 1 = pktsize (priv t)")
    case True
    then have "drop (i + 1) p = []" using len by simp
    then show ?thesis using step True by (auto simp: d)
  next
    case False
    then obtain s' where "feed (drop (i + 1) p) (stored i (p ! i) s)
          = Some (replicate (pktsize (priv t) - Suc (i + 1)) kPS2IR_packetBuffering @ [kPS2IR_packetReady], publish s')"
      and "collecting p (pktsize (priv t)) t s'"
      using Suc.hyps(1) [OF _ step(1)] Suc.hyps(2) Suc.prems(2) by force
    moreover have "pktsize (priv t) - Suc i = Suc (pktsize (priv t) - Suc (i + 1))" using Suc.prems(2) False by simp
    ultimately show ?thesis using step(2) False by (auto simp: d)
  qed
qed simp

lemma collecting_start:
  assumes "slot_ok kRingSize (pktsize (priv t)) (ringBuffer t)" and "packetByteCount t = 0"
  shows "collecting p 0 t t"
proof -
  have "t = (bad_data (PSMOUSE_BAD_DATA (priv t)) t)\<lparr>ringBuffer := ringBuffer t, packetByteCount := packetByteCount t\<rparr>"
    by (simp add: bad_data_def set_priv_def)
  then show ?thesis using assms unfolding collecting_def by blast
qed

lemma packet_delivered:
  assumes ok: "slot_ok kRingSize (pktsize (priv s)) (ringBuffer s)" and n: "packetByteCount s = 0"
    and v: "valid_packet (priv s) p"
    and room: "length (packets kRingSize (pktsize (priv s)) (ringBuffer s)) < kRingSize div pktsize (priv s) - 1"
  obtains rb where "feed p s = Some (replicate (pktsize (priv s) - 1) kPS2IR_packetBuffering @ [kPS2IR_packetReady],
      (bad_data False s)\<lparr>ringBuffer := rb, packetByteCount := pktsize (priv s)\<rparr>)"
    and "packets kRingSize (pktsize (priv s)) rb = packets kRingSize (pktsize (priv s)) (ringBuffer s) @ [p]"
    and "slot_ok kRingSize (pktsize (priv s)) rb"
proof -
  let ?k = "pktsize (priv s)"
  have k: "0 < ?k" "length p = ?k" using v by (simp_all add: valid_packet_def)
  obtain s' where f: "feed p s = Some (replicate (?k - 1) kPS2IR_packetBuffering @ [kPS2IR_packetReady], publish s')"
    and c: "collecting p ?k s s'"
    using feed_rest [OF v collecting_start [OF ok n] k(1)] by auto
  from c k obtain rb m d where s': "s' = (bad_data d s)\<lparr>ringBuffer := rb, packetByteCount := m\<rparr>" and d: "\<not> d"
    by (auto simp: collecting_def)
  have m: "m = ?k" "slot_ok kRingSize ?k rb" "packets kRingSize ?k rb = packets kRingSize ?k (ringBuffer s)"
    "\<forall>j < ?k. staged ?k rb ! j = p ! j" using c by (simp_all add: collecting_def s')
  have "staged ?k rb = p"
    using m(4) slots.slot_length [OF m(2)] k(2) by (intro nth_equalityI) simp_all
  then have "packets kRingSize ?k (advanceHead kRingSize ?k rb) = packets kRingSize ?k (ringBuffer s) @ [p]"
    using slots.commit_room [OF m(2)] room m(3) by simp
  moreover have "slot_ok kRingSize ?k (advanceHead kRingSize ?k rb)" by (rule slots.valid_commit [OF m(2)])
  moreover have "publish s' = (bad_data False s)\<lparr>ringBuffer := advanceHead kRingSize ?k rb, packetByteCount := ?k\<rparr>"
    using d m(1) by (simp add: publish_def s' bad_data_def set_priv_def)
  ultimately show thesis using that f by auto
qed

section \<open>The loop of \<open>packetReady\<close>\<close>

text \<open>\<open>delivers E ps s s'\<close>: the packets \<open>ps\<close> go through their protocol routine one after the other, each once;
  between them only the bookkeeping of the link changes.\<close>

definition wipe :: "'a alps_scheme \<Rightarrow> 'a alps_scheme" where
  "wipe s = (bad_data False s)\<lparr>ringBuffer := \<lparr>m_buffer = [], m_head = 0, m_tail = 0\<rparr>, packetByteCount := 0\<rparr>"

definition relinked :: "'a alps_scheme \<Rightarrow> 'a alps_scheme \<Rightarrow> bool" where
  "relinked s t \<longleftrightarrow> wipe s = wipe t"

inductive delivers :: "clock \<Rightarrow> u8 list list \<Rightarrow> 'a alps_scheme \<Rightarrow> 'a alps_scheme \<Rightarrow> bool" for E where
  delivers_link: "relinked s t \<Longrightarrow> delivers E [] s t"
| delivers_packet: "relinked s t \<Longrightarrow> process_packet E f0 p t = Some u \<Longrightarrow> delivers E ps u v \<Longrightarrow> delivers E (p # ps) s v"

lemma relinked_refl: "relinked s s"
  by (simp add: relinked_def)

lemma relinked_trans: "relinked s t \<Longrightarrow> relinked t u \<Longrightarrow> relinked s u"
  by (simp add: relinked_def)

lemma wipe_update: "wipe (bad_data d s) = wipe s" "wipe (s\<lparr>ringBuffer := rb\<rparr>) = wipe s" "wipe (s\<lparr>packetByteCount := c\<rparr>) = wipe s"
  "wipe (s\<lparr>packetByteCount := c, ringBuffer := rb\<rparr>) = wipe s" "wipe (s\<lparr>ringBuffer := rb, packetByteCount := c\<rparr>) = wipe s"
  by (simp_all add: wipe_def bad_data_def set_priv_def)

lemma wipe_fields: "pktsize (priv (wipe s)) = pktsize (priv s)" "out (wipe s) = out s"
  "valid_packet (priv (wipe s)) p = valid_packet (priv s) p" "cfg (wipe s) = cfg (bad_data False s)"
  by (simp_all add: wipe_def bad_data_def set_priv_def valid_packet_def cfg_def)

lemma process_ok_bad: "process_ok s \<Longrightarrow> process_ok (bad_data d s)"
  unfolding bad_data_def by (erule process_ok_priv [rotated]) (simp add: same_sensor_def)

lemma process_ok_wipe: "process_ok (wipe s) = process_ok s"
proof -
  have "bad_data (PSMOUSE_BAD_DATA (priv s)) (bad_data False s) = s" by (simp add: bad_data_def set_priv_def)
  then have "process_ok (bad_data False s) = process_ok s" using process_ok_bad by metis
  moreover have "process_ok (wipe s) = process_ok (bad_data False s)" by (rule process_ok_cfg [OF wipe_fields(4)])
  ultimately show ?thesis by simp
qed

lemma relinked_process_ok: "relinked s t \<Longrightarrow> process_ok s \<Longrightarrow> process_ok t"
  using process_ok_wipe unfolding relinked_def by metis

lemma relinked_fields: "relinked s t \<Longrightarrow> pktsize (priv t) = pktsize (priv s)" "relinked s t \<Longrightarrow> out t = out s"
  "relinked s t \<Longrightarrow> valid_packet (priv t) p = valid_packet (priv s) p"
  using wipe_fields [of s] wipe_fields [of t] unfolding relinked_def by metis+

lemma delivers_relinked: "relinked s t \<Longrightarrow> delivers E ps t u \<Longrightarrow> delivers E ps s u"
  by (erule delivers.cases) (auto intro: delivers.intros relinked_trans)

lemma delivers_append: "delivers E ps s t \<Longrightarrow> delivers E qs t u \<Longrightarrow> delivers E (ps @ qs) s u"
  by (induction rule: delivers.induct) (auto intro: delivers_relinked delivers_packet)

lemma delivers_nil_out: "delivers E [] s t \<Longrightarrow> relinked s t"
  by (erule delivers.cases) auto

lemma packet_loop:
  assumes "slot_ok kRingSize (pktsize (priv s)) (ringBuffer s)" and "process_ok s"
  shows "\<exists>s'. packetReady E f0 s = Some s'
     \<and> delivers E (if PSMOUSE_BAD_DATA (priv s) then [] else packets kRingSize (pktsize (priv s)) (ringBuffer s)) s s'
     \<and> slot_ok kRingSize (pktsize (priv s)) (ringBuffer s') \<and> packets kRingSize (pktsize (priv s)) (ringBuffer s') = []
     \<and> process_ok s' \<and> link_data (priv s') = link_data (priv s)
     \<and> (packets kRingSize (pktsize (priv s)) (ringBuffer s) \<noteq> [] \<longrightarrow> packetByteCount s' = 0)"
  using assms
proof (induction "length (packets kRingSize (pktsize (priv s)) (ringBuffer s))" arbitrary: s)
  case 0
  then have "\<not> pktsize (priv s) \<le> ring_count kRingSize (ringBuffer s)"
    using slots.ready_iff [OF 0(2)] by simp
  then show ?case using 0 by (subst packetReady.simps) (simp add: delivers_link relinked_refl)
next
  case (Suc n)
  let ?k = "pktsize (priv s)"
  have ne: "packets kRingSize ?k (ringBuffer s) \<noteq> []" using Suc.hyps(2) by auto
  note fr = slots.front_release [OF Suc.prems(1) ne] and vr = slots.valid_release [OF Suc.prems(1) ne]
  have rd: "?k \<le> ring_count kRingSize (ringBuffer s)" using slots.ready_iff [OF Suc.prems(1)] ne by simp
  let ?p = "tail_packet (ringBuffer s) ?k" and ?f = "f0 (ring_count kRingSize (ringBuffer s))"
  define r where "r = (if \<not> PSMOUSE_BAD_DATA (priv s) then process_packet E ?f ?p s else Some s)"
  obtain s1 where s1: "r = Some s1" "process_ok s1" "link s1 = link s"
    using process_packet_succeeds [OF Suc.prems(2), of E ?f ?p] Suc.prems(2)
    by (cases "PSMOUSE_BAD_DATA (priv s)") (auto simp: r_def succeeds_def dest: process_link)
  define s2 where "s2 = s1\<lparr>packetByteCount := 0, ringBuffer := advanceTail kRingSize ?k (ringBuffer s)\<rparr>"
  have l: "pktsize (priv s1) = ?k" "ringBuffer s1 = ringBuffer s" "link_data (priv s1) = link_data (priv s)"
    using s1(3) by (simp_all add: link_def link_data_def)
  have step: "packetReady E f0 s = packetReady E f0 s2"
    using rd s1(1) l by (subst packetReady.simps) (simp add: handle_tail_def r_def [symmetric] s2_def)
  have rl: "relinked s1 s2" by (simp add: s2_def relinked_def wipe_update)
  have p2: "pktsize (priv s2) = ?k" "link_data (priv s2) = link_data (priv s)"
    "ringBuffer s2 = advanceTail kRingSize ?k (ringBuffer s)" using l by (simp_all add: s2_def)
  have "n = length (packets kRingSize (pktsize (priv s2)) (ringBuffer s2))"
    using Suc.hyps(2) fr unfolding p2(1,3) by (metis Suc_inject length_Cons)
  then obtain s' where s': "packetReady E f0 s2 = Some s'"
      "delivers E (if PSMOUSE_BAD_DATA (priv s2) then [] else packets kRingSize ?k (ringBuffer s2)) s2 s'"
      "slot_ok kRingSize ?k (ringBuffer s')" "packets kRingSize ?k (ringBuffer s') = []" "process_ok s'"
      "link_data (priv s') = link_data (priv s2)"
      "packets kRingSize ?k (ringBuffer s2) \<noteq> [] \<longrightarrow> packetByteCount s' = 0"
    using Suc.hyps(1) [of s2] relinked_process_ok [OF rl s1(2)] vr unfolding p2(1,3) by blast
  have bad: "PSMOUSE_BAD_DATA (priv s2) = PSMOUSE_BAD_DATA (priv s)" using p2(2) by (simp add: link_data_def)
  have "packetByteCount s' = 0"
  proof (cases "packets kRingSize ?k (ringBuffer s2) = []")
    case True
    then have "\<not> pktsize (priv s2) \<le> ring_count kRingSize (ringBuffer s2)"
      using slots.ready_iff [OF vr] unfolding p2(1,3) by simp
    then have "s' = s2" using s'(1) by (subst (asm) packetReady.simps) simp
    then show ?thesis by (simp add: s2_def)
  qed (use s'(7) in simp)
  moreover have "delivers E (if PSMOUSE_BAD_DATA (priv s) then [] else packets kRingSize ?k (ringBuffer s)) s s'"
  proof (cases "PSMOUSE_BAD_DATA (priv s)")
    case True
    then have "s1 = s" using s1(1) by (simp add: r_def)
    then show ?thesis using s'(2) True bad delivers_relinked [OF rl] by simp
  next
    case False
    have "delivers E (packets kRingSize ?k (ringBuffer s2)) s1 s'" using s'(2) False bad delivers_relinked [OF rl] by simp
    moreover have "process_packet E ?f ?p s = Some s1" using s1(1) False by (simp add: r_def)
    ultimately have "delivers E (?p # packets kRingSize ?k (ringBuffer s2)) s s'"
      by (rule delivers_packet [OF relinked_refl, rotated])
    then show ?thesis using False fr p2(3) by simp
  qed
  ultimately show ?case using s' step p2(2) by auto
qed

text \<open>
  C17. \<open>packetReady\<close> returns whatever the buffer holds, leaves no complete packet behind, and hands the queued
  packets to the protocol routine in the order in which they arrived, each once; when the last byte was marked
  bad it hands over none of them.
\<close>

theorem packet_loop_drains:
  assumes "slot_ok kRingSize (pktsize (priv s)) (ringBuffer s)" and "process_ok s"
  shows "\<exists>s'. packetReady E f0 s = Some s' \<and> packets kRingSize (pktsize (priv s)) (ringBuffer s') = []
     \<and> delivers E (if PSMOUSE_BAD_DATA (priv s) then [] else packets kRingSize (pktsize (priv s)) (ringBuffer s)) s s'"
  using packet_loop [OF assms, of E f0] by blast

text \<open>
  While the work loop keeps up, the bytes of a well-formed packet are buffered and the last one publishes
  exactly that packet behind those already queued; nothing else of the driver changes.
\<close>

theorem valid_packet_queued:
  assumes "slot_ok kRingSize (pktsize (priv s)) (ringBuffer s)" and "packetByteCount s = 0"
    and "valid_packet (priv s) p"
    and "length (packets kRingSize (pktsize (priv s)) (ringBuffer s)) < kRingSize div pktsize (priv s) - 1"
  shows "\<exists>rb. feed p s = Some (replicate (pktsize (priv s) - 1) kPS2IR_packetBuffering @ [kPS2IR_packetReady],
        (bad_data False s)\<lparr>ringBuffer := rb, packetByteCount := pktsize (priv s)\<rparr>)
     \<and> packets kRingSize (pktsize (priv s)) rb = packets kRingSize (pktsize (priv s)) (ringBuffer s) @ [p]"
  by (rule packet_delivered [OF assms]) blast

section \<open>A stream of bytes\<close>

text \<open>The driver when the work loop runs at once: each byte goes through the handler, and \<open>packetReady\<close> follows
  whenever the handler asks for it.\<close>

fun drive :: "clock \<Rightarrow> (nat \<Rightarrow> alps_fields) \<Rightarrow> u8 list \<Rightarrow> 'a alps_scheme \<Rightarrow> 'a alps_scheme option" where
  "drive E f0 [] s = Some s"
| "drive E f0 (b # bs) s =
     do {
       (r, s) \<leftarrow> interruptOccurred b s;
       s \<leftarrow> (if r = kPS2IR_packetReady then packetReady E f0 s else Some s);
       drive E f0 bs s
     }"

lemma drive_append: "drive E f0 (bs @ cs) s = drive E f0 bs s \<bind> drive E f0 cs" for s :: "'a alps_scheme"
proof (induction bs arbitrary: s)
  case (Cons b bs)
  have "drive E f0 (bs @ cs) = (\<lambda>s :: 'a alps_scheme. drive E f0 bs s \<bind> drive E f0 cs)" by (intro ext) (rule Cons.IH)
  then show ?case by (simp add: bind_assoc case_prod_unfold)
qed simp

datatype segment = Packet "u8 list" | Noise u8

fun seg_bytes :: "segment \<Rightarrow> u8 list" where
  "seg_bytes (Packet p) = p" | "seg_bytes (Noise b) = [b]"

fun seg_packets :: "segment \<Rightarrow> u8 list list" where
  "seg_packets (Packet p) = [p]" | "seg_packets (Noise b) = []"

text \<open>A byte that can start no packet of this protocol, and no bare PS/2 packet either.\<close>

definition noise :: "alps_data \<Rightarrow> u8 \<Rightarrow> bool" where
  "noise d b \<longleftrightarrow> b AND mask0 d \<noteq> byte0 d \<and> (proto_version d = ALPS_PROTO_V8 \<or> b AND 0xc8 \<noteq> 0x08)"

fun seg_ok :: "alps_data \<Rightarrow> segment \<Rightarrow> bool" where
  "seg_ok d (Packet p) \<longleftrightarrow> valid_packet d p" | "seg_ok d (Noise b) \<longleftrightarrow> noise d b"

definition synced :: "'a alps_scheme \<Rightarrow> bool" where
  "synced s \<longleftrightarrow> slot_ok kRingSize (pktsize (priv s)) (ringBuffer s) \<and> 2 * pktsize (priv s) \<le> kRingSize
     \<and> packets kRingSize (pktsize (priv s)) (ringBuffer s) = [] \<and> packetByteCount s = 0 \<and> process_ok s"

lemma drive_feed:
  assumes "feed bs s = Some (replicate (length bs - 1) kPS2IR_packetBuffering @ [kPS2IR_packetReady], s')" and "bs \<noteq> []"
  shows "drive E f0 bs s = packetReady E f0 s'"
  using assms
proof (induction bs arbitrary: s)
  case (Cons b bs)
  show ?case
  proof (cases "bs = []")
    case True
    have "x \<bind> drive E f0 [] = x" for x by (cases x) simp_all
    then show ?thesis using True Cons.prems(1) by (auto simp: bind_eq_Some_conv)
  next
    case False
    then have "replicate (length (b # bs) - 1) kPS2IR_packetBuffering
        = kPS2IR_packetBuffering # replicate (length bs - 1) kPS2IR_packetBuffering" by (cases bs) simp_all
    then show ?thesis using Cons.IH [OF _ False] Cons.prems(1) by (auto simp: bind_eq_Some_conv)
  qed
qed simp

definition format :: "alps_data \<Rightarrow> _" where
  "format d = (pktsize d, proto_version d, byte0 d, mask0 d, flags d)"

lemma format_cong:
  assumes "format d' = format d"
  shows "pktsize d' = pktsize d" "valid_packet d' p = valid_packet d p" "noise d' b = noise d b"
  using assms by (simp_all add: format_def valid_packet_def noise_def)

lemma format_link: "link_data d' = link_data d \<Longrightarrow> format d' = format d"
  by (simp add: link_data_def format_def)

lemma format_bad: "format (priv (bad_data b s)) = format (priv s)"
  by (simp add: format_def bad_data_def set_priv_def)

lemma drive_packet:
  assumes s: "synced s" and v: "valid_packet (priv s) p"
  shows "\<exists>s'. drive E f0 p s = Some s' \<and> delivers E [p] s s' \<and> synced s' \<and> format (priv s') = format (priv s)"
proof -
  let ?k = "pktsize (priv s)"
  have ok: "slot_ok kRingSize ?k (ringBuffer s)" "packetByteCount s = 0" "packets kRingSize ?k (ringBuffer s) = []"
    "process_ok s" "2 * ?k \<le> kRingSize" using s by (simp_all add: synced_def)
  have k: "0 < ?k" "length p = ?k" using v by (simp_all add: valid_packet_def)
  have "2 \<le> kRingSize div ?k" using ok(5) k(1) by (simp add: less_eq_div_iff_mult_less_eq)
  then have room: "length (packets kRingSize ?k (ringBuffer s)) < kRingSize div ?k - 1" using ok(3) by simp
  obtain rb where f: "feed p s = Some (replicate (?k - 1) kPS2IR_packetBuffering @ [kPS2IR_packetReady],
      (bad_data False s)\<lparr>ringBuffer := rb, packetByteCount := ?k\<rparr>)"
    and q: "packets kRingSize ?k rb = [p]" "slot_ok kRingSize ?k rb"
    using packet_delivered [OF ok(1,2) v room] ok(3) by auto
  define u where "u = (bad_data False s)\<lparr>ringBuffer := rb, packetByteCount := ?k\<rparr>"
  have rel: "relinked s u" by (simp add: relinked_def u_def wipe_update)
  have u: "pktsize (priv u) = ?k" "\<not> PSMOUSE_BAD_DATA (priv u)" "ringBuffer u = rb" "format (priv u) = format (priv s)"
    by (simp_all add: u_def bad_data_def set_priv_def format_def)
  obtain s' where s': "packetReady E f0 u = Some s'" "delivers E [p] u s'" "slot_ok kRingSize ?k (ringBuffer s')"
      "packets kRingSize ?k (ringBuffer s') = []" "process_ok s'" "link_data (priv s') = link_data (priv u)" "packetByteCount s' = 0"
    using packet_loop [of u E f0] relinked_process_ok [OF rel ok(4)] q unfolding u(1,3) by (auto simp: u(2))
  have "drive E f0 p s = Some s'" using drive_feed [of p s u E f0] f k s'(1) by (fastforce simp: u_def)
  moreover have fm: "format (priv s') = format (priv s)" using format_link [OF s'(6)] u(4) by simp
  moreover have "synced s'" using s'(3-5,7) ok(5) format_cong(1) [OF fm] by (simp add: synced_def)
  ultimately show ?thesis using delivers_relinked [OF rel s'(2)] by blast
qed

lemma interrupt_noise:
  assumes ok: "slot_ok kRingSize (pktsize (priv s)) (ringBuffer s)" and n: "packetByteCount s = 0" and b: "noise (priv s) b"
  obtains rb where "interruptOccurred b s = Some (drop_packet (s\<lparr>ringBuffer := rb\<rparr>))"
    and "slot_ok kRingSize (pktsize (priv s)) rb"
proof -
  let ?k = "pktsize (priv s)"
  define rb where "rb = (ringBuffer s)\<lparr>m_buffer := (m_buffer (ringBuffer s))[m_head (ringBuffer s) := b]\<rparr>"
  have k: "0 < ?k" using ok by (simp add: slot_ok_def)
  have w: "head_write kRingSize (ringBuffer s) 0 b = Some rb" using slot_write [OF ok k, of b] by (simp add: rb_def)
  have rd: "head_read kRingSize rb 0 = Some b"
    using ok by (simp add: rb_def head_read_def slot_ok_def ring_ok_def)
  have "interruptOccurred b s = Some (drop_packet (s\<lparr>ringBuffer := rb\<rparr>))"
    using n b by (auto simp: interruptOccurred_def w Let_def byte_differs_def rd bad_data_def set_priv_def stuffed_ps2_def
        bad_first_byte_def noise_def drop_packet_def)
  moreover have "slot_ok kRingSize ?k rb" using ok by (simp add: rb_def slot_ok_def ring_ok_def)
  ultimately show thesis by (rule that)
qed

lemma dropped_queue:
  assumes ok: "slot_ok kRingSize (pktsize (priv s)) (ringBuffer s)" and "process_ok s"
  shows "\<exists>s'. packetReady E f0 (snd (drop_packet s)) = Some s' \<and> relinked s s'
    \<and> slot_ok kRingSize (pktsize (priv s)) (ringBuffer s') \<and> packets kRingSize (pktsize (priv s)) (ringBuffer s') = []
    \<and> process_ok s' \<and> format (priv s') = format (priv s)
    \<and> (2 * pktsize (priv s) \<le> kRingSize \<longrightarrow> packetByteCount s' = 0)"
proof -
  let ?k = "pktsize (priv s)"
  define u where "u = publish (bad_data True s)"
  have rel: "relinked s u" by (simp add: relinked_def u_def publish_def wipe_update)
  have u: "pktsize (priv u) = ?k" "PSMOUSE_BAD_DATA (priv u)" "ringBuffer u = advanceHead kRingSize ?k (ringBuffer s)"
    "format (priv u) = format (priv s)"
    by (simp_all add: u_def publish_def bad_data_def set_priv_def format_def)
  have sl: "slot_ok kRingSize ?k (ringBuffer u)" using slots.valid_commit [OF ok] by (simp add: u(3))
  obtain s' where s': "packetReady E f0 u = Some s'" "delivers E [] u s'" "slot_ok kRingSize ?k (ringBuffer s')"
      "packets kRingSize ?k (ringBuffer s') = []" "process_ok s'" "link_data (priv s') = link_data (priv u)"
      "packets kRingSize ?k (ringBuffer u) \<noteq> [] \<longrightarrow> packetByteCount s' = 0"
    using packet_loop [of u E f0] relinked_process_ok [OF rel assms(2)] sl unfolding u(1) by (auto simp: u(2))
  have "packets kRingSize ?k (ringBuffer u) \<noteq> []" if "2 * ?k \<le> kRingSize"
  proof -
    have "0 < ?k" using ok by (simp add: slot_ok_def)
    then have "2 \<le> kRingSize div ?k" using that by (simp add: less_eq_div_iff_mult_less_eq)
    then show ?thesis
      using slots.commit_room [OF ok] slots.commit_full [OF ok] unfolding u(3)
      by (cases "length (packets kRingSize ?k (ringBuffer s)) < kRingSize div ?k - 1") auto
  qed
  moreover have "relinked s s'" using relinked_trans [OF rel delivers_nil_out [OF s'(2)]] .
  moreover have "format (priv s') = format (priv s)" using format_link [OF s'(6)] u(4) by simp
  ultimately show ?thesis using s' by (auto simp: drop_packet_def u_def [symmetric])
qed

lemma drive_noise:
  assumes s: "synced s" and b: "noise (priv s) b"
  shows "\<exists>s'. drive E f0 [b] s = Some s' \<and> delivers E [] s s' \<and> synced s' \<and> format (priv s') = format (priv s)"
proof -
  have ok: "slot_ok kRingSize (pktsize (priv s)) (ringBuffer s)" "packetByteCount s = 0" "process_ok s"
    "2 * pktsize (priv s) \<le> kRingSize" using s by (simp_all add: synced_def)
  obtain rb where i: "interruptOccurred b s = Some (drop_packet (s\<lparr>ringBuffer := rb\<rparr>))"
    and rb: "slot_ok kRingSize (pktsize (priv s)) rb"
    using interrupt_noise [OF ok(1,2) b] .
  let ?u = "s\<lparr>ringBuffer := rb\<rparr>"
  have rel: "relinked s ?u" by (simp add: relinked_def wipe_update)
  obtain s' where s': "packetReady E f0 (snd (drop_packet ?u)) = Some s'" "relinked ?u s'"
      "slot_ok kRingSize (pktsize (priv s)) (ringBuffer s')" "packets kRingSize (pktsize (priv s)) (ringBuffer s') = []"
      "process_ok s'" "format (priv s') = format (priv s)" "packetByteCount s' = 0"
    using dropped_queue [of ?u E f0] rb ok(4) relinked_process_ok [OF rel ok(3)] by auto
  have "drive E f0 [b] s = Some s'" using i s'(1) by (simp add: drop_packet_def)
  moreover have "synced s'" using s'(3-5,7) ok(4) format_cong(1) [OF s'(6)] by (simp add: synced_def)
  ultimately show ?thesis using s'(6) delivers_link [OF relinked_trans [OF rel s'(2)]] by blast
qed

lemma drive_segments:
  "synced s \<Longrightarrow> (\<forall>x \<in> set segs. seg_ok (priv s) x) \<Longrightarrow>
   \<exists>s'. drive E f0 (concat (map seg_bytes segs)) s = Some s' \<and> delivers E (concat (map seg_packets segs)) s s' \<and> synced s'"
proof (induction segs arbitrary: s)
  case Nil
  then show ?case using delivers_link [OF relinked_refl] by auto
next
  case (Cons x segs)
  have "\<exists>s1. drive E f0 (seg_bytes x) s = Some s1 \<and> delivers E (seg_packets x) s s1 \<and> synced s1 \<and> format (priv s1) = format (priv s)"
    using Cons.prems drive_packet drive_noise by (cases x) auto
  then obtain s1 where s1: "drive E f0 (seg_bytes x) s = Some s1" "delivers E (seg_packets x) s s1" "synced s1"
      "format (priv s1) = format (priv s)" by blast
  have "seg_ok (priv s1) y = seg_ok (priv s) y" for y using format_cong(2,3) [OF s1(4)] by (cases y) simp_all
  then have "\<forall>y \<in> set segs. seg_ok (priv s1) y" using Cons.prems(2) by simp
  then show ?case
    using Cons.IH [OF s1(3)] s1 delivers_append [OF s1(2)] by (fastforce simp: drive_append)
qed

text \<open>
  C1. Starting synchronised, the driver delivers exactly the packets of the stream, in order and each once,
  whatever bytes that can start no packet come between them: such a byte is dropped and the next packet is read
  from its first byte.
\<close>

theorem stream_delivered:
  assumes "synced s" and "\<forall>x \<in> set segs. seg_ok (priv s) x"
  shows "\<exists>s'. drive E f0 (concat (map seg_bytes segs)) s = Some s' \<and> delivers E (concat (map seg_packets segs)) s s' \<and> synced s'"
  by (rule drive_segments [OF assms])

section \<open>A late work loop\<close>

lemma interrupt_stale:
  assumes ok: "slot_ok kRingSize (pktsize (priv s)) (ringBuffer s)" and c: "packetByteCount s \<noteq> 0"
    and st: "noise (priv s) (staged (pktsize (priv s)) (ringBuffer s) ! 0)" and fl: "\<not> isset (flags (priv s)) ALPS_PS2_INTERLEAVED"
  shows "interruptOccurred b s = Some (drop_packet s)"
proof -
  define b0 where "b0 = staged (pktsize (priv s)) (ringBuffer s) ! 0"
  define s1 where "s1 = bad_data False (s\<lparr>ringBuffer := ringBuffer s\<rparr>)"
  have k: "0 < pktsize (priv s)" using ok by (simp add: slot_ok_def)
  have p1: "head_read kRingSize (ringBuffer s1) 0 = Some b0" "priv s1 = (priv s)\<lparr>PSMOUSE_BAD_DATA := False\<rparr>"
    using slot_read [OF ok k] by (simp_all add: s1_def bad_data_def set_priv_def b0_def)
  have d: "drop_packet s1 = drop_packet s"
    by (simp add: s1_def drop_packet_def bad_data_def set_priv_def)
  have bare: "(if proto_version (priv s1) \<noteq> ALPS_PROTO_V8 then map_option Not (byte_differs True 0 0xc8 0x08 s1) else Some False)
      = Some False"
    using st by (auto simp: byte_differs_def p1 noise_def b0_def)
  have "stuffed_ps2 s1 = Some False" "bad_first_byte s1 = Some True"
    using st fl by (simp_all add: stuffed_ps2_def bad_first_byte_def byte_differs_def p1 noise_def b0_def)
  moreover have "(if packetByteCount s = 0 then head_write kRingSize (ringBuffer s) 0 b else Some (ringBuffer s)) = Some (ringBuffer s)"
    using c by simp
  ultimately show ?thesis
    unfolding interruptOccurred_def by (simp only: Option.bind.bind_lunit Let_def s1_def [symmetric] bare if_False if_True d)
qed


text \<open>A Pinnacle trackpad for the witnesses.\<close>

definition sample_link :: alps where
  "sample_link = sample_v3\<lparr>ringBuffer := \<lparr>m_buffer = replicate 192 0, m_head = 0, m_tail = 0\<rparr>, packetByteCount := 0,
     priv := (priv sample_v3)\<lparr>proto_version := ALPS_PROTO_V3, pktsize := 6, byte0 := 0x8f, mask0 := 0x8f\<rparr>\<rparr>"

lemma sample_link_fields: "pktsize (priv sample_link) = 6" "proto_version (priv sample_link) = ALPS_PROTO_V3"
  "byte0 (priv sample_link) = 0x8f" "mask0 (priv sample_link) = 0x8f" "flags (priv sample_link) = 0"
  "packetByteCount sample_link = 0" "ringBuffer sample_link = \<lparr>m_buffer = replicate 192 0, m_head = 0, m_tail = 0\<rparr>"
  "\<not> PSMOUSE_BAD_DATA (priv sample_link)"
  by (simp_all add: sample_link_def sample_v3_def zero_data_def)

lemma sample_link_ok: "process_ok sample_link"
  using sample_ok(1)
  by (simp add: process_ok_def sample_link_def sample_v3_def scale_ok_def dispatch_ready_def geometry_ok_def decoder_ok_def
      zero_data_def sample_alps_def signed_divide_int_def)

lemma sample_packet: "valid_packet (priv sample_link) [0x8f, 1, 2, 8, 4, 5]" "noise (priv sample_link) 0"
  by (auto simp: valid_packet_def noise_def sample_link_fields less_Suc_eq nth_Cons')

lemma sample_synced: "synced sample_link"
  using sample_link_ok
  by (simp add: synced_def sample_link_fields slot_ok_def ring_ok_def packets_def contents_def ring_count_def count2_def)

lemma packet_loop_drains_witness:
  "\<exists>s'. packetReady \<lparr>uptime = of_nat, to_ns = (\<lambda>t. t)\<rparr> (\<lambda>_. zero_fields) sample_link = Some s'"
proof -
  have "slot_ok kRingSize (pktsize (priv sample_link)) (ringBuffer sample_link)"
    using sample_synced by (simp add: synced_def)
  then show ?thesis using packet_loop_drains [OF _ sample_link_ok] by blast
qed

lemma valid_packet_queued_witness:
  "\<exists>rb. feed [0x8f, 1, 2, 8, 4, 5] sample_link = Some (replicate 5 kPS2IR_packetBuffering @ [kPS2IR_packetReady],
        (bad_data False sample_link)\<lparr>ringBuffer := rb, packetByteCount := 6\<rparr>)
     \<and> packets kRingSize 6 rb = [[0x8f, 1, 2, 8, 4, 5]]"
  using valid_packet_queued [OF _ _ sample_packet(1)] sample_synced by (simp add: synced_def sample_link_fields)

lemma stream_delivered_witness:
  "\<exists>s'. drive \<lparr>uptime = of_nat, to_ns = (\<lambda>t. t)\<rparr> (\<lambda>_. zero_fields) [0, 0, 0x8f, 1, 2, 8, 4, 5] sample_link = Some s'
    \<and> delivers \<lparr>uptime = of_nat, to_ns = (\<lambda>t. t)\<rparr> [[0x8f, 1, 2, 8, 4, 5]] sample_link s'"
  using stream_delivered [OF sample_synced, of "[Noise 0, Noise 0, Packet [0x8f, 1, 2, 8, 4, 5]]"] sample_packet
  by auto


end
