(* ===== verification/ControllerReads.thy ===== *)
theory ControllerReads
  imports ControllerSafety InterruptSafety
begin

text \<open>
  The reading loops: where every byte read goes, when they return and when not, and what one interrupt delivers.
\<close>

section \<open>Bytes in the trace\<close>

text \<open>The bytes read from the data port, each with the device the status read before it names; the bytes handed to
  the drivers; the bytes of one device.\<close>

fun received :: "u8 \<Rightarrow> ctl_event list \<Rightarrow> (PS2DeviceType \<times> u8) list" where
  "received s [] = []"
| "received s (PortIn p b # es) = (if p = kDataPort then (device_of s, b) # received s es else received b es)"
| "received s (_ # es) = received s es"

fun delivered :: "ctl_event list \<Rightarrow> (PS2DeviceType \<times> u8) list" where
  "delivered [] = []"
| "delivered (Dispatch dt b # es) = (dt, b) # delivered es"
| "delivered (_ # es) = delivered es"

definition stream :: "PS2DeviceType \<Rightarrow> (PS2DeviceType \<times> u8) list \<Rightarrow> u8 list" where
  "stream dt xs = map snd (filter (\<lambda>x. fst x = dt) xs)"

lemma stream_simps [simp]:
  "stream dt [] = []" "stream dt (x # xs) = (if fst x = dt then [snd x] else []) @ stream dt xs"
  "stream dt (xs @ ys) = stream dt xs @ stream dt ys"
  by (auto simp: stream_def)

lemma delivered_append [simp]: "delivered (xs @ ys) = delivered xs @ delivered ys"
  by (induction xs rule: delivered.induct) auto

lemma other_device_simps [simp]:
  "other_device dt \<noteq> dt" "dt \<noteq> other_device dt" "(x \<noteq> dt) = (x = other_device dt)" "(x \<noteq> other_device dt) = (x = dt)"
  by (cases dt; cases x; simp add: other_device_def)+

text \<open>Events that hand over no byte, and events without port reads.\<close>

lemma trace_inb: "inb E p c = (b, c') \<Longrightarrow> trace c' = trace c @ [PortIn p b]"
  by (auto simp: inb_def log_def split: prod.splits)

lemma trace_dispatch:
  "\<exists>es. trace (dispatchDriverInterrupt E dt b c) = trace c @ Dispatch dt b # es \<and> delivered es = [] \<and>
     (\<forall>s xs. received s (es @ xs) = received s xs)"
  by (auto simp: dispatchDriverInterrupt_def dispatch_driver_interrupt_def Let_def log_def split: prod.splits)

lemma trace_in_order:
  "ignoreOutOfOrder c = 0 \<Longrightarrow> \<exists>es. trace (dispatch_in_order E dt b c) = trace c @ Dispatch dt b # es \<and> delivered es = [] \<and>
     (\<forall>s xs. received s (es @ xs) = received s xs)"
  by (simp add: dispatch_in_order_def trace_dispatch)

lemma trace_wait_output:
  "wait_output E n c = (m, status, c') \<Longrightarrow> \<exists>es. trace c' = trace c @ es \<and> delivered es = [] \<and>
     (if m = 0 then \<forall>s. received s es = [] else \<forall>s xs. received s (es @ xs) = received status xs)"
proof (induction n arbitrary: c)
  case 0
  then show ?case by simp
next
  case (Suc n)
  obtain s1 c1 where inb: "inb E kCommandPort c = (s1, c1)" by fastforce
  show ?case
  proof (cases "isset s1 kOutputReady")
    case True
    with Suc.prems inb trace_inb [OF inb] show ?thesis by auto
  next
    case False
    with Suc.prems inb have "wait_output E n c1 = (m, status, c')" by simp
    from Suc.IH [OF this] obtain es where "trace c' = trace c1 @ es" "delivered es = []"
      "if m = 0 then \<forall>s. received s es = [] else \<forall>s xs. received s (es @ xs) = received status xs" by blast
    with trace_inb [OF inb] show ?thesis by (intro exI [of _ "PortIn kCommandPort s1 # es"]) (simp split: if_splits)
  qed
qed

text \<open>What a read that expects \<open>x\<close> may answer, from the bytes of its own device that came and that were handed
  on; \<open>held\<close> is a byte that came before.\<close>

fun answered :: "u8 \<Rightarrow> u8 option \<Rightarrow> u8 list \<Rightarrow> u8 list \<Rightarrow> u8 \<Rightarrow> bool" where
  "answered x None [] handed b = (handed = [] \<and> b = 0)"
| "answered x None [y] handed b = (handed = [] \<and> b = y)"
| "answered x None [y, z] handed b = (y \<noteq> x \<and> (if z = x then handed = [y] \<and> b = x else handed = [z] \<and> b = y))"
| "answered x (Some y) [] handed b = (handed = [] \<and> b = y)"
| "answered x (Some y) [z] handed b = (if z = x then handed = [y] \<and> b = x else handed = [z] \<and> b = y)"
| "answered x _ _ handed b = False"

lemma answered_hold:
  "y \<noteq> x \<Longrightarrow> answered x (Some y) own handed b \<Longrightarrow> answered x None (y # own) handed b"
  by (cases "(x, Some y, own, handed, b)" rule: answered.cases) auto

definition read_accounts :: "PS2DeviceType \<Rightarrow> u8 \<Rightarrow> u8 option \<Rightarrow> 'h ctl \<Rightarrow> u8 \<Rightarrow> 'h ctl \<Rightarrow> bool" where
  "read_accounts dt x held c b c' \<longleftrightarrow> (\<exists>es. trace c' = trace c @ es \<and>
     (\<forall>s. stream (other_device dt) (received s es) = stream (other_device dt) (delivered es)) \<and>
     (\<forall>s. answered x held (stream dt (received s es)) (stream dt (delivered es)) b))"

lemma read_accountsI:
  assumes "trace c1 = trace c @ es" "delivered es = own" "\<And>s xs. received s (es @ xs) = all @ received status xs"
    and "stream (other_device dt) all = stream (other_device dt) own"
    and "trace c' = trace c1 @ fs" "\<And>s. stream (other_device dt) (received s fs) = stream (other_device dt) (delivered fs)"
    and "\<And>s. answered x held (stream dt all @ stream dt (received s fs)) (stream dt own @ stream dt (delivered fs)) b"
  shows "read_accounts dt x held c b c'"
  unfolding read_accounts_def using assms by (intro exI [of _ "es @ fs"]) simp

lemma read_accounts_hold:
  assumes "trace c1 = trace c @ es" "delivered es = []" "\<And>s xs. received s (es @ xs) = (dt, y) # received status xs" "y \<noteq> x"
    and "read_accounts dt x (Some y) c1 b c'"
  shows "read_accounts dt x None c b c'"
proof -
  obtain fs where fs: "trace c' = trace c1 @ fs"
    "\<And>s. stream (other_device dt) (received s fs) = stream (other_device dt) (delivered fs)"
    "\<And>s. answered x (Some y) (stream dt (received s fs)) (stream dt (delivered fs)) b"
    using assms(5) by (auto simp: read_accounts_def)
  show ?thesis
    by (rule read_accountsI [where all = "[(dt, y)]" and own = "[]", OF assms(1) assms(2) _ _ fs(1)])
      (simp_all add: assms fs answered_hold)
qed

lemma read_accounts_skip:
  assumes "trace c1 = trace c @ es" "delivered es = [(other_device dt, y)]"
    and "\<And>s xs. received s (es @ xs) = (other_device dt, y) # received status xs" "read_accounts dt x held c1 b c'"
  shows "read_accounts dt x held c b c'"
proof -
  obtain fs where fs: "trace c' = trace c1 @ fs"
    "\<And>s. stream (other_device dt) (received s fs) = stream (other_device dt) (delivered fs)"
    "\<And>s. answered x held (stream dt (received s fs)) (stream dt (delivered fs)) b"
    using assms(4) by (auto simp: read_accounts_def)
  show ?thesis
    by (rule read_accountsI [where all = "[(other_device dt, y)]" and own = "[(other_device dt, y)]", OF assms(1) assms(2) _ _ fs(1)])
      (simp_all add: assms fs)
qed

lemma read_accounts_end:
  assumes "trace c' = trace c @ es" "delivered es = map (Pair dt) own"
    and "\<And>s. received s es = map (Pair dt) all" "answered x held all own b"
  shows "read_accounts dt x held c b c'"
proof -
  have [simp]: "stream d (map (Pair dt) ys) = (if d = dt then ys else [])" for d ys
    by (induction ys) auto
  show ?thesis unfolding read_accounts_def by (intro exI [of _ es]) (simp add: assms)
qed

lemma read_accounts_step:
  fixes E :: "'h env"
  assumes IH: "\<And>E dt x n held c r. f E dt x n held c = Some r \<Longrightarrow>
      ignoreOutOfOrder c = 0 \<longrightarrow> held \<noteq> Some x \<longrightarrow> read_accounts dt x held c (fst r) (snd r)"
    and body: "(case wait_output E n c of (n, status, c) \<Rightarrow>
        if n = 0 then Some (case held of Some first \<Rightarrow> first | None \<Rightarrow> 0, c)
        else
          (case inb E kDataPort c of (b, c) \<Rightarrow>
             if device_of status \<noteq> dt then f E dt x n held (dispatch_in_order E (other_device dt) b c)
             else if b = x then Some (b, case held of Some first \<Rightarrow> dispatch_in_order E dt first c | None \<Rightarrow> c)
             else (case held of None \<Rightarrow> f E dt x n (Some b) c
                   | Some first \<Rightarrow> Some (first, dispatch_in_order E dt b c)))) = Some r"
    and order: "ignoreOutOfOrder c = 0" and held: "held \<noteq> Some x"
  shows "read_accounts dt x held c (fst r) (snd r)"
proof -
  obtain m status c1 where w: "wait_output E n c = (m, status, c1)" by (cases "wait_output E n c") auto
  obtain es where es: "trace c1 = trace c @ es" "delivered es = []"
    "if m = 0 then \<forall>s. received s es = [] else \<forall>s xs. received s (es @ xs) = received status xs"
    using trace_wait_output [OF w] by blast
  show ?thesis
  proof (cases "m = 0")
    case True
    with body w have "r = (case held of Some first \<Rightarrow> first | None \<Rightarrow> 0, c1)" by simp
    then show ?thesis using es True
      by (intro read_accounts_end [where own = "[]" and all = "[]"]) (auto split: option.split)
  next
    case False
    obtain b c2 where i: "inb E kDataPort c1 = (b, c2)" by fastforce
    have c2: "trace c2 = trace c @ (es @ [PortIn kDataPort b])"
      "\<And>s xs. received s ((es @ [PortIn kDataPort b]) @ xs) = (device_of status, b) # received status xs"
      "delivered (es @ [PortIn kDataPort b]) = []"
      using es False trace_inb [OF i] by simp_all
    have order2: "ignoreOutOfOrder c2 = 0"
      using order port_step_wait_output [OF w] port_step_inb [OF i] by (auto dest!: port_step_fields)
    note trace_in_order [OF order2, of E]
    then obtain fs where fs: "\<And>dt b. trace (dispatch_in_order E dt b c2) = trace c2 @ Dispatch dt b # fs dt b"
      "\<And>dt b. delivered (fs dt b) = []" "\<And>dt b s xs. received s (fs dt b @ xs) = received s xs"
      by metis
    have [simp]: "received s (fs d y) = []" for s d y using fs(3) [of s d y "[]"] by simp
    consider (other) "device_of status \<noteq> dt" | (hit) "device_of status = dt" "b = x"
      | (hold) "device_of status = dt" "b \<noteq> x" "held = None"
      | (miss) first where "device_of status = dt" "b \<noteq> x" "held = Some first"
      by (cases held; cases "device_of status = dt"; cases "b = x"; blast)
    then show ?thesis
    proof cases
      case other
      with body w i False have "f E dt x m held (dispatch_in_order E (other_device dt) b c2) = Some r" by simp
      from IH [OF this] have "read_accounts dt x held (dispatch_in_order E (other_device dt) b c2) (fst r) (snd r)"
        using order2 held port_step_in_order [of c2] by (metis port_step_fields)
      then show ?thesis
        by (rule read_accounts_skip [where es = "es @ [PortIn kDataPort b] @ Dispatch (other_device dt) b # fs (other_device dt) b" and y = b and status = status, rotated -1])
          (use c2 fs other in simp_all)
    next
      case hit
      with body w i False have "r = (b, case held of Some first \<Rightarrow> dispatch_in_order E dt first c2 | None \<Rightarrow> c2)" by simp
      with hit c2 held fs show ?thesis
        by (cases held) (auto intro: read_accounts_end [where own = "[]" and all = "[x]" and es = "es @ [PortIn kDataPort b]"]
            read_accounts_end [where own = "[the held]" and all = "[x]" and es = "es @ [PortIn kDataPort b] @ Dispatch dt (the held) # fs dt (the held)"])
    next
      case hold
      with body w i False have "f E dt x m (Some b) c2 = Some r" by simp
      from IH [OF this] have "read_accounts dt x (Some b) c2 (fst r) (snd r)" using order2 hold by simp
      then show ?thesis unfolding \<open>held = None\<close>
        by (rule read_accounts_hold [where es = "es @ [PortIn kDataPort b]" and y = b and status = status, rotated -1])
          (use c2 hold in simp_all)
    next
      case miss
      with body w i False have "r = (first, dispatch_in_order E dt b c2)" by simp
      with miss c2 fs show ?thesis
        by (auto intro: read_accounts_end [where own = "[b]" and all = "[b]" and es = "es @ [PortIn kDataPort b] @ Dispatch dt b # fs dt b"])
    qed
  qed
qed

lemma expect_loop_accounts:
  assumes "expect_loop E dt x n held c = Some r" "ignoreOutOfOrder c = 0" "held \<noteq> Some x"
  shows "read_accounts dt x held c (fst r) (snd r)"
proof -
  have "ignoreOutOfOrder c = 0 \<longrightarrow> held \<noteq> Some x \<longrightarrow> read_accounts dt x held c (fst r) (snd r)"
    by (rule expect_loop.raw_induct [of "\<lambda>E dt x n held c r. ignoreOutOfOrder c = 0 \<longrightarrow> held \<noteq> Some x \<longrightarrow> read_accounts dt x held c (fst r) (snd r)", OF _ assms(1)])
      (use read_accounts_step in blast)
  with assms show ?thesis by blast
qed

section \<open>Reads that return\<close>

text \<open>\<open>left\<close> bounds the bytes still to come: reading the status does not raise it, reading a byte that is ready
  lowers it, and the drivers' interrupt actions leave it alone.\<close>

definition finite_input :: "'h env \<Rightarrow> ('h \<Rightarrow> nat) \<Rightarrow> bool" where
  "finite_input E left \<longleftrightarrow>
     (\<forall>h. left (snd (env_inb E kCommandPort h)) \<le> left h) \<and>
     (\<forall>h. isset (fst (env_inb E kCommandPort h)) kOutputReady \<longrightarrow>
        left (snd (env_inb E kDataPort (snd (env_inb E kCommandPort h)))) < left h) \<and>
     (\<forall>dt b h. left (snd (env_action E dt b h)) \<le> left h)"

lemma finite_input_dispatch:
  assumes "finite_input E left"
  shows "left (world (dispatchDriverInterrupt E dt b c)) \<le> left (world c)"
    and "left (world (dispatch_in_order E dt b c)) \<le> left (world c)"
  using assms
  by (auto simp: finite_input_def dispatch_in_order_def dispatchDriverInterrupt_def dispatch_driver_interrupt_def Let_def log_def
      split: prod.splits) (metis snd_conv)+

lemma finite_input_read:
  assumes f: "finite_input E left" and "wait_output E n c = (m, status, c1)" "m \<noteq> 0"
  shows "left (world (snd (inb E kDataPort c1))) < left (world c)"
  using assms(2)
proof (induction n arbitrary: c)
  case 0
  with assms(3) show ?case by simp
next
  case (Suc n)
  obtain s1 c2 where inb: "inb E kCommandPort c = (s1, c2)" by fastforce
  then have w: "env_inb E kCommandPort (world c) = (s1, world c2)" by (auto simp: inb_def log_def split: prod.splits)
  have step: "left (world c2) \<le> left (world c)" using f w unfolding finite_input_def by (metis snd_conv)
  show ?case
  proof (cases "isset s1 kOutputReady")
    case True
    with Suc.prems inb have "c1 = c2" by simp
    moreover have "left (snd (env_inb E kDataPort (world c2))) < left (world c)"
      using f w True unfolding finite_input_def by (metis fst_conv snd_conv)
    ultimately show ?thesis by (auto simp: inb_def log_def split: prod.splits)
  next
    case False
    with Suc.prems inb have "wait_output E n c2 = (m, status, c1)" by simp
    from Suc.IH [OF this] step show ?thesis by linarith
  qed
qed

lemma read_loop_returns:
  assumes "finite_input E left"
  shows "read_loop E dt n c \<noteq> None"
proof (induction "left (world c)" arbitrary: n c rule: less_induct)
  case less
  obtain m status c1 where w: "wait_output E n c = (m, status, c1)" by (cases "wait_output E n c") auto
  obtain b c2 where i: "inb E kDataPort c1 = (b, c2)" by fastforce
  have "read_loop E dt m (dispatchDriverInterrupt E (other_device dt) b c2) \<noteq> None" if "m \<noteq> 0"
    using finite_input_read [OF assms w that] finite_input_dispatch(1) [OF assms, of "other_device dt" b c2] i
    by (intro less) simp
  then show ?case by (subst read_loop.simps) (simp add: w i del: not_None_eq)
qed

lemma expect_loop_returns:
  assumes "finite_input E left"
  shows "expect_loop E dt x n held c \<noteq> None"
proof (induction "left (world c)" arbitrary: n held c rule: less_induct)
  case less
  obtain m status c1 where w: "wait_output E n c = (m, status, c1)" by (cases "wait_output E n c") auto
  obtain b c2 where i: "inb E kDataPort c1 = (b, c2)" by fastforce
  have lt: "left (world c2) < left (world c)" if "m \<noteq> 0" using finite_input_read [OF assms w that] i by simp
  have "expect_loop E dt x m held (dispatch_in_order E (other_device dt) b c2) \<noteq> None" if "m \<noteq> 0"
    using lt [OF that] finite_input_dispatch(2) [OF assms, of "other_device dt" b c2] by (intro less) simp
  moreover have "expect_loop E dt x m (Some b) c2 \<noteq> None" if "m \<noteq> 0" using lt [OF that] by (rule less)
  ultimately show ?case
    by (subst expect_loop.simps) (simp add: w i split: option.split del: not_None_eq)
qed

text \<open>A device that never stops: every status says that a byte of the other device is ready.\<close>

definition floods :: "'h env \<Rightarrow> PS2DeviceType \<Rightarrow> bool" where
  "floods E dt \<longleftrightarrow> (\<forall>h. isset (fst (env_inb E kCommandPort h)) kOutputReady \<and> device_of (fst (env_inb E kCommandPort h)) = dt)"

lemma floods_wait:
  assumes "floods E dt"
  shows "\<exists>status c1. wait_output E (Suc n) c = (Suc n, status, c1) \<and> device_of status = dt \<and> suppressTimeout c1 = suppressTimeout c"
proof -
  obtain s1 c1 where inb: "inb E kCommandPort c = (s1, c1)" by fastforce
  have "s1 = fst (env_inb E kCommandPort (world c))" using inb by (auto simp: inb_def split: prod.splits)
  with assms have "isset s1 kOutputReady" "device_of s1 = dt" by (simp_all add: floods_def)
  with inb port_step_fields [OF port_step_inb [OF inb]] show ?thesis by simp
qed

lemma floods_inb: "inb E p c = (b, c') \<Longrightarrow> suppressTimeout c' = suppressTimeout c"
  using port_step_inb port_step_fields by metis

lemma read_loop_flooded:
  "read_loop E dt n c = Some r \<Longrightarrow> floods E (other_device dt) \<longrightarrow> \<not> suppressTimeout c \<longrightarrow> n = 0"
proof (rule read_loop.raw_induct [of "\<lambda>E dt n c r. floods E (other_device dt) \<longrightarrow> \<not> suppressTimeout c \<longrightarrow> n = 0"])
  fix f :: "'h env \<Rightarrow> PS2DeviceType \<Rightarrow> nat \<Rightarrow> 'h ctl \<Rightarrow> (u8 \<times> 'h ctl) option" and E dt n and c :: "'h ctl" and r
  assume IH: "\<And>E dt n c r. f E dt n c = Some r \<Longrightarrow> floods E (other_device dt) \<longrightarrow> \<not> suppressTimeout c \<longrightarrow> n = 0"
    and body: "(case wait_output E n c of (n, status, c) \<Rightarrow>
        if n = 0 then Some (0, c)
        else (case inb E kDataPort c of (b, c) \<Rightarrow>
             if suppressTimeout c \<or> device_of status = dt then Some (b, c)
             else f E dt n (dispatchDriverInterrupt E (other_device dt) b c))) = Some r"
  show "floods E (other_device dt) \<longrightarrow> \<not> suppressTimeout c \<longrightarrow> n = 0"
  proof (intro impI, rule ccontr)
    assume fl: "floods E (other_device dt)" and s: "\<not> suppressTimeout c" and "n \<noteq> 0"
    then obtain k where n: "n = Suc k" by (cases n) auto
    obtain status c1 where w: "wait_output E n c = (n, status, c1)" "device_of status = other_device dt" "suppressTimeout c1 = suppressTimeout c"
      using floods_wait [OF fl, of k c] unfolding n by blast
    obtain b c2 where i: "inb E kDataPort c1 = (b, c2)" by fastforce
    have s2: "\<not> suppressTimeout c2" using s w(3) floods_inb [OF i] by simp
    have "f E dt n (dispatchDriverInterrupt E (other_device dt) b c2) = Some r" using body w i s2 n by simp
    from IH [OF this] fl s2 port_step_fields [OF port_step_dispatch [of c2 E "other_device dt" b]] n show False by simp
  qed
qed

section \<open>The interrupt handler\<close>

text \<open>\<open>pending\<close>: the bytes in the controller's output buffer and behind it, each with its device.\<close>

definition output_buffer :: "'h env \<Rightarrow> ('h \<Rightarrow> (PS2DeviceType \<times> u8) list) \<Rightarrow> bool" where
  "output_buffer E pending \<longleftrightarrow>
     (\<forall>h. pending (snd (env_inb E kCommandPort h)) = pending h) \<and>
     (\<forall>h. isset (fst (env_inb E kCommandPort h)) kOutputReady \<longleftrightarrow> pending h \<noteq> []) \<and>
     (\<forall>h. pending h \<noteq> [] \<longrightarrow> device_of (fst (env_inb E kCommandPort h)) = fst (hd (pending h))) \<and>
     (\<forall>h. pending h \<noteq> [] \<longrightarrow> fst (env_inb E kDataPort h) = snd (hd (pending h))) \<and>
     (\<forall>h. pending h \<noteq> [] \<longrightarrow> pending (snd (env_inb E kDataPort h)) = tl (pending h)) \<and>
     (\<forall>dt b h. pending (snd (env_action E dt b h)) = pending h)"

lemma output_buffer_status:
  assumes "output_buffer E pending" "inb E kCommandPort c = (s, c')"
  shows "pending (world c') = pending (world c)" "isset s kOutputReady \<longleftrightarrow> pending (world c) \<noteq> []"
    and "pending (world c) = (dt, b) # bs \<Longrightarrow> device_of s = dt"
  using assms by (auto simp: output_buffer_def inb_def log_def split: prod.splits)
    (metis (no_types, lifting) fst_conv list.sel(1) list.distinct(1) snd_conv)+

lemma output_buffer_data:
  assumes "output_buffer E pending" "inb E kDataPort c = (d, c')" "pending (world c) = (dt, b) # bs"
  shows "d = b" "pending (world c') = bs"
  using assms by (auto simp: output_buffer_def inb_def log_def split: prod.splits)
    (metis (no_types, lifting) fst_conv list.sel(1) list.sel(3) list.distinct(1) snd_conv)+

lemma output_buffer_action:
  assumes "output_buffer E pending" "dispatch_driver_interrupt E dt b c = (r, c')"
  shows "pending (world c') = pending (world c)" "trace c' = trace c @ [Dispatch dt b]"
  using assms by (auto simp: output_buffer_def dispatch_driver_interrupt_def Let_def log_def split: prod.splits if_splits)
    (metis snd_conv)+

text \<open>What holds of the pending bytes and survives each byte handed over holds when the interrupt loop is done; the flags
  tell which drivers have a packet ready.\<close>

lemma handle_loop_rule:
  assumes E: "output_buffer E pending"
    and inb: "\<And>bs wm wk p b c c'. P bs wm wk c \<Longrightarrow> inb E p c = (b, c') \<Longrightarrow> P bs wm wk c'"
    and step: "\<And>dt b bs wm wk r c c'. P ((dt, b) # bs) wm wk c \<Longrightarrow> dispatch_driver_interrupt E dt b c = (r, c') \<Longrightarrow>
      P bs (wm \<or> dt = kDT_Mouse \<and> r = kPS2IR_packetReady) (wk \<or> dt = kDT_Keyboard \<and> r = kPS2IR_packetReady) c'"
    and P: "P (pending (world c)) wm wk c"
  shows "\<exists>c' wm' wk'. handle_interrupt_loop E wm wk c = Some ((if wk' then log (Wake kDT_Keyboard) else id) ((if wm' then log (Wake kDT_Mouse) else id) c'))
    \<and> P [] wm' wk' c' \<and> pending (world c') = []"
  using P
proof (induction "pending (world c)" arbitrary: wm wk c)
  case Nil
  obtain s c1 where i: "inb E kCommandPort c = (s, c1)" by fastforce
  have p: "pending (world c) = []" using Nil(1) by simp
  note st = output_buffer_status(1,2) [OF E i]
  have "handle_interrupt_loop E wm wk c = Some ((if wk then log (Wake kDT_Keyboard) else id) ((if wm then log (Wake kDT_Mouse) else id) c1))"
    using st p by (subst handle_interrupt_loop.simps) (simp add: i)
  moreover have "P [] wm wk c1" using inb [OF Nil(2) i] p by simp
  ultimately show ?case using st p by metis
next
  case (Cons x bs)
  obtain dt b where x: "x = (dt, b)" by fastforce
  obtain s c1 where i: "inb E kCommandPort c = (s, c1)" by fastforce
  obtain d c2 where j: "inb E kDataPort c1 = (d, c2)" by fastforce
  obtain r c3 where k: "dispatch_driver_interrupt E dt b c2 = (r, c3)" by fastforce
  have p: "pending (world c) = (dt, b) # bs" using Cons(2) x by simp
  note st = output_buffer_status [OF E i]
  have p1: "pending (world c1) = (dt, b) # bs" using st(1) p by simp
  note dat = output_buffer_data [OF E j p1] and act = output_buffer_action [OF E k]
  have dev: "device_of s = dt" by (rule st(3) [OF p])
  let ?wm = "wm \<or> dt = kDT_Mouse \<and> r = kPS2IR_packetReady" and ?wk = "wk \<or> dt = kDT_Keyboard \<and> r = kPS2IR_packetReady"
  have bs: "bs = pending (world c3)" using act dat by simp
  have "P ((dt, b) # bs) wm wk c2" using inb [OF inb [OF Cons(3) i] j] p by simp
  then have "P (pending (world c3)) ?wm ?wk c3" using step [OF _ k] bs by simp
  from Cons(1) [OF bs this] have "\<exists>c' wm' wk'. handle_interrupt_loop E ?wm ?wk c3
      = Some ((if wk' then log (Wake kDT_Keyboard) else id) ((if wm' then log (Wake kDT_Mouse) else id) c')) \<and> P [] wm' wk' c' \<and> pending (world c') = []" .
  moreover have "handle_interrupt_loop E wm wk c = handle_interrupt_loop E ?wm ?wk c3"
    using i j k dat(1) dev st(2) p by (subst handle_interrupt_loop.simps) simp
  ultimately show ?case by simp
qed

lemma handle_loop_drains:
  assumes "output_buffer E pending"
  shows "\<exists>c' es. handle_interrupt_loop E wm wk c = Some c' \<and> trace c' = trace c @ es \<and> delivered es = pending (world c) \<and>
    pending (world c') = []"
proof -
  let ?P = "\<lambda>bs wm wk c'. \<exists>es. trace c' = trace c @ es \<and> delivered es @ bs = pending (world c)"
  obtain c' wm' wk' where "handle_interrupt_loop E wm wk c = Some ((if wk' then log (Wake kDT_Keyboard) else id) ((if wm' then log (Wake kDT_Mouse) else id) c'))"
      "?P [] wm' wk' c'" "pending (world c') = []"
    using handle_loop_rule [OF assms, of ?P c wm wk] by (fastforce dest: trace_inb output_buffer_action(2) [OF assms])
  then show ?thesis by (cases wm'; cases wk') (auto simp: log_def)
qed

text \<open>The trackpad driver as the mouse client: \<open>drv\<close> is its state, its interrupt action is \<open>interruptOccurred\<close>.\<close>

definition trackpad_behind :: "'h env \<Rightarrow> ('h \<Rightarrow> alps) \<Rightarrow> bool" where
  "trackpad_behind E drv \<longleftrightarrow>
     (\<forall>p h. drv (snd (env_inb E p h)) = drv h) \<and>
     (\<forall>b h r s. interruptOccurred b (drv h) = Some (r, s) \<longrightarrow>
        fst (env_action E kDT_Mouse b h) = r \<and> drv (snd (env_action E kDT_Mouse b h)) = s)"

lemma trackpad_action:
  assumes "trackpad_behind E drv" "dispatch_driver_interrupt E kDT_Mouse b c = (r, c')" "interruptInstalled c kDT_Mouse"
    and "interruptOccurred b (drv (world c)) = Some (q, s)"
  shows "r = q" "drv (world c') = s"
  using assms by (auto simp: trackpad_behind_def dispatch_driver_interrupt_def Let_def log_def split: prod.splits)
    (metis fst_conv snd_conv)+

lemma trackpad_inb: "trackpad_behind E drv \<Longrightarrow> inb E p c = (b, c') \<Longrightarrow> drv (world c') = drv (world c)"
  by (auto simp: trackpad_behind_def inb_def log_def split: prod.splits) (metis snd_conv)

lemma handle_loop_feeds:
  assumes E: "output_buffer E pending" "trackpad_behind E drv"
    and c: "pending (world c) = map (Pair kDT_Mouse) bs" "interruptInstalled c kDT_Mouse" "feed bs (drv (world c)) = Some (rs, s')"
  shows "\<exists>c' es. handle_interrupt_loop E wm wk c = Some c' \<and> trace c' = trace c @ es \<and> pending (world c') = [] \<and> drv (world c') = s' \<and>
      (wm \<or> kPS2IR_packetReady \<in> set rs \<longrightarrow> Wake kDT_Mouse \<in> set es)"
proof -
  let ?P = "\<lambda>xs w wk c'. interruptInstalled c' kDT_Mouse \<and> (\<exists>es. trace c' = trace c @ es) \<and>
     (\<exists>bs' rs'. xs = map (Pair kDT_Mouse) bs' \<and> feed bs' (drv (world c')) = Some (rs', s') \<and>
       (wm \<or> kPS2IR_packetReady \<in> set rs \<longrightarrow> w \<or> kPS2IR_packetReady \<in> set rs'))"
  have "\<exists>c' wm' wk'. handle_interrupt_loop E wm wk c = Some ((if wk' then log (Wake kDT_Keyboard) else id) ((if wm' then log (Wake kDT_Mouse) else id) c'))
    \<and> ?P [] wm' wk' c' \<and> pending (world c') = []"
  proof (rule handle_loop_rule [OF E(1)])
    fix xs w wk p b c1 c2 assume P: "?P xs w wk c1" and i: "inb E p c1 = (b, c2)"
    then show "?P xs w wk c2" using trackpad_inb [OF E(2) i] trace_inb [OF i] port_step_fields [OF port_step_inb [OF i]] by auto
  next
    fix dt b xs w wk r c1 c2 assume P: "?P ((dt, b) # xs) w wk c1" and k: "dispatch_driver_interrupt E dt b c1 = (r, c2)"
    obtain bs' rs' q s1 where f: "dt = kDT_Mouse" "xs = map (Pair kDT_Mouse) bs'" "interruptOccurred b (drv (world c1)) = Some (q, s1)"
        "feed bs' s1 = Some (rs', s')" "wm \<or> kPS2IR_packetReady \<in> set rs \<longrightarrow> w \<or> q = kPS2IR_packetReady \<or> kPS2IR_packetReady \<in> set rs'"
      using P by (auto simp: bind_eq_Some_conv Cons_eq_map_conv)
    note r = trackpad_action [OF E(2) k [unfolded f(1)] _ f(3)]
    have inst: "interruptInstalled c1 kDT_Mouse" and tr: "\<exists>es. trace c1 = trace c @ es" using P by blast+
    have "interruptInstalled c2 kDT_Mouse" using inst port_step_fields [OF port_step_dispatch_driver [OF k]] by simp
    moreover have "\<exists>es. trace c2 = trace c @ es" using tr output_buffer_action(2) [OF E(1) k] by auto
    moreover have "feed bs' (drv (world c2)) = Some (rs', s')" using r(2) [OF inst] f(4) by simp
    moreover have "wm \<or> kPS2IR_packetReady \<in> set rs \<longrightarrow> (w \<or> dt = kDT_Mouse \<and> r = kPS2IR_packetReady) \<or> kPS2IR_packetReady \<in> set rs'"
      using r(1) [OF inst] f(1,5) by blast
    ultimately show "?P xs (w \<or> dt = kDT_Mouse \<and> r = kPS2IR_packetReady) (wk \<or> dt = kDT_Keyboard \<and> r = kPS2IR_packetReady) c2"
      using f(2) by blast
  next
    show "?P (pending (world c)) wm wk c" using c by auto
  qed
  then obtain c' wm' wk' where "handle_interrupt_loop E wm wk c = Some ((if wk' then log (Wake kDT_Keyboard) else id) ((if wm' then log (Wake kDT_Mouse) else id) c'))"
    "?P [] wm' wk' c'" "pending (world c') = []" by blast
  then show ?thesis by (cases wm'; cases wk') (auto simp: log_def)
qed

end
