(* ===== verification/AlpsCommand.thy ===== *)
theory AlpsCommand
  imports PS2Request AlpsDispatch
begin

text \<open>
  The command side of the trackpad driver: the register protocol, the mode switches and the initialisation of
  every protocol version.  Each function takes the port \<open>S\<close> its requests go through and the state \<open>d\<close> behind
  it.  \<open>None\<close>: a request that does not return, a command written behind the request's array, or an access to a
  null command table.
\<close>

record ALPSStatus =
  status_bytes :: "u8 list"

abbreviation (input) kIOReturnIOError :: int where "kIOReturnIOError \<equiv> - 536870198"
abbreviation (input) kIOReturnNoDevice :: int where "kIOReturnNoDevice \<equiv> - 536870208"
abbreviation (input) kIOReturnInvalid :: int where "kIOReturnInvalid \<equiv> - 536870911"

abbreviation (input) ALPS_REG_BASE_RUSHMORE :: int where "ALPS_REG_BASE_RUSHMORE \<equiv> 0xc2c0"
abbreviation (input) ALPS_REG_BASE_V7 :: int where "ALPS_REG_BASE_V7 \<equiv> 0xc2c0"
abbreviation (input) ALPS_REG_BASE_PINNACLE :: int where "ALPS_REG_BASE_PINNACLE \<equiv> 0x0000"

type_synonym 'd step = "'d \<Rightarrow> (bool \<times> 'd) option"

text \<open>\<open>a && b\<close> on calls, and a statement followed by another.\<close>

definition and_then :: "'d step \<Rightarrow> 'd step \<Rightarrow> 'd step" where
  "and_then f g d = do { (ok, d) \<leftarrow> f d; if ok then g d else Some (False, d) }"

primrec all_of :: "'d step list \<Rightarrow> 'd step" where
  "all_of [] d = Some (True, d)"
| "all_of (f # fs) d = and_then f (all_of fs) d"

section \<open>Single commands\<close>

definition ps2_command :: "'d submit \<Rightarrow> u8 \<Rightarrow> u8 \<Rightarrow> 'd \<Rightarrow> 'd option" where
  "ps2_command S value cmd d =
     do { (_, _, d) \<leftarrow> submit_stack 2 S [send_mouse cmd, send_mouse value] d; Some d }"

definition ps2_command_short :: "'d submit \<Rightarrow> u8 \<Rightarrow> 'd \<Rightarrow> 'd option" where
  "ps2_command_short S cmd d = do { (_, _, d) \<leftarrow> submit_stack 1 S [send_mouse cmd] d; Some d }"

primrec ps2_commands_short :: "'d submit \<Rightarrow> u8 list \<Rightarrow> 'd \<Rightarrow> 'd option" where
  "ps2_commands_short S [] d = Some d"
| "ps2_commands_short S (c # cs) d = do { d \<leftarrow> ps2_command_short S c d; ps2_commands_short S cs d }"

definition alps_command_mode_send_nibble :: "'d submit \<Rightarrow> alps_data \<Rightarrow> int \<Rightarrow> 'd step" where
  "alps_command_mode_send_nibble S pd nibble d =
     do {
       nc \<leftarrow> (if 0 \<le> nibble \<and> nat nibble < length (nibble_commands pd)
              then Some (nibble_commands pd ! nat nibble) else None);
       let send = unat (drop_bit 12 (nc_command nc) AND 0xf);
       let receive = unat (drop_bit 8 (nc_command nc) AND 0xf);
       if send > 1 \<or> send + receive + 1 > 2 then Some (False, d)
       else do {
         let cs = [send_mouse (ucast (nc_command nc AND 0xff))]
                  @ (if send > 0 then [send_mouse (nc_data nc)] else []) @ replicate receive read_data;
         (n, _, d) \<leftarrow> submit_stack 2 S cs d;
         Some (n = length cs, d)
       }
     }"

definition nibble_at :: "int \<Rightarrow> nat \<Rightarrow> int" where
  "nibble_at v i = drop_bit i v AND 0xf"

definition alps_command_mode_set_addr :: "'d submit \<Rightarrow> alps_data \<Rightarrow> int \<Rightarrow> 'd step" where
  "alps_command_mode_set_addr S pd addr d =
     do {
       (n, _, d) \<leftarrow> submit_stack 1 S [send_mouse (word_of_int (addr_command pd))] d;
       if n \<noteq> 1 then Some (False, d)
       else all_of (map (\<lambda>i. alps_command_mode_send_nibble S pd (nibble_at addr i)) [12, 8, 4, 0]) d
     }"

text \<open>\<open>kDP_GetMouseInformation\<close> and three data bytes.\<close>

definition information :: "PS2Command list" where
  "information = [send_mouse kDP_GetMouseInformation, read_data, read_data, read_data]"

definition alps_command_mode_read_reg :: "'d submit \<Rightarrow> alps_data \<Rightarrow> int \<Rightarrow> 'd \<Rightarrow> (int \<times> 'd) option" where
  "alps_command_mode_read_reg S pd addr d =
     do {
       (ok, d) \<leftarrow> alps_command_mode_set_addr S pd addr d;
       if \<not> ok then Some (-1, d)
       else do {
         (n, cs, d) \<leftarrow> submit_stack 4 S information d;
         if n \<noteq> 4 then Some (-1, d)
         else Some (if addr \<noteq> push_bit 8 (uint (inOrOut (cs ! 1))) OR uint (inOrOut (cs ! 2)) then -1
                    else uint (inOrOut (cs ! 3)), d)
       }
     }"

definition alps_command_mode_write_value :: "'d submit \<Rightarrow> alps_data \<Rightarrow> u8 \<Rightarrow> 'd step" where
  "alps_command_mode_write_value S pd value =
     and_then (alps_command_mode_send_nibble S pd (uint (drop_bit 4 value AND 0xf)))
       (alps_command_mode_send_nibble S pd (uint (value AND 0xf)))"

definition alps_command_mode_write_reg :: "'d submit \<Rightarrow> alps_data \<Rightarrow> int \<Rightarrow> u8 \<Rightarrow> 'd step" where
  "alps_command_mode_write_reg S pd addr value =
     and_then (alps_command_mode_set_addr S pd addr) (alps_command_mode_write_value S pd value)"

definition alps_rpt_cmd :: "'d submit \<Rightarrow> int \<Rightarrow> int \<Rightarrow> int \<Rightarrow> 'd \<Rightarrow> (bool \<times> ALPSStatus \<times> 'd) option" where
  "alps_rpt_cmd S init_command init_arg repeated_command d =
     do {
       let pre = (if init_command \<noteq> 0 then [send_mouse kDP_SetMouseResolution, send_mouse (word_of_int init_arg)] else [])
                 @ replicate 3 (send_mouse (word_of_int repeated_command)) @ [send_mouse kDP_GetMouseInformation];
       let cmds = pre @ [read_data, read_data, read_data];
       let byte0 = length pre;
       (n, cs, d) \<leftarrow> submit_stack 9 S cmds d;
       Some (n = length cmds,
             \<lparr>status_bytes = [inOrOut (cs ! byte0), inOrOut (cs ! (byte0 + 1)), inOrOut (cs ! (byte0 + 2))]\<rparr>, d)
     }"

definition alps_enter_command_mode :: "'d submit \<Rightarrow> 'd step" where
  "alps_enter_command_mode S d = do { (ok, _, d) \<leftarrow> alps_rpt_cmd S 0 0 (uint (kDP_MouseResetWrap :: u8)) d; Some (ok, d) }"

definition alps_exit_command_mode :: "'d submit \<Rightarrow> 'd step" where
  "alps_exit_command_mode S d = do { (_, _, d) \<leftarrow> submit_stack 1 S [send_mouse kDP_SetMouseStreamMode] d; Some (True, d) }"

text \<open>\<open>goto error\<close>: leave the command mode and return false.\<close>

definition or_exit :: "'d submit \<Rightarrow> 'd step \<Rightarrow> 'd step" where
  "or_exit S f d =
     do {
       (ok, d) \<leftarrow> f d;
       if ok then Some (True, d) else do { (_, d) \<leftarrow> alps_exit_command_mode S d; Some (False, d) }
     }"

text \<open>Read a register, then act on the value unless the read failed.\<close>

definition with_reg :: "'d submit \<Rightarrow> alps_data \<Rightarrow> int \<Rightarrow> (int \<Rightarrow> 'd step) \<Rightarrow> 'd step" where
  "with_reg S pd addr f d =
     do { (v, d) \<leftarrow> alps_command_mode_read_reg S pd addr d; if v = -1 then Some (False, d) else f v d }"

section \<open>Modes\<close>

definition alps_passthrough_mode_v2 :: "'d submit \<Rightarrow> bool \<Rightarrow> 'd step" where
  "alps_passthrough_mode_v2 S enable d =
     do {
       let cmd = send_mouse (if enable then kDP_SetMouseScaling2To1 else kDP_SetMouseScaling1To1);
       (n, _, d) \<leftarrow> submit_stack 4 S [cmd, cmd, cmd, send_mouse kDP_SetDefaultsAndDisable] d;
       Some (n = 4, d)
     }"

definition alps_absolute_mode_v1_v2 :: "'d submit \<Rightarrow> 'd step" where
  "alps_absolute_mode_v1_v2 S d =
     do {
       d \<leftarrow> ps2_commands_short S [kDP_SetDefaultsAndDisable, kDP_SetDefaultsAndDisable, kDP_SetDefaultsAndDisable,
              kDP_SetDefaultsAndDisable, kDP_Enable, kDP_MouseSetPoll] d;
       Some (True, d)
     }"

text \<open>The return values of the nibbles are ignored.\<close>

definition alps_monitor_mode_send_word :: "'d submit \<Rightarrow> alps_data \<Rightarrow> int \<Rightarrow> 'd \<Rightarrow> 'd option" where
  "alps_monitor_mode_send_word S pd w d =
     do {
       (_, d) \<leftarrow> alps_command_mode_send_nibble S pd (nibble_at w 0) d;
       (_, d) \<leftarrow> alps_command_mode_send_nibble S pd (nibble_at w 4) d;
       (_, d) \<leftarrow> alps_command_mode_send_nibble S pd (nibble_at w 8) d;
       Some d
     }"

definition alps_monitor_mode_write_reg :: "'d submit \<Rightarrow> alps_data \<Rightarrow> int \<Rightarrow> int \<Rightarrow> 'd \<Rightarrow> 'd option" where
  "alps_monitor_mode_write_reg S pd addr value d =
     do {
       d \<leftarrow> ps2_command_short S kDP_Enable d;
       d \<leftarrow> alps_monitor_mode_send_word S pd 0x0A0 d;
       d \<leftarrow> alps_monitor_mode_send_word S pd addr d;
       d \<leftarrow> alps_monitor_mode_send_word S pd value d;
       ps2_command_short S kDP_SetDefaultsAndDisable d
     }"

text \<open>The second request continues at \<open>commands[4]\<close> of the same array of four.\<close>

definition alps_monitor_mode :: "'d submit \<Rightarrow> bool \<Rightarrow> 'd \<Rightarrow> 'd option" where
  "alps_monitor_mode S enable d =
     (if enable then do {
        d \<leftarrow> ps2_command_short S kDP_MouseResetWrap d;
        (_, cs, d) \<leftarrow> submit_stack 4 S information d;
        d \<leftarrow> ps2_commands_short S [kDP_SetDefaultsAndDisable, kDP_SetDefaultsAndDisable, kDP_SetMouseScaling2To1,
               kDP_SetMouseScaling1To1, kDP_SetMouseScaling2To1] d;
        (_, _, d) \<leftarrow> submit_stack 4 S (cs @ information) d;
        Some d
      }
      else ps2_command_short S kDP_MouseResetWrap d)"

definition alps_absolute_mode_v6 :: "'d submit \<Rightarrow> alps_data \<Rightarrow> 'd \<Rightarrow> 'd option" where
  "alps_absolute_mode_v6 S pd d =
     do {
       d \<leftarrow> alps_monitor_mode S True d;
       d \<leftarrow> alps_monitor_mode_write_reg S pd 0x000 0x181 d;
       alps_monitor_mode S False d
     }"

definition alps_get_status :: "'d submit \<Rightarrow> 'd \<Rightarrow> (bool \<times> ALPSStatus \<times> 'd) option" where
  "alps_get_status S = alps_rpt_cmd S 0 0 (uint (kDP_SetDefaultsAndDisable :: u8))"

definition alps_tap_mode :: "'d submit \<Rightarrow> bool \<Rightarrow> 'd step" where
  "alps_tap_mode S enable d =
     do {
       let cmd = (if enable then kDP_SetMouseSampleRate else kDP_SetMouseResolution);
       let tapArg = (if enable then 0x0A else 0x00);
       (n, _, d) \<leftarrow> submit_stack 8 S (information @ [send_mouse kDP_SetDefaultsAndDisable,
          send_mouse kDP_SetDefaultsAndDisable, send_mouse cmd, send_mouse tapArg]) d;
       if n \<noteq> 8 then Some (False, d)
       else do { (ok, _, d) \<leftarrow> alps_get_status S d; Some (ok, d) }
     }"

definition alps_passthrough_mode_v3 :: "'d submit \<Rightarrow> alps_data \<Rightarrow> int \<Rightarrow> bool \<Rightarrow> 'd step" where
  "alps_passthrough_mode_v3 S pd regBase enable d =
     do {
       (ok, d) \<leftarrow> alps_enter_command_mode S d;
       if \<not> ok then Some (False, d)
       else do {
         (ret, d) \<leftarrow> with_reg S pd (regBase + 0x0008) (\<lambda>regVal.
            alps_command_mode_write_value S pd
              (word_of_int (if enable then regVal OR 0x01 else regVal AND NOT 0x01))) d;
         (ok, d) \<leftarrow> alps_exit_command_mode S d;
         Some (if \<not> ok then False else ret, d)
       }
     }"

definition alps_absolute_mode_v3 :: "'d submit \<Rightarrow> alps_data \<Rightarrow> 'd step" where
  "alps_absolute_mode_v3 S pd =
     with_reg S pd 0x0004 (\<lambda>regVal. alps_command_mode_write_value S pd (word_of_int (regVal OR 0x06)))"

definition alps_absolute_mode_v4 :: "'d submit \<Rightarrow> alps_data \<Rightarrow> 'd step" where
  "alps_absolute_mode_v4 S pd =
     with_reg S pd 0x0004 (\<lambda>regVal. alps_command_mode_write_value S pd (word_of_int (regVal OR 0x02)))"

definition alps_probe_trackstick_v3_v7 :: "'d submit \<Rightarrow> alps_data \<Rightarrow> int \<Rightarrow> 'd \<Rightarrow> (int \<times> 'd) option" where
  "alps_probe_trackstick_v3_v7 S pd regBase d =
     do {
       (ok, d) \<leftarrow> alps_enter_command_mode S d;
       (ret, d) \<leftarrow> (if \<not> ok then Some (kIOReturnIOError, d)
          else do {
            (regVal, d) \<leftarrow> alps_command_mode_read_reg S pd (regBase + 0x08) d;
            Some (if regVal = -1 then kIOReturnIOError
                  else if regVal AND 0x80 \<noteq> 0 then 0 else kIOReturnNoDevice, d)
          });
       (_, d) \<leftarrow> alps_exit_command_mode S d;
       Some (ret, d)
     }"

section \<open>Initialisation of each protocol\<close>

definition alps_setup_trackstick_v3 :: "'d submit \<Rightarrow> alps_data \<Rightarrow> int \<Rightarrow> 'd \<Rightarrow> (int \<times> 'd) option" where
  "alps_setup_trackstick_v3 S pd regBase d =
     do {
       (ok, d) \<leftarrow> alps_passthrough_mode_v3 S pd regBase True d;
       if \<not> ok then Some (kIOReturnIOError, d)
       else do {
         (ok, _, d) \<leftarrow> alps_rpt_cmd S 0 0 (uint (kDP_SetMouseScaling2To1 :: u8)) d;
         (ret, d) \<leftarrow>
           (if \<not> ok then Some (kIOReturnNoDevice, d)
            else do {
              (n, _, d) \<leftarrow> submit_stack 3 S (replicate 3 (send_mouse kDP_SetMouseScaling1To1)) d;
              if n \<noteq> 3 then Some (kIOReturnIOError, d)
              else do {
                (ok, d) \<leftarrow> and_then (alps_command_mode_send_nibble S pd 0x9) (alps_command_mode_send_nibble S pd 0x4) d;
                if \<not> ok then Some (kIOReturnIOError, d)
                else do {
                  (ok, d) \<leftarrow> all_of [alps_enter_command_mode S, alps_command_mode_write_reg S pd (regBase + 0x0008) 0x82,
                                      alps_exit_command_mode S] d;
                  Some (if \<not> ok then - kIOReturnIOError else 0, d)
                }
              }
            });
         (ok, d) \<leftarrow> alps_passthrough_mode_v3 S pd regBase False d;
         Some (if \<not> ok then kIOReturnIOError else ret, d)
       }
     }"

definition alps_hw_init_v1_v2 :: "'d submit \<Rightarrow> alps_data \<Rightarrow> 'd step" where
  "alps_hw_init_v1_v2 S pd =
     all_of [(if isset (flags pd) ALPS_PASS then alps_passthrough_mode_v2 S True else (\<lambda>d. Some (True, d))),
             alps_tap_mode S True, alps_absolute_mode_v1_v2 S,
             (if isset (flags pd) ALPS_PASS then alps_passthrough_mode_v2 S False else (\<lambda>d. Some (True, d))),
             (\<lambda>d. do { d \<leftarrow> ps2_command_short S kDP_SetMouseStreamMode d; Some (True, d) })]"

definition alps_hw_init_v6 :: "'d submit \<Rightarrow> alps_data \<Rightarrow> 'd step" where
  "alps_hw_init_v6 S pd d =
     do {
       (_, d) \<leftarrow> alps_passthrough_mode_v2 S True d;
       d \<leftarrow> ps2_commands_short S [kDP_SetMouseScaling1To1, kDP_SetMouseScaling1To1, kDP_SetMouseScaling1To1] d;
       d \<leftarrow> ps2_command S 0xC8 kDP_SetMouseSampleRate d;
       d \<leftarrow> ps2_command S 0x14 kDP_SetMouseSampleRate d;
       (_, d) \<leftarrow> alps_passthrough_mode_v2 S False d;
       d \<leftarrow> alps_absolute_mode_v6 S pd d;
       Some (True, d)
     }"

text \<open>Set rate and enable data reporting.\<close>

definition rate_and_enable :: "'d submit \<Rightarrow> u8 \<Rightarrow> 'd step" where
  "rate_and_enable S rate d =
     do { d \<leftarrow> ps2_command S rate kDP_SetMouseSampleRate d; d \<leftarrow> ps2_command_short S kDP_Enable d; Some (True, d) }"

definition alps_hw_init_v3 :: "'d submit \<Rightarrow> alps_data \<Rightarrow> 'd step" where
  "alps_hw_init_v3 S pd =
     and_then
       (or_exit S (all_of [
          (\<lambda>d. if isset (flags pd) ALPS_DUALPOINT then do {
                 (r, d) \<leftarrow> alps_setup_trackstick_v3 S pd ALPS_REG_BASE_PINNACLE d;
                 Some (r \<noteq> kIOReturnIOError, d)
               } else Some (True, d)),
          alps_enter_command_mode S,
          alps_absolute_mode_v3 S pd,
          with_reg S pd 0x0006 (\<lambda>v. alps_command_mode_write_value S pd (word_of_int (v OR 0x01))),
          with_reg S pd 0x0007 (\<lambda>v. alps_command_mode_write_value S pd (word_of_int (v OR 0x01))),
          with_reg S pd 0x0144 (\<lambda>_. alps_command_mode_write_value S pd 0x04),
          with_reg S pd 0x0159 (\<lambda>_. alps_command_mode_write_value S pd 0x03),
          with_reg S pd 0x0163 (\<lambda>_. alps_command_mode_write_reg S pd 0x0163 0x03),
          with_reg S pd 0x0162 (\<lambda>_. alps_command_mode_write_reg S pd 0x0162 0x04)]))
       (and_then (alps_exit_command_mode S) (rate_and_enable S 0x28))"

definition alps_hw_init_rushmore_v3 :: "'d submit \<Rightarrow> alps_data \<Rightarrow> 'd step" where
  "alps_hw_init_rushmore_v3 S pd =
     and_then
       (or_exit S (all_of [
          (\<lambda>d. if isset (flags pd) ALPS_DUALPOINT then do {
                 (r, d) \<leftarrow> alps_setup_trackstick_v3 S pd ALPS_REG_BASE_RUSHMORE d;
                 Some (r \<noteq> kIOReturnIOError, d)
               } else Some (True, d)),
          alps_enter_command_mode S,
          with_reg S pd 0xc2d9 (\<lambda>_ d. Some (True, d)),
          alps_command_mode_write_reg S pd 0xc2cb 0x00,
          with_reg S pd 0xc2c6 (\<lambda>v. alps_command_mode_write_value S pd (word_of_int (v AND 0xfd))),
          alps_command_mode_write_reg S pd 0xc2c9 0x64,
          with_reg S pd 0xc2c4 (\<lambda>v. alps_command_mode_write_value S pd (word_of_int (v OR 0x02)))]))
       (and_then (alps_exit_command_mode S)
         (\<lambda>d. do { d \<leftarrow> ps2_command_short S kDP_Enable d; Some (True, d) }))"

definition alps_hw_init_v4 :: "'d submit \<Rightarrow> alps_data \<Rightarrow> 'd step" where
  "alps_hw_init_v4 S pd =
     and_then
       (or_exit S (all_of [
          alps_enter_command_mode S,
          alps_absolute_mode_v4 S pd,
          alps_command_mode_write_reg S pd 0x0007 0x8c,
          alps_command_mode_write_reg S pd 0x0149 0x03,
          alps_command_mode_write_reg S pd 0x0160 0x03,
          alps_command_mode_write_reg S pd 0x017f 0x15,
          alps_command_mode_write_reg S pd 0x0151 0x01,
          alps_command_mode_write_reg S pd 0x0168 0x03,
          alps_command_mode_write_reg S pd 0x014a 0x03,
          alps_command_mode_write_reg S pd 0x0161 0x03]))
       (and_then (alps_exit_command_mode S) (\<lambda>d. do {
          d \<leftarrow> ps2_command S 0xc8 kDP_SetMouseSampleRate d;
          d \<leftarrow> ps2_command S 0x64 kDP_SetMouseSampleRate d;
          d \<leftarrow> ps2_command S 0x50 kDP_SetMouseSampleRate d;
          d \<leftarrow> ps2_command_short S kDP_GetId d;
          rate_and_enable S 0x64 d
        }))"

text \<open>\<open>(char) v >> 4\<close> on the low byte of \<open>v\<close>.\<close>

definition high_nibble :: "int \<Rightarrow> int" where
  "high_nibble v = drop_bit 4 (sint (word_of_int v :: u8))"

text \<open>The result \<open>reg\<close> of a failed read, -1, is returned as a \<open>bool\<close>: true.\<close>

definition alps_get_v3_v7_resolution :: "'d submit \<Rightarrow> int \<Rightarrow> alps_data \<Rightarrow> 'd \<Rightarrow> (bool \<times> alps_data \<times> 'd) option" where
  "alps_get_v3_v7_resolution S reg_pitch pd d =
     do {
       (reg, d) \<leftarrow> alps_command_mode_read_reg S pd reg_pitch d;
       if reg < 0 then Some (reg \<noteq> 0, pd, d)
       else do {
         let x_pitch = 50 + 2 * high_nibble (push_bit 4 reg);
         let y_pitch = 36 + 2 * high_nibble reg;
         (reg, d) \<leftarrow> alps_command_mode_read_reg S pd (reg_pitch + 1) d;
         if reg < 0 then Some (reg \<noteq> 0, pd, d)
         else do {
           let x_electrode = 17 + high_nibble (push_bit 4 reg);
           let y_electrode = 13 + high_nibble reg;
           xr \<leftarrow> cdiv (x_max pd * 10) (x_pitch * (x_electrode - 1));
           yr \<leftarrow> cdiv (y_max pd * 10) (y_pitch * (y_electrode - 1));
           Some (True, pd\<lparr>x_res := word_of_int xr, y_res := word_of_int yr\<rparr>, d)
         }
       }
     }"

definition alps_get_otp_values_ss4_v2 :: "'d submit \<Rightarrow> u8 \<Rightarrow> 'd \<Rightarrow> 'd option" where
  "alps_get_otp_values_ss4_v2 S index d =
     (if index = 0 then do {
        d \<leftarrow> ps2_commands_short S [kDP_SetMouseStreamMode, kDP_SetMouseStreamMode] d;
        (_, _, d) \<leftarrow> submit_stack 4 S information d;
        Some d
      }
      else if index = 1 then do {
        d \<leftarrow> ps2_commands_short S [kDP_MouseSetPoll, kDP_MouseSetPoll] d;
        (_, _, d) \<leftarrow> submit_stack 4 S information d;
        Some d
      }
      else Some d)"

definition alps_set_defaults_ss4_v2 :: "'d submit \<Rightarrow> 'd \<Rightarrow> 'd option" where
  "alps_set_defaults_ss4_v2 S d = alps_get_otp_values_ss4_v2 S 0 d \<bind> alps_get_otp_values_ss4_v2 S 1"

text \<open>The electrode counts come from the third answer byte, whether or not the request succeeded.\<close>

definition alps_dolphin_get_device_area :: "'d submit \<Rightarrow> alps_data \<Rightarrow> 'd \<Rightarrow> (alps_data \<times> 'd) option" where
  "alps_dolphin_get_device_area S pd d =
     do {
       (_, d) \<leftarrow> alps_enter_command_mode S d;
       d \<leftarrow> ps2_commands_short S [kDP_MouseResetWrap, kDP_MouseSetPoll, kDP_MouseSetPoll] d;
       d \<leftarrow> ps2_command S 0x0a kDP_SetMouseSampleRate d;
       d \<leftarrow> ps2_command S 0x0a kDP_SetMouseSampleRate d;
       (_, cs, d) \<leftarrow> submit_stack 4 S information d;
       let status2 = uint (inOrOut (cs ! 3));
       let num_x_electrode = 8 + (status2 AND 0x0F);
       let num_y_electrode = 1 + (drop_bit 4 status2 AND 0x0F);
       let pd = pd\<lparr>x_bits := num_x_electrode, y_bits := num_y_electrode,
                   x_max := (num_x_electrode - 1) * 64, y_max := (num_y_electrode - 1) * 64\<rparr>;
       (_, d) \<leftarrow> alps_exit_command_mode S d;
       Some (pd, d)
     }"

definition alps_hw_init_dolphin_v1 :: "'d submit \<Rightarrow> 'd step" where
  "alps_hw_init_dolphin_v1 S d =
     do {
       d \<leftarrow> ps2_command_short S kDP_SetMouseStreamMode d;
       d \<leftarrow> ps2_command S 0x64 kDP_SetMouseSampleRate d;
       rate_and_enable S 0x28 d
     }"

definition alps_hw_init_v7 :: "'d submit \<Rightarrow> alps_data \<Rightarrow> 'd \<Rightarrow> (bool \<times> alps_data \<times> 'd) option" where
  "alps_hw_init_v7 S pd d =
     do {
       (ok, d) \<leftarrow> all_of [alps_enter_command_mode S, with_reg S pd 0xc2d9 (\<lambda>_ d. Some (True, d))] d;
       (ok, pd, d) \<leftarrow> (if ok then alps_get_v3_v7_resolution S 0xc397 pd d else Some (False, pd, d));
       (ok, d) \<leftarrow> or_exit S (all_of [
          (\<lambda>d. Some (ok, d)),
          alps_command_mode_write_reg S pd 0xc2c9 0x64,
          with_reg S pd 0xc2c4 (\<lambda>v. alps_command_mode_write_value S pd (word_of_int (v OR 0x02)))]) d;
       (ok, d) \<leftarrow> (if ok then and_then (alps_exit_command_mode S) (rate_and_enable S 0x28) d else Some (False, d));
       Some (ok, pd, d)
     }"

definition alps_hw_init_ss4_v2 :: "'d submit \<Rightarrow> alps_data \<Rightarrow> 'd step" where
  "alps_hw_init_ss4_v2 S pd d =
     do {
       d \<leftarrow> ps2_commands_short S [kDP_SetMouseStreamMode, kDP_SetMouseStreamMode] d;
       d \<leftarrow> ps2_command S 0x64 kDP_SetMouseSampleRate d;
       d \<leftarrow> ps2_command S 0x28 kDP_SetMouseSampleRate d;
       (_, d) \<leftarrow> alps_exit_command_mode S d;
       (_, d) \<leftarrow> alps_enter_command_mode S d;
       (_, d) \<leftarrow> alps_command_mode_write_reg S pd 0x001D 0x20 d;
       (_, d) \<leftarrow> alps_exit_command_mode S d;
       d \<leftarrow> ps2_command_short S kDP_Enable d;
       Some (True, d)
     }"

end
