(* ===== verification/AlpsIdentify.thy ===== *)
theory AlpsIdentify
  imports AlpsCommand AlpsProcess
begin

text \<open>
  Identification of the trackpad and its configuration: \<open>identify\<close> asks the device who it is, \<open>set_protocol\<close>
  installs the routines, tables and dimensions of the protocol, \<open>deviceSpecificInit\<close> runs the protocol's
  initialisation.  A call through a member function pointer that was never set is \<open>None\<close>.
\<close>

section \<open>The protocol\<close>

definition protocol_defaults :: "alps_data \<Rightarrow> alps_data" where
  "protocol_defaults pd = pd\<lparr>byte0 := 0x8f, mask0 := 0x8f, flags := ALPS_DUALPOINT,
     x_max := 2000, y_max := 1400, x_bits := 15, y_bits := 11\<rparr>"

definition routines :: "hw_init_fn \<Rightarrow> process_fn \<Rightarrow> decode_fn option \<Rightarrow> 'a alps_scheme \<Rightarrow> 'a alps_scheme" where
  "routines h p k s = s\<lparr>hw_init := Some h, process_fn := Some p, decode_fn := (if k = None then decode_fn s else k)\<rparr>"

definition register_access :: "alps_nibble_commands list \<Rightarrow> int \<Rightarrow> alps_data \<Rightarrow> alps_data" where
  "register_access table cmd pd = pd\<lparr>nibble_commands := table, addr_command := cmd\<rparr>"

text \<open>\<open>if (alps_probe_trackstick_v3_v7 (base)) flags &= ~ALPS_DUALPOINT\<close>.\<close>

definition probe_dualpoint :: "'d submit \<Rightarrow> int \<Rightarrow> alps_data \<Rightarrow> 'd \<Rightarrow> (alps_data \<times> 'd) option" where
  "probe_dualpoint S regBase pd d =
     do {
       (r, d) \<leftarrow> alps_probe_trackstick_v3_v7 S pd regBase d;
       Some (if r \<noteq> 0 then pd\<lparr>flags := flags pd AND NOT ALPS_DUALPOINT\<rparr> else pd, d)
     }"

definition set_protocol :: "'d submit \<Rightarrow> 'a alps_scheme \<Rightarrow> 'd \<Rightarrow> ('a alps_scheme \<times> 'd) option" where
  "set_protocol S s d =
     (let pd = protocol_defaults (priv s);
          wrap = uint (kDP_MouseResetWrap :: u8);
          v = proto_version pd
      in
      if v = ALPS_PROTO_V1 \<or> v = ALPS_PROTO_V2 then
        Some (set_priv (pd\<lparr>x_max := 1023, y_max := 767\<rparr>) (routines HwInitV1V2 ProcessV1V2 None s), d)
      else if v = ALPS_PROTO_V3 then do {
        (pd, d) \<leftarrow> probe_dualpoint S ALPS_REG_BASE_PINNACLE (register_access alps_v3_nibble_commands wrap pd) d;
        Some (set_priv pd (routines HwInitV3 ProcessV3 (Some DecodePinnacle) s), d)
      }
      else if v = ALPS_PROTO_V3_RUSHMORE then do {
        (pd, d) \<leftarrow> probe_dualpoint S ALPS_REG_BASE_RUSHMORE
          (register_access alps_v3_nibble_commands wrap (pd\<lparr>x_bits := 16, y_bits := 12\<rparr>)) d;
        Some (set_priv pd (routines HwInitRushmoreV3 ProcessV3 (Some DecodeRushmore) s), d)
      }
      else if v = ALPS_PROTO_V4 then
        Some (set_priv (register_access alps_v4_nibble_commands (uint (kDP_SetDefaultsAndDisable :: u8)) pd)
                (routines HwInitV4 ProcessV4 None s), d)
      else if v = ALPS_PROTO_V5 then do {
        (pd, d) \<leftarrow> alps_dolphin_get_device_area S
          ((register_access alps_v3_nibble_commands wrap pd)
             \<lparr>byte0 := 0xc8, mask0 := 0xc8, flags := 0, x_bits := 23, y_bits := 12\<rparr>) d;
        Some (set_priv pd (routines HwInitDolphinV1 ProcessTouchpadV3V5 (Some DecodeDolphin) s), d)
      }
      else if v = ALPS_PROTO_V6 then
        Some (set_priv ((register_access alps_v6_nibble_commands wrap pd)
                \<lparr>byte0 := 0xc8, mask0 := 0xc8, flags := 0, x_max := 2047, y_max := 1535\<rparr>) s, d)
      else if v = ALPS_PROTO_V7 then do {
        let pd = (register_access alps_v3_nibble_commands wrap pd)
               \<lparr>byte0 := 0x48, mask0 := 0x48, x_max := 0xfff, y_max := 0x7ff\<rparr>;
        let pd = (if fw_ver pd ! 1 \<noteq> 0xba then pd\<lparr>flags := flags pd OR ALPS_BUTTONPAD\<rparr> else pd);
        (pd, d) \<leftarrow> probe_dualpoint S ALPS_REG_BASE_V7 pd d;
        Some (set_priv pd (routines HwInitV7 ProcessV7 (Some DecodeV7) s), d)
      }
      else if v = ALPS_PROTO_V8 then do {
        let pd = (register_access alps_v3_nibble_commands wrap pd)\<lparr>byte0 := 0x18, mask0 := 0x18, flags := 0\<rparr>;
        d \<leftarrow> alps_set_defaults_ss4_v2 S d;
        let pd = (if fw_ver pd ! 1 = 0x1
                  then pd\<lparr>x_max := 8160, y_max := 4080, flags := flags pd OR (ALPS_DUALPOINT OR ALPS_DUALPOINT_WITH_PRESSURE)\<rparr>
                  else pd\<lparr>x_max := 8176, y_max := 4088, flags := flags pd OR ALPS_BUTTONPAD\<rparr>);
        Some (set_priv pd (routines HwInitSs4V2 ProcessSs4V2 (Some DecodeSs4V2) s), d)
      }
      else Some (set_priv pd s, d))"

section \<open>Identification\<close>

definition model_matches :: "u8 list \<Rightarrow> u8 list \<Rightarrow> alps_model_info \<Rightarrow> bool" where
  "model_matches e7 ec model \<longleftrightarrow> e7 = mi_signature model
     \<and> (mi_command_mode_resp model = 0 \<or> mi_command_mode_resp model = ec ! 2)"

fun match_models :: "'d submit \<Rightarrow> alps_model_info list \<Rightarrow> u8 list \<Rightarrow> u8 list \<Rightarrow> 'a alps_scheme \<Rightarrow> 'd
    \<Rightarrow> (bool \<times> 'a alps_scheme \<times> 'd) option" where
  "match_models S [] e7 ec s d = Some (False, s, d)"
| "match_models S (model # models) e7 ec s d =
     (if model_matches e7 ec model then do {
        (s, d) \<leftarrow> set_protocol S (set_priv ((priv s)\<lparr>proto_version := mi_proto model\<rparr>) s) d;
        Some (True, set_priv ((priv s)\<lparr>flags := mi_flags model, byte0 := mi_byte0 model, mask0 := mi_mask0 model\<rparr>) s, d)
      }
      else match_models S models e7 ec s d)"

definition matchTable :: "'d submit \<Rightarrow> u8 list \<Rightarrow> u8 list \<Rightarrow> 'a alps_scheme \<Rightarrow> 'd \<Rightarrow> (bool \<times> 'a alps_scheme \<times> 'd) option" where
  "matchTable S = match_models S alps_model_data"

text \<open>The signatures outside the table, in the order of the tests.\<close>

definition known_signature :: "u8 list \<Rightarrow> u8 list \<Rightarrow> u16 option" where
  "known_signature e7 ec =
     (if e7 ! 0 = 0x73 \<and> e7 ! 1 = 0x03 \<and> e7 ! 2 = 0x50 \<and> ec ! 0 = 0x73 \<and> (ec ! 1 = 0x01 \<or> ec ! 1 = 0x02)
      then Some ALPS_PROTO_V5
      else if ec ! 0 = 0x88 \<and> (ec ! 1 AND 0xf0 = 0xb0 \<or> ec ! 1 AND 0xf0 = 0xc0) then Some ALPS_PROTO_V7
      else if ec ! 0 = 0x88 \<and> ec ! 1 = 0x08 then Some ALPS_PROTO_V3_RUSHMORE
      else if ec ! 0 = 0x88 \<and> ec ! 1 = 0x07 \<and> ec ! 2 \<ge> 0x90 \<and> ec ! 2 \<le> 0x9d then Some ALPS_PROTO_V3
      else if e7 ! 0 = 0x73 \<and> e7 ! 1 = 0x03 \<and> e7 ! 2 = 0x14 \<and> ec ! 1 = 0x02 then Some ALPS_PROTO_V8
      else if e7 ! 0 = 0x73 \<and> e7 ! 1 = 0x03 \<and> e7 ! 2 = 0x28 \<and> ec ! 1 = 0x01 then Some ALPS_PROTO_V8
      else None)"

text \<open>The E6 report is read but its result has no effect.\<close>

definition identify :: "'d submit \<Rightarrow> 'a alps_scheme \<Rightarrow> 'd \<Rightarrow> (int \<times> 'a alps_scheme \<times> 'd) option" where
  "identify S s d =
     do {
       let res = uint (kDP_SetMouseResolution :: u8);
       (_, _, d) \<leftarrow> alps_rpt_cmd S res 0 (uint (kDP_SetMouseScaling1To1 :: u8)) d;
       (ok, e7, d) \<leftarrow> alps_rpt_cmd S res 0 (uint (kDP_SetMouseScaling2To1 :: u8)) d;
       if \<not> ok then Some (kIOReturnIOError, s, d)
       else do {
         (ok, ec, d) \<leftarrow> alps_rpt_cmd S res 0 (uint (kDP_MouseResetWrap :: u8)) d;
         if \<not> ok then Some (kIOReturnIOError, s, d)
         else do {
           (ok, d) \<leftarrow> alps_exit_command_mode S d;
           if \<not> ok then Some (kIOReturnIOError, s, d)
           else do {
             (ok, s, d) \<leftarrow> matchTable S (status_bytes e7) (status_bytes ec) s d;
             if ok then Some (0, s, d)
             else (case known_signature (status_bytes e7) (status_bytes ec) of
                     None \<Rightarrow> Some (kIOReturnInvalid, s, d)
                   | Some v \<Rightarrow> do {
                       (s, d) \<leftarrow> set_protocol S (set_priv ((priv s)\<lparr>proto_version := v, fw_ver := status_bytes ec\<rparr>) s) d;
                       Some (0, s, d)
                     })
           }
         }
       }
     }"

section \<open>Life cycle\<close>

definition resetMouse :: "'d submit \<Rightarrow> 'd step" where
  "resetMouse S d =
     do {
       (_, cs, d) \<leftarrow> submit_stack 3 S [send_mouse kDP_Reset, read_data, read_data] d;
       Some (\<not> (inOrOut (cs ! 1) \<noteq> kSC_Reset \<and> inOrOut (cs ! 2) \<noteq> kSC_ID), d)
     }"

definition plain_step :: "'d step \<Rightarrow> alps_data \<Rightarrow> 'd \<Rightarrow> (bool \<times> alps_data \<times> 'd) option" where
  "plain_step f pd d = do { (ok, d) \<leftarrow> f d; Some (ok, pd, d) }"

fun run_hw_init :: "'d submit \<Rightarrow> hw_init_fn \<Rightarrow> alps_data \<Rightarrow> 'd \<Rightarrow> (bool \<times> alps_data \<times> 'd) option" where
  "run_hw_init S HwInitV1V2 pd = plain_step (alps_hw_init_v1_v2 S pd) pd"
| "run_hw_init S HwInitV3 pd = plain_step (alps_hw_init_v3 S pd) pd"
| "run_hw_init S HwInitRushmoreV3 pd = plain_step (alps_hw_init_rushmore_v3 S pd) pd"
| "run_hw_init S HwInitV4 pd = plain_step (alps_hw_init_v4 S pd) pd"
| "run_hw_init S HwInitDolphinV1 pd = plain_step (alps_hw_init_dolphin_v1 S) pd"
| "run_hw_init S HwInitV6 pd = plain_step (alps_hw_init_v6 S pd) pd"
| "run_hw_init S HwInitV7 pd = alps_hw_init_v7 S pd"
| "run_hw_init S HwInitSs4V2 pd = plain_step (alps_hw_init_ss4_v2 S pd) pd"

definition deviceSpecificInit :: "'d submit \<Rightarrow> 'a alps_scheme \<Rightarrow> 'd \<Rightarrow> (bool \<times> 'a alps_scheme \<times> 'd) option" where
  "deviceSpecificInit S s d =
     do {
       let s = set_priv ((priv s)\<lparr>pktsize := (if proto_version (priv s) = ALPS_PROTO_V4 then 8 else 6)\<rparr>) s;
       h \<leftarrow> hw_init s;
       (ok, pd, d) \<leftarrow> run_hw_init S h (priv s) d;
       let s = set_priv pd s;
       if ok then Some (True, s, d)
       else do { (_, d) \<leftarrow> resetMouse S d; Some (False, s, d) }
     }"

definition probe :: "'d submit \<Rightarrow> 'a alps_scheme \<Rightarrow> 'd \<Rightarrow> (bool \<times> 'a alps_scheme \<times> 'd) option" where
  "probe S s d =
     do {
       (_, d) \<leftarrow> resetMouse S d;
       (r, s, d) \<leftarrow> identify S s d;
       Some (r = 0, s\<lparr>device := False\<rparr>, d)
     }"

definition restart :: "'d submit \<Rightarrow> 'a alps_scheme \<Rightarrow> 'd \<Rightarrow> ('a alps_scheme \<times> 'd) option" where
  "restart S s d = do { (_, d) \<leftarrow> resetMouse S d; (_, s, d) \<leftarrow> identify S s d; Some (s, d) }"

definition initTouchPad :: "'d submit \<Rightarrow> 'a alps_scheme \<Rightarrow> 'd \<Rightarrow> ('a alps_scheme \<times> 'd) option" where
  "initTouchPad S s d = do { (_, s, d) \<leftarrow> deviceSpecificInit S (initTouchPad_state s) d; Some (s, d) }"

definition setTouchPadEnable :: "'d submit \<Rightarrow> bool \<Rightarrow> 'a alps_scheme \<Rightarrow> 'd \<Rightarrow> ('a alps_scheme \<times> 'd) option" where
  "setTouchPadEnable S enable s d =
     (if enable then initTouchPad S s d else do { (_, d) \<leftarrow> resetMouse S d; Some (s, d) })"

text \<open>\<open>enable\<close> for \<open>kPS2C_EnableDevice\<close>; the pause before the set-up is left out.\<close>

definition tp_setDevicePowerState :: "'d submit \<Rightarrow> bool \<Rightarrow> 'a alps_scheme \<Rightarrow> 'd \<Rightarrow> ('a alps_scheme \<times> 'd) option" where
  "tp_setDevicePowerState S enable s d = (if enable then initTouchPad S s d else setTouchPadEnable S False s d)"

definition alps_stop :: "'d submit \<Rightarrow> bool \<Rightarrow> 'a alps_scheme \<Rightarrow> 'd \<Rightarrow> ('a alps_scheme \<times> 'd) option" where
  "alps_stop S wl s d = do { (_, d) \<leftarrow> resetMouse S d; Some (tp_stop wl s, d) }"

text \<open>
  \<open>init\<close> of the base class and of the driver; \<open>super\<close> is the result of the superclass, \<open>config\<close> the node that
  \<open>makeConfigurationNode\<close> finds for this machine.
\<close>

definition tp_init :: "bool \<Rightarrow> (string \<Rightarrow> os_object option) option \<Rightarrow> 'a touchpad_scheme \<Rightarrow> bool \<times> 'a touchpad_scheme" where
  "tp_init super config s =
     (if \<not> super then (False, s)
      else if (case config of Some c \<Rightarrow> c ''DisableDevice'' = Some (OSBoolean True) | None \<Rightarrow> False) then (False, s)
      else (True, setParamPropertiesGated config
              (s\<lparr>device := False, interruptHandlerInstalled := False, powerControlHandlerInstalled := False,
                 messageHandlerInstalled := False, packetByteCount := 0, lastdata := 0, cmdGate := False\<rparr>)))"

definition alps_init :: "bool \<Rightarrow> (string \<Rightarrow> os_object option) option \<Rightarrow> 'a alps_scheme \<Rightarrow> bool \<times> 'a alps_scheme" where
  "alps_init super config s =
     (case tp_init super config s of
        (False, s) \<Rightarrow> (False, s)
      | (True, s) \<Rightarrow>
          (True, s\<lparr>lastx := 0, lasty := 0, last_fingers := 0, xrest := 0, yrest := 0, lastbuttons := 0,
             lvars := (lvars s)(L_clicking := True, L_rtap := False, L_dragging := True, L_scroll := True,
               L_hscroll := True, L_momentumscroll := True, L_outzone_wt := False, L_palm := False, L_palm_wt := False)\<rparr>))"

end
