(* ===== verification/CommandSafety.thy ===== *)
theory CommandSafety
  imports AlpsIdentify ProcessSafety
begin

text \<open>
  What the command layer guarantees on every port whose requests return: no request is written behind its array
  (but for the monitor mode of V6), no null table is used, no division by zero; and what identification leaves
  behind for the packet routines.
\<close>

section \<open>Returning\<close>

definition returns :: "'b option \<Rightarrow> bool" where "returns m \<longleftrightarrow> m \<noteq> None"

named_theorems returning

lemma returns_Some [returning, simp]: "returns (Some x)"
  by (simp add: returns_def)

lemma returns_bind: "returns m \<Longrightarrow> (\<And>r. m = Some r \<Longrightarrow> returns (f r)) \<Longrightarrow> returns (m \<bind> f)"
  by (cases m) (auto simp: returns_def)

lemma returns_case: "(\<And>a b. p = (a, b) \<Longrightarrow> returns (f a b)) \<Longrightarrow> returns (case p of (a, b) \<Rightarrow> f a b)"
  by (cases p) simp

lemma returns_if: "(c \<Longrightarrow> returns m) \<Longrightarrow> (\<not> c \<Longrightarrow> returns m') \<Longrightarrow> returns (if c then m else m')"
  by simp

lemma returns_obtain: "returns m \<Longrightarrow> \<exists>r. m = Some r"
  by (auto simp: returns_def)

lemmas returns_rules = returns_bind returns_case returns_if

lemma returns_and_then: "(\<And>d. returns (f d)) \<Longrightarrow> (\<And>d. returns (g d)) \<Longrightarrow> returns (and_then f g d)"
  unfolding and_then_def by (intro returns_rules) simp_all

lemma returns_all_of: "(\<And>f d. f \<in> set fs \<Longrightarrow> returns (f d)) \<Longrightarrow> returns (all_of fs d)"
  by (induction fs arbitrary: d) (auto intro: returns_and_then)

lemma nibble_range: "0 \<le> nibble_at v i" "nibble_at v i < 16"
  using AND_upper2 [of 15 "drop_bit i v"] by (simp_all add: nibble_at_def)

lemma nibble_of_byte: "uint (w AND 0xf) < 16" for w :: u8
  by (simp add: uint_and AND_upper2 [THEN le_less_trans])

text \<open>The register tables have an entry for each nibble.\<close>

definition table_ok :: "alps_data \<Rightarrow> bool" where
  "table_ok pd \<longleftrightarrow> length (nibble_commands pd) = 16"

lemma tables_ok: "length alps_v3_nibble_commands = 16" "length alps_v4_nibble_commands = 16" "length alps_v6_nibble_commands = 16"
  by (simp_all add: alps_v3_nibble_commands_def alps_v4_nibble_commands_def alps_v6_nibble_commands_def)

context returning_port begin

lemma stack: "length cs \<le> cap \<Longrightarrow> returns (submit_stack cap submit cs d)"
  by (rule stack_returns [of cs cap d]) simp_all

lemma short [returning]: "returns (ps2_command_short submit c d)"
  unfolding ps2_command_short_def by (intro returns_rules stack) simp_all

lemma long [returning]: "returns (ps2_command submit v c d)"
  unfolding ps2_command_def by (intro returns_rules stack) simp_all

lemma shorts [returning]: "returns (ps2_commands_short submit cs d)"
  by (induction cs arbitrary: d) (auto intro!: returns_bind short)

lemma rpt [returning]: "returns (alps_rpt_cmd submit a b c d)"
  unfolding alps_rpt_cmd_def Let_def by (intro returns_rules stack) simp_all

lemma enter [returning]: "returns (alps_enter_command_mode submit d)"
  unfolding alps_enter_command_mode_def by (intro returns_rules rpt) simp_all

lemma exit_mode [returning]: "returns (alps_exit_command_mode submit d)"
  unfolding alps_exit_command_mode_def by (intro returns_rules stack) simp_all

lemma or_exit [returning]: "(\<And>d. returns (f d)) \<Longrightarrow> returns (or_exit submit f d)"
  unfolding or_exit_def by (intro returns_rules exit_mode) simp_all

lemma nibble:
  assumes "table_ok pd" and "0 \<le> v" "v < 16"
  shows "returns (alps_command_mode_send_nibble submit pd v d)"
  using assms unfolding alps_command_mode_send_nibble_def Let_def table_ok_def
  by (intro returns_rules stack) (auto simp: nat_less_iff)

lemma set_addr: "table_ok pd \<Longrightarrow> returns (alps_command_mode_set_addr submit pd a d)"
  unfolding alps_command_mode_set_addr_def
  by (intro returns_rules stack returns_all_of) (auto intro!: nibble nibble_range)

lemma read_reg: "table_ok pd \<Longrightarrow> returns (alps_command_mode_read_reg submit pd a d)"
  unfolding alps_command_mode_read_reg_def by (intro returns_rules stack set_addr) (simp_all add: information_def)

lemma write_value: "table_ok pd \<Longrightarrow> returns (alps_command_mode_write_value submit pd v d)"
  unfolding alps_command_mode_write_value_def by (intro returns_and_then nibble nibble_of_byte) simp_all

lemma write_reg: "table_ok pd \<Longrightarrow> returns (alps_command_mode_write_reg submit pd a v d)"
  unfolding alps_command_mode_write_reg_def by (intro returns_and_then write_value set_addr)

lemma with_reg: "table_ok pd \<Longrightarrow> (\<And>v d. returns (f v d)) \<Longrightarrow> returns (with_reg submit pd a f d)"
  unfolding with_reg_def by (intro returns_rules read_reg) simp_all

lemma passthrough_v2 [returning]: "returns (alps_passthrough_mode_v2 submit b d)"
  unfolding alps_passthrough_mode_v2_def Let_def by (intro returns_rules stack) simp_all

lemma passthrough_v3: "table_ok pd \<Longrightarrow> returns (alps_passthrough_mode_v3 submit pd a b d)"
  unfolding alps_passthrough_mode_v3_def by (intro returns_rules enter with_reg write_value exit_mode) simp_all

lemma tap_mode [returning]: "returns (alps_tap_mode submit b d)"
  unfolding alps_tap_mode_def alps_get_status_def Let_def by (intro returns_rules stack rpt) (simp_all add: information_def)

lemma probe_trackstick: "table_ok pd \<Longrightarrow> returns (alps_probe_trackstick_v3_v7 submit pd a d)"
  unfolding alps_probe_trackstick_v3_v7_def by (intro returns_rules enter read_reg exit_mode) simp_all

lemma trackstick_v3: "table_ok pd \<Longrightarrow> returns (alps_setup_trackstick_v3 submit pd a d)"
  unfolding alps_setup_trackstick_v3_def
  by (intro returns_rules passthrough_v3 rpt stack returns_and_then returns_all_of nibble)
    (auto intro: enter write_reg exit_mode)

lemma rate_enable [returning]: "returns (rate_and_enable submit r d)"
  unfolding rate_and_enable_def by (intro returns_rules long short) simp_all

text \<open>The electrode pitches and counts are positive whatever the registers hold.\<close>

lemma high_nibble_range: "- 8 \<le> high_nibble v" "high_nibble v \<le> 7"
proof -
  have "- 128 \<le> sint (word_of_int v :: u8)" "sint (word_of_int v :: u8) < 128"
    using sint_ge [of "word_of_int v :: u8"] sint_lt [of "word_of_int v :: u8"] by simp_all
  then show "- 8 \<le> high_nibble v" "high_nibble v \<le> 7" by (simp_all add: high_nibble_def drop_bit_eq_div)
qed

lemma resolution: "table_ok pd \<Longrightarrow> returns (alps_get_v3_v7_resolution submit a pd d)"
proof -
  assume t: "table_ok pd"
  have "returns (cdiv (x_max pd * 10) ((50 + 2 * high_nibble u) * (17 + high_nibble v - 1)))" for u v
    using high_nibble_range [of u] high_nibble_range [of v] by (auto simp: returns_def)
  moreover have "returns (cdiv (y_max pd * 10) ((36 + 2 * high_nibble u) * (13 + high_nibble v - 1)))" for u v
    using high_nibble_range [of u] high_nibble_range [of v] by (auto simp: returns_def)
  ultimately show ?thesis
    unfolding alps_get_v3_v7_resolution_def Let_def by (intro returns_rules read_reg t) simp_all
qed

lemma otp [returning]: "returns (alps_get_otp_values_ss4_v2 submit i d)"
  unfolding alps_get_otp_values_ss4_v2_def by (intro returns_rules shorts stack) (simp_all add: information_def)

lemma defaults_ss4 [returning]: "returns (alps_set_defaults_ss4_v2 submit d)"
  unfolding alps_set_defaults_ss4_v2_def by (intro returns_bind otp)

lemma dolphin [returning]: "returns (alps_dolphin_get_device_area submit pd d)"
  unfolding alps_dolphin_get_device_area_def Let_def
  by (intro returns_rules enter shorts long stack exit_mode) (simp_all add: information_def)

lemma probe_dual: "table_ok pd \<Longrightarrow> returns (probe_dualpoint submit a pd d)"
  unfolding probe_dualpoint_def by (intro returns_rules probe_trackstick) simp_all

end

section \<open>Initialisation returns\<close>

text \<open>The initialisations that identification can select, with the tables they need.\<close>

fun init_ok :: "hw_init_fn \<Rightarrow> alps_data \<Rightarrow> bool" where
  "init_ok HwInitV1V2 pd \<longleftrightarrow> True"
| "init_ok HwInitDolphinV1 pd \<longleftrightarrow> True"
| "init_ok HwInitV6 pd \<longleftrightarrow> False"
| "init_ok h pd \<longleftrightarrow> table_ok pd"

text \<open>What an initialisation leaves alone: everything but the resolution.\<close>

definition unresolved :: "alps_data \<Rightarrow> alps_data" where
  "unresolved pd = pd\<lparr>x_res := 0, y_res := 0\<rparr>"

lemma unresolved_fields: "nibble_commands (unresolved pd) = nibble_commands pd" "pktsize (unresolved pd) = pktsize pd"
  by (simp_all add: unresolved_def)

lemma resolution_frame:
  assumes "alps_get_v3_v7_resolution S a pd d = Some (ok, pd', d')"
  shows "unresolved pd' = unresolved pd"
proof -
  obtain reg d1 where 1: "alps_command_mode_read_reg S pd a d = Some (reg, d1)"
    using assms by (cases "alps_command_mode_read_reg S pd a d") (auto simp: alps_get_v3_v7_resolution_def)
  show ?thesis
  proof (cases "reg < 0")
    case True
    then show ?thesis using assms 1 by (simp add: alps_get_v3_v7_resolution_def)
  next
    case False
    then obtain reg2 d2 where 2: "alps_command_mode_read_reg S pd (a + 1) d1 = Some (reg2, d2)"
      using assms 1 by (cases "alps_command_mode_read_reg S pd (a + 1) d1") (auto simp: alps_get_v3_v7_resolution_def Let_def)
    show ?thesis
    proof (cases "reg2 < 0")
      case True
      then show ?thesis using assms 1 2 False by (simp add: alps_get_v3_v7_resolution_def Let_def)
    next
      case nonneg: False
      have "\<exists>u v. pd' = pd\<lparr>x_res := u, y_res := v\<rparr>"
        using assms unfolding alps_get_v3_v7_resolution_def 1 Option.bind.bind_lunit Let_def prod.case 2
        using False nonneg by (simp only: if_False) (auto simp: bind_eq_Some_conv)
      then show ?thesis by (auto simp: unresolved_def)
    qed
  qed
qed

lemma table_resolution:
  "(if ok1 then alps_get_v3_v7_resolution S a pd d1 else Some (False, pd, d1)) = Some (ok2, pd', d2) \<Longrightarrow> table_ok pd \<Longrightarrow> table_ok pd'"
proof (cases ok1)
  case True
  assume "(if ok1 then alps_get_v3_v7_resolution S a pd d1 else Some (False, pd, d1)) = Some (ok2, pd', d2)" and t: "table_ok pd"
  then have "unresolved pd' = unresolved pd" using True resolution_frame by simp
  then have "nibble_commands pd' = nibble_commands pd" using unresolved_fields by metis
  then show "table_ok pd'" using t by (simp add: table_ok_def)
qed simp

context returning_port begin

lemma plain: "returns (f d) \<Longrightarrow> returns (plain_step f pd d)"
  unfolding plain_step_def by (intro returns_rules) simp_all

lemma init_v1_v2: "returns (alps_hw_init_v1_v2 submit pd d)"
  unfolding alps_hw_init_v1_v2_def alps_absolute_mode_v1_v2_def
  by (rule returns_all_of) (auto intro!: returns_bind shorts short tap_mode passthrough_v2)

lemma init_v3: "table_ok pd \<Longrightarrow> returns (alps_hw_init_v3 submit pd d)"
  unfolding alps_hw_init_v3_def alps_absolute_mode_v3_def
  by (intro returns_and_then or_exit returns_all_of)
    (auto intro!: returns_rules trackstick_v3 enter with_reg write_value write_reg exit_mode rate_enable)

lemma init_rushmore: "table_ok pd \<Longrightarrow> returns (alps_hw_init_rushmore_v3 submit pd d)"
  unfolding alps_hw_init_rushmore_v3_def
  by (intro returns_and_then or_exit returns_all_of)
    (auto intro!: returns_rules trackstick_v3 enter with_reg write_value write_reg exit_mode short)

lemma init_v4: "table_ok pd \<Longrightarrow> returns (alps_hw_init_v4 submit pd d)"
  unfolding alps_hw_init_v4_def alps_absolute_mode_v4_def
  by (intro returns_and_then or_exit returns_all_of)
    (auto intro!: returns_rules enter with_reg write_value write_reg exit_mode long short rate_enable)

lemma init_v7: "table_ok pd \<Longrightarrow> returns (alps_hw_init_v7 submit pd d)"
  unfolding alps_hw_init_v7_def
  by (intro returns_rules or_exit returns_all_of returns_and_then)
    (auto intro!: enter with_reg resolution write_reg write_value exit_mode rate_enable dest: table_resolution)

lemma init_dolphin: "returns (alps_hw_init_dolphin_v1 submit d)"
  unfolding alps_hw_init_dolphin_v1_def by (intro returns_rules short long rate_enable)

lemma init_ss4: "table_ok pd \<Longrightarrow> returns (alps_hw_init_ss4_v2 submit pd d)"
  unfolding alps_hw_init_ss4_v2_def by (intro returns_rules shorts long exit_mode enter write_reg short) simp_all

lemma init_returns: "init_ok h pd \<Longrightarrow> returns (run_hw_init submit h pd d)"
  by (cases h)
    (auto intro!: plain init_v1_v2 init_v3 init_rushmore init_v4 init_dolphin init_v7 init_ss4)

lemma reset_returns: "returns (resetMouse submit d)"
  unfolding resetMouse_def by (intro returns_rules stack) simp_all

end

lemma init_frame:
  assumes "run_hw_init S h pd d = Some (ok, pd', d')"
  shows "unresolved pd' = unresolved pd"
proof (cases "h = HwInitV7")
  case False
  then show ?thesis using assms by (cases h) (auto simp: plain_step_def bind_eq_Some_conv)
next
  case True
  then obtain ok1 ok2 d1 d2 where r: "(if ok1 then alps_get_v3_v7_resolution S 0xc397 pd d1 else Some (False, pd, d1)) = Some (ok2, pd', d2)"
    using assms by (auto simp: alps_hw_init_v7_def bind_eq_Some_conv)
  then show ?thesis by (cases ok1) (auto dest: resolution_frame)
qed

section \<open>What identification leaves behind\<close>

definition supported :: "u16 set" where
  "supported = {ALPS_PROTO_V1, ALPS_PROTO_V2, ALPS_PROTO_V3, ALPS_PROTO_V3_RUSHMORE, ALPS_PROTO_V4, ALPS_PROTO_V5, ALPS_PROTO_V7,
     ALPS_PROTO_V8}"

definition settled :: "alps_data \<Rightarrow> bool" where
  "settled pd \<longleftrightarrow> second_touch pd \<in> {-1, 0, 1, 2, 3} \<and> 0 \<le> multi_packet pd"

text \<open>The object is configured: an initialisation that can run, the axis scale defined, and routines that fit
  the sensor, provided the sensor has two electrodes on its y axis.\<close>

definition configured :: "'a alps_scheme \<Rightarrow> bool" where
  "configured s \<longleftrightarrow> (\<exists>h. hw_init s = Some h \<and> init_ok h (priv s))
     \<and> 2 \<le> x_max (priv s) + y_max (priv s) \<and> proto_version (priv s) \<in> supported
     \<and> (2 \<le> y_bits (priv s) \<longrightarrow> sensor_ok (process_fn s) (decode_fn s) (priv s))
     \<and> (proto_version (priv s) \<noteq> ALPS_PROTO_V5 \<longrightarrow> 2 \<le> y_bits (priv s))"

text \<open>The fields \<open>configured\<close> looks at.\<close>

definition sensor :: "alps_data \<Rightarrow> _" where
  "sensor pd = (nibble_commands pd, proto_version pd, x_bits pd, y_bits pd, x_max pd, y_max pd, second_touch pd, multi_packet pd)"

lemma sensor_cong:
  assumes "sensor pd' = sensor pd"
  shows "init_ok h pd' = init_ok h pd" "sensor_ok p k pd' = sensor_ok p k pd"
proof -
  show "init_ok h pd' = init_ok h pd" using assms by (cases h) (simp_all add: sensor_def table_ok_def)
  show "sensor_ok p k pd' = sensor_ok p k pd"
    using assms by (cases "(p, k, pd)" rule: sensor_ok.cases) (simp_all add: sensor_def geometry_ok_def decoder_ok_def)
qed

lemma configured_cong:
  assumes "sensor (priv s') = sensor (priv s)" "hw_init s' = hw_init s" "process_fn s' = process_fn s" "decode_fn s' = decode_fn s"
  shows "configured s' = configured s"
  using sensor_cong [OF assms(1)] assms by (simp add: configured_def sensor_def)

lemma probe_dualpoint_frame:
  assumes "probe_dualpoint S a pd d = Some (pd', d')"
  shows "sensor pd' = sensor pd"
  using assms by (auto simp: probe_dualpoint_def bind_eq_Some_conv sensor_def)

text \<open>The dimensions that the third answer byte \<open>b\<close> of a Dolphin trackpad stands for.\<close>

definition dolphin_dims :: "alps_data \<Rightarrow> alps_data \<Rightarrow> bool" where
  "dolphin_dims pd pd' \<longleftrightarrow> (\<exists>m n. 0 \<le> m \<and> m < 16 \<and> 0 \<le> n \<and> n < 16
     \<and> pd' = pd\<lparr>x_bits := 8 + m, y_bits := 1 + n, x_max := (8 + m - 1) * 64, y_max := (1 + n - 1) * 64\<rparr>)"

lemma dolphin_area:
  assumes "alps_dolphin_get_device_area S pd d = Some (pd', d')"
  shows "dolphin_dims pd pd'"
proof -
  have n: "0 \<le> (v AND 0x0F :: int)" "(v AND 0x0F :: int) < 16" for v
    using AND_upper2 [of 15 v] by simp_all
  obtain v where "pd' = pd\<lparr>x_bits := 8 + (v AND 0x0F), y_bits := 1 + (drop_bit 4 v AND 0x0F),
      x_max := (8 + (v AND 0x0F) - 1) * 64, y_max := (1 + (drop_bit 4 v AND 0x0F) - 1) * 64\<rparr>"
    using assms by (auto simp: alps_dolphin_get_device_area_def Let_def bind_eq_Some_conv)
  then show ?thesis unfolding dolphin_dims_def using n by blast
qed

lemma dolphin_sensor_ok:
  assumes "dolphin_dims pd pd'" and "settled pd" and "2 \<le> y_bits pd'"
  shows "sensor_ok (Some ProcessTouchpadV3V5) (Some DecodeDolphin) pd'"
proof -
  obtain m n where mn: "0 \<le> m" "m < 16" "0 \<le> n" "n < 16"
    and pd': "pd' = pd\<lparr>x_bits := 8 + m, y_bits := 1 + n, x_max := (8 + m - 1) * 64, y_max := (1 + n - 1) * 64\<rparr>"
    using assms(1) unfolding dolphin_dims_def by blast
  have "geometry_ok pd'" using mn assms(2,3) by (simp add: pd' geometry_ok_def settled_def)
  then show ?thesis by (simp add: decoder_ok_def)
qed

context returning_port begin

lemma set_protocol_configured:
  assumes st: "settled (priv s)" and v: "proto_version (priv s) \<in> supported"
  shows "\<exists>s' d'. set_protocol submit s d = Some (s', d') \<and> configured s' \<and> settled (priv s')"
proof -
  define pd where "pd = protocol_defaults (priv s)"
  have pd: "proto_version pd = proto_version (priv s)" "settled pd" "x_max pd = 2000" "y_max pd = 1400" "x_bits pd = 15" "y_bits pd = 11"
    "fw_ver pd = fw_ver (priv s)"
    using st by (simp_all add: pd_def protocol_defaults_def settled_def)
  have fields: "hw_init (routines h p k s) = Some h" "process_fn (routines h p k s) = Some p"
    "decode_fn (routines h p k s) = (if k = None then decode_fn s else k)" "priv (routines h p k s) = priv s" for h p k
    by (simp_all add: routines_def)
  have set: "priv (set_priv q u) = q" "hw_init (set_priv q u) = hw_init u" "process_fn (set_priv q u) = process_fn u"
    "decode_fn (set_priv q u) = decode_fn u" for q and u :: "'b alps_scheme" by (simp_all add: set_priv_def)
  let ?wrap = "uint (kDP_MouseResetWrap :: u8)"
  have probe: "\<exists>q' d'. probe_dualpoint submit a q d = Some (q', d') \<and> sensor q' = sensor q" if "table_ok q" for a q
    using returns_obtain [OF probe_dual [OF that, of a d]] probe_dualpoint_frame by (metis surj_pair)
  from v consider "proto_version pd \<in> {ALPS_PROTO_V1, ALPS_PROTO_V2}" | "proto_version pd = ALPS_PROTO_V3"
    | "proto_version pd = ALPS_PROTO_V3_RUSHMORE" | "proto_version pd = ALPS_PROTO_V4" | "proto_version pd = ALPS_PROTO_V5"
    | "proto_version pd = ALPS_PROTO_V7" | "proto_version pd = ALPS_PROTO_V8"
    by (auto simp: supported_def pd(1))
  then show ?thesis
  proof cases
    case 1
    then show ?thesis
      using pd by (auto simp: set_protocol_def pd_def [symmetric] Let_def configured_def fields set settled_def supported_def)
  next
    case 2
    let ?q = "register_access alps_v3_nibble_commands ?wrap pd"
    have "table_ok ?q" by (simp add: table_ok_def register_access_def tables_ok)
    then obtain q d' where q: "probe_dualpoint submit ALPS_REG_BASE_PINNACLE ?q d = Some (q, d')" "sensor q = sensor ?q"
      using probe by blast
    then show ?thesis
      using 2 pd by (auto simp: set_protocol_def pd_def [symmetric] Let_def configured_def fields set settled_def supported_def
          sensor_def register_access_def table_ok_def tables_ok geometry_ok_def decoder_ok_def)
  next
    case 3
    let ?q = "register_access alps_v3_nibble_commands ?wrap (pd\<lparr>x_bits := 16, y_bits := 12\<rparr>)"
    have "table_ok ?q" by (simp add: table_ok_def register_access_def tables_ok)
    then obtain q d' where q: "probe_dualpoint submit ALPS_REG_BASE_RUSHMORE ?q d = Some (q, d')" "sensor q = sensor ?q"
      using probe by blast
    then show ?thesis
      using 3 pd by (auto simp: set_protocol_def pd_def [symmetric] Let_def configured_def fields set settled_def supported_def
          sensor_def register_access_def table_ok_def tables_ok geometry_ok_def decoder_ok_def)
  next
    case 4
    then show ?thesis
      using pd by (auto simp: set_protocol_def pd_def [symmetric] Let_def configured_def fields set settled_def supported_def
          register_access_def table_ok_def tables_ok geometry_ok_def)
  next
    case 5
    let ?q = "(register_access alps_v3_nibble_commands ?wrap pd)\<lparr>byte0 := 0xc8, mask0 := 0xc8, flags := 0, x_bits := 23, y_bits := 12\<rparr>"
    obtain q d' where q: "alps_dolphin_get_device_area submit ?q d = Some (q, d')"
      using returns_obtain [OF dolphin [of ?q d]] by auto
    have dims: "dolphin_dims ?q q" by (rule dolphin_area [OF q])
    have sq: "settled ?q" using pd(2) by (simp add: settled_def register_access_def)
    have "settled q" "2 \<le> x_max q + y_max q" "proto_version q = ALPS_PROTO_V5" "table_ok q"
      using dims sq 5 by (auto simp: dolphin_dims_def settled_def register_access_def table_ok_def tables_ok)
    then show ?thesis
      using 5 q dolphin_sensor_ok [OF dims sq]
      by (auto simp: set_protocol_def pd_def [symmetric] Let_def configured_def fields set supported_def)
  next
    case 6
    let ?q0 = "(register_access alps_v3_nibble_commands ?wrap pd)\<lparr>byte0 := 0x48, mask0 := 0x48, x_max := 0xfff, y_max := 0x7ff\<rparr>"
    let ?q = "if fw_ver ?q0 ! 1 \<noteq> 0xba then ?q0\<lparr>flags := flags ?q0 OR ALPS_BUTTONPAD\<rparr> else ?q0"
    have s0: "sensor ?q = sensor ?q0" by (simp add: sensor_def)
    have "table_ok ?q" by (simp add: table_ok_def register_access_def tables_ok)
    then obtain q d' where q: "probe_dualpoint submit ALPS_REG_BASE_V7 ?q d = Some (q, d')" "sensor q = sensor ?q0"
      using probe [of ?q] s0 by metis
    have "set_protocol submit s d = Some (set_priv q (routines HwInitV7 ProcessV7 (Some DecodeV7) s), d')"
      using 6 q(1) by (cases "fw_ver pd ! 1 = 0xba")
        (simp_all add: set_protocol_def pd_def [symmetric] Let_def register_access_def)
    then show ?thesis
      using 6 q(2) pd by (auto simp: configured_def fields set settled_def supported_def sensor_def register_access_def table_ok_def tables_ok)
  next
    case 7
    obtain d' where "alps_set_defaults_ss4_v2 submit d = Some d'" using returns_obtain [OF defaults_ss4 [of d]] by auto
    then show ?thesis
      using 7 pd by (auto simp: set_protocol_def pd_def [symmetric] Let_def configured_def fields set settled_def supported_def
          register_access_def table_ok_def tables_ok)
  qed
qed

lemma match_models_ok:
  assumes "settled (priv s)" and "\<forall>m \<in> set ms. mi_proto m \<in> supported"
  shows "\<exists>ok s' d'. match_models submit ms e7 ec s d = Some (ok, s', d') \<and> (ok \<longrightarrow> configured s' \<and> settled (priv s')) \<and> (\<not> ok \<longrightarrow> s' = s)"
  using assms(2)
proof (induction ms)
  case (Cons m ms)
  show ?case
  proof (cases "model_matches e7 ec m")
    case True
    let ?s = "set_priv ((priv s)\<lparr>proto_version := mi_proto m\<rparr>) s"
    have "settled (priv ?s)" "proto_version (priv ?s) \<in> supported"
      using assms(1) Cons.prems by (simp_all add: settled_def set_priv_def)
    then obtain s1 d1 where s1: "set_protocol submit ?s d = Some (s1, d1)" "configured s1" "settled (priv s1)"
      using set_protocol_configured by blast
    let ?t = "set_priv ((priv s1)\<lparr>flags := mi_flags m, byte0 := mi_byte0 m, mask0 := mi_mask0 m\<rparr>) s1"
    have "configured ?t = configured s1" by (rule configured_cong) (simp_all add: sensor_def set_priv_def)
    moreover have "settled (priv ?t)" using s1(3) by (simp add: settled_def set_priv_def)
    moreover have "match_models submit (m # ms) e7 ec s d = Some (True, ?t, d1)" using True s1(1) by simp
    ultimately show ?thesis using s1(2) by blast
  next
    case False
    then show ?thesis using Cons by simp
  qed
qed auto

lemma identify_ok:
  assumes st: "settled (priv s)"
  shows "\<exists>r s' d'. identify submit s d = Some (r, s', d') \<and> (r = 0 \<longrightarrow> configured s' \<and> settled (priv s')) \<and> (r \<noteq> 0 \<longrightarrow> s' = s)"
proof -
  have rpt_ex: "\<exists>ok st d'. alps_rpt_cmd submit a b c d = Some (ok, st, d')" for a b c d
    using returns_obtain [OF rpt] by auto
  have exit_ex: "\<exists>ok d'. alps_exit_command_mode submit d = Some (ok, d')" for d
    using returns_obtain [OF exit_mode] by auto
  have table: "\<forall>m \<in> set alps_model_data. mi_proto m \<in> supported"
    by (simp add: alps_model_data_def supported_def)
  have known: "v \<in> supported" if "known_signature e7 ec = Some v" for e7 ec v
    using that by (auto simp: known_signature_def supported_def split: if_splits)
  let ?res = "uint (kDP_SetMouseResolution :: u8)"
  obtain ok1 e6 d1 where 1: "alps_rpt_cmd submit ?res 0 (uint (kDP_SetMouseScaling1To1 :: u8)) d = Some (ok1, e6, d1)"
    using rpt_ex by blast
  obtain ok2 e7 d2 where 2: "alps_rpt_cmd submit ?res 0 (uint (kDP_SetMouseScaling2To1 :: u8)) d1 = Some (ok2, e7, d2)"
    using rpt_ex by blast
  obtain ok3 ec d3 where 3: "alps_rpt_cmd submit ?res 0 (uint (kDP_MouseResetWrap :: u8)) d2 = Some (ok3, ec, d3)"
    using rpt_ex by blast
  obtain ok4 d4 where 4: "alps_exit_command_mode submit d3 = Some (ok4, d4)" using exit_ex by blast
  obtain ok5 s5 d5 where 5: "matchTable submit (status_bytes e7) (status_bytes ec) s d4 = Some (ok5, s5, d5)"
      "ok5 \<longrightarrow> configured s5 \<and> settled (priv s5)" "\<not> ok5 \<longrightarrow> s5 = s"
    using match_models_ok [OF st table] unfolding matchTable_def by metis
  have eqs: "identify submit s d =
     (if \<not> ok2 then Some (kIOReturnIOError, s, d2) else if \<not> ok3 then Some (kIOReturnIOError, s, d3)
      else if \<not> ok4 then Some (kIOReturnIOError, s, d4) else if ok5 then Some (0, s5, d5)
      else case known_signature (status_bytes e7) (status_bytes ec) of None \<Rightarrow> Some (kIOReturnInvalid, s5, d5)
        | Some v \<Rightarrow> do {
            (s, d) \<leftarrow> set_protocol submit (set_priv ((priv s5)\<lparr>proto_version := v, fw_ver := status_bytes ec\<rparr>) s5) d5;
            Some (0, s, d) })"
    unfolding identify_def Let_def 1 2 3 4 5(1) Option.bind.bind_lunit prod.case ..
  show ?thesis
  proof (cases "ok2 \<and> ok3 \<and> ok4 \<and> \<not> ok5")
    case False
    then show ?thesis using 5(2,3) by (auto simp: eqs)
  next
    case True
    then have s5: "s5 = s" using 5(3) by simp
    show ?thesis
    proof (cases "known_signature (status_bytes e7) (status_bytes ec)")
      case None
      then show ?thesis using True s5 by (simp add: eqs)
    next
      case (Some v)
      let ?s = "set_priv ((priv s)\<lparr>proto_version := v, fw_ver := status_bytes ec\<rparr>) s"
      have "settled (priv ?s)" "proto_version (priv ?s) \<in> supported"
        using st known [OF Some] by (simp_all add: settled_def set_priv_def)
      then obtain s1 d1 where "set_protocol submit ?s d5 = Some (s1, d1)" "configured s1" "settled (priv s1)"
        using set_protocol_configured by blast
      then show ?thesis using True s5 Some by (simp add: eqs)
    qed
  qed
qed

lemma device_init_ok:
  assumes c: "configured s"
  shows "\<exists>ok s' d'. deviceSpecificInit submit s d = Some (ok, s', d') \<and> configured s'
     \<and> pktsize (priv s') = (if proto_version (priv s) = ALPS_PROTO_V4 then 8 else 6)"
proof -
  obtain h where h: "hw_init s = Some h" "init_ok h (priv s)" using c by (auto simp: configured_def)
  let ?pd = "(priv s)\<lparr>pktsize := if proto_version (priv s) = ALPS_PROTO_V4 then 8 else 6\<rparr>"
  have "init_ok h ?pd" using h(2) sensor_cong(1) [of ?pd "priv s"] by (simp add: sensor_def)
  then obtain ok pd d1 where i: "run_hw_init submit h ?pd d = Some (ok, pd, d1)"
    using returns_obtain [OF init_returns] by (metis surj_pair)
  note u = init_frame [OF i]
  have "sensor (unresolved q) = sensor q" for q by (simp add: unresolved_def sensor_def)
  then have "sensor pd = sensor ?pd" using u by metis
  then have "sensor pd = sensor (priv s)" by (simp add: sensor_def)
  then have c': "configured (set_priv pd s)" using c configured_cong [of "set_priv pd s" s] by (simp add: set_priv_def)
  have pk: "pktsize pd = (if proto_version (priv s) = ALPS_PROTO_V4 then 8 else 6)"
    using u unresolved_fields(2) [of pd] unresolved_fields(2) [of ?pd] by simp
  have eq: "deviceSpecificInit submit s d = do {
      (ok, pd, d) \<leftarrow> run_hw_init submit h ?pd d;
      if ok then Some (True, set_priv pd s, d) else do { (_, d) \<leftarrow> resetMouse submit d; Some (False, set_priv pd s, d) } }"
    by (simp add: deviceSpecificInit_def Let_def set_priv_def h(1) cong: if_cong)
  obtain z d2 where "resetMouse submit d1 = Some (z, d2)" using returns_obtain [OF reset_returns] by (metis surj_pair)
  then show ?thesis using i c' pk by (cases ok) (auto simp: eq set_priv_def)
qed

text \<open>Sleep and wake-up: the device is reset, and set up again with an empty buffer.\<close>

lemma power_cycle_ok:
  assumes "configured s"
  shows "\<exists>t d1 d2. tp_setDevicePowerState submit False s d = Some (s, d1) \<and> tp_setDevicePowerState submit True s d1 = Some (t, d2) \<and>
    configured t \<and> pktsize (priv t) \<in> {6, 8} \<and> packetByteCount t = 0 \<and> ring_count kRingSize (ringBuffer t) = 0 \<and> modifierdown t = 0 \<and>
    passbuttons t = 0"
proof -
  obtain ok d1 where "resetMouse submit d = Some (ok, d1)" using returns_obtain [OF reset_returns] by (metis surj_pair)
  moreover have "configured (initTouchPad_state s)" using assms by (simp add: configured_def initTouchPad_state_def)
  then obtain ok t d2 where i: "deviceSpecificInit submit (initTouchPad_state s) d1 = Some (ok, t, d2)" "configured t"
      "pktsize (priv t) = (if proto_version (priv (initTouchPad_state s)) = ALPS_PROTO_V4 then 8 else 6)"
    using device_init_ok [of "initTouchPad_state s" d1] by blast
  moreover obtain pd where "t = set_priv pd (initTouchPad_state s)"
    using i(1) by (auto simp: deviceSpecificInit_def bind_eq_Some_conv Let_def set_priv_def split: if_splits)
  ultimately show ?thesis
    by (auto simp: tp_setDevicePowerState_def setTouchPadEnable_def initTouchPad_def initTouchPad_state_def set_priv_def
        ring_reset_def ring_count_def count2_def)
qed

end

lemma half_nonzero: "2 \<le> a \<Longrightarrow> a sdiv 2 \<noteq> 0" for a :: int
  by (simp add: sdiv_nonneg_eq)


context returning_port begin

lemma monitor_mode_overruns: "alps_monitor_mode submit True d = None"
proof -
  obtain d1 where 1: "ps2_command_short submit kDP_MouseResetWrap d = Some d1" using returns_obtain [OF short] by blast
  obtain n cs d2 where 2: "submit_stack 4 submit information d1 = Some (n, cs, d2)" "length cs = 4"
    by (rule stack_returns [of information 4 d1]) (simp_all add: information_def)
  let ?l = "[kDP_SetDefaultsAndDisable, kDP_SetDefaultsAndDisable, kDP_SetMouseScaling2To1,
               kDP_SetMouseScaling1To1, kDP_SetMouseScaling2To1]"
  obtain d3 where 3: "ps2_commands_short submit ?l d2 = Some d3" using returns_obtain [OF shorts] by blast
  have "submit_stack 4 submit (cs @ information) d3 = None" using 2(2) by (simp add: submit_stack_def information_def)
  then show ?thesis unfolding alps_monitor_mode_def if_True 1 2(1) 3 Option.bind.bind_lunit prod.case by simp
qed

end

section \<open>A port that answers from a list\<close>

text \<open>Every command is acknowledged; the bytes read are taken from a list, then zero; the bytes sent are logged.\<close>

record script =
  answers :: "u8 list"
  sent :: "u8 list"

fun play :: "PS2Command list \<Rightarrow> script \<Rightarrow> PS2Command list \<times> script" where
  "play [] d = ([], d)"
| "play (c # cs) d =
     (let (c, d) = (if command c = kPS2C_ReadDataPort
                    then (set_inOrOut (case answers d of [] \<Rightarrow> 0 | a # _ \<Rightarrow> a) c, d\<lparr>answers := tl (answers d)\<rparr>)
                    else (c, d\<lparr>sent := sent d @ [inOrOut c]\<rparr>));
          (cs, d) = play cs d
      in (c # cs, d))"

definition scripted :: "script submit" where
  "scripted cs d = (let (cs', d') = play cs d in Some (length cs, cs', d'))"

lemma play_commands: "map command (fst (play cs d)) = map command cs"
  by (induction cs arbitrary: d) (simp_all add: Let_def split_beta)

interpretation scripted: returning_port scripted
proof unfold_locales
  fix cs cs' d d' n
  assume "scripted cs d = Some (n, cs', d')"
  then have "n = length cs" "cs' = fst (play cs d)" by (auto simp: scripted_def split_beta Let_def)
  then show "n \<le> length cs" "map command cs' = map command cs" by (simp_all add: play_commands)
qed (simp add: scripted_def split_beta Let_def)

definition v1_answers :: script where
  "v1_answers = \<lparr>answers = [0, 0, 100, 0x33, 0x02, 0x0a, 0, 0, 0], sent = []\<rparr>"


text \<open>
  The second request of \<open>alps_monitor_mode\<close> goes on filling an array of four commands at index 4, so the
  initialisation of V6 always writes behind its request.  (Identification never selects V6.)
\<close>

theorem v6_init_overruns_request:
  assumes "returning_port S"
  shows "alps_hw_init_v6 S pd d = None"
proof -
  have "alps_monitor_mode S True e = None" for e
    by (rule returning_port.monitor_mode_overruns [OF assms])
  then have "alps_hw_init_v6 S pd d \<noteq> Some r" for r
    by (auto simp: alps_hw_init_v6_def alps_absolute_mode_v6_def bind_eq_Some_conv)
  then show ?thesis by (cases "alps_hw_init_v6 S pd d") auto
qed

lemma v6_init_overruns_request_witness: "alps_hw_init_v6 scripted zero_data v1_answers = None"
  by (rule v6_init_overruns_request [OF scripted.returning_port_axioms])

text \<open>
  When the request for the dimensions of a Dolphin trackpad fails at its first command, nobody notices:
  identification of the protocol succeeds with one electrode row, and the first bitmap divides by zero.
\<close>

theorem failed_area_request_traps:
  assumes "proto_version (priv s) = ALPS_PROTO_V5" and "\<And>cs e. S cs e = Some (0, cs, e)"
    and "f_x_map fl \<noteq> 0" and "f_y_map fl \<noteq> 0"
  shows "\<exists>s'. set_protocol S s d = Some (s', d) \<and> y_max (priv s') = 0 \<and> alps_process_bitmap (priv s') fl = None"
proof -
  have st: "submit_stack n S cs e = (if length cs \<le> n then Some (0, cs, e) else None)" for n cs e
    by (simp add: submit_stack_def assms(2))
  have short: "ps2_command_short S c e = Some e" for c e by (simp add: ps2_command_short_def st)
  let ?pd = "(register_access alps_v3_nibble_commands (uint (kDP_MouseResetWrap :: u8)) (protocol_defaults (priv s)))
     \<lparr>byte0 := 0xc8, mask0 := 0xc8, flags := 0, x_bits := 23, y_bits := 12\<rparr>"
  have "alps_dolphin_get_device_area S ?pd d = Some (?pd\<lparr>x_bits := 8, y_bits := 1, x_max := 448, y_max := 0\<rparr>, d)"
    by (simp add: alps_dolphin_get_device_area_def alps_enter_command_mode_def alps_exit_command_mode_def alps_rpt_cmd_def
        ps2_command_def st short information_def Let_def inOrOut_def read_data_def)
  then have "set_protocol S s d = Some (set_priv (?pd\<lparr>x_bits := 8, y_bits := 1, x_max := 448, y_max := 0\<rparr>)
      (routines HwInitDolphinV1 ProcessTouchpadV3V5 (Some DecodeDolphin) s), d)"
    using assms(1) by (simp add: set_protocol_def Let_def protocol_defaults_def)
  then show ?thesis using single_electrode_traps [OF assms(3,4)] by (simp add: set_priv_def)
qed

lemma failed_area_request_traps_witness:
  "\<exists>s'. set_protocol (\<lambda>cs e. Some (0, cs, e)) (new_alps\<lparr>priv := zero_data\<lparr>proto_version := ALPS_PROTO_V5\<rparr>\<rparr>) () = Some (s', ())
    \<and> y_max (priv s') = 0 \<and> alps_process_bitmap (priv s') (zero_fields\<lparr>f_x_map := 1, f_y_map := 1\<rparr>) = None"
  by (rule failed_area_request_traps) simp_all

text \<open>
  \<open>init\<close> overwrites the settings it has just loaded: whatever the configuration of this machine says about
  tapping, dragging, scrolling, momentum and palm rejection, the driver starts with the built-in values.
\<close>

theorem init_overrides_settings:
  assumes "alps_init True config s = (True, t)"
  shows "clicking t \<and> dragging t \<and> scroll t \<and> hscroll t \<and> momentumscroll t \<and> \<not> rtap t \<and> \<not> outzone_wt t \<and> \<not> palm t \<and> \<not> palm_wt t"
  using assms by (auto simp: alps_init_def split: prod.splits bool.splits)

lemma init_overrides_settings_witness:
  "\<exists>t. alps_init True (Some [''Clicking'' \<mapsto> OSNumber 0, ''Dragging'' \<mapsto> OSNumber 0]) new_alps = (True, t) \<and> clicking t \<and> dragging t"
proof -
  obtain t where t: "alps_init True (Some [''Clicking'' \<mapsto> OSNumber 0, ''Dragging'' \<mapsto> OSNumber 0]) new_alps = (True, t)"
    by (auto simp: alps_init_def tp_init_def)
  then show ?thesis using init_overrides_settings [OF t] by blast
qed

end
