(* ===== verification/ControllerContract.thy ===== *)
theory ControllerContract
  imports ControllerReads CommandSafety
begin

text \<open>
  What the controller promises to the drivers: the contract of the request port, requests that return, power
  states, the reset sequence.
\<close>

section \<open>The request port\<close>

lemma process_command_kind: "process_command E cmd p c = Some (cmd', p', c') \<Longrightarrow> command cmd' = command cmd"
  unfolding process_command_def readDataPort_into_def
  by (auto split: PS2CommandEnum.splits simp: bind_eq_Some_conv)

lemma process_commands_contract:
  "process_commands E cs p c = Some (n, cs', p', c') \<Longrightarrow> n \<le> length cs \<and> map command cs' = map command cs"
  by (induction cs arbitrary: p c n cs') (auto simp: bind_eq_Some_conv split: if_splits dest!: process_command_kind)

lemma processRequest_contract:
  "processRequest E r c = Some (n, r', c') \<Longrightarrow> n \<le> length (commands r) \<and> map command (commands r') = map command (commands r)"
  by (auto simp: processRequest_def bind_eq_Some_conv split: if_splits dest!: process_commands_contract)

interpretation controller: request_port "stack_port E" for E
  by unfold_locales (auto simp: stack_port_def submitRequestAndBlock_def bind_eq_Some_conv dest!: processRequest_contract)

section \<open>Requests that return\<close>

text \<open>The input buffer always has room for the next byte.\<close>

definition accepts_input :: "'h env \<Rightarrow> bool" where
  "accepts_input E \<longleftrightarrow> (\<forall>h. \<not> isset (fst (env_inb E kCommandPort h)) kInputBusy)"

lemma wait_input_returns [returning]: "accepts_input E \<Longrightarrow> returns (wait_input E c)"
  by (subst wait_input.simps) (auto simp: accepts_input_def inb_def split: prod.splits; metis fst_conv)

lemma write_returns [returning]:
  "accepts_input E \<Longrightarrow> returns (writeDataPort E b c)" "accepts_input E \<Longrightarrow> returns (writeCommandPort E b c)"
  unfolding writeDataPort_def writeCommandPort_def by (intro returns_rules returning; assumption)+

lemma read_returns:
  assumes "finite_input E left"
  shows "returns (readDataPort E dt c)" "returns (readDataPort_expecting E dt x c)"
  using read_loop_returns [OF assms] expect_loop_returns [OF assms]
  by (simp_all add: returns_def readDataPort_def readDataPort_expecting_def)

lemma flush_returns:
  assumes "finite_input E left"
  shows "returns (flush_output E n c)"
proof (induction "left (world c)" arbitrary: n c rule: less_induct)
  case less
  obtain s c1 where i: "inb E kCommandPort c = (s, c1)" by fastforce
  then have "env_inb E kCommandPort (world c) = (s, world c1)" by (auto simp: inb_def log_def split: prod.splits)
  then have "left (world (snd (inb E kDataPort c1))) < left (world c)" if "isset s kOutputReady"
    using assms that unfolding finite_input_def
    by (auto simp: inb_def log_def split: prod.split) (metis fst_conv snd_conv)
  then have "returns (flush_output E (n + 1) (snd (inb E kDataPort c1)))" if "isset s kOutputReady"
    using less that by blast
  then show ?case by (subst flush_output.simps) (simp add: i)
qed

lemma process_command_returns:
  assumes "finite_input E left" "accepts_input E"
  shows "returns (process_command E cmd p c)"
  unfolding process_command_def readDataPort_into_def
  by (cases "command cmd"; simp only: PS2CommandEnum.case)
    (intro returns_rules returns_Some read_returns [OF assms(1)] flush_returns [OF assms(1)] write_returns [OF assms(2)])+

lemma process_commands_returns:
  assumes "finite_input E left" "accepts_input E"
  shows "returns (process_commands E cs p c)"
  by (induction cs arbitrary: p c)
    (simp_all only: process_commands.simps, (intro returns_rules returns_Some process_command_returns [OF assms] | assumption)+)

lemma processRequest_returns:
  assumes "finite_input E left" "accepts_input E"
  shows "returns (processRequest E r c)"
  unfolding processRequest_def by (intro returns_rules returns_Some process_commands_returns [OF assms])

lemma local_queue_returns:
  assumes "finite_input E left" "accepts_input E"
  shows "returns (process_local_queue E rs c)"
  by (induction rs arbitrary: c)
    (simp_all only: process_local_queue.simps, (intro returns_rules returns_Some processRequest_returns [OF assms] | assumption)+)

lemma controller_port:
  assumes "finite_input E left" and "accepts_input E"
  shows "returning_port (stack_port E)"
proof (unfold_locales)
  fix cs and d
  have "returns (stack_port E cs d)"
    unfolding stack_port_def submitRequestAndBlock_def processRequestQueue_def
    by (intro returns_rules returns_Some processRequest_returns [OF assms] local_queue_returns [OF assms])
  then show "\<exists>r. stack_port E cs d = Some r" by (rule returns_obtain)
qed

text \<open>
  C4. When the bytes still to come are finitely many and the controller takes what is written to it, every
  request a driver submits returns, with a count and commands as the drivers rely on: the controller fulfils the
  contract over which identification and initialisation of the trackpad are proved.
\<close>

theorem controller_fulfils_contract:
  assumes "finite_input E left" and "accepts_input E"
  shows "returning_port (stack_port E)"
  by (rule controller_port [OF assms])

section \<open>The composite mouse command\<close>

text \<open>The three commands the composite one stands for.\<close>

definition expand :: "PS2Command \<Rightarrow> PS2Command list" where
  "expand cmd =
     (if command cmd = kPS2C_SendMouseCommandAndCompareAck then
        [\<lparr>command = kPS2C_WriteCommandPort, inOrOut32 = ucast kCP_TransmitToMouse\<rparr>,
         \<lparr>command = kPS2C_WriteDataPort, inOrOut32 = inOrOut32 cmd\<rparr>,
         \<lparr>command = kPS2C_ReadDataPortAndCompare, inOrOut32 = ucast kSC_Acknowledge\<rparr>]
      else [cmd])"

definition arms_mouse :: "PS2Command \<Rightarrow> bool" where
  "arms_mouse cmd \<longleftrightarrow> command cmd = kPS2C_WriteCommandPort \<and> inOrOut cmd = kCP_TransmitToMouse"

definition ends :: "(nat \<times> PS2Command list \<times> progress \<times> 'h ctl) option \<Rightarrow> (progress \<times> 'h ctl) option" where
  "ends m = map_option (\<lambda>(n, cs, p, c). (p, c)) m"

lemma ends_append:
  "\<not> failed p \<Longrightarrow> ends (process_commands E (xs @ ys) p c) =
     ends (process_commands E xs p c) \<bind> (\<lambda>(p, c). if failed p then Some (p, c) else ends (process_commands E ys p c))"
proof (induction xs arbitrary: p c)
  case Nil
  then show ?case by (simp add: ends_def)
next
  case (Cons x xs)
  show ?case
  proof (cases "process_command E x p c")
    case (Some r)
    obtain x' p' c' where r: "process_command E x p c = Some (x', p', c')" using Some by (cases r) auto
    show ?thesis
    proof (cases "failed p'")
      case False
      have "ends (do { (n, zs, p, c) \<leftarrow> m; Some (Suc n, x' # zs, p, c) }) = ends m" for m :: "(nat \<times> PS2Command list \<times> progress \<times> 'a ctl) option"
        by (cases m) (auto simp: ends_def)
      then show ?thesis using False r Cons.IH [OF False, of c'] by simp
    qed (simp add: r ends_def)
  qed (simp add: ends_def)
qed

lemma ends_expand:
  assumes "\<not> failed p" "\<not> transmitToMouse p"
  shows "ends (process_commands E (expand cmd) p c) = ends (process_commands E [cmd] p c)"
proof (cases "command cmd = kPS2C_SendMouseCommandAndCompareAck")
  case True
  have [simp]: "inOrOut \<lparr>command = k, inOrOut32 = inOrOut32 cmd\<rparr> = inOrOut cmd" for k by (simp add: inOrOut_def)
  have [simp]: "inOrOut \<lparr>command = k, inOrOut32 = 0xd4\<rparr> = 0xd4" "inOrOut \<lparr>command = k, inOrOut32 = 0xfa\<rparr> = 0xfa" for k
    by (simp_all add: inOrOut_def)
  show ?thesis
    using True assms
    by (simp add: expand_def ends_def process_command_def split: bind_split)
qed (simp add: expand_def)

lemma command_unarmed:
  assumes "process_command E cmd p c = Some (cmd', p', c')" "\<not> transmitToMouse p" "\<not> arms_mouse cmd"
  shows "\<not> transmitToMouse p'"
  using assms unfolding process_command_def readDataPort_into_def
  by (auto simp: bind_eq_Some_conv arms_mouse_def split: PS2CommandEnum.splits if_splits)

lemma ends_expand_all:
  assumes "\<forall>cmd \<in> set cs. \<not> arms_mouse cmd"
  shows "\<not> failed p \<Longrightarrow> \<not> transmitToMouse p \<Longrightarrow>
    ends (process_commands E (concat (map expand cs)) p c) = ends (process_commands E cs p c)"
  using assms
proof (induction cs arbitrary: p c)
  case (Cons x xs)
  have tail: "ends (process_commands E (concat (map expand xs)) p' c') = ends (process_commands E xs p' c')"
    if "ends (process_commands E [x] p c) = Some (p', c')" "\<not> failed p'" for p' c'
  proof -
    from that obtain x' where "process_command E x p c = Some (x', p', c')"
      by (auto simp: ends_def bind_eq_Some_conv split: if_splits)
    with command_unarmed [OF this] Cons that show ?thesis by simp
  qed
  have "ends (process_commands E (concat (map expand (x # xs))) p c) = ends (process_commands E (expand x @ concat (map expand xs)) p c)"
    by simp
  also have "\<dots> = ends (process_commands E [x] p c) \<bind>
      (\<lambda>(p, c). if failed p then Some (p, c) else ends (process_commands E (concat (map expand xs)) p c))"
    by (simp add: ends_append [OF Cons.prems(1)] ends_expand [OF Cons.prems(1,2)] del: process_commands.simps)
  also have "\<dots> = ends (process_commands E [x] p c) \<bind> (\<lambda>(p, c). if failed p then Some (p, c) else ends (process_commands E xs p c))"
    by (rule Option.bind_cong [OF refl]) (auto simp: tail split: prod.split)
  also have "\<dots> = ends (process_commands E ([x] @ xs) p c)" by (simp only: ends_append [OF Cons.prems(1)])
  finally show ?case by simp
qed simp

lemma command_count:
  "process_commands E cs p c = Some (n, cs', p', c') \<Longrightarrow> \<not> failed p \<Longrightarrow> (n = length cs) = (\<not> failed p')"
proof (induction cs arbitrary: p c n cs')
  case (Cons x xs)
  from Cons.prems(1) obtain x' p1 c1 where x: "process_command E x p c = Some (x', p1, c1)"
    by (auto simp: bind_eq_Some_conv)
  show ?case
  proof (cases "failed p1")
    case False
    with Cons.prems x obtain m cs'' where "process_commands E xs p1 c1 = Some (m, cs'', p', c')" "n = Suc m"
      by (auto simp: bind_eq_Some_conv)
    from Cons.IH [OF this(1) False] this(2) show ?thesis by simp
  qed (use Cons.prems x in auto)
qed simp

definition succeeded :: "(nat \<times> PS2Request \<times> 'h ctl) option \<Rightarrow> (bool \<times> 'h ctl) option" where
  "succeeded m = map_option (\<lambda>(n, r, c). (n = length (commands r), c)) m"

lemma succeeded_ends:
  assumes "\<not> hardwareOffline c"
  shows "succeeded (processRequest E r c) =
     map_option (\<lambda>(p, c). (\<not> failed p, complete E r (c\<lparr>ignoreInterrupts := ignoreInterrupts c - 1\<rparr>)))
      (ends (process_commands E (commands r) \<lparr>deviceMode = kDT_Keyboard, transmitToMouse = False, failed = False\<rparr>
        (c\<lparr>ignoreInterrupts := ignoreInterrupts c + 1\<rparr>)))"
proof (cases "process_commands E (commands r) \<lparr>deviceMode = kDT_Keyboard, transmitToMouse = False, failed = False\<rparr>
        (c\<lparr>ignoreInterrupts := ignoreInterrupts c + 1\<rparr>)")
  case (Some x)
  obtain n cs p d where x: "x = (n, cs, p, d)" by (cases x) auto
  have "length cs = length (commands r)"
    using process_commands_contract [OF Some [unfolded x]] by (metis length_map)
  with assms command_count [OF Some [unfolded x]] Some x show ?thesis
    by (simp add: succeeded_def ends_def processRequest_def)
qed (simp add: assms succeeded_def ends_def processRequest_def)

lemma complete_commands: "complete E (r\<lparr>commands := cs\<rparr>) c = complete E r c"
  by (simp add: complete_def)


section \<open>Power states\<close>

text \<open>What only a change of the power state may change.\<close>

definition keeps_power :: "'h ctl \<Rightarrow> 'h ctl \<Rightarrow> bool" where
  "keeps_power c c' \<longleftrightarrow> hardwareOffline c' = hardwareOffline c \<and> ignoreInterrupts c' = ignoreInterrupts c \<and>
     currentPowerState c' = currentPowerState c"

lemma keeps_power_step: "port_step c c' \<Longrightarrow> keeps_power c c'"
  by (auto simp: keeps_power_def dest: port_step_fields)

lemma keeps_power_trans: "keeps_power a b \<Longrightarrow> keeps_power b c \<Longrightarrow> keeps_power a c"
  by (simp add: keeps_power_def)

lemma keeps_power_refl [simp]: "keeps_power c c" by (simp add: keeps_power_def)

text \<open>\<open>post Q m\<close>: the state a computation leaves, when it ends, satisfies \<open>Q\<close>.\<close>

definition post :: "('c \<Rightarrow> bool) \<Rightarrow> 'c option \<Rightarrow> bool" where
  "post Q m \<longleftrightarrow> (\<forall>c. m = Some c \<longrightarrow> Q c)"

lemma post_Some: "Q c \<Longrightarrow> post Q (Some c)" by (simp add: post_def)

lemma post_keeps:
  assumes "keeps_power c0 c"
  shows "(\<And>c'. keeps_power c0 c' \<Longrightarrow> post Q (f c')) \<Longrightarrow> post Q (writeCommandPort E b c \<bind> f)"
    and "(\<And>c'. keeps_power c0 c' \<Longrightarrow> post Q (f c')) \<Longrightarrow> post Q (writeDataPort E b c \<bind> f)"
    and "(\<And>b c'. keeps_power c0 c' \<Longrightarrow> post Q (g b c')) \<Longrightarrow> post Q (readDataPort E dt c \<bind> (\<lambda>(b, c). g b c))"
    and "(\<And>n c'. keeps_power c0 c' \<Longrightarrow> post Q (h n c')) \<Longrightarrow> post Q (flush_output E k c \<bind> (\<lambda>(n, c). h n c))"
  using assms unfolding post_def
  by (auto simp: bind_eq_Some_conv dest!: port_step_ops keeps_power_step dest: keeps_power_trans)

lemma reset_keeps_power: "post (keeps_power c) (resetController E c)"
proof -
  have "keeps_power c (c\<lparr>suppressTimeout := True\<rparr>)" by (simp add: keeps_power_def)
  then show ?thesis unfolding resetController_def Let_def
    by (rule post_keeps(1)) (rule post_keeps post_Some | (assumption | simp add: keeps_power_def))+
qed

lemma setCommandByte_keeps_power: "setCommandByte E x y c = Some (b, c') \<Longrightarrow> keeps_power c c'"
  unfolding setCommandByte_def
  by (auto simp: bind_eq_Some_conv Let_def keeps_power_def split: if_splits
      dest!: port_step_ops port_step_fields)

lemma processRequest_keeps_power: "processRequest E r c = Some (n, r', c') \<Longrightarrow> keeps_power c c'"
  by (rule keeps_power_step [OF port_step_processRequest])

lemma local_queue_keeps_power: "process_local_queue E rs c = Some c' \<Longrightarrow> keeps_power c c'"
  by (induction rs arbitrary: c)
    (auto simp: bind_eq_Some_conv dest!: processRequest_keeps_power intro: keeps_power_trans)

lemma queue_keeps_power: "processRequestQueue E c = Some c' \<Longrightarrow> keeps_power c c'"
  unfolding processRequestQueue_def by (drule local_queue_keeps_power) (simp add: keeps_power_def)

lemma blocking_keeps_power: "submitRequestAndBlock E r c = Some (n, r', c') \<Longrightarrow> keeps_power c c'"
  unfolding submitRequestAndBlock_def
  by (auto simp: bind_eq_Some_conv dest!: queue_keeps_power processRequest_keeps_power intro: keeps_power_trans)

lemma install_keeps_power:
  "installInterruptAction E dt c = Some c' \<Longrightarrow> keeps_power c c'"
  "uninstallInterruptAction E dt c = Some c' \<Longrightarrow> keeps_power c c'"
  unfolding installInterruptAction_def uninstallInterruptAction_def
  by (auto simp: bind_eq_Some_conv Let_def log_def keeps_power_def split: if_splits
      dest!: setCommandByte_keeps_power)

lemma interrupt_keeps_power: "interruptHandler E c = Some c' \<Longrightarrow> keeps_power c c'"
  by (auto simp: interruptHandler_def handleInterrupt_def split: if_splits dest!: port_step_handle_loop intro: keeps_power_step)

text \<open>Everything that happens to the controller once it has started; \<open>P\<close> are the power actions of the drivers.\<close>

inductive ctl_step :: "'h env \<Rightarrow> 'h power_actions \<Rightarrow> 'h ctl \<Rightarrow> 'h ctl \<Rightarrow> bool" for E P where
  blocking: "submitRequestAndBlock E r c = Some (n, r', c') \<Longrightarrow> ctl_step E P c c'"
| async: "ctl_step E P c (submitRequest r c)"
| queue: "processRequestQueue E c = Some c' \<Longrightarrow> ctl_step E P c c'"
| command_byte: "setCommandByte E x y c = Some (b, c') \<Longrightarrow> ctl_step E P c c'"
| interrupt: "interruptHandler E c = Some c' \<Longrightarrow> ctl_step E P c c'"
| packet: "ctl_step E P c (packet_ready E dt c)"
| install: "installInterruptAction E dt c = Some c' \<Longrightarrow> ctl_step E P c c'"
| uninstall: "uninstallInterruptAction E dt c = Some c' \<Longrightarrow> ctl_step E P c c'"
| install_power: "ctl_step E P c (installPowerControlAction dt c)"
| uninstall_power: "ctl_step E P c (uninstallPowerControlAction dt c)"
| install_message: "ctl_step E P c (installMessageAction dt c)"
| uninstall_message: "ctl_step E P c (uninstallMessageAction dt c)"
| settings: "ctl_step E P c (ctl_setPropertiesGated delay first c)"
| power: "setPowerStateGated E P s c = Some c' \<Longrightarrow>
    s \<in> {kPS2PowerStateSleep, kPS2PowerStateDoze, kPS2PowerStateNormal} \<Longrightarrow> ctl_step E P c c'"

definition power_ok :: "'h ctl \<Rightarrow> bool" where
  "power_ok c \<longleftrightarrow> (hardwareOffline c \<longleftrightarrow> currentPowerState c = kPS2PowerStateSleep) \<and>
     ignoreInterrupts c = (if currentPowerState c = kPS2PowerStateSleep then 1 else 0) \<and>
     currentPowerState c \<in> {kPS2PowerStateSleep, kPS2PowerStateDoze, kPS2PowerStateNormal}"

lemma power_ok_keeps: "power_ok c \<Longrightarrow> keeps_power c c' \<Longrightarrow> power_ok c'"
  by (simp add: power_ok_def keeps_power_def)

definition driver_keeps_power :: "'h power_actions \<Rightarrow> bool" where
  "driver_keeps_power P \<longleftrightarrow> (\<forall>dt what c c'. P dt what c = Some c' \<longrightarrow> keeps_power c c')"

lemma dispatch_keeps_power:
  "driver_keeps_power P \<Longrightarrow> dispatchDriverPowerControl P what dt c = Some c' \<Longrightarrow> keeps_power c c'"
  by (auto simp: dispatchDriverPowerControl_def driver_keeps_power_def split: if_splits)

lemma sleep_power:
  assumes P: "driver_keeps_power P" and "go_to_sleep E P c = Some c'"
  shows "hardwareOffline c'" "ignoreInterrupts c' = ignoreInterrupts c + 1"
  using assms(2) unfolding go_to_sleep_def
  by (auto simp: bind_eq_Some_conv keeps_power_def
      dest!: setCommandByte_keeps_power dispatch_keeps_power [OF P])

lemma wake_power:
  assumes P: "driver_keeps_power P" and "wake_up E P c = Some c'"
  shows "\<not> hardwareOffline c'" "ignoreInterrupts c' = ignoreInterrupts c - 1"
proof -
  obtain c1 where reset: "resetController E (if wakedelay c \<noteq> 0 then log (IOSleep (word_of_int (wakedelay c))) c else c) = Some c1"
    and rest: "(do { (old, c) \<leftarrow> setCommandByte E 0 (kCB_DisableKeyboardClock OR kCB_DisableMouseClock OR kCB_EnableKeyboardIRQ OR kCB_EnableMouseIRQ) c1;
     let c = c\<lparr>hardwareOffline := False\<rparr>;
     let (first, second) = wake_order c;
     c \<leftarrow> dispatchDriverPowerControl P kPS2C_EnableDevice first c;
     c \<leftarrow> dispatchDriverPowerControl P kPS2C_EnableDevice second c;
     (old, c) \<leftarrow> setCommandByte E (kCB_EnableKeyboardIRQ OR kCB_EnableMouseIRQ OR kCB_SystemFlag) 0 c;
     Some (c\<lparr>ignoreInterrupts := ignoreInterrupts c - 1\<rparr>) }) = Some c'"
    using assms(2) unfolding wake_up_def Let_def bind_eq_Some_conv by blast
  have "ignoreInterrupts c1 = ignoreInterrupts c"
    using reset reset_keeps_power [of "if wakedelay c \<noteq> 0 then log (IOSleep (word_of_int (wakedelay c))) c else c" E]
    by (auto simp: post_def keeps_power_def log_def split: if_splits)
  moreover have "\<not> hardwareOffline c' \<and> ignoreInterrupts c' = ignoreInterrupts c1 - 1"
    using rest
    by (auto simp: bind_eq_Some_conv keeps_power_def Let_def case_prod_beta
      dest!: setCommandByte_keeps_power dispatch_keeps_power [OF P])
  ultimately show "\<not> hardwareOffline c'" "ignoreInterrupts c' = ignoreInterrupts c - 1" by simp_all
qed

lemma power_state_ok:
  assumes P: "driver_keeps_power P" and "setPowerStateGated E P s c = Some c'" "power_ok c"
    and "s \<in> {kPS2PowerStateSleep, kPS2PowerStateDoze, kPS2PowerStateNormal}"
  shows "power_ok c'"
  using assms(2-4) unfolding setPowerStateGated_def power_ok_def
  by (auto simp: bind_eq_Some_conv log_def split: if_splits dest: sleep_power [OF P] wake_power [OF P])

lemma ctl_step_power_ok:
  assumes P: "driver_keeps_power P" and "ctl_step E P c c'" "power_ok c"
  shows "power_ok c'"
  using assms(2,3)
proof (cases rule: ctl_step.cases)
  case (power s)
  with P assms(3) show ?thesis by (blast intro: power_state_ok)
qed (auto intro: power_ok_keeps blocking_keeps_power queue_keeps_power setCommandByte_keeps_power
    interrupt_keeps_power install_keeps_power
    simp: keeps_power_def submitRequest_def packet_ready_def installPowerControlAction_def uninstallPowerControlAction_def
      installMessageAction_def uninstallMessageAction_def ctl_setPropertiesGated_def Let_def log_def
    split: option.split)

text \<open>
  C32. From the start of the controller on, whatever the drivers and power management do: the hardware is offline
  exactly in the sleep state, interrupts are then ignored once (and never else), and in the sleep state an interrupt
  does nothing and a request fails at its first command without an access to the ports.
\<close>

theorem asleep_means_offline:
  assumes "driver_keeps_power P" and "ctl_start E nub (ctl_init w) = Some c0" and "(ctl_step E P)\<^sup>*\<^sup>* c0 c"
  shows "(hardwareOffline c \<longleftrightarrow> currentPowerState c = kPS2PowerStateSleep) \<and>
    ignoreInterrupts c = (if currentPowerState c = kPS2PowerStateSleep then 1 else 0) \<and>
    (currentPowerState c = kPS2PowerStateSleep \<longrightarrow>
       interruptHandler E c = Some c \<and> processRequest E r c = Some (0, r, complete E r c))"
proof -
  have "keeps_power (ctl_init w) c0"
    using assms(2) reset_keeps_power [of "ctl_init w" E]
    by (auto simp: ctl_start_def bind_eq_Some_conv post_def keeps_power_def)
  then have "power_ok c0" by (rule power_ok_keeps [rotated]) (simp add: power_ok_def ctl_init_def)
  with assms(3) have "power_ok c" by (induction rule: rtranclp_induct) (blast intro: ctl_step_power_ok [OF assms(1)])+
  then show ?thesis by (auto simp: power_ok_def interruptHandler_def processRequest_def)
qed

section \<open>The reset sequence\<close>

text \<open>The bytes written to the ports.\<close>

definition written :: "ctl_event list \<Rightarrow> (u16 \<times> u8) list" where
  "written es = concat (map (\<lambda>e. case e of PortOut p b \<Rightarrow> [(p, b)] | _ \<Rightarrow> []) es)"

lemma written_simps [simp]:
  "written [] = []" "written (e # es) = (case e of PortOut p b \<Rightarrow> [(p, b)] | _ \<Rightarrow> []) @ written es"
  "written (xs @ ys) = written xs @ written ys"
  by (simp_all add: written_def)

definition wrote :: "'h ctl \<Rightarrow> (u16 \<times> u8) list \<Rightarrow> 'h ctl \<Rightarrow> bool" where
  "wrote c ws c' \<longleftrightarrow> written (trace c') = written (trace c) @ ws"

lemma wrote_refl: "wrote c [] c" by (simp add: wrote_def)

lemma wrote_trans: "wrote a xs b \<Longrightarrow> wrote b ys c \<Longrightarrow> wrote a (xs @ ys) c" by (simp add: wrote_def)

lemma wrote_silent: "wrote a [] b \<Longrightarrow> wrote b ys c \<Longrightarrow> wrote a ys c" by (simp add: wrote_def)

lemma wrote_inb: "inb E p c = (b, c') \<Longrightarrow> wrote c [] c'" by (simp add: wrote_def trace_inb)

lemma wrote_dispatch: "wrote c [] (dispatchDriverInterrupt E dt b c)"
  by (auto simp: wrote_def dispatchDriverInterrupt_def dispatch_driver_interrupt_def Let_def log_def split: prod.split)

lemma wrote_wait_input: "wait_input E c = Some c' \<Longrightarrow> wrote c [] c'"
  by (rule wait_input.raw_induct [of "\<lambda>E c c'. wrote c [] c'"])
    (auto split: prod.splits if_splits dest: wrote_inb intro: wrote_silent)

lemma wrote_write:
  "writeDataPort E b c = Some c' \<Longrightarrow> wrote c [(kDataPort, b)] c'"
  "writeCommandPort E b c = Some c' \<Longrightarrow> wrote c [(kCommandPort, b)] c'"
  by (auto simp: writeDataPort_def writeCommandPort_def bind_eq_Some_conv dest!: wrote_wait_input)
    (simp_all add: wrote_def outb_def log_def)

lemma wrote_wait_output: "wait_output E n c = (m, s, c') \<Longrightarrow> wrote c [] c'"
  by (induction n arbitrary: c)
    (auto simp: Let_def wrote_refl split: prod.splits if_splits dest: wrote_inb intro: wrote_silent)

lemma wrote_flush: "flush_output E k c = Some (n, c') \<Longrightarrow> wrote c [] c'"
  by (rule flush_output.raw_induct [of "\<lambda>E k c (n, c'). wrote c [] c'" E k c "(n, c')", simplified])
    (auto split: prod.splits if_splits dest!: wrote_inb, metis wrote_inb wrote_silent prod.collapse)

lemma wrote_read_loop: "read_loop E dt n c = Some (b, c') \<Longrightarrow> wrote c [] c'"
  by (rule read_loop.raw_induct [of "\<lambda>E dt n c (b, c'). wrote c [] c'" E dt n c "(b, c')", simplified])
    (auto split: prod.splits if_splits dest!: wrote_inb wrote_wait_output, (metis wrote_dispatch wrote_silent)+)

text \<open>The answer of \<open>read_loop\<close> was read from the data port, or it is the 0 of a timeout.\<close>

definition was_read :: "u8 \<Rightarrow> 'h ctl \<Rightarrow> bool" where
  "was_read b c \<longleftrightarrow> b = 0 \<or> PortIn kDataPort b \<in> set (trace c)"

lemma read_loop_was_read: "read_loop E dt n c = Some (b, c') \<Longrightarrow> was_read b c'"
  by (rule read_loop.raw_induct [of "\<lambda>E dt n c (b, c'). was_read b c'" E dt n c "(b, c')", simplified])
    (auto simp: was_read_def split: prod.splits if_splits dest!: trace_inb, metis)

lemma was_read_step: "was_read b c \<Longrightarrow> port_step c c' \<Longrightarrow> was_read b c'"
  by (auto simp: was_read_def port_step_def)

definition wrote_after :: "'h ctl \<Rightarrow> (u16 \<times> u8) list \<Rightarrow> u8 set \<Rightarrow> 'h ctl \<Rightarrow> bool" where
  "wrote_after c ws B c' \<longleftrightarrow> wrote c ws c' \<and> (\<forall>b \<in> B. was_read b c')"

lemma wrote_after_step:
  "wrote_after c0 ws B c \<Longrightarrow> wrote c vs c' \<Longrightarrow> port_step c c' \<Longrightarrow> wrote_after c0 (ws @ vs) B c'"
  by (auto simp: wrote_after_def intro: wrote_trans was_read_step)

lemma post_write:
  assumes "wrote_after c0 ws B c"
  shows "(\<And>c'. wrote_after c0 (ws @ [(kCommandPort, b)]) B c' \<Longrightarrow> post Q (f c')) \<Longrightarrow> post Q (writeCommandPort E b c \<bind> f)"
    and "(\<And>c'. wrote_after c0 (ws @ [(kDataPort, b)]) B c' \<Longrightarrow> post Q (f c')) \<Longrightarrow> post Q (writeDataPort E b c \<bind> f)"
    and "(\<And>b c'. wrote_after c0 ws (insert b B) c' \<Longrightarrow> post Q (g b c')) \<Longrightarrow> post Q (readDataPort E dt c \<bind> (\<lambda>(b, c). g b c))"
    and "(\<And>n c'. wrote_after c0 ws B c' \<Longrightarrow> post Q (h n c')) \<Longrightarrow> post Q (flush_output E k c \<bind> (\<lambda>(n, c). h n c))"
proof -
  have "wrote_after c0 (ws @ [(kCommandPort, b)]) B c'" if "writeCommandPort E b c = Some c'" for c'
    using wrote_after_step [OF assms wrote_write(2) port_step_write(2)] that by blast
  then show "(\<And>c'. wrote_after c0 (ws @ [(kCommandPort, b)]) B c' \<Longrightarrow> post Q (f c')) \<Longrightarrow> post Q (writeCommandPort E b c \<bind> f)"
    by (auto simp: post_def bind_eq_Some_conv)
  have "wrote_after c0 (ws @ [(kDataPort, b)]) B c'" if "writeDataPort E b c = Some c'" for c'
    using wrote_after_step [OF assms wrote_write(1) port_step_write(1)] that by blast
  then show "(\<And>c'. wrote_after c0 (ws @ [(kDataPort, b)]) B c' \<Longrightarrow> post Q (f c')) \<Longrightarrow> post Q (writeDataPort E b c \<bind> f)"
    by (auto simp: post_def bind_eq_Some_conv)
  have "wrote_after c0 ws (insert b B) c'" if "readDataPort E dt c = Some (b, c')" for b c'
  proof -
    have "wrote_after c0 ws B c'"
      using wrote_after_step [OF assms wrote_read_loop port_step_read_loop] that by (simp add: readDataPort_def)
    moreover have "was_read b c'" using that by (simp add: readDataPort_def read_loop_was_read)
    ultimately show ?thesis by (simp add: wrote_after_def)
  qed
  then show "(\<And>b c'. wrote_after c0 ws (insert b B) c' \<Longrightarrow> post Q (g b c')) \<Longrightarrow> post Q (readDataPort E dt c \<bind> (\<lambda>(b, c). g b c))"
    by (auto simp: post_def bind_eq_Some_conv)
  have "wrote_after c0 ws B c'" if "flush_output E k c = Some (n, c')" for n c'
    using wrote_after_step [OF assms wrote_flush port_step_flush] that by (metis append_Nil2)
  then show "(\<And>n c'. wrote_after c0 ws B c' \<Longrightarrow> post Q (h n c')) \<Longrightarrow> post Q (flush_output E k c \<bind> (\<lambda>(n, c). h n c))"
    by (auto simp: post_def bind_eq_Some_conv)
qed

text \<open>What the reset writes when the command byte it reads is \<open>b\<close>.\<close>

definition reset_bytes :: "u8 \<Rightarrow> (u16 \<times> u8) list" where
  "reset_bytes b =
     [(kCommandPort, kCP_DisableKeyboardClock), (kCommandPort, kCP_DisableMouseClock), (kCommandPort, kCP_EnableMouseClock),
      (kCommandPort, kCP_EnableKeyboardClock), (kCommandPort, kCP_GetCommandByte), (kCommandPort, kCP_TestController),
      (kCommandPort, kCP_TestKeyboardPort), (kCommandPort, kCP_TestMousePort), (kCommandPort, kCP_SetCommandByte),
      (kDataPort, (b AND NOT 0x23) OR kCB_TranslateMode), (kDataPort, kDP_SetDefaultsAndDisable),
      (kCommandPort, kCP_TransmitToMouse), (kDataPort, kDP_SetDefaultsAndDisable)]"

lemma reset_writes: "post (\<lambda>c'. \<exists>b. wrote c (reset_bytes b) c' \<and> was_read b c') (resetController E c)"
proof -
  have start: "wrote_after c [] {} (c\<lparr>suppressTimeout := True\<rparr>)" by (simp add: wrote_after_def wrote_def)
  have resume: "wrote_after c ws B (d\<lparr>suppressTimeout := False\<rparr>)" if "wrote_after c ws B d" for ws B d
    using that by (auto simp: wrote_after_def wrote_def was_read_def)
  have finish: "\<exists>b. wrote c (reset_bytes b) d \<and> was_read b d" if "wrote_after c (reset_bytes b) B d" "b \<in> B" for b B d
    using that by (auto simp: wrote_after_def)
  show ?thesis unfolding resetController_def Let_def
    by (rule post_write(1) [OF start])
      (rule post_write post_Some | assumption | rule resume, assumption | (rule finish, simp add: reset_bytes_def, simp))+
qed

end
