(* ===== verification/ControllerProps.thy ===== *)
theory ControllerProps
  imports ControllerContract
begin

text \<open>
  What the controller guarantees, and concrete hardware on which the guarantees apply: \<open>fifo_env\<close> is a controller
  whose bytes wait in a queue.
\<close>

section \<open>A concrete controller\<close>

definition fifo_env :: "(PS2DeviceType \<Rightarrow> u8 \<Rightarrow> 'a \<Rightarrow> PS2InterruptResult \<times> 'a) \<Rightarrow> ((PS2DeviceType \<times> u8) list \<times> 'a) env" where
  "fifo_env act = \<lparr>
     env_inb = (\<lambda>p (q, a). if p = kCommandPort then (case q of [] \<Rightarrow> 0 | (dt, b) # _ \<Rightarrow> if dt = kDT_Mouse then 0x21 else 0x01, (q, a))
        else (case q of [] \<Rightarrow> (0, ([], a)) | (dt, b) # q \<Rightarrow> (b, (q, a)))),
     env_outb = (\<lambda>p b w. w),
     env_action = (\<lambda>dt b (q, a). case act dt b a of (r, a) \<Rightarrow> (r, (q, a))),
     env_packet = (\<lambda>dt w. w), env_completion = (\<lambda>n w. w)\<rparr>"

definition idle :: "PS2DeviceType \<Rightarrow> u8 \<Rightarrow> unit \<Rightarrow> PS2InterruptResult \<times> unit" where
  "idle dt b u = (kPS2IR_packetBuffering, ())"

definition trackpad_act :: "PS2DeviceType \<Rightarrow> u8 \<Rightarrow> alps \<Rightarrow> PS2InterruptResult \<times> alps" where
  "trackpad_act dt b s = (if dt = kDT_Mouse then (case interruptOccurred b s of Some r \<Rightarrow> r | None \<Rightarrow> (kPS2IR_packetBuffering, s))
     else (kPS2IR_packetBuffering, s))"

lemma fifo_finite: "finite_input (fifo_env act) (length \<circ> fst)"
  by (auto simp: finite_input_def fifo_env_def split: list.split prod.split)

lemma fifo_accepts: "accepts_input (fifo_env act)"
  by (auto simp: accepts_input_def fifo_env_def split: list.split prod.split)

lemma fifo_buffer: "output_buffer (fifo_env act) fst"
proof -
  have "device_of (if dt = kDT_Mouse then 0x21 else 0x01) = dt" for dt by (cases dt) (simp_all add: device_of_def)
  then show ?thesis by (simp add: output_buffer_def fifo_env_def split: list.split prod.split)
qed

lemma fifo_trackpad: "trackpad_behind (fifo_env trackpad_act) snd"
  by (auto simp: trackpad_behind_def fifo_env_def trackpad_act_def split: list.split prod.split)

interpretation fifo_port: returning_port "stack_port (fifo_env act)" for act
  by (rule controller_port [OF fifo_finite fifo_accepts])

lemma controller_fulfils_contract_witness:
  "returning_port (stack_port (fifo_env idle))"
  by (rule controller_fulfils_contract [OF fifo_finite fifo_accepts])

section \<open>Reading an expected byte\<close>

text \<open>
  C28. A read that expects a byte loses none: the other device's bytes are handed to their driver in order; of the
  device's own bytes the one answered and at most one more were read, the other one being handed to the driver, and
  the expected byte is answered when it is the first or the second; nothing read means a timeout, answered by 0.
\<close>

theorem expecting_read_loses_no_byte:
  assumes "readDataPort_expecting E dt x c = Some (b, c')" and "ignoreOutOfOrder c = 0"
  shows "\<exists>es. trace c' = trace c @ es \<and>
    stream (other_device dt) (received 0 es) = stream (other_device dt) (delivered es) \<and>
    answered x None (stream dt (received 0 es)) (stream dt (delivered es)) b"
  using expect_loop_accounts [of E dt x timeout None c "(b, c')"] assms
  by (auto simp: readDataPort_expecting_def read_accounts_def)

lemma wait_output_numeral:
  "wait_output E (numeral k) c =
     (let (status, c) = inb E kCommandPort c in if isset status kOutputReady then (numeral k, status, c) else wait_output E (pred_numeral k) c)"
  using wait_output.simps(2) [of E "pred_numeral k" c] by (simp only: numeral_eq_Suc)

lemma expecting_read_loses_no_byte_witness:
  "\<exists>c' es. readDataPort_expecting (fifo_env idle) kDT_Mouse 0xfa (ctl_init ([(kDT_Mouse, 9), (kDT_Keyboard, 28), (kDT_Mouse, 0xfa)], ())) = Some (0xfa, c') \<and>
     trace c' = es \<and> stream kDT_Keyboard (received 0 es) = [28] \<and> stream kDT_Keyboard (delivered es) = [28] \<and>
     answered 0xfa None [9, 0xfa] (stream kDT_Mouse (delivered es)) 0xfa"
proof -
  let ?c = "ctl_init ([(kDT_Mouse, 9), (kDT_Keyboard, 28), (kDT_Mouse, 0xfa)], ()) :: (((PS2DeviceType \<times> u8) list \<times> unit) ctl)"
  obtain c' where r: "readDataPort_expecting (fifo_env idle) kDT_Mouse 0xfa ?c = Some (0xfa, c')"
    and t: "received 0 (trace c') = [(kDT_Mouse, 9), (kDT_Keyboard, 28), (kDT_Mouse, 0xfa)]"
    by (simp add: readDataPort_expecting_def expect_loop.simps [of _ _ _ "10000"] wait_output_numeral inb_def fifo_env_def ctl_init_def log_def
        device_of_def dispatch_in_order_def dispatchDriverInterrupt_def dispatch_driver_interrupt_def other_device_def)
  show ?thesis using expecting_read_loses_no_byte [OF r] r t
    by (auto simp: ctl_init_def other_device_def)
qed

section \<open>A device that does not stop\<close>

text \<open>
  C29. The timeout of \<open>readDataPort\<close> counts only polls that find nothing: while the other device keeps a byte ready,
  the read never returns.
\<close>

theorem flooded_read_never_returns:
  assumes "floods E (other_device dt)" and "\<not> suppressTimeout c"
  shows "readDataPort E dt c = None"
  using read_loop_flooded [of E dt timeout c] assms by (cases "readDataPort E dt c") (auto simp: readDataPort_def)

lemma flooded_read_never_returns_witness:
  "readDataPort \<lparr>env_inb = (\<lambda>p w. (0x21, w)), env_outb = (\<lambda>p b w. w), env_action = (\<lambda>dt b w. (kPS2IR_packetReady, w)),
     env_packet = (\<lambda>dt w. w), env_completion = (\<lambda>n w. w)\<rparr> kDT_Keyboard (ctl_init ()) = None"
  by (rule flooded_read_never_returns) (simp_all add: floods_def device_of_def other_device_def ctl_init_def)

section \<open>Interrupts\<close>

text \<open>
  One interrupt empties the controller: every byte pending when it comes is handed, in order, to the driver of
  the device it is from.
\<close>

theorem interrupt_delivers_all:
  assumes "output_buffer E pending" and "ignoreInterrupts c = 0"
  shows "\<exists>c' es. interruptHandler E c = Some c' \<and> trace c' = trace c @ es \<and> delivered es = pending (world c) \<and> pending (world c') = []"
  using handle_loop_drains [OF assms(1), of False False c] assms(2) by (simp add: interruptHandler_def handleInterrupt_def)

lemma interrupt_delivers_all_witness:
  "\<exists>c' es. interruptHandler (fifo_env idle) (ctl_init ([(kDT_Mouse, 8), (kDT_Keyboard, 28), (kDT_Mouse, 1)], ())) = Some c' \<and>
     trace c' = es \<and> delivered es = [(kDT_Mouse, 8), (kDT_Keyboard, 28), (kDT_Mouse, 1)] \<and> fst (world c') = []"
  using interrupt_delivers_all [OF fifo_buffer, of "ctl_init ([(kDT_Mouse, 8), (kDT_Keyboard, 28), (kDT_Mouse, 1)], ())" idle]
  by (simp add: ctl_init_def)

text \<open>
  C30. Controller and trackpad driver together: when a well-formed packet waits in the controller, one interrupt moves
  it into the driver's ring buffer, behind the packets already there, and wakes the work loop of the trackpad.
\<close>

theorem interrupt_queues_packet:
  assumes "output_buffer E pending" and "trackpad_behind E drv"
    and "ignoreInterrupts c = 0" and "interruptInstalled c kDT_Mouse" and "pending (world c) = map (Pair kDT_Mouse) p"
    and "slot_ok kRingSize (pktsize (priv (drv (world c)))) (ringBuffer (drv (world c)))" and "packetByteCount (drv (world c)) = 0"
    and "valid_packet (priv (drv (world c))) p"
    and "length (packets kRingSize (pktsize (priv (drv (world c)))) (ringBuffer (drv (world c)))) < kRingSize div pktsize (priv (drv (world c))) - 1"
  shows "\<exists>c' es. interruptHandler E c = Some c' \<and> trace c' = trace c @ es \<and> Wake kDT_Mouse \<in> set es \<and> pending (world c') = [] \<and>
    packets kRingSize (pktsize (priv (drv (world c)))) (ringBuffer (drv (world c'))) =
      packets kRingSize (pktsize (priv (drv (world c)))) (ringBuffer (drv (world c))) @ [p]"
proof -
  let ?s = "drv (world c)"
  obtain rb where feed: "feed p ?s = Some (replicate (pktsize (priv ?s) - 1) kPS2IR_packetBuffering @ [kPS2IR_packetReady],
      (bad_data False ?s)\<lparr>ringBuffer := rb, packetByteCount := pktsize (priv ?s)\<rparr>)"
    and rb: "packets kRingSize (pktsize (priv ?s)) rb = packets kRingSize (pktsize (priv ?s)) (ringBuffer ?s) @ [p]"
    by (rule packet_delivered [OF assms(6-9)])
  show ?thesis
    using handle_loop_feeds [OF assms(1,2,5,4) feed, of False False] rb assms(3)
    by (auto simp: interruptHandler_def handleInterrupt_def)
qed

lemma interrupt_queues_packet_witness:
  "\<exists>c' :: ((PS2DeviceType \<times> u8) list \<times> alps) ctl.
     interruptHandler (fifo_env trackpad_act)
       ((ctl_init (map (Pair kDT_Mouse) [0x8f, 1, 2, 8, 4, 5], sample_link))\<lparr>interruptInstalled := (\<lambda>_. True)\<rparr>) = Some c' \<and>
     Wake kDT_Mouse \<in> set (trace c') \<and> packets kRingSize 6 (ringBuffer (snd (world c'))) = [[0x8f, 1, 2, 8, 4, 5]]"
proof -
  have none: "packets kRingSize 6 (ringBuffer sample_link) = []" and ok: "slot_ok kRingSize 6 (ringBuffer sample_link)"
    using sample_synced by (simp_all add: synced_def sample_link_fields)
  show ?thesis
    using interrupt_queues_packet [OF fifo_buffer fifo_trackpad, of
        "(ctl_init (map (Pair kDT_Mouse) [0x8f, 1, 2, 8, 4, 5], sample_link))\<lparr>interruptInstalled := (\<lambda>_. True)\<rparr>" "[0x8f, 1, 2, 8, 4, 5]"]
      sample_packet(1) none ok
    by (auto simp: ctl_init_def sample_link_fields)
qed

section \<open>Other witnesses, the reset\<close>


lemma resetController_returns:
  assumes "finite_input E left" "accepts_input E"
  shows "returns (resetController E c)"
  unfolding resetController_def Let_def
  by (intro returns_rules returns_Some read_returns [OF assms(1)] flush_returns [OF assms(1)] write_returns [OF assms(2)])

lemma go_to_sleep_returns:
  assumes "finite_input E left" "accepts_input E" "\<And>dt what c. returns (P dt what c)"
  shows "returns (go_to_sleep E P c)"
  unfolding go_to_sleep_def setCommandByte_def dispatchDriverPowerControl_def Let_def
  by (intro returns_rules returns_Some read_returns [OF assms(1)] write_returns [OF assms(2)] assms(3))

lemma asleep_means_offline_witness:
  "\<exists>c. hardwareOffline c \<and> ignoreInterrupts c = 1 \<and> interruptHandler (fifo_env idle) c = Some c \<and>
     processRequest (fifo_env idle) \<lparr>commands = [read_data], completion = StackRequest\<rparr> c = Some (0, \<lparr>commands = [read_data], completion = StackRequest\<rparr>, c)"
proof -
  let ?E = "fifo_env idle" and ?P = "\<lambda>dt what c. Some c"
  obtain c1 where "resetController ?E (ctl_init ([], ())) = Some c1"
    using returns_obtain [OF resetController_returns [OF fifo_finite fifo_accepts]] by blast
  then obtain c0 where c0: "ctl_start ?E (\<lambda>_. True) (ctl_init ([], ())) = Some c0" by (simp add: ctl_start_def)
  have P: "driver_keeps_power ?P" by (simp add: driver_keeps_power_def)
  show ?thesis
  proof (cases "currentPowerState c0 = kPS2PowerStateSleep")
    case True
    then show ?thesis using asleep_means_offline [OF P c0, of c0 "\<lparr>commands = [read_data], completion = StackRequest\<rparr>"]
      by (intro exI [of _ c0]) (simp add: complete_def)
  next
    case False
    obtain d where d: "go_to_sleep ?E ?P c0 = Some d"
      using returns_obtain [OF go_to_sleep_returns [OF fifo_finite fifo_accepts]] by (metis returns_Some)
    let ?c = "log AckPowerState (d\<lparr>currentPowerState := kPS2PowerStateSleep\<rparr>)"
    have "setPowerStateGated ?E ?P kPS2PowerStateSleep c0 = Some ?c" using False d by (simp add: setPowerStateGated_def)
    from power [OF this insertI1] have "(ctl_step ?E ?P)\<^sup>*\<^sup>* c0 ?c" by blast
    from asleep_means_offline [OF P c0 this, of "\<lparr>commands = [read_data], completion = StackRequest\<rparr>"]
    show ?thesis by (intro exI [of _ ?c]) (simp add: complete_def log_def)
  qed
qed

text \<open>
  The reset writes a fixed sequence of commands and bytes.  The command byte it sets is the one it read, with
  interrupts off, the mouse clock on and translation on; the bit that stops the keyboard clock stays as it was
  read, although the keyboard clock is meant to be on as well.
\<close>

theorem reset_keeps_keyboard_clock_bit:
  assumes "resetController E c = Some c'"
  shows "\<exists>b. written (trace c') = written (trace c) @ reset_bytes b \<and> (b = 0 \<or> PortIn kDataPort b \<in> set (trace c')) \<and>
    snd (reset_bytes b ! 9) AND (kCB_EnableKeyboardIRQ OR kCB_EnableMouseIRQ OR kCB_DisableMouseClock) = 0 \<and>
    isset (snd (reset_bytes b ! 9)) kCB_TranslateMode \<and>
    snd (reset_bytes b ! 9) AND kCB_DisableKeyboardClock = b AND kCB_DisableKeyboardClock"
proof -
  obtain b where "written (trace c') = written (trace c) @ reset_bytes b" "was_read b c'"
    using reset_writes [of c E] assms by (auto simp: post_def wrote_def)
  moreover have "snd (reset_bytes b ! 9) = (b AND NOT 0x23) OR 0x40" by (simp add: reset_bytes_def)
  moreover have "(b AND NOT 0x23 OR 0x40) AND 0x23 = 0" "(b AND NOT 0x23 OR 0x40) AND 0x40 \<noteq> 0"
    "(b AND NOT 0x23 OR 0x40) AND 0x10 = b AND 0x10"
    by (simp_all add: word_ao_dist word_bw_assocs)
  ultimately show ?thesis by (auto simp: was_read_def)
qed

lemma reset_keeps_keyboard_clock_bit_witness:
  "\<exists>c' b. resetController (fifo_env idle) (ctl_init ([], ())) = Some c' \<and> written (trace c') = reset_bytes b"
proof -
  obtain c' where r: "resetController (fifo_env idle) (ctl_init ([], ())) = Some c'"
    using returns_obtain [OF resetController_returns [OF fifo_finite fifo_accepts]] by blast
  from reset_keeps_keyboard_clock_bit [OF r] r show ?thesis by (auto simp: ctl_init_def)
qed

end
