(* ===== verification/ControllerDebugger.thy ===== *)
theory ControllerDebugger
  imports ControllerProps
begin

text \<open>
  The debugging build of the controller driver (\<open>DEBUGGER_SUPPORT\<close> with \<open>HANDLE_INTERRUPT_DATA_LATER\<close>): scan codes are
  queued at interrupt time and watched for the key sequence that enters the debugger, and the work loop hands them to
  the keyboard driver.
\<close>

section \<open>State\<close>

text \<open>An entry of the unused queue is the stale byte in it.\<close>

record 'h debugger =
  controller :: "'h ctl"
  debuggingEnabled :: bool
  extendedState :: bool
  modifierState :: u16
  keyboardQueue :: "u8 list"
  keyboardQueueUnused :: "u8 list"
  debuggerEntered :: nat

abbreviation (input) kKeyboardQueueSize :: nat where "kKeyboardQueueSize \<equiv> 32"

abbreviation (input) kSC_Extend :: u8 where "kSC_Extend \<equiv> 0xE0"
abbreviation (input) kSC_UpBit :: u8 where "kSC_UpBit \<equiv> 0x80"
abbreviation (input) kSC_Alt :: u8 where "kSC_Alt \<equiv> 0x38"
abbreviation (input) kSC_Ctrl :: u8 where "kSC_Ctrl \<equiv> 0x1D"
abbreviation (input) kSC_ShiftLeft :: u8 where "kSC_ShiftLeft \<equiv> 0x2A"
abbreviation (input) kSC_ShiftRight :: u8 where "kSC_ShiftRight \<equiv> 0x36"
abbreviation (input) kSC_WindowsLeft :: u8 where "kSC_WindowsLeft \<equiv> 0x5B"
abbreviation (input) kSC_WindowsRight :: u8 where "kSC_WindowsRight \<equiv> 0x5C"
abbreviation (input) kSC_Delete :: u8 where "kSC_Delete \<equiv> 0x53"

abbreviation (input) kModifierAltLeft :: u16 where "kModifierAltLeft \<equiv> 0x10"
abbreviation (input) kModifierAltRight :: u16 where "kModifierAltRight \<equiv> 0x20"

text \<open>\<open>init\<close> and \<open>start\<close>: \<open>debugFlag\<close> is the boot argument; the memory of the queue entries is new.\<close>

definition debugger_start :: "bool \<Rightarrow> u8 list \<Rightarrow> 'h ctl \<Rightarrow> 'h debugger" where
  "debugger_start debugFlag fresh c =
     \<lparr>controller = c, debuggingEnabled = debugFlag, extendedState = False, modifierState = 0, keyboardQueue = [],
      keyboardQueueUnused = take kKeyboardQueueSize fresh, debuggerEntered = 0\<rparr>"

section \<open>The key queue\<close>

definition enqueueKeyboardData :: "u8 \<Rightarrow> 'h debugger \<Rightarrow> 'h debugger" where
  "enqueueKeyboardData key s =
     (case keyboardQueueUnused s of
        [] \<Rightarrow> s
      | _ # unused \<Rightarrow> s\<lparr>keyboardQueue := keyboardQueue s @ [key], keyboardQueueUnused := unused\<rparr>)"

definition dequeueKeyboardData :: "'h debugger \<Rightarrow> (u8 \<times> 'h debugger) option" where
  "dequeueKeyboardData s =
     (case keyboardQueue s of
        [] \<Rightarrow> None
      | key # keys \<Rightarrow> Some (key, s\<lparr>keyboardQueue := keys, keyboardQueueUnused := keyboardQueueUnused s @ [key]\<rparr>))"

section \<open>The escape sequence\<close>

definition modifierTable :: "(u8 \<times> bool \<times> u16) list" where
  "modifierTable =
     [(kSC_Alt, False, kModifierAltLeft), (kSC_Alt, True, kModifierAltRight), (kSC_Ctrl, False, 0x04), (kSC_Ctrl, True, 0x08),
      (kSC_ShiftLeft, False, 0x01), (kSC_ShiftRight, False, 0x02), (kSC_WindowsLeft, True, 0x40), (kSC_WindowsRight, True, 0x80)]"

definition modifier_of :: "u8 \<Rightarrow> bool \<Rightarrow> u16 option" where
  "modifier_of scancode extended =
     map_option (snd \<circ> snd) (find (\<lambda>(code, ext, m). code = scancode \<and> ext = extended) modifierTable)"

definition call_debugger :: "'h env \<Rightarrow> 'h debugger \<Rightarrow> 'h debugger option" where
  "call_debugger E s = do {
     c \<leftarrow> writeCommandPort E kCP_DisableMouseClock (controller s);
     c \<leftarrow> writeCommandPort E kCP_EnableMouseClock c;
     Some (s\<lparr>controller := c, debuggerEntered := debuggerEntered s + 1\<rparr>) }"

primrec release_modifiers :: "(u8 \<times> bool \<times> u16) list \<Rightarrow> 'h debugger \<Rightarrow> 'h debugger" where
  "release_modifiers [] s = s"
| "release_modifiers (e # es) s =
     (case e of (code, extended, m) \<Rightarrow>
        release_modifiers es
          (if isset (modifierState s) m
           then enqueueKeyboardData (code OR kSC_UpBit) (if extended then enqueueKeyboardData kSC_Extend s else s)
           else s))"

definition doEscape :: "'h env \<Rightarrow> u8 \<Rightarrow> 'h debugger \<Rightarrow> (bool \<times> 'h debugger) option" where
  "doEscape E scancode s =
     (if scancode = kSC_Extend then Some (False, s\<lparr>extendedState := True\<rparr>)
      else
        (let upBit = isset scancode kSC_UpBit; scancode = scancode AND NOT kSC_UpBit in
         case modifier_of scancode (extendedState s) of
           Some m \<Rightarrow> Some (False, s\<lparr>modifierState := (if upBit then modifierState s AND NOT m else modifierState s OR m),
                                  extendedState := False\<rparr>)
         | None \<Rightarrow>
             if scancode = kSC_Delete \<and> modifierState s = (kModifierAltLeft OR kModifierAltRight) then do {
               s \<leftarrow> call_debugger E s;
               Some (True, (release_modifiers modifierTable s)\<lparr>modifierState := 0, extendedState := False\<rparr>) }
             else Some (False, s\<lparr>extendedState := False\<rparr>)))"

section \<open>Interrupt and work loop\<close>

definition key_arrives :: "'h env \<Rightarrow> u8 \<Rightarrow> 'h debugger \<Rightarrow> 'h debugger option" where
  "key_arrives E key s =
     (if \<not> debuggingEnabled s then Some (enqueueKeyboardData key s)
      else do { (escaped, s) \<leftarrow> doEscape E key s; Some (if escaped then s else enqueueKeyboardData key s) })"

definition on_controller :: "('h ctl \<Rightarrow> 'h ctl) \<Rightarrow> 'h debugger \<Rightarrow> 'h debugger" where
  "on_controller f s = s\<lparr>controller := f (controller s)\<rparr>"

definition interruptHandlerKeyboard_debug :: "'h env \<Rightarrow> 'h debugger \<Rightarrow> 'h debugger option" where
  "interruptHandlerKeyboard_debug E s =
     (if ignoreInterrupts (controller s) \<noteq> 0 then Some s
      else
        (case inb E kCommandPort (controller s) of (status, c) \<Rightarrow>
           if \<not> isset status kOutputReady then Some (s\<lparr>controller := c\<rparr>)
           else if isset status kMouseData then Some (s\<lparr>controller := log (Wake kDT_Mouse) c\<rparr>)
           else
             (case inb E kDataPort c of (key, c) \<Rightarrow> do {
                s \<leftarrow> key_arrives E key (s\<lparr>controller := c\<rparr>);
                Some (on_controller (log (Wake kDT_Keyboard)) s) })))"

text \<open>In this build a complete packet goes to the packet action at once.\<close>

definition dispatch_later :: "'h env \<Rightarrow> PS2DeviceType \<Rightarrow> u8 \<Rightarrow> 'h ctl \<Rightarrow> 'h ctl" where
  "dispatch_later E dt b c =
     (case dispatch_driver_interrupt E dt b c of (r, c) \<Rightarrow> if r = kPS2IR_packetReady then packet_ready E dt c else c)"

partial_function (option) debug_loop :: "'h env \<Rightarrow> 'h debugger \<Rightarrow> 'h debugger option" where
  "debug_loop E s =
     (case dequeueKeyboardData s of
        Some (key, s) \<Rightarrow> debug_loop E (on_controller (dispatch_later E kDT_Keyboard key) s)
      | None \<Rightarrow>
          (case inb E kCommandPort (controller s) of (status, c) \<Rightarrow>
             if status AND (kOutputReady OR kMouseData) = kOutputReady OR kMouseData then
               (case inb E kDataPort c of (b, c) \<Rightarrow> debug_loop E (s\<lparr>controller := dispatch_later E kDT_Mouse b c\<rparr>))
             else Some (s\<lparr>controller := c\<rparr>)))"

definition interruptOccurred_debug :: "'h env \<Rightarrow> 'h debugger \<Rightarrow> 'h debugger option" where
  "interruptOccurred_debug E s = (if hardwareOffline (controller s) then Some s else debug_loop E s)"

section \<open>The queue is a bounded first-in first-out queue\<close>

definition queue_ok :: "'h debugger \<Rightarrow> bool" where
  "queue_ok s \<longleftrightarrow> length (keyboardQueue s) + length (keyboardQueueUnused s) = kKeyboardQueueSize"

definition take_key :: "'h debugger \<Rightarrow> u8 \<times> 'h debugger" where
  "take_key s = (case dequeueKeyboardData s of Some r \<Rightarrow> r | None \<Rightarrow> (0, s))"

interpretation key_queue: bounded_fifo enqueueKeyboardData take_key keyboardQueue queue_ok 32
proof unfold_locales
  fix s :: "'h debugger" and b
  assume q: "queue_ok s"
  show "queue_ok (enqueueKeyboardData b s)"
    using q by (auto simp: queue_ok_def enqueueKeyboardData_def split: list.split)
  show "keyboardQueue (enqueueKeyboardData b s) = keyboardQueue s @ [b]" if "length (keyboardQueue s) < 32"
    using q that by (auto simp: queue_ok_def enqueueKeyboardData_def split: list.split)
  show "enqueueKeyboardData b s = s" if "\<not> length (keyboardQueue s) < 32"
    using q that by (auto simp: queue_ok_def enqueueKeyboardData_def split: list.split)
  assume "keyboardQueue s \<noteq> []"
  then show "fst (take_key s) = hd (keyboardQueue s)" "keyboardQueue (snd (take_key s)) = tl (keyboardQueue s)" "queue_ok (snd (take_key s))"
    using q by (auto simp: take_key_def dequeueKeyboardData_def queue_ok_def split: list.split)
qed

section \<open>What the keyboard driver is to see\<close>

text \<open>
  The abstract machine: the modifier keys that are down, each with its prefix, and whether the prefix came.  It answers
  what is queued for a byte.  The sequence is the delete key while both Alt keys and no other modifier are down.
\<close>

type_synonym modifiers = "(u8 \<times> bool) set \<times> bool"

definition modifier_keys :: "(u8 \<times> bool) set" where
  "modifier_keys = {(0x38, False), (0x38, True), (0x1d, False), (0x1d, True), (0x2a, False), (0x36, False), (0x5b, True), (0x5c, True)}"

definition both_alts :: "(u8 \<times> bool) set" where "both_alts = {(0x38, False), (0x38, True)}"

definition escape_step :: "modifiers \<Rightarrow> u8 \<Rightarrow> u8 list \<times> modifiers" where
  "escape_step S b =
     (let k = (b AND 0x7f, snd S) in
      if b = 0xE0 then ([b], fst S, True)
      else if k \<in> modifier_keys then ([b], if isset b 0x80 then fst S - {k} else insert k (fst S), False)
      else if fst k = 0x53 \<and> fst S = both_alts then ([0xB8, 0xE0, 0xB8], {}, False)
      else ([b], fst S, False))"

primrec escape_stream :: "modifiers \<Rightarrow> u8 list \<Rightarrow> u8 list \<times> modifiers" where
  "escape_stream S [] = ([], S)"
| "escape_stream S (b # bs) =
     (case escape_step S b of (xs, S) \<Rightarrow> (case escape_stream S bs of (ys, S) \<Rightarrow> (xs @ ys, S)))"

text \<open>That many keyboard interrupts.\<close>

primrec key_interrupts :: "'h env \<Rightarrow> nat \<Rightarrow> 'h debugger \<Rightarrow> 'h debugger option" where
  "key_interrupts E 0 s = Some s"
| "key_interrupts E (Suc n) s = do { s \<leftarrow> interruptHandlerKeyboard_debug E s; key_interrupts E n s }"

section \<open>Modifiers\<close>

text \<open>The table as keys and bit numbers.\<close>

definition key_bits :: "((u8 \<times> bool) \<times> nat) list" where
  "key_bits = [((0x38, False), 4), ((0x38, True), 5), ((0x1d, False), 2), ((0x1d, True), 3), ((0x2a, False), 0), ((0x36, False), 1),
     ((0x5b, True), 6), ((0x5c, True), 7)]"

lemma table_bits: "modifierTable = map (\<lambda>(k, n). (fst k, snd k, 2 ^ n)) key_bits"
  by (simp add: modifierTable_def key_bits_def)

lemma key_bits_unique:
  "(k, n) \<in> set key_bits \<Longrightarrow> (k', n) \<in> set key_bits \<Longrightarrow> k = k'" "(k, n) \<in> set key_bits \<Longrightarrow> (k, n') \<in> set key_bits \<Longrightarrow> n = n'"
proof -
  have d: "distinct (map fst key_bits)" "distinct (map snd key_bits)" by (simp_all add: key_bits_def)
  show "(k, n) \<in> set key_bits \<Longrightarrow> (k', n) \<in> set key_bits \<Longrightarrow> k = k'" using d(2) by (metis distinct_map inj_onD snd_conv prod.inject)
  show "(k, n) \<in> set key_bits \<Longrightarrow> (k, n') \<in> set key_bits \<Longrightarrow> n = n'" using d(1) by (rule eq_key_imp_eq_value)
qed

lemma key_bits_range: "snd ` set key_bits = {..<8}" "fst ` set key_bits = modifier_keys"
  by (auto simp: key_bits_def modifier_keys_def less_Suc_eq numeral_eq_Suc)

definition mods_down :: "u16 \<Rightarrow> (u8 \<times> bool) set" where
  "mods_down w = {k. \<exists>n. (k, n) \<in> set key_bits \<and> bit w n}"

lemma modifier_of_bit:
  assumes "modifier_of c e = Some m"
  obtains n where "((c, e), n) \<in> set key_bits" "m = 2 ^ n" "n < 8"
proof -
  have "(c, e, m) \<in> set modifierTable" using assms by (auto simp: modifier_of_def find_Some_iff in_set_conv_nth)
  then obtain n where n: "((c, e), n) \<in> set key_bits" "m = 2 ^ n" by (auto simp: table_bits)
  moreover have "n < 8" using key_bits_range(1) n(1) by force
  ultimately show thesis by (rule that)
qed

lemma modifier_of_none: "modifier_of c e = None \<longleftrightarrow> (c, e) \<notin> modifier_keys"
  by (force simp: modifier_of_def find_None_iff table_bits key_bits_range(2) [symmetric])

definition low_byte :: "u16 \<Rightarrow> bool" where "low_byte w \<longleftrightarrow> (\<forall>n \<ge> 8. \<not> bit w n)"

lemma modifier_change:
  assumes "modifier_of c e = Some m" and "low_byte w"
  shows "mods_down (w OR m) = insert (c, e) (mods_down w)" "mods_down (w AND NOT m) = mods_down w - {(c, e)}"
    "low_byte (w OR m)" "low_byte (w AND NOT m)"
proof -
  obtain n where n: "((c, e), n) \<in> set key_bits" "m = 2 ^ n" "n < 8" by (rule modifier_of_bit [OF assms(1)])
  have or: "bit (w OR m) i \<longleftrightarrow> bit w i \<or> i = n" and rest: "bit (w AND NOT m) i \<longleftrightarrow> bit w i \<and> i \<noteq> n" for i
    using n(3) by (auto simp: n(2) bit_simps dest: bit_imp_le_length)
  show "mods_down (w OR m) = insert (c, e) (mods_down w)"
    using n(1) key_bits_unique unfolding mods_down_def or by blast
  show "mods_down (w AND NOT m) = mods_down w - {(c, e)}"
    using n(1) key_bits_unique unfolding mods_down_def rest by blast
  show "low_byte (w OR m)" "low_byte (w AND NOT m)" using assms(2) n(3) by (auto simp: low_byte_def or rest)
qed

lemma both_alts_iff:
  assumes "low_byte w"
  shows "w = 0x30 \<longleftrightarrow> mods_down w = both_alts"
proof -
  have "(0x30 :: u16) = 2 ^ 4 OR 2 ^ 5" by simp
  then have b: "bit (0x30 :: u16) n \<longleftrightarrow> n = 4 \<or> n = 5" for n
    by (simp only: bit_or_iff bit_exp_iff) (auto simp: possible_bit_def)
  have alts: "k \<in> both_alts \<longleftrightarrow> n = 4 \<or> n = 5" if "(k, n) \<in> set key_bits" for k n
    using that by (auto simp: key_bits_def both_alts_def)
  have "mods_down 0x30 = both_alts" unfolding mods_down_def b by (auto simp: key_bits_def both_alts_def)
  moreover have "w = 0x30" if e: "mods_down w = both_alts"
  proof (rule bit_word_eqI)
    fix n
    show "bit w n = bit (0x30 :: u16) n"
    proof (cases "n < 8")
      case True
      then have "n \<in> snd ` set key_bits" by (simp add: key_bits_range(1))
      then obtain k where k: "(k, n) \<in> set key_bits" by auto
      then have "bit w n \<longleftrightarrow> k \<in> mods_down w" using key_bits_unique(2) [OF k] unfolding mods_down_def by blast
      then show ?thesis unfolding b using alts [OF k] e by simp
    next
      case False
      then show ?thesis using assms b by (simp add: low_byte_def)
    qed
  qed
  ultimately show ?thesis by blast
qed

section \<open>Simulation\<close>

definition esc_sim :: "'h debugger \<Rightarrow> modifiers \<Rightarrow> bool" where
  "esc_sim s S \<longleftrightarrow> debuggingEnabled s \<and> low_byte (modifierState s) \<and> mods_down (modifierState s) = fst S \<and> extendedState s = snd S"

lemma enqueue_fields [simp]:
  "modifierState (enqueueKeyboardData b s) = modifierState s" "extendedState (enqueueKeyboardData b s) = extendedState s"
  "debuggingEnabled (enqueueKeyboardData b s) = debuggingEnabled s" "controller (enqueueKeyboardData b s) = controller s"
  by (simp_all add: enqueueKeyboardData_def split: list.split)

lemma enqueue_updates:
  "enqueueKeyboardData b (s\<lparr>extendedState := e\<rparr>) = (enqueueKeyboardData b s)\<lparr>extendedState := e\<rparr>"
  "enqueueKeyboardData b (s\<lparr>modifierState := m\<rparr>) = (enqueueKeyboardData b s)\<lparr>modifierState := m\<rparr>"
  "enqueueKeyboardData b (s\<lparr>controller := c\<rparr>) = (enqueueKeyboardData b s)\<lparr>controller := c\<rparr>"
  "enqueueKeyboardData b (s\<lparr>debuggerEntered := d\<rparr>) = (enqueueKeyboardData b s)\<lparr>debuggerEntered := d\<rparr>"
  by (simp_all add: enqueueKeyboardData_def split: list.split)

lemma queue_ok_updates [simp]:
  "queue_ok (s\<lparr>extendedState := e\<rparr>) = queue_ok s" "queue_ok (s\<lparr>modifierState := m\<rparr>) = queue_ok s"
  "queue_ok (s\<lparr>controller := c\<rparr>) = queue_ok s" "queue_ok (s\<lparr>debuggerEntered := d\<rparr>) = queue_ok s"
  by (simp_all add: queue_ok_def)

lemma release_both: "modifierState s = 0x30 \<Longrightarrow> release_modifiers modifierTable s = fold enqueueKeyboardData [0xB8, 0xE0, 0xB8] s"
  by (simp add: modifierTable_def)

lemma key_step:
  assumes E: "accepts_input E" and f: "\<And>b c c'. writeCommandPort E b c = Some c' \<Longrightarrow> f (world c') = f (world c)"
    and sim: "esc_sim s S" and step: "escape_step S b = (xs, S')"
  shows "\<exists>s'. key_arrives E b s = Some s' \<and> esc_sim s' S' \<and> port_step (controller s) (controller s') \<and>
    f (world (controller s')) = f (world (controller s)) \<and>
    keyboardQueue s' = keyboardQueue (fold enqueueKeyboardData xs s) \<and> (queue_ok s \<longrightarrow> queue_ok s')"
proof -
  have on: "debuggingEnabled s" and S: "fst S = mods_down (modifierState s)" "snd S = extendedState s" and low: "low_byte (modifierState s)"
    using sim by (auto simp: esc_sim_def)
  let ?c = "b AND 0x7f" and ?e = "extendedState s"
  have m: "x AND - 129 = x AND 0x7f" for x :: u8 by (rule arg_cong [of "- 129"]) simp
  consider (prefix) "b = 0xE0" | (modifier) m where "b \<noteq> 0xE0" "modifier_of ?c ?e = Some m"
    | (escape) "b \<noteq> 0xE0" "modifier_of ?c ?e = None" "?c = 0x53" "modifierState s = 0x30"
    | (other) "b \<noteq> 0xE0" "modifier_of ?c ?e = None" "\<not> (?c = 0x53 \<and> modifierState s = 0x30)"
    by fastforce
  then show ?thesis
  proof cases
    case prefix
    then have "xs = [b]" "S' = (fst S, True)" using step by (auto simp: escape_step_def Let_def)
    then show ?thesis using prefix on S low
      by (simp add: key_arrives_def doEscape_def enqueue_updates esc_sim_def key_queue.valid_put)
  next
    case (modifier m)
    have "(?c, ?e) \<in> modifier_keys" using modifier_of_none [of ?c ?e] modifier(2) by auto
    then have "xs = [b]" "S' = (if isset b 0x80 then fst S - {(?c, ?e)} else insert (?c, ?e) (fst S), False)"
      using step modifier(1) S by (auto simp: escape_step_def Let_def)
    then show ?thesis using modifier on S low modifier_change [OF modifier(2) low]
      by (simp add: key_arrives_def doEscape_def m Let_def enqueue_updates esc_sim_def key_queue.valid_put)
  next
    case escape
    have "fst S = both_alts" using both_alts_iff [OF low] escape(4) S by simp
    then have x: "xs = [0xB8, 0xE0, 0xB8]" "S' = ({}, False)"
      using step escape S modifier_of_none [of ?c ?e] by (auto simp: escape_step_def Let_def)
    obtain c1 where c1: "writeCommandPort E kCP_DisableMouseClock (controller s) = Some c1"
      using write_returns(2) [OF E] by (auto simp: returns_def)
    obtain c2 where c2: "writeCommandPort E kCP_EnableMouseClock c1 = Some c2"
      using write_returns(2) [OF E] by (auto simp: returns_def)
    have "port_step (controller s) c2" by (rule port_step_trans [OF port_step_write(2) [OF c1] port_step_write(2) [OF c2]])
    moreover have "f (world c2) = f (world (controller s))" using f [OF c1] f [OF c2] by simp
    moreover have "mods_down 0 = {}" "low_byte 0" by (simp_all add: mods_down_def low_byte_def)
    ultimately show ?thesis using escape on c1 c2
      by (simp add: key_arrives_def doEscape_def m Let_def call_debugger_def release_both x enqueue_updates esc_sim_def key_queue.valid_put)
  next
    case other
    have "\<not> (?c = 0x53 \<and> fst S = both_alts)" using both_alts_iff [OF low] other(3) S by simp
    moreover have "(?c, ?e) \<notin> modifier_keys" using modifier_of_none [of ?c ?e] other(2) by simp
    ultimately have "xs = [b]" "S' = (fst S, False)"
      using step other(1) S(2) by (simp_all only: escape_step_def Let_def fst_conv snd_conv if_False prod.inject)
    moreover have "doEscape E b s = Some (False, s\<lparr>extendedState := False\<rparr>)"
      using other(1,2) by (simp add: doEscape_def m Let_def) (use other(3) in blast)
    ultimately show ?thesis using on S low
      by (simp add: key_arrives_def enqueue_updates esc_sim_def key_queue.valid_put)
  qed
qed

lemma write_pending:
  assumes E: "output_buffer E pending" and out: "\<And>p b h. pending (env_outb E p b h) = pending h" and w: "writeCommandPort E b c = Some c'"
  shows "pending (world c') = pending (world c)"
proof -
  have "E' = E \<longrightarrow> pending (world c') = pending (world c)" if "wait_input E' c = Some c'" for E' c c'
  proof (rule wait_input.raw_induct [of "\<lambda>E' c c'. E' = E \<longrightarrow> pending (world c') = pending (world c)", OF _ that], intro impI)
    fix f E' c c'
    assume IH: "\<And>E' c c'. f E' c = Some c' \<Longrightarrow> E' = E \<longrightarrow> pending (world c') = pending (world c)" and E': "E' = E"
      and r: "(case inb E' kCommandPort c of (status, c) \<Rightarrow> if isset status kInputBusy then f E' c else Some c) = Some c'"
    obtain st c1 where i: "inb E kCommandPort c = (st, c1)" by fastforce
    have "pending (world c') = pending (world c1)" using r IH [of E c1 c'] E' i by (cases "isset st kInputBusy") simp_all
    then show "pending (world c') = pending (world c)" using output_buffer_status(1) [OF E i] by simp
  qed
  then show ?thesis using w out by (auto simp: writeCommandPort_def bind_eq_Some_conv outb_def log_def)
qed

lemma interrupt_key:
  assumes E: "output_buffer E pending" and p: "pending (world (controller s)) = (kDT_Keyboard, b) # q"
    and i: "ignoreInterrupts (controller s) = 0"
  obtains c where "port_step (controller s) c" "pending (world c) = q"
    "interruptHandlerKeyboard_debug E s = do {
       s \<leftarrow> key_arrives E b (s\<lparr>controller := c\<rparr>);
       Some (on_controller (log (Wake kDT_Keyboard)) s) }"
proof -
  obtain st c1 where 1: "inb E kCommandPort (controller s) = (st, c1)" by fastforce
  obtain d c2 where 2: "inb E kDataPort c1 = (d, c2)" by fastforce
  note st = output_buffer_status [OF E 1]
  have "pending (world c1) = (kDT_Keyboard, b) # q" using st(1) p by simp
  note dat = output_buffer_data [OF E 2 this]
  have "\<not> isset st kMouseData" using st(3) [OF p] by (auto simp: device_of_def split: if_splits)
  moreover have "isset st kOutputReady" using st(2) p by simp
  ultimately have "interruptHandlerKeyboard_debug E s = do {
       s \<leftarrow> key_arrives E b (s\<lparr>controller := c2\<rparr>);
       Some (on_controller (log (Wake kDT_Keyboard)) s) }"
    using i dat(1) by (simp add: interruptHandlerKeyboard_debug_def 1 2)
  with that [OF port_step_trans [OF port_step_inb [OF 1] port_step_inb [OF 2]] dat(2)] show thesis .
qed

lemma key_interrupts_stream:
  assumes "accepts_input E" and E: "output_buffer E pending" and out: "\<And>p b h. pending (env_outb E p b h) = pending h"
  shows "esc_sim s S \<Longrightarrow> escape_stream S bs = (xs, S') \<Longrightarrow> queue_ok s \<Longrightarrow> ignoreInterrupts (controller s) = 0 \<Longrightarrow>
    pending (world (controller s)) = map (Pair kDT_Keyboard) bs @ q \<Longrightarrow>
    \<exists>s'. key_interrupts E (length bs) s = Some s' \<and> esc_sim s' S' \<and> port_step (controller s) (controller s') \<and> queue_ok s' \<and>
      keyboardQueue s' = take 32 (keyboardQueue s @ xs) \<and> pending (world (controller s')) = q"
proof (induction bs arbitrary: s S xs)
  case Nil
  then show ?case by (simp add: queue_ok_def)
next
  case (Cons b bs)
  obtain ys S1 zs where y: "escape_step S b = (ys, S1)" "escape_stream S1 bs = (zs, S')" "xs = ys @ zs"
    using Cons.prems(2) by (auto split: prod.splits)
  have p: "pending (world (controller s)) = (kDT_Keyboard, b) # map (Pair kDT_Keyboard) bs @ q" using Cons.prems(5) by simp
  obtain c where c: "port_step (controller s) c" "pending (world c) = map (Pair kDT_Keyboard) bs @ q"
    "interruptHandlerKeyboard_debug E s = do {
       s \<leftarrow> key_arrives E b (s\<lparr>controller := c\<rparr>);
       Some (on_controller (log (Wake kDT_Keyboard)) s) }" by (rule interrupt_key [OF E p Cons.prems(4)])
  let ?s = "s\<lparr>controller := c\<rparr>"
  have sim: "esc_sim ?s S" using Cons.prems(1) by (simp add: esc_sim_def)
  have "\<exists>s'. key_arrives E b ?s = Some s' \<and> esc_sim s' S1 \<and> port_step (controller ?s) (controller s') \<and>
    pending (world (controller s')) = pending (world (controller ?s)) \<and>
    keyboardQueue s' = keyboardQueue (fold enqueueKeyboardData ys ?s) \<and> (queue_ok ?s \<longrightarrow> queue_ok s')"
    by (rule key_step [where f = pending, OF assms(1) _ sim y(1)]) (rule write_pending [OF E out])
  then obtain s1 where s1: "key_arrives E b ?s = Some s1" "esc_sim s1 S1" "port_step c (controller s1)"
      "pending (world (controller s1)) = pending (world c)"
      "keyboardQueue s1 = keyboardQueue (fold enqueueKeyboardData ys ?s)" "queue_ok s1" using Cons.prems(3) by auto
  let ?t = "on_controller (log (Wake kDT_Keyboard)) s1"
  have "keyboardQueue s1 = take 32 (keyboardQueue ?s @ ys)"
    unfolding s1(5) by (rule key_queue.put_all_items) (use Cons.prems(3) in \<open>simp_all add: queue_ok_def\<close>)
  then have k: "take 32 (keyboardQueue ?t @ zs) = take 32 (keyboardQueue s @ xs)" by (simp add: y(3) min_def on_controller_def)
  have st: "port_step (controller s) (controller ?t)"
    using port_step_trans [OF c(1) port_step_trans [OF s1(3) port_step_log]] by (simp add: on_controller_def)
  have t: "esc_sim ?t S1" "queue_ok ?t" "ignoreInterrupts (controller ?t) = 0" "pending (world (controller ?t)) = map (Pair kDT_Keyboard) bs @ q"
    using s1 c(2) Cons.prems(4) port_step_fields [OF st] by (simp_all add: esc_sim_def on_controller_def log_def)
  show ?case using Cons.IH [OF t(1) y(2) t(2,3,4)] c(3) s1(1) k port_step_trans [OF st] by auto
qed

section \<open>The work loop\<close>

lemma trace_later:
  "trace (dispatch_later E dt b c) = trace c @ [Dispatch dt b]"
  by (auto simp: dispatch_later_def dispatch_driver_interrupt_def packet_ready_def log_def Let_def split: prod.splits if_splits)

lemma later_left:
  assumes "finite_input E left" and "\<And>dt h. left (env_packet E dt h) \<le> left h"
  shows "left (world (dispatch_later E dt b c)) \<le> left (world c)"
proof -
  have a: "left (snd (env_action E dt b h)) \<le> left h" for h using assms(1) by (simp add: finite_input_def)
  show ?thesis
    using a [of "world c"] assms(2) order_trans
    by (fastforce simp: dispatch_later_def dispatch_driver_interrupt_def packet_ready_def log_def Let_def split: prod.splits)
qed

lemma debug_loop_delivers:
  assumes "finite_input E left" and "\<And>dt h. left (env_packet E dt h) \<le> left h"
  shows "\<exists>s' es. debug_loop E s = Some s' \<and> trace (controller s') = trace (controller s) @ es \<and>
    stream kDT_Keyboard (delivered es) = keyboardQueue s \<and> keyboardQueue s' = []"
proof (induction "length (keyboardQueue s) + left (world (controller s))" arbitrary: s rule: less_induct)
  case less
  show ?case
  proof (cases "keyboardQueue s")
    case (Cons key keys)
    let ?s = "s\<lparr>keyboardQueue := keys, keyboardQueueUnused := keyboardQueueUnused s @ [key]\<rparr>"
    let ?t = "on_controller (dispatch_later E kDT_Keyboard key) ?s"
    have "length (keyboardQueue ?t) + left (world (controller ?t)) < length (keyboardQueue s) + left (world (controller s))"
      using later_left [OF assms, of kDT_Keyboard key "controller s"] Cons by (simp add: on_controller_def)
    from less [OF this] obtain s' es where "debug_loop E ?t = Some s'" "trace (controller s') = trace (controller ?t) @ es"
        "stream kDT_Keyboard (delivered es) = keys" "keyboardQueue s' = []" by (auto simp: on_controller_def)
    then show ?thesis using Cons
      by (intro exI [of _ s'] exI [of _ "Dispatch kDT_Keyboard key # es"], subst debug_loop.simps)
        (simp add: dequeueKeyboardData_def on_controller_def trace_later stream_def)
  next
    case Nil
    obtain st c1 where i: "inb E kCommandPort (controller s) = (st, c1)" by fastforce
    have t1: "trace c1 = trace (controller s) @ [PortIn kCommandPort st]" by (rule trace_inb [OF i])
    show ?thesis
    proof (cases "st AND (kOutputReady OR kMouseData) = kOutputReady OR kMouseData")
      case True
      obtain b c2 where j: "inb E kDataPort c1 = (b, c2)" by fastforce
      let ?t = "s\<lparr>controller := dispatch_later E kDT_Mouse b c2\<rparr>"
      have t2: "trace c2 = trace c1 @ [PortIn kDataPort b]" by (rule trace_inb [OF j])
      have "(st AND 33) AND 1 = 33 AND 1" using True by simp
      then have "isset st kOutputReady" by (simp add: and.assoc)
      then have "left (world c2) < left (world (controller s))"
        using assms(1) i j by (auto simp: finite_input_def inb_def log_def split: prod.splits) (metis fst_conv snd_conv)
      then have "length (keyboardQueue ?t) + left (world (controller ?t)) < length (keyboardQueue s) + left (world (controller s))"
        using later_left [OF assms, of kDT_Mouse b c2] by simp
      from less [OF this] obtain s' es where "debug_loop E ?t = Some s'" "trace (controller s') = trace (controller ?t) @ es"
          "stream kDT_Keyboard (delivered es) = keyboardQueue s" "keyboardQueue s' = []" by auto
      then show ?thesis using Nil True
        by (intro exI [of _ s'] exI [of _ "PortIn kCommandPort st # PortIn kDataPort b # Dispatch kDT_Mouse b # es"], subst debug_loop.simps)
          (simp add: dequeueKeyboardData_def i j trace_later t1 t2 stream_def)
    next
      case False
      then show ?thesis using Nil t1
        by (intro exI [of _ "s\<lparr>controller := c1\<rparr>"] exI [of _ "[PortIn kCommandPort st]"], subst debug_loop.simps)
          (simp add: dequeueKeyboardData_def i stream_def)
    qed
  qed
qed

section \<open>The property\<close>

text \<open>
  C40. In the debugging build the keyboard driver is handed, in order, what an abstract machine makes of the scan codes
  that came: every code, but the delete key that completes the escape sequence is replaced by the release of both
  Alt keys.  What exceeds the 32 entries of the queue is lost.
\<close>

theorem escape_keys_delivered:
  assumes "accepts_input E" and "finite_input E left" and "\<And>dt h. left (env_packet E dt h) \<le> left h"
    and "output_buffer E pending" and "\<And>p b h. pending (env_outb E p b h) = pending h"
    and "pending (world c) = map (Pair kDT_Keyboard) bs @ q" and "escape_stream ({}, False) bs = (xs, S')"
    and "length fresh \<ge> 32" and "\<not> hardwareOffline c" and "ignoreInterrupts c = 0"
  shows "\<exists>s s' es. key_interrupts E (length bs) (debugger_start True fresh c) = Some s \<and> mods_down (modifierState s) = fst S' \<and>
    interruptOccurred_debug E s = Some s' \<and> trace (controller s') = trace (controller s) @ es \<and>
    stream kDT_Keyboard (delivered es) = take 32 xs \<and> keyboardQueue s' = []"
proof -
  let ?s = "debugger_start True fresh c"
  have s: "esc_sim ?s ({}, False)" "queue_ok ?s" "keyboardQueue ?s = []" "controller ?s = c"
    using assms(8) by (simp_all add: esc_sim_def debugger_start_def queue_ok_def low_byte_def mods_down_def)
  obtain s1 where s1: "key_interrupts E (length bs) ?s = Some s1" "esc_sim s1 S'" "port_step c (controller s1)" "keyboardQueue s1 = take 32 xs"
    using key_interrupts_stream [OF assms(1,4,5) s(1) assms(7) s(2)] s(3,4) assms(6,10) by auto
  have "\<not> hardwareOffline (controller s1)" using port_step_fields [OF s1(3)] assms(9) by simp
  then have "interruptOccurred_debug E s1 = debug_loop E s1" by (simp add: interruptOccurred_debug_def)
  with debug_loop_delivers [OF assms(2,3), of s1] s1 show ?thesis by (auto simp: esc_sim_def)
qed

text \<open>
  With the delete key of the cursor block, whose prefix is already in the queue, the release of the left Alt key is
  taken for one of the right key.
\<close>

lemma escape_keys_delivered_witness:
  "\<exists>s s' es. key_interrupts (fifo_env idle) 5 (debugger_start True (replicate 32 0)
      (ctl_init (map (Pair kDT_Keyboard) [0x38, 0xE0, 0x38, 0xE0, 0x53], ()))) = Some s \<and>
    interruptOccurred_debug (fifo_env idle) s = Some s' \<and> trace (controller s') = trace (controller s) @ es \<and>
    stream kDT_Keyboard (delivered es) = [0x38, 0xE0, 0x38, 0xE0, 0xB8, 0xE0, 0xB8]"
proof -
  let ?bs = "[0x38, 0xE0, 0x38, 0xE0, 0x53] :: u8 list"
  have x: "escape_stream ({}, False) ?bs = ([0x38, 0xE0, 0x38, 0xE0, 0xB8, 0xE0, 0xB8], {}, False)"
    by (simp add: escape_step_def modifier_keys_def both_alts_def insert_commute)
  have e: "(length \<circ> fst) (env_packet (fifo_env idle) dt h) \<le> (length \<circ> fst) h" "fst (env_outb (fifo_env idle) p b h) = fst h" for dt h p b
    by (simp_all add: fifo_env_def)
  have "\<exists>s s' es. key_interrupts (fifo_env idle) (length ?bs) (debugger_start True (replicate 32 0) (ctl_init (map (Pair kDT_Keyboard) ?bs, ()))) = Some s \<and>
    mods_down (modifierState s) = fst ({}, False) \<and> interruptOccurred_debug (fifo_env idle) s = Some s' \<and>
    trace (controller s') = trace (controller s) @ es \<and>
    stream kDT_Keyboard (delivered es) = take 32 [0x38, 0xE0, 0x38, 0xE0, 0xB8, 0xE0, 0xB8] \<and> keyboardQueue s' = []"
    by (rule escape_keys_delivered [OF fifo_accepts fifo_finite e(1) fifo_buffer e(2) _ x, of _ "[]"]) (simp_all add: ctl_init_def)
  moreover have five: "length ?bs = 5" by simp
  ultimately show ?thesis unfolding five by auto
qed

end
