(* ===== verification/KeyboardStack.thy ===== *)
theory KeyboardStack
  imports KeyboardEvents ControllerProps
begin

text \<open>
  The keyboard driver in its place: between it and the controller stands the nub of its device, which passes requests,
  handlers and messages on under the type of the device.
\<close>

section \<open>The device nubs\<close>

datatype ps2_nub = ApplePS2KeyboardDevice | ApplePS2MouseDevice

definition deviceType :: "ps2_nub \<Rightarrow> PS2DeviceType" where
  "deviceType n = (case n of ApplePS2KeyboardDevice \<Rightarrow> kDT_Keyboard | ApplePS2MouseDevice \<Rightarrow> kDT_Mouse)"

definition nub_submitRequest :: "PS2Command list \<Rightarrow> 'h ctl \<Rightarrow> 'h ctl" where
  "nub_submitRequest cs c = submitRequest \<lparr>commands = cs, completion = NoCompletion\<rparr> c"

definition nub_setCommandByte :: "'h env \<Rightarrow> u8 \<Rightarrow> u8 \<Rightarrow> 'h ctl \<Rightarrow> 'h ctl option" where
  "nub_setCommandByte E bits clear c = map_option snd (setCommandByte E bits clear c)"

text \<open>Installing a handler, or uninstalling it.\<close>

definition nub_install :: "'h env \<Rightarrow> ps2_nub \<Rightarrow> kb_handler \<Rightarrow> bool \<Rightarrow> 'h ctl \<Rightarrow> 'h ctl option" where
  "nub_install E n h install c =
     (let dt = deviceType n in
      case h of
        KbInterruptAction \<Rightarrow> if install then installInterruptAction E dt c else uninstallInterruptAction E dt c
      | KbPowerControlAction \<Rightarrow> Some (if install then installPowerControlAction dt c else uninstallPowerControlAction dt c)
      | KbMessageAction \<Rightarrow> Some (if install then installMessageAction dt c else uninstallMessageAction dt c))"

text \<open>\<open>R\<close>: what the trackpad driver does with a message, and what it writes behind the pointer that comes with it.\<close>

definition nub_dispatchMouseMessage :: "(tp_message \<Rightarrow> 'h \<Rightarrow> bool option \<times> 'h) \<Rightarrow> tp_message \<Rightarrow> 'h ctl \<Rightarrow> bool option \<times> 'h ctl" where
  "nub_dispatchMouseMessage R msg c =
     (if messageInstalled c kDT_Mouse then fst (R msg (world c)) else None, dispatchMessage (\<lambda>dt m h. snd (R m h)) kDT_Mouse msg c)"

text \<open>The environment of the keyboard driver that the nub \<open>n\<close> of the controller is; clock and ACPI are those of \<open>K\<close>.\<close>

definition nub_env :: "'h env \<Rightarrow> (tp_message \<Rightarrow> 'h \<Rightarrow> bool option \<times> 'h) \<Rightarrow> ps2_nub \<Rightarrow> 'h ctl kb_env \<Rightarrow> 'h ctl kb_env" where
  "nub_env E R n K = K\<lparr>kb_message := nub_dispatchMouseMessage R, kb_submit := nub_submitRequest, kb_submit_block := stack_port E,
     kb_set_command_byte := nub_setCommandByte E, kb_install := nub_install E n\<rparr>"

section \<open>Requests return\<close>

lemma setCommandByte_returns:
  assumes "finite_input E left" "accepts_input E"
  shows "returns (setCommandByte E bits clear c)"
  unfolding setCommandByte_def Let_def
  by (intro returns_rules returns_Some read_returns [OF assms(1)] write_returns [OF assms(2)])

lemma install_returns:
  assumes "finite_input E left" "accepts_input E"
  shows "returns (nub_install E n h b c)"
  unfolding nub_install_def installInterruptAction_def uninstallInterruptAction_def Let_def
  by (cases h; simp only: kb_handler.case)
    (intro returns_rules returns_Some setCommandByte_returns [OF assms])+

lemma nub_returning:
  assumes "finite_input E left" "accepts_input E"
  shows "kb_returning (nub_env E R n K)"
  unfolding kb_returning_def
proof (intro conjI allI)
  show "returning_port (kb_submit_block (nub_env E R n K))"
    using controller_port [OF assms] by (simp add: nub_env_def)
  show "kb_set_command_byte (nub_env E R n K) bits clear m \<noteq> None" for bits clear m
    using returns_obtain [OF setCommandByte_returns [OF assms]] by (fastforce simp: nub_env_def nub_setCommandByte_def)
  show "kb_install (nub_env E R n K) h b m \<noteq> None" for h b m
    using returns_obtain [OF install_returns [OF assms]] by (fastforce simp: nub_env_def)
qed

section \<open>Starting and stopping on the controller\<close>

text \<open>Which handlers of which device the controller holds.\<close>

definition handlers_of :: "'h ctl \<Rightarrow> (PS2DeviceType \<Rightarrow> bool) \<times> (PS2DeviceType \<Rightarrow> bool) \<times> (PS2DeviceType \<Rightarrow> bool) \<times> (PS2DeviceType \<Rightarrow> bool)" where
  "handlers_of c = (interruptSource c, interruptInstalled c, powerControlInstalled c, messageInstalled c)"

lemma handlers_step: "port_step c c' \<Longrightarrow> handlers_of c' = handlers_of c"
  by (auto simp: port_step_def handlers_of_def)

lemma handlers_ignore [simp]: "handlers_of (c\<lparr>ignoreInterrupts := i\<rparr>) = handlers_of c" "handlers_of (c\<lparr>requestQueue := q\<rparr>) = handlers_of c"
  "handlers_of (log e c) = handlers_of c"
  by (simp_all add: handlers_of_def log_def)

lemma handlers_setCommandByte: "setCommandByte E x y c = Some (b, c') \<Longrightarrow> handlers_of c' = handlers_of c"
  unfolding setCommandByte_def by (auto simp: bind_eq_Some_conv Let_def split: if_splits dest!: port_step_ops handlers_step)

lemma handlers_queue: "process_local_queue E rs c = Some c' \<Longrightarrow> handlers_of c' = handlers_of c"
  by (induction rs arbitrary: c) (auto simp: bind_eq_Some_conv dest!: port_step_processRequest handlers_step)

lemma handlers_port: "stack_port E cs c = Some (n, cs', c') \<Longrightarrow> handlers_of c' = handlers_of c"
  unfolding stack_port_def submitRequestAndBlock_def processRequestQueue_def
  by (auto simp: bind_eq_Some_conv dest!: port_step_processRequest handlers_step handlers_queue)

lemma handlers_submit: "handlers_of (nub_submitRequest cs c) = handlers_of c"
  by (simp add: nub_submitRequest_def submitRequest_def)

lemma handlers_block: "kb_block (nub_env E R n K) cs k = Some k' \<Longrightarrow> \<exists>m. k' = k\<lparr>mouse := m\<rparr> \<and> handlers_of m = handlers_of (mouse k)"
  by (auto simp: kb_block_def submit_stack_def nub_env_def bind_eq_Some_conv split: if_splits dest!: handlers_port)

text \<open>With no key down there is nothing to release.\<close>

lemma release_none: "\<forall>n \<in> set ns. \<not> KBV_IS_KEYDOWN n (keyBitVector k) \<Longrightarrow> release_keys E t ns k = Some k"
  by (induction ns) simp_all

lemma none_down: "\<not> KBV_IS_KEYDOWN n (replicate 16 0)" if "n < 512"
  using that by (simp add: KBV_bit less_mult_imp_div_less)

lemma handlers_initKeyboard:
  assumes "keyBitVector k = replicate 16 0" "initKeyboard (nub_env E R n K) t k = Some k'"
  shows "handlers_of (mouse k') = handlers_of (mouse k) \<and> handlersInstalled k' = handlersInstalled k"
proof -
  let ?E = "nub_env E R n K"
  obtain k1 k2 where k1: "kb_block ?E [write_data kDP_SetDefaults, expect_ack] k = Some k1" and r: "release_keys ?E t [0..<512] k1 = Some k2"
    and rest: "(let k = setLEDs ?E (ledState k2) (k2\<lparr>keyBitVector := replicate 16 0, PS2modifierState := 0\<rparr>)
      in setKeyboardEnable ?E True (k\<lparr>extendCount := 0, kb_ring := ring_reset (kb_ring k)\<rparr>) \<bind>
        (\<lambda>k. kb_set_command_byte ?E 0x40 0 (mouse k) \<bind> (\<lambda>m. Some (k\<lparr>mouse := m\<rparr>)))) = Some k'"
    using assms(2) by (auto simp: initKeyboard_def bind_eq_Some_conv)
  obtain m1 where m1: "k1 = k\<lparr>mouse := m1\<rparr>" "handlers_of m1 = handlers_of (mouse k)" using handlers_block [OF k1] by blast
  have "release_keys ?E t [0..<512] k1 = Some k1" by (rule release_none) (simp add: m1(1) assms(1) none_down)
  then have k2: "k2 = k1" using r by simp
  let ?k = "k1\<lparr>keyBitVector := replicate 16 0, PS2modifierState := 0,
      mouse := kb_submit ?E [write_data kDP_SetKeyboardLEDs, expect_ack, write_data (ledState k1), expect_ack] m1,
      extendCount := 0, kb_ring := ring_reset (kb_ring k1)\<rparr>"
  obtain k3 m4 where k3: "setKeyboardEnable ?E True ?k = Some k3" and m4: "kb_set_command_byte ?E 0x40 0 (mouse k3) = Some m4" "k' = k3\<lparr>mouse := m4\<rparr>"
    using rest by (auto simp: Let_def bind_eq_Some_conv k2 setLEDs_def m1(1))
  have "handlers_of (mouse k3) = handlers_of (mouse ?k) \<and> handlersInstalled k3 = handlersInstalled ?k"
    using handlers_block [OF k3 [unfolded setKeyboardEnable_def]] by auto
  moreover have "handlers_of (mouse ?k) = handlers_of (mouse k)" using m1 by (simp add: nub_env_def handlers_submit)
  moreover have "handlers_of m4 = handlers_of (mouse k3)"
    using m4(1) by (auto simp: nub_env_def nub_setCommandByte_def dest: handlers_setCommandByte)
  ultimately show ?thesis using m4(2) m1(1) by simp
qed

lemma start_on_controller:
  assumes E: "finite_input E left" "accepts_input E" and k: "keyBitVector k = replicate 16 0" "kb_ok k" "handlersInstalled k = []"
    and src: "interruptSource (mouse k) kDT_Keyboard"
  obtains k1 where "kb_start (nub_env E R ApplePS2KeyboardDevice K) t True timer acpi bcl kkcl k = Some (True, k1)" "kb_ok k1"
    "handlersInstalled k1 = [KbMessageAction, KbPowerControlAction, KbInterruptAction]"
    "handlers_of (mouse k1) = (interruptSource (mouse k), (interruptInstalled (mouse k))(kDT_Keyboard := True),
      (powerControlInstalled (mouse k))(kDT_Keyboard := True), (messageInstalled (mouse k))(kDT_Keyboard := True))"
proof -
  let ?E = "nub_env E R ApplePS2KeyboardDevice K"
  let ?k = "k\<lparr>macroTimer := timer, kb_provider := acpi, brightnessLevels := (if acpi then acpi_levels 4 bcl else None),
     backlightLevels := (if acpi then acpi_levels 2 kkcl else None)\<rparr>"
  have E': "kb_returning ?E" by (rule nub_returning [OF E])
  have "kb_ok ?k" by (rule kb_ok_levels) (auto simp: k(2) dest: levels_length)
  then obtain k1 where k1: "initKeyboard ?E t ?k = Some k1" "kb_ok k1" by (rule initKeyboard_ok [OF E', where t = t])
  have h: "handlers_of (mouse k1) = handlers_of (mouse k)" "handlersInstalled k1 = []"
    using handlers_initKeyboard [OF _ k1(1)] k(1,3) by simp_all
  obtain m where m: "nub_install E ApplePS2KeyboardDevice KbInterruptAction True (mouse k1) = Some m"
    using returns_obtain [OF install_returns [OF E]] by blast
  have hm: "handlers_of m = (interruptSource (mouse k), (interruptInstalled (mouse k))(kDT_Keyboard := True),
      powerControlInstalled (mouse k), messageInstalled (mouse k))"
    using m h(1) src
    by (auto simp: nub_install_def deviceType_def installInterruptAction_def bind_eq_Some_conv Let_def split: if_splits dest!: handlers_setCommandByte)
      (auto simp: handlers_of_def log_def fun_eq_iff)
  let ?m = "installMessageAction kDT_Keyboard (installPowerControlAction kDT_Keyboard m)"
  let ?k2 = "k1\<lparr>mouse := ?m, handlersInstalled := [KbMessageAction, KbPowerControlAction, KbInterruptAction]\<rparr>"
  have "kb_start ?E t True timer acpi bcl kkcl k = Some (True, ?k2)"
    using k1(1) m h(2) by (simp add: kb_start_def install_handler_def nub_env_def nub_install_def deviceType_def)
  moreover have "kb_ok ?k2" using k1(2) kb_ok_cong [of ?k2 k1] by simp
  moreover have "handlers_of (mouse ?k2) = (interruptSource (mouse k), (interruptInstalled (mouse k))(kDT_Keyboard := True),
      (powerControlInstalled (mouse k))(kDT_Keyboard := True), (messageInstalled (mouse k))(kDT_Keyboard := True))"
    using hm by (auto simp: installMessageAction_def installPowerControlAction_def handlers_of_def fun_eq_iff)
  ultimately show thesis using that by simp
qed

lemma stop_on_controller:
  assumes E: "finite_input E left" "accepts_input E" and k: "kb_ok k"
    and hs: "handlersInstalled k = [KbMessageAction, KbPowerControlAction, KbInterruptAction]"
  obtains k' where "kb_stop (nub_env E R ApplePS2KeyboardDevice K) k = Some k'" "handlersInstalled k' = []"
    "handlers_of (mouse k') = (interruptSource (mouse k), (interruptInstalled (mouse k))(kDT_Keyboard := False),
      (powerControlInstalled (mouse k))(kDT_Keyboard := False), (messageInstalled (mouse k))(kDT_Keyboard := False))"
proof -
  let ?E = "nub_env E R ApplePS2KeyboardDevice K"
  have E': "kb_returning ?E" by (rule nub_returning [OF E])
  obtain m0 where m0: "setKeyboardEnable ?E False k = Some (k\<lparr>mouse := m0\<rparr>)" by (rule enable_ok [OF E' k])
  then have h0: "handlers_of m0 = handlers_of (mouse k)"
    unfolding setKeyboardEnable_def by (auto dest!: handlers_block dest: arg_cong [where f = mouse])
  obtain m where m: "nub_install E ApplePS2KeyboardDevice KbInterruptAction False m0 = Some m"
    using returns_obtain [OF install_returns [OF E]] by blast
  have hm: "handlers_of m = (interruptSource (mouse k), (interruptInstalled (mouse k))(kDT_Keyboard := False),
      powerControlInstalled (mouse k), messageInstalled (mouse k))"
    using m h0
    by (auto simp: nub_install_def deviceType_def uninstallInterruptAction_def bind_eq_Some_conv Let_def split: if_splits dest!: handlers_setCommandByte)
      (auto simp: handlers_of_def log_def fun_eq_iff)
  let ?m = "uninstallMessageAction kDT_Keyboard (uninstallPowerControlAction kDT_Keyboard m)"
  have "handlers_of ?m = (interruptSource (mouse k), (interruptInstalled (mouse k))(kDT_Keyboard := False),
      (powerControlInstalled (mouse k))(kDT_Keyboard := False), (messageInstalled (mouse k))(kDT_Keyboard := False))"
    using hm by (auto simp: uninstallMessageAction_def uninstallPowerControlAction_def handlers_of_def fun_eq_iff)
  moreover have "\<exists>k'. kb_stop ?E k = Some k' \<and> handlersInstalled k' = [] \<and> mouse k' = ?m"
    using m0 m hs by (simp add: kb_stop_def uninstall_handler_def nub_env_def nub_install_def deviceType_def Let_def)
  ultimately show thesis using that by metis
qed

text \<open>What reading the profile and the settings leave alone.\<close>

definition unconfigured :: "'m kbd \<Rightarrow> 'm \<times> u32 list \<times> kb_handler list" where
  "unconfigured k = (mouse k, keyBitVector k, handlersInstalled k)"

lemma when_some_view: "(\<And>x k. v (f x k) = v k) \<Longrightarrow> v (when_some opt f k) = v k"
  by (simp add: when_some_def split: option.split)

lemma unconfigured_basic [simp]:
  "unconfigured (map_as a b k) = unconfigured k" "unconfigured (map_to a adb k) = unconfigured k"
  "unconfigured (set_action sw s k) = unconfigured k" "unconfigured (k\<lparr>maxsleeppresstime := n\<rparr>) = unconfigured k"
  "unconfigured (k\<lparr>f12ejectdelay := n\<rparr>) = unconfigured k" "unconfigured (k\<lparr>macroMaxTime := t\<rparr>) = unconfigured k"
  "unconfigured (k\<lparr>swapcommandoption := c\<rparr>) = unconfigured k" "unconfigured (k\<lparr>brightnessHack := c\<rparr>) = unconfigured k"
  "unconfigured (k\<lparr>logscancodes := n\<rparr>) = unconfigured k" "unconfigured (k\<lparr>fkeymode := n\<rparr>) = unconfigured k"
  "unconfigured (k\<lparr>PS2ToPS2Map := ps2\<rparr>) = unconfigured k" "unconfigured (k\<lparr>PS2ToADBMap := adbs\<rparr>) = unconfigured k"
  by (simp_all add: unconfigured_def map_as_def map_to_def set_action_def)

lemma unconfigured_settings: "unconfigured (kb_setParamPropertiesGated d k) = unconfigured k"
proof (cases d)
  case (Some d)
  have ops: "unconfigured (swap_keys a b c k) = unconfigured k" "unconfigured (set_fkeymode m k) = unconfigured k"
      "unconfigured (set_application_key x y k) = unconfigured k" "unconfigured (set_hangul_hanja c k) = unconfigured k"
    for a b c m x y and k :: "'m kbd"
    by (simp_all add: swap_keys_def set_fkeymode_def set_application_key_def set_hangul_hanja_def Let_def when_some_view)
  show ?thesis by (simp add: Some kb_setParamPropertiesGated_def Let_def when_some_view ops)
qed (simp add: kb_setParamPropertiesGated_def)

lemma unconfigured_init: "kb_init m config = Some k \<Longrightarrow> unconfigured k = (m, replicate 16 0, [])"
  by (auto simp: kb_init_def Let_def unconfigured_settings load_config_def load_macros_def load_fkeys_def split: if_splits option.splits)
    (auto simp: unconfigured_def kb_blank_def)

text \<open>
  The keyboard driver starts and stops on the controller: behind the nub of its device, with hardware whose input is
  finite and that takes what is written, \<open>start\<close> after \<open>init\<close> ends with the interrupt, power and message handlers of
  the keyboard installed in the controller, and \<open>stop\<close> ends with them removed; those of the mouse stay as they are.
\<close>

theorem keyboard_starts_on_controller:
  assumes "finite_input E left" and "accepts_input E" and "kb_init c config = Some k" and "interruptSource c kDT_Keyboard"
  shows "\<exists>k1 k2. kb_start (nub_env E R ApplePS2KeyboardDevice K) t True timer acpi bcl kkcl k = Some (True, k1)
    \<and> handlers_of (mouse k1) = (interruptSource c, (interruptInstalled c)(kDT_Keyboard := True),
        (powerControlInstalled c)(kDT_Keyboard := True), (messageInstalled c)(kDT_Keyboard := True))
    \<and> kb_stop (nub_env E R ApplePS2KeyboardDevice K) k1 = Some k2
    \<and> handlers_of (mouse k2) = (interruptSource c, (interruptInstalled c)(kDT_Keyboard := False),
        (powerControlInstalled c)(kDT_Keyboard := False), (messageInstalled c)(kDT_Keyboard := False))"
proof -
  have k: "keyBitVector k = replicate 16 0" "mouse k = c" "handlersInstalled k = []"
    using unconfigured_init [OF assms(3)] by (simp_all add: unconfigured_def)
  obtain k1 where k1: "kb_start (nub_env E R ApplePS2KeyboardDevice K) t True timer acpi bcl kkcl k = Some (True, k1)" "kb_ok k1"
      "handlersInstalled k1 = [KbMessageAction, KbPowerControlAction, KbInterruptAction]"
      "handlers_of (mouse k1) = (interruptSource c, (interruptInstalled c)(kDT_Keyboard := True),
        (powerControlInstalled c)(kDT_Keyboard := True), (messageInstalled c)(kDT_Keyboard := True))"
    by (rule start_on_controller [OF assms(1,2) k(1) init_ok [OF assms(3)] k(3)]) (simp_all add: k(2) assms(4))
  then show ?thesis
    by (rule_tac stop_on_controller [OF assms(1,2) k1(2,3)]) (auto simp: handlers_of_def)
qed

text \<open>A clock that counts, and no ACPI.\<close>

definition bare_env :: "'m kb_env" where
  "bare_env = \<lparr>kb_clock = \<lparr>uptime = of_nat, to_ns = (\<lambda>t. t)\<rparr>, kb_message = (\<lambda>msg m. (None, m)), kb_submit = (\<lambda>cs m. m),
     kb_submit_block = answer_all, kb_set_command_byte = (\<lambda>s c m. Some m), kb_install = (\<lambda>h b m. Some m),
     kb_bqc = (\<lambda>m. None), kb_kkqc = (\<lambda>m. None), kb_version_major = 16, kb_hid_system = True, kb_junk = False\<rparr>"

lemma keyboard_starts_on_controller_witness:
  "\<exists>k1 k2. kb_start (nub_env (fifo_env idle) (\<lambda>msg h. (None, h)) ApplePS2KeyboardDevice bare_env) 0 True True False None None
        (the (kb_init ((ctl_init ([(kDT_Keyboard, 0xfa)], ()))\<lparr>interruptSource := (\<lambda>_. True)\<rparr>) None)) = Some (True, k1)
     \<and> interruptInstalled (mouse k1) kDT_Keyboard \<and> messageInstalled (mouse k1) kDT_Keyboard \<and> \<not> messageInstalled (mouse k1) kDT_Mouse
     \<and> kb_stop (nub_env (fifo_env idle) (\<lambda>msg h. (None, h)) ApplePS2KeyboardDevice bare_env) k1 = Some k2
     \<and> \<not> interruptInstalled (mouse k2) kDT_Keyboard \<and> \<not> messageInstalled (mouse k2) kDT_Keyboard"
proof -
  let ?c = "(ctl_init ([(kDT_Keyboard, 0xfa)], ()))\<lparr>interruptSource := (\<lambda>_. True)\<rparr> :: ((PS2DeviceType \<times> u8) list \<times> unit) ctl"
  have i: "kb_init ?c None = Some (the (kb_init ?c None))" by (simp add: kb_init_def Let_def)
  have "interruptSource ?c kDT_Keyboard" by simp
  from keyboard_starts_on_controller [OF fifo_finite fifo_accepts i this, where act1 = idle and R = "\<lambda>msg h. (None, h)" and K = bare_env
      and t = 0 and timer = True and acpi = False and bcl = None and kkcl = None]
  show ?thesis by (auto simp: handlers_of_def ctl_init_def)
qed

section \<open>Typing through the controller\<close>

text \<open>The keyboard driver as the client of the controller: \<open>drv\<close> is its state in the world, and the bytes of the other
  device do not reach it.\<close>

definition keyboard_behind :: "'h env \<Rightarrow> 'm kb_env \<Rightarrow> ('h \<Rightarrow> 'm kbd) \<Rightarrow> bool" where
  "keyboard_behind E K drv \<longleftrightarrow>
     (\<forall>p h. drv (snd (env_inb E p h)) = drv h) \<and> (\<forall>b h. drv (snd (env_action E kDT_Mouse b h)) = drv h) \<and>
     (\<forall>b h r k. kb_interruptOccurred K b (drv h) = Some (r, k) \<longrightarrow>
        fst (env_action E kDT_Keyboard b h) = r \<and> drv (snd (env_action E kDT_Keyboard b h)) = k) \<and>
     (\<forall>h k. kb_packetReady K (drv h) = Some k \<longrightarrow> drv (env_packet E kDT_Keyboard h) = k)"

lemma keyboard_inb: "keyboard_behind E K drv \<Longrightarrow> inb E p c = (b, c') \<Longrightarrow> drv (world c') = drv (world c)"
  by (auto simp: keyboard_behind_def inb_def log_def split: prod.splits) (metis snd_conv)

lemma keyboard_action:
  assumes "keyboard_behind E K drv" "dispatch_driver_interrupt E kDT_Keyboard b c = (r, c')" "interruptInstalled c kDT_Keyboard"
    and "kb_interruptOccurred K b (drv (world c)) = Some (q, k)"
  shows "r = q" "drv (world c') = k"
  using assms by (auto simp: keyboard_behind_def dispatch_driver_interrupt_def Let_def log_def split: prod.splits)
    (metis fst_conv snd_conv)+

lemma mouse_action:
  "keyboard_behind E K drv \<Longrightarrow> dispatch_driver_interrupt E kDT_Mouse b c = (r, c') \<Longrightarrow> drv (world c') = drv (world c)"
  by (auto simp: keyboard_behind_def dispatch_driver_interrupt_def Let_def log_def split: prod.splits if_splits) (metis snd_conv)

text \<open>A byte either completes a packet and takes one reading of the clock, or takes none.\<close>

lemma interrupt_ticks:
  "kb_interruptOccurred K b k = Some (r, k') \<Longrightarrow> kb_ticks k' = (if r = kPS2IR_packetReady then kb_ticks k + 1 else kb_ticks k)"
proof -
  have *: "buffer_packet K x y k1 = Some k2 \<Longrightarrow> kb_ticks k2 = kb_ticks k1 + 1" for x y and k1 k2 :: "'a kbd"
    by (auto simp: buffer_packet_def kb_uptime_def Let_def bind_eq_Some_conv simp del: stage_all.simps)
  show "kb_interruptOccurred K b k = Some (r, k') \<Longrightarrow> kb_ticks k' = (if r = kPS2IR_packetReady then kb_ticks k + 1 else kb_ticks k)"
    by (auto simp: kb_interruptOccurred_def scan_code_def Let_def bind_eq_Some_conv dest!: * split: if_splits option.splits)
qed

lemma handle_loop_types:
  assumes E: "output_buffer E pending" "keyboard_behind E K drv"
    and c: "interruptInstalled c kDT_Keyboard" "kb_interrupts K (stream kDT_Keyboard (pending (world c))) (drv (world c)) = Some k"
  shows "\<exists>c' es. handle_interrupt_loop E wm wk c = Some c' \<and> trace c' = trace c @ es \<and> pending (world c') = [] \<and> drv (world c') = k \<and>
      interruptInstalled c' kDT_Keyboard \<and> (kb_ticks k \<noteq> kb_ticks (drv (world c)) \<longrightarrow> Wake kDT_Keyboard \<in> set es)"
proof -
  let ?P = "\<lambda>xs wm w c'. interruptInstalled c' kDT_Keyboard \<and> (\<exists>es. trace c' = trace c @ es) \<and>
     kb_interrupts K (stream kDT_Keyboard xs) (drv (world c')) = Some k \<and> (w \<or> kb_ticks (drv (world c')) = kb_ticks (drv (world c)))"
  have "\<exists>c' wm' wk'. handle_interrupt_loop E wm wk c = Some ((if wk' then log (Wake kDT_Keyboard) else id) ((if wm' then log (Wake kDT_Mouse) else id) c'))
    \<and> ?P [] wm' wk' c' \<and> pending (world c') = []"
  proof (rule handle_loop_rule [OF E(1)])
    fix xs wm w p b c1 c2 assume P: "?P xs wm w c1" and i: "inb E p c1 = (b, c2)"
    then show "?P xs wm w c2" using keyboard_inb [OF E(2) i] trace_inb [OF i] port_step_fields [OF port_step_inb [OF i]] by auto
  next
    fix dt b xs wm w r c1 c2 assume P: "?P ((dt, b) # xs) wm w c1" and d: "dispatch_driver_interrupt E dt b c1 = (r, c2)"
    have inst: "interruptInstalled c2 kDT_Keyboard" using P port_step_fields [OF port_step_dispatch_driver [OF d]] by simp
    moreover have "\<exists>es. trace c2 = trace c @ es" using P output_buffer_action(2) [OF E(1) d] by auto
    moreover have "kb_interrupts K (stream kDT_Keyboard xs) (drv (world c2)) = Some k \<and>
        ((w \<or> dt = kDT_Keyboard \<and> r = kPS2IR_packetReady) \<or> kb_ticks (drv (world c2)) = kb_ticks (drv (world c)))"
    proof (cases dt)
      case kDT_Mouse
      then show ?thesis using P mouse_action [OF E(2) d [unfolded kDT_Mouse]] by simp
    next
      case kDT_Keyboard
      obtain q k1 where q: "kb_interruptOccurred K b (drv (world c1)) = Some (q, k1)" "kb_interrupts K (stream kDT_Keyboard xs) k1 = Some k"
        using P kDT_Keyboard by (auto simp: bind_eq_Some_conv)
      have "interruptInstalled c1 kDT_Keyboard" using P by blast
      from keyboard_action [OF E(2) d [unfolded kDT_Keyboard] this q(1)] show ?thesis
        using q(2) interrupt_ticks [OF q(1)] P kDT_Keyboard by auto
    qed
    ultimately show "?P xs (wm \<or> dt = kDT_Mouse \<and> r = kPS2IR_packetReady) (w \<or> dt = kDT_Keyboard \<and> r = kPS2IR_packetReady) c2"
      by blast
  next
    show "?P (pending (world c)) wm wk c" using c by auto
  qed
  then obtain c' wm' wk' where "handle_interrupt_loop E wm wk c = Some ((if wk' then log (Wake kDT_Keyboard) else id) ((if wm' then log (Wake kDT_Mouse) else id) c'))"
    "?P [] wm' wk' c'" "pending (world c') = []" by blast
  then show ?thesis by (cases wm'; cases wk') (auto simp: log_def)
qed

text \<open>
  C10. What is typed reaches the system through the controller: when scan codes wait in the controller, mixed in any way
  with the bytes of the trackpad, one interrupt hands all of them over and wakes the work loop of the keyboard if a key
  was pressed or released, and one run of the work loop then reports exactly these keys, in order, as if no byte of the
  trackpad had been there.
\<close>

theorem typing_passes_controller:
  assumes "output_buffer E pending" and "keyboard_behind E K drv" and "ignoreInterrupts c = 0" and "interruptInstalled c kDT_Keyboard"
    and "kb_ok (drv (world c))" and "queued (drv (world c)) = []" and "macroInversion (drv (world c)) = None"
    and "key_edges (PS2flags (drv (world c))) (pressed (keyBitVector (drv (world c)))) (scan_codes (lastdata (drv (world c)))
          (unat (extendCount (drv (world c)))) (stream kDT_Keyboard (pending (world c)))) = (cs, S)"
    and "length cs \<le> 31" and "\<forall>x \<in> set cs. ordinary (drv (world c)) x"
  shows "\<exists>c' es. interruptHandler E c = Some c' \<and> trace c' = trace c @ es \<and> pending (world c') = []
    \<and> (cs \<noteq> [] \<longrightarrow> Wake kDT_Keyboard \<in> set es)
    \<and> kb_out (drv (world (packet_ready E kDT_Keyboard c'))) = kb_out (drv (world c))
        @ map (\<lambda>(x, t). KeyEvent (ucast (adb_of (drv (world c)) x)) (is_press x) t) (stamped (kb_clock K) (kb_ticks (drv (world c))) cs)"
proof -
  let ?k = "drv (world c)"
  obtain k1 where k1: "kb_interrupts K (stream kDT_Keyboard (pending (world c))) ?k = Some k1"
      and sim: "sim K ?k (scan_codes (lastdata ?k) (unat (extendCount ?k)) (stream kDT_Keyboard (pending (world c)))) k1"
    using interrupts_sim [OF assms(5)] by blast
  obtain k2 where k2: "kb_packetReady K k1 = Some k2"
      "kb_out k2 = kb_out ?k @ map (\<lambda>(x, t). KeyEvent (ucast (adb_of ?k x)) (is_press x) t) (stamped (kb_clock K) (kb_ticks ?k) cs)"
    by (rule interrupts_ready [OF assms(5-10) k1])
  have "kb_ticks k1 = kb_ticks ?k + length cs" using sim assms(8) by (simp add: sim_def)
  moreover obtain c' es where c': "handle_interrupt_loop E False False c = Some c'" "trace c' = trace c @ es" "pending (world c') = []"
      "drv (world c') = k1" "interruptInstalled c' kDT_Keyboard" "kb_ticks k1 \<noteq> kb_ticks ?k \<longrightarrow> Wake kDT_Keyboard \<in> set es"
    using handle_loop_types [OF assms(1,2,4) k1, of False False] by blast
  moreover have "drv (world (packet_ready E kDT_Keyboard c')) = k2"
    using assms(2) k2(1) c'(4,5) by (simp add: packet_ready_def keyboard_behind_def)
  ultimately show ?thesis using assms(3) k2(2) by (auto simp: interruptHandler_def handleInterrupt_def)
qed

definition keyboard_act :: "PS2DeviceType \<Rightarrow> u8 \<Rightarrow> touchpad kbd \<Rightarrow> PS2InterruptResult \<times> touchpad kbd" where
  "keyboard_act dt b k = (if dt = kDT_Keyboard then (case kb_interruptOccurred desk_env b k of Some r \<Rightarrow> r | None \<Rightarrow> (kPS2IR_packetBuffering, k))
     else (kPS2IR_packetBuffering, k))"

definition typing_env :: "((PS2DeviceType \<times> u8) list \<times> touchpad kbd) env" where
  "typing_env = (fifo_env keyboard_act)\<lparr>env_packet := \<lambda>dt (q, k). (q, case kb_packetReady desk_env k of Some k \<Rightarrow> k | None \<Rightarrow> k)\<rparr>"

lemma typing_env_client: "output_buffer typing_env fst" "keyboard_behind typing_env desk_env snd"
  using fifo_buffer [of keyboard_act]
  by (simp_all add: output_buffer_def typing_env_def)
    (auto simp: keyboard_behind_def fifo_env_def keyboard_act_def split: list.split prod.split)

lemma typing_passes_controller_witness:
  "\<exists>c' es. interruptHandler typing_env ((ctl_init ([(kDT_Mouse, 0x1e), (kDT_Keyboard, 0x2e), (kDT_Mouse, 0xe0), (kDT_Keyboard, 0x2e), (kDT_Keyboard, 0xae)], stock_keyboard))
        \<lparr>interruptInstalled := (\<lambda>_. True)\<rparr>) = Some c' \<and> trace c' = es \<and> fst (world c') = [] \<and> Wake kDT_Keyboard \<in> set es
     \<and> kb_out (snd (world (packet_ready typing_env kDT_Keyboard c'))) = [KeyEvent 0x08 True 0, KeyEvent 0x08 False 1]"
proof -
  define d where "d = ((ctl_init ([(kDT_Mouse, 0x1e), (kDT_Keyboard, 0x2e), (kDT_Mouse, 0xe0), (kDT_Keyboard, 0x2e), (kDT_Keyboard, 0xae)], stock_keyboard))
      \<lparr>interruptInstalled := (\<lambda>_. True)\<rparr> :: ((PS2DeviceType \<times> u8) list \<times> touchpad kbd) ctl)"
  have d: "trace d = []" "ignoreInterrupts d = 0" "interruptInstalled d kDT_Keyboard" by (simp_all add: d_def ctl_init_def)
  have w: "snd (world d) = stock_keyboard" "stream kDT_Keyboard (fst (world d)) = [0x2e, 0x2e, 0xae]" by (simp_all add: d_def ctl_init_def)
  have edges: "key_edges PS2flagsStock {} (scan_codes 0 0 [0x2e, 0x2e, 0xae]) = ([(1, 0x2e), (1, 0xae)], {})"
    by (simp add: raw_key_def stock_defs)
  have adb: "adb_of stock_keyboard (1, 0x2e) = 0x08" "adb_of stock_keyboard (1, 0xae) = 0x08"
    by (simp_all add: adb_of_def raw_key_def stock_keyboard_fields stock_defs)
  have "PS2flagsStock ! 0x2e AND 1 = 0" by (simp add: stock_defs)
  then have o: "\<forall>x \<in> set [(1, 0x2e), (1, 0xae)]. ordinary (snd (world d)) x"
    unfolding w by (auto simp: ordinary_def adb raw_key_def stock_keyboard_fields stock_defs)
  have ok: "kb_ok stock_keyboard" by (rule init_ok [OF stock_keyboard_init])
  have edges': "key_edges (PS2flags (snd (world d))) (pressed (keyBitVector (snd (world d)))) (scan_codes (lastdata (snd (world d)))
      (unat (extendCount (snd (world d)))) (stream kDT_Keyboard (fst (world d)))) = ([(1, 0x2e), (1, 0xae)], {})"
    unfolding w by (simp only: stock_keyboard_fields unsigned_0) (rule edges)
  have "kb_ok (snd (world d))" "queued (snd (world d)) = []" "macroInversion (snd (world d)) = None" "length [(1, 0x2e), (1, 0xae)] \<le> 31"
    by (simp_all add: w ok stock_keyboard_fields)
  note t = typing_passes_controller [OF typing_env_client d(2,3) this(1-3) edges' this(4) o, unfolded w(1) d(1)]
  show ?thesis unfolding d_def [symmetric] using t by (simp add: stock_keyboard_fields desk_env_def adb is_press_def)
qed

end
