(* ===== verification/KeyboardActions.thy ===== *)
theory KeyboardActions
  imports KeyboardEvents
begin

text \<open>
  The textual swipe actions: what the parser makes of a well-formed action, and the actions the driver starts with.
\<close>

section \<open>Writing an action\<close>

definition hex_char :: "nat \<Rightarrow> char" where
  "hex_char d = (if d < 10 then char_of (48 + d) else char_of (87 + d))"

definition key_text :: "nat \<times> bool \<Rightarrow> string" where
  "key_text key = [hex_char (fst key div 16), hex_char (fst key mod 16), CHR '' '', if snd key then CHR ''d'' else CHR ''u'']"

fun action_text :: "(nat \<times> bool) list \<Rightarrow> string" where
  "action_text [] = []"
| "action_text [key] = key_text key"
| "action_text (key # keys) = key_text key @ CHR '','' # CHR '' '' # action_text keys"

definition key_entry :: "nat \<times> bool \<Rightarrow> u16" where
  "key_entry key = of_nat (fst key) OR (if snd key then 0 else 0x1000)"

lemma hex_digit_char:
  assumes "d < 16"
  shows "hex_digit (hex_char d) = Some (of_nat d)" "hex_char d \<noteq> CHR '' ''"
proof -
  have c: "of_char (hex_char d) = (if d < 10 then 48 + d else 87 + d)"
    using assms by (simp add: hex_char_def)
  then show "hex_digit (hex_char d) = Some (of_nat d)" using assms by (simp add: hex_digit_def Let_def)
  have "of_char (hex_char d) \<noteq> (of_char (CHR '' '') :: nat)" using assms unfolding c by simp
  then show "hex_char d \<noteq> CHR '' ''" by metis
qed

lemma two_digits: "push_bit 4 (of_nat (n div 16)) + of_nat (n mod 16) = (of_nat n :: u32)"
proof -
  have "(of_nat n :: u32) = of_nat (16 * (n div 16) + n mod 16)" by simp
  then show ?thesis by (simp only: of_nat_add of_nat_mult) (simp add: push_bit_eq_mult mult.commute)
qed

lemma ucast_small: "n < 256 \<Longrightarrow> ucast (of_nat n :: u32) = (of_nat n :: u16)"
  by (simp add: unsigned_of_nat take_bit_nat_eq_self)

lemma parse_two_digits:
  assumes "n < 256"
  shows "parseHex [CHR '' ''] (hex_char (n div 16) # hex_char (n mod 16) # CHR '' '' # s) 0 = Some (CHR '' '' # s, of_nat n)"
proof -
  have "n div 16 < 16" "n mod 16 < 16" using assms by simp_all
  then show ?thesis by (simp only: parseHex.simps hex_digit_char list.set option.case) (simp add: two_digits hex_digit_char)
qed

lemma parse_one_key:
  assumes "fst key < 256" "i < length dest"
  shows "parse_action (key_text key @ rest) i dest =
    (case rest of [] \<Rightarrow> (True, Suc i, dest[i := key_entry key])
     | ch # r \<Rightarrow> if ch = CHR '','' then parse_action (dropWhile (\<lambda>x. x = CHR '' '') r) (Suc i) (dest[i := key_entry key])
                 else (False, Suc i, dest[i := key_entry key]))"
proof -
  have "parseHex [CHR '' ''] (key_text key @ rest) 0 = Some (CHR '' '' # (if snd key then CHR ''d'' else CHR ''u'') # rest, of_nat (fst key))"
    using parse_two_digits [OF assms(1)] by (simp add: key_text_def del: parseHex.simps)
  moreover have "key_text key @ rest \<noteq> []" by (simp add: key_text_def)
  ultimately show ?thesis using assms
    by (subst parse_action.simps) (simp add: Let_def key_entry_def ucast_small split: list.split)
qed

lemma parse_action_text:
  "keys \<noteq> [] \<Longrightarrow> \<forall>key \<in> set keys. fst key < 256 \<Longrightarrow> i + length keys \<le> length dest \<Longrightarrow>
     parse_action (action_text keys) i dest
       = (True, i + length keys, take i dest @ map key_entry keys @ drop (i + length keys) dest)"
proof (induction keys arbitrary: i dest rule: action_text.induct)
  case (2 key)
  then show ?case using parse_one_key [of key i dest "[]"] by (simp add: upd_conv_take_nth_drop)
next
  case (3 key k2 keys)
  have ne: "action_text (k2 # keys) \<noteq> []" "hd (action_text (k2 # keys)) = hex_char (fst k2 div 16)"
    by (cases keys; simp add: key_text_def)+
  moreover have "hex_char (fst k2 div 16) \<noteq> CHR '' ''" using 3(3) by (intro hex_digit_char(2)) auto
  ultimately have sp: "dropWhile (\<lambda>x. x = CHR '' '') (action_text (k2 # keys)) = action_text (k2 # keys)"
    by (cases "action_text (k2 # keys)") auto
  have "take (Suc i) (dest[i := key_entry key]) = take i dest @ [key_entry key]"
    using 3(4) by (simp add: take_Suc_conv_app_nth)
  then show ?case
    using 3 parse_one_key [of key i dest "CHR '','' # CHR '' '' # action_text (k2 # keys)"] sp by simp
qed simp

lemma end_mark:
  assumes "length xs < length d"
  shows "(xs @ drop (length xs) d)[length xs := z] = xs @ z # drop (Suc (length xs)) d"
proof -
  have "drop (length xs) d = d ! length xs # drop (Suc (length xs)) d" using assms by (rule Cons_nth_drop_Suc [symmetric])
  then show ?thesis by (simp add: list_update_append)
qed

text \<open>
  A well-formed action is read back exactly: the text of any list of at least one key press or release with
  two-digit codes that fits the array becomes the codes with bit 12 set on releases, followed by the 0 that ends them.
\<close>

theorem action_round_trip:
  assumes "keys \<noteq> []" and "\<forall>key \<in> set keys. fst key < 256" and "length keys < length dest"
  shows "parseAction (action_text keys) dest = (True, map key_entry keys @ 0 # drop (Suc (length keys)) dest)"
proof -
  have "(map key_entry keys @ drop (length keys) dest)[length keys := 0] = map key_entry keys @ 0 # drop (Suc (length keys)) dest"
    using end_mark [of "map key_entry keys" dest 0] assms(3) by simp
  then show ?thesis using parse_action_text [of keys 0 dest] assms by (simp add: parseAction_def)
qed

lemma action_round_trip_witness:
  "parseAction ''3b d, 7e u'' [9, 9, 9, 9] = (True, [0x3b, 0x107e, 0, 9])"
proof -
  have "action_text [(0x3b, True), (0x7e, False)] = ''3b d, 7e u''" by code_simp
  then show ?thesis using action_round_trip [of "[(0x3b, True), (0x7e, False)]" "[9, 9, 9, 9]"] by (simp add: key_entry_def)
qed

section \<open>Swipes type their action\<close>

lemma key_entry_parts:
  assumes "fst key < 256"
  shows "ucast (key_entry key AND 0xff) = (of_nat (fst key) :: u8)" "isset (key_entry key) 0x1000 \<longleftrightarrow> \<not> snd key"
    "key_entry key = 0 \<longleftrightarrow> key = (0, True)"
proof -
  define b :: u8 where "b = of_nat (fst key)"
  have e: "key_entry key = ucast b OR (if snd key then 0 else 0x1000)"
    using assms by (simp add: key_entry_def b_def unsigned_of_nat take_bit_nat_eq_self)
  show "ucast (key_entry key AND 0xff) = (of_nat (fst key) :: u8)"
    unfolding e b_def [symmetric] by (rule bit_word_eqI) (auto simp: bit_simps less_Suc_eq numeral_eq_Suc)
  have "isset (key_entry key) (2 ^ 12) \<longleftrightarrow> \<not> snd key"
    unfolding e and_exp_eq_0_iff_not_bit using bit_imp_le_length [of b 12] by (auto simp: bit_simps)
  then show "isset (key_entry key) 0x1000 \<longleftrightarrow> \<not> snd key" by simp
  have "unat b = fst key" using assms by (simp add: b_def unsigned_of_nat take_bit_nat_eq_self)
  then have "b = 0 \<longleftrightarrow> fst key = 0" by (metis unat_eq_zero)
  moreover have "ucast (ucast b :: u16) = b" by (rule bit_word_eqI) (simp add: bit_simps)
  then have "key_entry key = 0 \<longleftrightarrow> b = 0 \<and> snd key"
    unfolding e by (auto simp: or_eq_0_iff)
  ultimately show "key_entry key = 0 \<longleftrightarrow> key = (0, True)" by (cases key) auto
qed

lemma send_keys_events:
  "\<forall>key \<in> set keys. fst key < 256 \<Longrightarrow>
     kb_out (send_keys E (map key_entry keys) k)
       = kb_out k @ map (\<lambda>(key, t). KeyEvent (of_nat (fst key)) (snd key) t) (stamped (kb_clock E) (kb_ticks k) keys)"
proof (induction keys arbitrary: k)
  case (Cons key keys)
  then have b: "fst key < 256" by simp
  have "ucast (of_nat (fst key) :: u8) = (of_nat (fst key) :: u32)"
    using b by (simp add: unsigned_of_nat take_bit_nat_eq_self)
  then show ?case
    using Cons key_entry_parts [OF b]
    by (simp add: dispatch_now_def kb_uptime_def dispatchKeyboardEventX_def kb_emit_def)
qed simp

text \<open>
  C34. A swipe types the action configured for it: once the setting \<open>ActionSwipe\<close> of a swipe is a well-formed action,
  the trackpad's message for that swipe sends exactly its presses and releases, in order, each at its own time.  A press
  of the key with ADB code 0 is excepted: its entry is the 0 that ends the array.
\<close>

theorem swipe_types_action:
  assumes "keys \<noteq> []" and "\<forall>key \<in> set keys. fst key < 256" and "length keys < length (actionSwipe k sw)" and "(0, True) \<notin> set keys"
  shows "\<exists>k'. kb_receiveMessage E sw (set_action sw (action_text keys) k) = Some k'
    \<and> kb_out k' = kb_out k @ map (\<lambda>(key, t). KeyEvent (of_nat (fst key)) (snd key) t) (stamped (kb_clock E) (kb_ticks k) keys)"
proof -
  let ?d = "map key_entry keys @ 0 # drop (Suc (length keys)) (actionSwipe k sw)"
  have d: "parse_action (action_text keys) 0 (actionSwipe k sw) = (True, length keys, map key_entry keys @ drop (length keys) (actionSwipe k sw))"
    using parse_action_text [OF assms(1,2), of 0 "actionSwipe k sw"] assms(3) by simp
  have "(map key_entry keys @ drop (length keys) (actionSwipe k sw))[length keys := 0] = ?d"
    using end_mark [of "map key_entry keys" "actionSwipe k sw" 0] assms(3) by simp
  then have "snd (parseAction (action_text keys) (actionSwipe k sw)) = ?d" using assms(3) by (simp add: parseAction_def d)
  moreover have "takeWhile (\<lambda>c. c \<noteq> 0) ?d = map key_entry keys"
  proof -
    have "\<forall>c \<in> set (map key_entry keys). c \<noteq> 0" using key_entry_parts(3) assms(2,4) by auto
    then show ?thesis by (subst takeWhile_append2) auto
  qed
  ultimately show ?thesis
    using send_keys_events [OF assms(2), of E "set_action sw (action_text keys) k"]
    by (simp add: kb_receiveMessage_def sendKeySequence_def set_action_def)
qed

lemma swipe_types_action_witness:
  "\<exists>k'. kb_receiveMessage desk_env SwipeUp (set_action SwipeUp ''3b d, 7e d, 7e u, 3b u'' stock_keyboard) = Some k'
    \<and> kb_out k' = [KeyEvent 0x3b True 0, KeyEvent 0x7e True 1, KeyEvent 0x7e False 2, KeyEvent 0x3b False 3]"
proof -
  have t: "action_text [(0x3b, True), (0x7e, True), (0x7e, False), (0x3b, False)] = ''3b d, 7e d, 7e u, 3b u''" by code_simp
  have l: "length (actionSwipe stock_keyboard SwipeUp) = 16" by code_simp
  have c: "kb_clock desk_env = \<lparr>uptime = of_nat, to_ns = (\<lambda>t. t)\<rparr>" by (simp add: desk_env_def)
  show ?thesis
    using swipe_types_action [of "[(0x3b, True), (0x7e, True), (0x7e, False), (0x3b, False)]" stock_keyboard SwipeUp desk_env, unfolded t]
    by (simp add: l stock_keyboard_fields c)
qed

end
