(* ===== verification/SwipeStack.thy ===== *)
theory SwipeStack
  imports KeyboardStack Gestures KeyboardActions
begin

text \<open>
  Swipes from the trackpad to the keys they type: the trackpad driver announces them through the nub of its device, the
  controller passes them to the message action of the keyboard driver, which sends the keys of the action.
\<close>

section \<open>The way of a message\<close>

text \<open>\<open>R\<close>: what the message action of the keyboard driver does to the world.\<close>

definition nub_dispatchKeyboardMessage :: "(swipe_message \<Rightarrow> 'h \<Rightarrow> 'h) \<Rightarrow> swipe_message \<Rightarrow> 'h ctl \<Rightarrow> 'h ctl" where
  "nub_dispatchKeyboardMessage R m c = dispatchMessage (\<lambda>dt. R) kDT_Keyboard m c"

definition swipes_arrive :: "(swipe_message \<Rightarrow> 'h \<Rightarrow> 'h) \<Rightarrow> swipe_message list \<Rightarrow> 'h ctl \<Rightarrow> 'h ctl" where
  "swipes_arrive R ms c = fold (nub_dispatchKeyboardMessage R) ms c"

text \<open>The keyboard driver takes the messages.\<close>

definition takes_swipes :: "(swipe_message \<Rightarrow> 'h \<Rightarrow> 'h) \<Rightarrow> 'm kb_env \<Rightarrow> ('h \<Rightarrow> 'm kbd) \<Rightarrow> bool" where
  "takes_swipes R K drv \<longleftrightarrow> (\<forall>m h k. kb_receiveMessage K m (drv h) = Some k \<longrightarrow> drv (R m h) = k)"

text \<open>The keys of an action, and the key events in what the keyboard driver sent.\<close>

definition action_keys :: "u16 list \<Rightarrow> (u32 \<times> bool) list" where
  "action_keys cs = map (\<lambda>c. (ucast (c AND 0xff), \<not> isset c 0x1000)) (takeWhile (\<lambda>c. c \<noteq> 0) cs)"

definition keys_sent :: "kb_event list \<Rightarrow> (u32 \<times> bool) list" where
  "keys_sent es = concat (map (\<lambda>e. case e of KeyEvent key down t \<Rightarrow> [(key, down)] | _ \<Rightarrow> []) es)"

lemma keys_sent_append [simp]: "keys_sent (xs @ ys) = keys_sent xs @ keys_sent ys"
  by (simp add: keys_sent_def)

lemma low_code: "(ucast (ucast (c AND 0xff :: u16) :: u8) :: u32) = ucast (c AND 0xff)"
proof -
  have "c AND 0xff = take_bit 8 c" by (simp add: take_bit_eq_mask mask_eq_exp_minus_1)
  then show ?thesis by (simp only:) (rule bit_word_eqI, auto simp: bit_simps)
qed

lemma send_keys_sent:
  "keys_sent (kb_out (send_keys K cs k)) = keys_sent (kb_out k) @ map (\<lambda>c. (ucast (c AND 0xff), \<not> isset c 0x1000)) cs
    \<and> actionSwipe (send_keys K cs k) = actionSwipe k"
  by (induction cs arbitrary: k)
    (simp_all add: dispatch_now_def kb_uptime_def dispatchKeyboardEventX_def kb_emit_def keys_sent_def low_code)

lemma swipe_received:
  assumes "0 \<in> set (actionSwipe k m)"
  obtains k' where "kb_receiveMessage K m k = Some k'" "actionSwipe k' = actionSwipe k"
    "keys_sent (kb_out k') = keys_sent (kb_out k) @ action_keys (actionSwipe k m)"
  using that assms send_keys_sent [of K "takeWhile (\<lambda>c. c \<noteq> 0) (actionSwipe k m)" k]
  by (simp add: kb_receiveMessage_def sendKeySequence_def action_keys_def)

lemma swipes_typed:
  assumes R: "takes_swipes R K drv"
  shows "messageInstalled c kDT_Keyboard \<Longrightarrow> \<forall>m. 0 \<in> set (actionSwipe (drv (world c)) m) \<Longrightarrow>
    keys_sent (kb_out (drv (world (swipes_arrive R ms c)))) =
      keys_sent (kb_out (drv (world c))) @ concat (map (\<lambda>m. action_keys (actionSwipe (drv (world c)) m)) ms)"
proof (induction ms arbitrary: c)
  case (Cons m ms)
  obtain k where k: "kb_receiveMessage K m (drv (world c)) = Some k" "actionSwipe k = actionSwipe (drv (world c))"
      "keys_sent (kb_out k) = keys_sent (kb_out (drv (world c))) @ action_keys (actionSwipe (drv (world c)) m)"
    using swipe_received [of "drv (world c)" m K] Cons.prems(2) by blast
  let ?c = "c\<lparr>world := R m (world c)\<rparr>"
  have d: "drv (world ?c) = k" using R k(1) by (simp add: takes_swipes_def)
  have "swipes_arrive R (m # ms) c = swipes_arrive R ms ?c"
    using Cons.prems(1) by (simp add: swipes_arrive_def nub_dispatchKeyboardMessage_def dispatchMessage_def)
  then show ?case using Cons.IH [of ?c] Cons.prems d k(2,3) by simp
qed (simp add: swipes_arrive_def)

text \<open>
  C13. Swipes from finger to key: while the fingers stay down, whatever the reports, the messages of the trackpad driver
  alternate in direction on each axis, and passed on through nub and controller they make the keyboard driver send the
  keys of their actions, in order, completely, and nothing else.
\<close>

theorem swipes_reach_keys:
  assumes "dispatch_reports E rs s = Some s'" and "\<forall>r \<in> set rs. r_z r \<ge> z_finger s" and "swipes s = no_swipe"
    and "takes_swipes R K drv" and "messageInstalled c kDT_Keyboard" and "kb_ok (drv (world c))"
  shows "\<exists>ms. keyboard_messages (out s') = keyboard_messages (out s) @ ms
     \<and> no_repeats (filter vertical ms) \<and> no_repeats (filter (\<lambda>m. \<not> vertical m) ms)
     \<and> keys_sent (kb_out (drv (world (swipes_arrive R ms c)))) =
         keys_sent (kb_out (drv (world c))) @ concat (map (\<lambda>m. action_keys (actionSwipe (drv (world c)) m)) ms)"
proof -
  have "\<forall>m. 0 \<in> set (actionSwipe (drv (world c)) m)" using assms(6) by (simp add: kb_ok_def tables_ok_def)
  then show ?thesis
    using swipes_follow_alternate [OF assms(1,2,3)] swipes_typed [OF assms(4,5)] by fast
qed

text \<open>The stock keyboard behind the controller.\<close>

definition take_swipe :: "swipe_message \<Rightarrow> touchpad kbd \<Rightarrow> touchpad kbd" where
  "take_swipe m k = (case kb_receiveMessage desk_env m k of Some k \<Rightarrow> k | None \<Rightarrow> k)"

definition swipe_desk :: "touchpad kbd ctl" where
  "swipe_desk = (ctl_init stock_keyboard)\<lparr>messageInstalled := (\<lambda>_. True)\<rparr>"

lemma swipes_reach_keys_witness:
  "\<exists>s' ms. dispatch_reports \<lparr>uptime = of_nat, to_ns = (\<lambda>t. t)\<rparr> [\<lparr>r_x = 100, r_y = 90, r_z = 60, r_fingers = 1, r_buttons = 0\<rparr>\<lparr>r_fingers := 3\<rparr>, \<lparr>r_x = 100, r_y = 90, r_z = 60, r_fingers = 1, r_buttons = 0\<rparr>\<lparr>r_y := 900, r_fingers := 3\<rparr>] sample_alps = Some s'
     \<and> keyboard_messages (out s') = ms
     \<and> keys_sent (kb_out (world (swipes_arrive take_swipe ms swipe_desk))) = concat (map (\<lambda>m. action_keys (actionSwipe stock_keyboard m)) ms)"
proof -
  obtain s' where s': "dispatch_reports \<lparr>uptime = of_nat, to_ns = (\<lambda>t. t)\<rparr> [\<lparr>r_x = 100, r_y = 90, r_z = 60, r_fingers = 1, r_buttons = 0\<rparr>\<lparr>r_fingers := 3\<rparr>, \<lparr>r_x = 100, r_y = 90, r_z = 60, r_fingers = 1, r_buttons = 0\<rparr>\<lparr>r_y := 900, r_fingers := 3\<rparr>] sample_alps = Some s'"
    using reports_total [OF sample_ok(1,2)] by blast
  have "keyboard_messages (out sample_alps) = []" by (simp add: sample_alps_def new_alps_fields keyboard_messages_def)
  moreover have "takes_swipes take_swipe desk_env (\<lambda>k. k)" by (simp add: takes_swipes_def take_swipe_def)
  moreover have "world swipe_desk = stock_keyboard" "messageInstalled swipe_desk kDT_Keyboard" by (simp_all add: swipe_desk_def ctl_init_def)
  moreover have "kb_ok stock_keyboard" by (rule init_ok [OF stock_keyboard_init])
  moreover have "keys_sent (kb_out stock_keyboard) = []" by (simp add: stock_keyboard_fields keys_sent_def)
  ultimately show ?thesis
    using swipes_reach_keys [OF s' _ sample_ok(5), of take_swipe desk_env "\<lambda>k. k" swipe_desk] s' sample_ok(7) by auto
qed

end
