(* ===== verification/PowerStack.thy ===== *)
theory PowerStack
  imports KeyboardStack
begin

text \<open>
  Sleep and wake-up with the real drivers: the power actions of the keyboard and the trackpad driver, which submit
  their requests to the controller that calls them.
\<close>

section \<open>What the trackpad commands leave alone\<close>

definition leaves :: "('r \<Rightarrow> 'v) \<Rightarrow> 'v \<Rightarrow> 'r option \<Rightarrow> bool" where
  "leaves v w m \<longleftrightarrow> (\<forall>r. m = Some r \<longrightarrow> v r = w)"

lemma leaves_Some [simp]: "leaves v w (Some r) \<longleftrightarrow> v r = w" "leaves v w None"
  by (simp_all add: leaves_def)

lemma leaves_bind: "leaves u w m \<Longrightarrow> (\<And>r. u r = w \<Longrightarrow> leaves v w (f r)) \<Longrightarrow> leaves v w (m \<bind> f)"
  by (cases m) simp_all

lemma leaves_case: "(\<And>a b. p = (a, b) \<Longrightarrow> leaves v w (f a b)) \<Longrightarrow> leaves v w (case p of (a, b) \<Rightarrow> f a b)"
  by (cases p) simp

lemma leaves_if: "(c \<Longrightarrow> leaves v w m) \<Longrightarrow> (\<not> c \<Longrightarrow> leaves v w m') \<Longrightarrow> leaves v w (if c then m else m')"
  by simp

lemma leaves_pure: "(\<And>r. leaves v w (f r)) \<Longrightarrow> leaves v w (m \<bind> f)"
  by (cases m) simp_all

text \<open>A port that leaves a view of what is behind it as it is.\<close>

locale quiet_port =
  fixes submit :: "'d submit" and view :: "'d \<Rightarrow> 'v"
  assumes submit_view: "submit cs d = Some (n, cs', d') \<Longrightarrow> view d' = view d"
begin

lemmas binds = leaves_bind [of view] leaves_bind [of "view \<circ> snd"] leaves_bind [of "view \<circ> snd \<circ> snd"]

lemmas leaves_rules = binds leaves_case leaves_if

lemma stack: "view d = w \<Longrightarrow> leaves (view \<circ> snd \<circ> snd) w (submit_stack cap submit cs d)"
  by (auto simp: leaves_def submit_stack_def dest: submit_view)

lemma and_then_leaves:
  "(\<And>d. view d = w \<Longrightarrow> leaves (view \<circ> snd) w (f d)) \<Longrightarrow> (\<And>d. view d = w \<Longrightarrow> leaves (view \<circ> snd) w (g d)) \<Longrightarrow> view d = w
    \<Longrightarrow> leaves (view \<circ> snd) w (and_then f g d)"
  unfolding and_then_def by (rule leaves_bind [where u = "view \<circ> snd"]) auto

lemma all_of_leaves:
  "(\<And>f d. f \<in> set fs \<Longrightarrow> view d = w \<Longrightarrow> leaves (view \<circ> snd) w (f d)) \<Longrightarrow> view d = w \<Longrightarrow> leaves (view \<circ> snd) w (all_of fs d)"
  by (induction fs arbitrary: d) (auto intro!: and_then_leaves)

lemma short: "view d = w \<Longrightarrow> leaves view w (ps2_command_short submit c d)"
  unfolding ps2_command_short_def by (intro leaves_rules stack) auto

lemma long: "view d = w \<Longrightarrow> leaves view w (ps2_command submit v c d)"
  unfolding ps2_command_def by (intro leaves_rules stack) auto

lemma shorts: "view d = w \<Longrightarrow> leaves view w (ps2_commands_short submit cs d)"
  by (induction cs arbitrary: d) (auto intro!: leaves_bind short)

lemma rpt: "view d = w \<Longrightarrow> leaves (view \<circ> snd \<circ> snd) w (alps_rpt_cmd submit a b c d)"
  unfolding alps_rpt_cmd_def Let_def by (intro leaves_rules stack) auto

lemma enter: "view d = w \<Longrightarrow> leaves (view \<circ> snd) w (alps_enter_command_mode submit d)"
  unfolding alps_enter_command_mode_def by (intro leaves_rules rpt) auto

lemma exit_mode: "view d = w \<Longrightarrow> leaves (view \<circ> snd) w (alps_exit_command_mode submit d)"
  unfolding alps_exit_command_mode_def by (intro leaves_rules stack) auto

lemma or_exit_leaves:
  "(\<And>d. view d = w \<Longrightarrow> leaves (view \<circ> snd) w (f d)) \<Longrightarrow> view d = w \<Longrightarrow> leaves (view \<circ> snd) w (or_exit submit f d)"
  unfolding or_exit_def by (rule leaves_bind [where u = "view \<circ> snd"]) (auto intro!: leaves_bind exit_mode)

lemma nibble: "view d = w \<Longrightarrow> leaves (view \<circ> snd) w (alps_command_mode_send_nibble submit pd v d)"
  unfolding alps_command_mode_send_nibble_def Let_def
  by (rule leaves_pure, intro leaves_rules stack) auto

lemma set_addr: "view d = w \<Longrightarrow> leaves (view \<circ> snd) w (alps_command_mode_set_addr submit pd a d)"
  unfolding alps_command_mode_set_addr_def by (intro leaves_rules stack all_of_leaves) (auto intro!: nibble)

lemma read_reg: "view d = w \<Longrightarrow> leaves (view \<circ> snd) w (alps_command_mode_read_reg submit pd a d)"
  unfolding alps_command_mode_read_reg_def by (intro leaves_rules stack set_addr) auto

lemma write_value: "view d = w \<Longrightarrow> leaves (view \<circ> snd) w (alps_command_mode_write_value submit pd v d)"
  unfolding alps_command_mode_write_value_def by (intro and_then_leaves nibble)

lemma write_reg: "view d = w \<Longrightarrow> leaves (view \<circ> snd) w (alps_command_mode_write_reg submit pd a v d)"
  unfolding alps_command_mode_write_reg_def by (intro and_then_leaves write_value set_addr)

lemma with_reg_leaves:
  "(\<And>v d. view d = w \<Longrightarrow> leaves (view \<circ> snd) w (f v d)) \<Longrightarrow> view d = w \<Longrightarrow> leaves (view \<circ> snd) w (with_reg submit pd a f d)"
  unfolding with_reg_def by (rule leaves_bind [OF read_reg]) auto

lemmas mode_leaves = and_then_leaves all_of_leaves or_exit_leaves with_reg_leaves enter exit_mode write_value write_reg nibble
  short long shorts

lemma passthrough_v2: "view d = w \<Longrightarrow> leaves (view \<circ> snd) w (alps_passthrough_mode_v2 submit b d)"
  unfolding alps_passthrough_mode_v2_def Let_def by (intro leaves_rules stack) auto

lemma tap_mode: "view d = w \<Longrightarrow> leaves (view \<circ> snd) w (alps_tap_mode submit b d)"
  unfolding alps_tap_mode_def alps_get_status_def Let_def by (intro leaves_rules stack rpt) auto

lemma passthrough_v3: "view d = w \<Longrightarrow> leaves (view \<circ> snd) w (alps_passthrough_mode_v3 submit pd a b d)"
  unfolding alps_passthrough_mode_v3_def by (intro leaves_rules enter with_reg_leaves write_value exit_mode) auto

lemma trackstick_v3: "view d = w \<Longrightarrow> leaves (view \<circ> snd) w (alps_setup_trackstick_v3 submit pd a d)"
  unfolding alps_setup_trackstick_v3_def
  by (intro leaves_rules passthrough_v3 rpt stack and_then_leaves nibble all_of_leaves) (auto intro: enter write_reg exit_mode)

lemma rate_enable: "view d = w \<Longrightarrow> leaves (view \<circ> snd) w (rate_and_enable submit r d)"
  unfolding rate_and_enable_def by (intro leaves_rules long short) auto

lemma resolution: "view d = w \<Longrightarrow> leaves (view \<circ> snd \<circ> snd) w (alps_get_v3_v7_resolution submit a pd d)"
  unfolding alps_get_v3_v7_resolution_def Let_def
  by (intro leaves_rules read_reg) (auto intro!: leaves_pure)

lemma plain: "leaves (view \<circ> snd) w (f d) \<Longrightarrow> leaves (view \<circ> snd \<circ> snd) w (plain_step f pd d)"
  unfolding plain_step_def by (intro leaves_rules) auto

lemma monitor: "view d = w \<Longrightarrow> leaves view w (alps_absolute_mode_v6 submit pd d)"
proof -
  have word: "view d = w \<Longrightarrow> leaves view w (alps_monitor_mode_send_word submit pd x d)" for x d
    unfolding alps_monitor_mode_send_word_def by (intro leaves_rules nibble) auto
  have mode: "view d = w \<Longrightarrow> leaves view w (alps_monitor_mode submit b d)" for b d
    unfolding alps_monitor_mode_def by (intro leaves_rules short shorts stack) auto
  have reg: "view d = w \<Longrightarrow> leaves view w (alps_monitor_mode_write_reg submit pd a x d)" for a x d
    unfolding alps_monitor_mode_write_reg_def by (intro leaves_rules short word) auto
  show "view d = w \<Longrightarrow> leaves view w (alps_absolute_mode_v6 submit pd d)"
    unfolding alps_absolute_mode_v6_def by (intro leaves_rules mode reg) auto
qed

lemma init_leaves: "view d = w \<Longrightarrow> leaves (view \<circ> snd \<circ> snd) w (run_hw_init submit h pd d)"
proof (cases h)
  case HwInitV1V2
  assume "view d = w"
  then have "leaves (view \<circ> snd) w (alps_hw_init_v1_v2 submit pd d)"
    unfolding alps_hw_init_v1_v2_def alps_absolute_mode_v1_v2_def
    by (intro all_of_leaves) (auto intro!: leaves_bind [of view] shorts short tap_mode passthrough_v2)
  then show ?thesis by (simp add: HwInitV1V2 plain)
next
  case HwInitV3
  assume "view d = w"
  then have "leaves (view \<circ> snd) w (alps_hw_init_v3 submit pd d)"
    unfolding alps_hw_init_v3_def alps_absolute_mode_v3_def
    by (intro and_then_leaves or_exit_leaves all_of_leaves)
      (auto intro!: leaves_rules trackstick_v3 mode_leaves rate_enable)
  then show ?thesis by (simp add: HwInitV3 plain)
next
  case HwInitRushmoreV3
  assume "view d = w"
  then have "leaves (view \<circ> snd) w (alps_hw_init_rushmore_v3 submit pd d)"
    unfolding alps_hw_init_rushmore_v3_def
    by (intro and_then_leaves or_exit_leaves all_of_leaves)
      (auto intro!: leaves_rules trackstick_v3 mode_leaves)
  then show ?thesis by (simp add: HwInitRushmoreV3 plain)
next
  case HwInitV4
  assume "view d = w"
  then have "leaves (view \<circ> snd) w (alps_hw_init_v4 submit pd d)"
    unfolding alps_hw_init_v4_def alps_absolute_mode_v4_def
    by (intro and_then_leaves or_exit_leaves all_of_leaves)
      (auto intro!: leaves_rules mode_leaves rate_enable)
  then show ?thesis by (simp add: HwInitV4 plain)
next
  case HwInitDolphinV1
  assume "view d = w"
  then have "leaves (view \<circ> snd) w (alps_hw_init_dolphin_v1 submit d)"
    unfolding alps_hw_init_dolphin_v1_def by (intro leaves_rules short long rate_enable) auto
  then show ?thesis by (simp add: HwInitDolphinV1 plain)
next
  case HwInitV6
  assume "view d = w"
  then have "leaves (view \<circ> snd) w (alps_hw_init_v6 submit pd d)"
    unfolding alps_hw_init_v6_def by (intro leaves_rules shorts long passthrough_v2 monitor) auto
  then show ?thesis by (simp add: HwInitV6 plain)
next
  case HwInitV7
  assume "view d = w"
  then show ?thesis
    unfolding HwInitV7 run_hw_init.simps alps_hw_init_v7_def
    by (intro leaves_rules or_exit_leaves all_of_leaves and_then_leaves resolution)
      (auto intro!: mode_leaves rate_enable)
next
  case HwInitSs4V2
  assume "view d = w"
  then have "leaves (view \<circ> snd) w (alps_hw_init_ss4_v2 submit pd d)"
    unfolding alps_hw_init_ss4_v2_def by (intro leaves_rules shorts long exit_mode enter write_reg short) auto
  then show ?thesis by (simp add: HwInitSs4V2 plain)
qed

lemma reset_leaves: "view d = w \<Longrightarrow> leaves (view \<circ> snd) w (resetMouse submit d)"
  unfolding resetMouse_def by (intro leaves_rules stack) auto

lemma device_init_leaves: "view d = w \<Longrightarrow> leaves (view \<circ> snd \<circ> snd) w (deviceSpecificInit submit s d)"
  unfolding deviceSpecificInit_def Let_def by (rule leaves_pure) (intro leaves_rules init_leaves reset_leaves, auto)

lemma power_leaves: "leaves (view \<circ> snd) (view d) (tp_setDevicePowerState submit enable s d)"
  unfolding tp_setDevicePowerState_def initTouchPad_def setTouchPadEnable_def
  by (intro leaves_rules device_init_leaves reset_leaves) auto

end

section \<open>What the keyboard driver leaves alone\<close>

text \<open>The part of what is behind the nub that no message to the trackpad driver changes.\<close>

definition quiet_messages :: "('m \<Rightarrow> 'v) \<Rightarrow> 'm kb_env \<Rightarrow> bool" where
  "quiet_messages V E \<longleftrightarrow> (\<forall>msg m. V (snd (kb_message E msg m)) = V m)"

lemma mouse_basic [simp]:
  "mouse (kb_emit e k) = mouse k" "mouse (dispatchKeyboardEventX key down t k) = mouse k" "mouse (dispatch_now E key down k) = mouse k"
  by (simp_all add: kb_emit_def dispatchKeyboardEventX_def dispatch_now_def kb_uptime_def)

lemma mouse_keys [simp]:
  "mouse (onSleepEjectTimer E k) = mouse k" "mouse (sleep_key E down k) = mouse k" "mouse (toggle_fkeys E k) = mouse k"
  "mouse (track_modifier fl down k) = mouse k" "mouse (caps_lock E adb down k) = mouse k" "mouse (send_key fl adb down t k) = mouse k"
  "mouse (snd (delete_key c down t k)) = mouse k"
proof -
  show t: "mouse (onSleepEjectTimer E k) = mouse k" for k by (simp add: onSleepEjectTimer_def split: timer_func.split)
  show "mouse (sleep_key E down k) = mouse k" by (simp add: sleep_key_def Let_def t)
qed (simp_all add: toggle_fkeys_def track_modifier_def caps_lock_def send_key_def delete_key_def Let_def)

lemma mouse_held: "held_keys ns down t k = Some k' \<Longrightarrow> mouse k' = mouse k"
  by (induction ns arbitrary: k) (auto simp: bind_eq_Some_conv split: if_splits)

lemma mouse_levels:
  "modifyScreenBrightness E adb down ls k = Some k' \<Longrightarrow> mouse k' = mouse k"
  "modifyKeyboardBacklight E c down ls k = Some k' \<Longrightarrow> mouse k' = mouse k"
  by (auto simp: modifyScreenBrightness_def modifyKeyboardBacklight_def bind_eq_Some_conv split: option.splits)

lemma mouse_hack:
  "do { k \<leftarrow> held_keys xs False t k; k \<leftarrow> held_keys ys True t (dispatchKeyboardEventX adb down t k); Some (0, k) } = Some (c', k')
    \<Longrightarrow> mouse k' = mouse k"
  by (auto simp: bind_eq_Some_conv dest!: mouse_held)

lemma mouse_numpad: "numpad_key E c down t k = Some (c', k') \<Longrightarrow> mouse k' = mouse k"
proof (cases "\<exists>ls. backlightLevels k = Some ls \<and> checkModifierState (kMaskLeftControl OR kMaskLeftAlt) k")
  case True
  assume "numpad_key E c down t k = Some (c', k')"
  with True show ?thesis by (auto simp: numpad_key_def bind_eq_Some_conv dest!: mouse_levels)
next
  case False
  assume n: "numpad_key E c down t k = Some (c', k')"
  have eq: "(case (backlightLevels k, checkModifierState (kMaskLeftControl OR kMaskLeftAlt) k) of
      (Some levels, True) \<Rightarrow> f levels | _ \<Rightarrow> g) = g" for f and g :: "(nat \<times> 'a kbd) option"
    using False by (auto split: option.split bool.split)
  show ?thesis
    using n unfolding numpad_key_def eq Let_def by (simp only: split: if_split_asm) (auto simp del: held_keys.simps dest: mouse_hack)
qed

lemma message_view: "quiet_messages V E \<Longrightarrow> V (mouse (snd (dispatchMouseMessage E msg k))) = V (mouse k)"
  by (auto simp: quiet_messages_def dispatchMouseMessage_def split: prod.split) (metis snd_conv)

lemma toggle_view: "quiet_messages V E \<Longrightarrow> V (mouse (toggle_touchpad E k)) = V (mouse k)"
  unfolding toggle_touchpad_def Let_def by (simp add: message_view case_prod_beta)

lemma special_view: "quiet_messages V E \<Longrightarrow> special_key E c down t k = Some (c', k') \<Longrightarrow> V (mouse k') = V (mouse k)"
  unfolding special_key_def
  by (auto simp: toggle_view split: if_splits dest!: mouse_numpad) (metis mouse_keys(7) snd_conv)

lemma special_adb_mouse: "special_adb E adb down k = Some (a, e, k') \<Longrightarrow> mouse k' = mouse k"
  unfolding special_adb_def Let_def
  by (auto simp: bind_eq_Some_conv split: option.splits if_splits dest!: mouse_levels)

lemma finish_view: "quiet_messages V E \<Longrightarrow> finish_key E raw c down t k = Some k' \<Longrightarrow> V (mouse k') = V (mouse k)"
  unfolding finish_key_def Let_def
  by (auto simp: bind_eq_Some_conv message_view split: if_splits dest!: special_adb_mouse)

lemma packet_view:
  assumes q: "quiet_messages V E" and "dispatchKeyboardEventWithPacket E p k = Some (b, k')"
  shows "V (mouse k') = V (mouse k)"
proof -
  have s: "V (mouse k1) = w \<Longrightarrow> leaves (V \<circ> mouse \<circ> snd) w (special_key E c down t k1)" for k1 c down t w
    using special_view [OF q] by (auto simp: leaves_def)
  have f: "V (mouse k1) = w \<Longrightarrow> leaves (V \<circ> mouse) w (finish_key E raw c down t k1)" for k1 raw c down t w
    using finish_view [OF q] by (auto simp: leaves_def)
  have "leaves (V \<circ> mouse \<circ> snd) (V (mouse k)) (dispatchKeyboardEventWithPacket E p k)"
    unfolding dispatchKeyboardEventWithPacket_def Let_def
    by (intro leaves_pure [of _ _ _ "idx xs i" for xs i] leaves_if leaves_case s f leaves_bind [of "V \<circ> mouse \<circ> snd"] leaves_bind [of "V \<circ> mouse"]) simp_all
  then show ?thesis using assms(2) by (simp add: leaves_def)
qed

lemma release_view: "quiet_messages V E \<Longrightarrow> release_keys E t ns k = Some k' \<Longrightarrow> V (mouse k') = V (mouse k)"
  by (induction ns arbitrary: k) (auto simp: bind_eq_Some_conv split: if_splits dest!: packet_view)

section \<open>The drivers on the controller\<close>

definition power_view :: "'h ctl \<Rightarrow> bool \<times> int \<times> u32" where
  "power_view c = (hardwareOffline c, ignoreInterrupts c, currentPowerState c)"

lemma keeps_power_view: "keeps_power c c' \<longleftrightarrow> power_view c' = power_view c"
  by (auto simp: keeps_power_def power_view_def)

lemma stack_port_view: "stack_port E cs c = Some (n, cs', c') \<Longrightarrow> power_view c' = power_view c"
  unfolding stack_port_def by (auto simp: bind_eq_Some_conv keeps_power_view [symmetric] dest: blocking_keeps_power)

interpretation power_port: quiet_port "stack_port E" power_view for E
  by unfold_locales (rule stack_port_view)

text \<open>The power actions: that of the keyboard driver in the state \<open>k\<close>, that of the trackpad driver in the state \<open>s\<close>.\<close>

definition keyboard_power ::
    "'h env \<Rightarrow> (tp_message \<Rightarrow> 'h \<Rightarrow> bool option \<times> 'h) \<Rightarrow> 'h ctl kb_env \<Rightarrow> u64 \<Rightarrow> 'h ctl kbd \<Rightarrow> whatToDo \<Rightarrow> 'h ctl \<Rightarrow> 'h ctl option" where
  "keyboard_power E R K t k what c =
     map_option mouse (setDevicePowerState (nub_env E R ApplePS2KeyboardDevice K) t (what = kPS2C_EnableDevice) (k\<lparr>mouse := c\<rparr>))"

definition trackpad_power :: "'h env \<Rightarrow> alps \<Rightarrow> whatToDo \<Rightarrow> 'h ctl \<Rightarrow> 'h ctl option" where
  "trackpad_power E s what c = map_option snd (tp_setDevicePowerState (stack_port E) (what = kPS2C_EnableDevice) s c)"

text \<open>At each call the drivers are in some well-formed state.\<close>

definition real_drivers :: "'h env \<Rightarrow> (tp_message \<Rightarrow> 'h \<Rightarrow> bool option \<times> 'h) \<Rightarrow> 'h power_actions \<Rightarrow> bool" where
  "real_drivers E R P \<longleftrightarrow>
     (\<forall>what c. (\<exists>K t k. kb_ok k \<and> P kDT_Keyboard what c = keyboard_power E R K t k what c) \<and>
        (\<exists>s. configured s \<and> P kDT_Mouse what c = trackpad_power E s what c))"

lemma quiet_nub: "quiet_messages power_view (nub_env E R n K)"
  by (simp add: quiet_messages_def nub_env_def nub_dispatchMouseMessage_def dispatchMessage_def power_view_def)

lemma block_view: "kb_block (nub_env E R n K) cs k = Some k' \<Longrightarrow> power_view (mouse k') = power_view (mouse k)"
  by (auto simp: kb_block_def submit_stack_def nub_env_def bind_eq_Some_conv split: if_splits dest!: stack_port_view)

lemma initKeyboard_view:
  assumes "initKeyboard (nub_env E R n K) t k = Some k'"
  shows "power_view (mouse k') = power_view (mouse k)"
proof -
  let ?E = "nub_env E R n K"
  obtain k1 k2 where k: "kb_block ?E [write_data kDP_SetDefaults, expect_ack] k = Some k1" "release_keys ?E t [0..<512] k1 = Some k2"
    and rest: "(let k = setLEDs ?E (ledState k2) (k2\<lparr>keyBitVector := replicate 16 0, PS2modifierState := 0\<rparr>)
      in setKeyboardEnable ?E True (k\<lparr>extendCount := 0, kb_ring := ring_reset (kb_ring k)\<rparr>) \<bind>
        (\<lambda>k. kb_set_command_byte ?E 0x40 0 (mouse k) \<bind> (\<lambda>m. Some (k\<lparr>mouse := m\<rparr>)))) = Some k'"
    using assms by (auto simp: initKeyboard_def bind_eq_Some_conv)
  obtain k3 k4 m where e: "setKeyboardEnable ?E True k3 = Some k4" "power_view (mouse k3) = power_view (mouse k2)"
      and m: "kb_set_command_byte ?E 0x40 0 (mouse k4) = Some m" "k' = k4\<lparr>mouse := m\<rparr>"
    using rest by (auto simp: Let_def bind_eq_Some_conv setLEDs_def nub_env_def nub_submitRequest_def submitRequest_def log_def power_view_def)
  have "power_view m = power_view (mouse k4)"
    using m(1) by (auto simp: nub_env_def nub_setCommandByte_def keeps_power_view [symmetric] dest: setCommandByte_keeps_power)
  then show ?thesis
    using block_view [OF k(1)] release_view [OF quiet_nub k(2)] block_view [OF e(1) [unfolded setKeyboardEnable_def]] e(2) m(2) by simp
qed

lemma drivers_keep_power:
  assumes "real_drivers E R P"
  shows "driver_keeps_power P"
  unfolding driver_keeps_power_def keeps_power_view
proof (intro allI impI)
  fix dt what c c' assume P: "P dt what c = Some c'"
  show "power_view c' = power_view c"
  proof (cases dt)
    case kDT_Keyboard
    then obtain K t k where "keyboard_power E R K t k what c = Some c'" using assms P by (auto simp: real_drivers_def) metis
    then show ?thesis
      by (auto simp: keyboard_power_def setDevicePowerState_def setKeyboardEnable_def split: if_splits dest!: initKeyboard_view block_view)
  next
    case kDT_Mouse
    then obtain s where "trackpad_power E s what c = Some c'" using assms P by (auto simp: real_drivers_def) metis
    then show ?thesis
      using power_port.power_leaves [of c E "what = kPS2C_EnableDevice" s] by (auto simp: trackpad_power_def leaves_def)
  qed
qed

lemma drivers_return:
  assumes E: "finite_input E left" "accepts_input E" and "real_drivers E R P"
  shows "returns (P dt what c)"
proof (cases dt)
  case kDT_Keyboard
  obtain K t k where k: "kb_ok k" "P kDT_Keyboard what c = keyboard_power E R K t k what c"
    using assms(3) unfolding real_drivers_def by blast
  let ?E = "nub_env E R ApplePS2KeyboardDevice K"
  have E': "kb_returning ?E" by (rule nub_returning [OF E])
  have ok: "kb_ok (k\<lparr>mouse := c\<rparr>)" using k(1) by (simp add: kb_ok_mouse)
  obtain k1 where "initKeyboard ?E t (k\<lparr>mouse := c\<rparr>) = Some k1" by (rule initKeyboard_ok [OF E' ok])
  moreover obtain m where "setKeyboardEnable ?E False (k\<lparr>mouse := c\<rparr>) = Some (k\<lparr>mouse := c\<rparr>\<lparr>mouse := m\<rparr>)" by (rule enable_ok [OF E' ok])
  ultimately show ?thesis using k(2) by (simp add: kDT_Keyboard keyboard_power_def setDevicePowerState_def)
next
  case kDT_Mouse
  obtain s where s: "configured s" "P kDT_Mouse what c = trackpad_power E s what c"
    using assms(3) unfolding real_drivers_def by blast
  have S: "returning_port (stack_port E)" by (rule controller_port [OF E])
  have "configured (initTouchPad_state s)" using s(1) by (simp add: configured_def initTouchPad_state_def)
  then obtain ok t d where "deviceSpecificInit (stack_port E) (initTouchPad_state s) c = Some (ok, t, d)"
    using returning_port.device_init_ok [OF S] by blast
  moreover obtain r where "resetMouse (stack_port E) c = Some r" using returns_obtain [OF returning_port.reset_returns [OF S]] by blast
  ultimately show ?thesis using s(2)
    by (cases r) (simp add: kDT_Mouse trackpad_power_def tp_setDevicePowerState_def initTouchPad_def setTouchPadEnable_def)
qed

section \<open>What is written\<close>

lemma wrote_in_order: "wrote c [] (dispatch_in_order E dt b c)"
  by (simp add: dispatch_in_order_def wrote_dispatch wrote_refl)

lemma wrote_expect_loop: "expect_loop E dt x n held c = Some (b, c') \<Longrightarrow> wrote c [] c'"
  by (rule expect_loop.raw_induct [of "\<lambda>E dt x n held c (b, c'). wrote c [] c'" E dt x n held c "(b, c')", simplified])
    (auto split: prod.splits if_splits option.splits dest!: wrote_inb wrote_wait_output,
      (metis wrote_in_order wrote_silent)+)

lemma wrote_reads:
  "readDataPort E dt c = Some (b, c') \<Longrightarrow> wrote c [] c'" "readDataPort_expecting E dt x c = Some (b, c') \<Longrightarrow> wrote c [] c'"
  by (auto simp: readDataPort_def readDataPort_expecting_def dest: wrote_read_loop wrote_expect_loop)

text \<open>The command byte, read as \<open>b\<close>, written only when it changes.\<close>

definition command_byte_writes :: "u8 \<Rightarrow> u8 \<Rightarrow> u8 \<Rightarrow> (u16 \<times> u8) list" where
  "command_byte_writes bits clear b =
     (kCommandPort, kCP_GetCommandByte) #
     (if (b OR bits) AND NOT clear \<noteq> b then [(kCommandPort, kCP_SetCommandByte), (kDataPort, (b OR bits) AND NOT clear)] else [])"

lemma wrote_ignore [simp]: "wrote (c\<lparr>ignoreInterrupts := i\<rparr>) ws c' = wrote c ws c'" "wrote c ws (c'\<lparr>ignoreInterrupts := i\<rparr>) = wrote c ws c'"
  "wrote (c\<lparr>hardwareOffline := h\<rparr>) ws c' = wrote c ws c'" "wrote (c\<lparr>requestQueue := q\<rparr>) ws c' = wrote c ws c'"
  by (simp_all add: wrote_def)

lemma wrote_setCommandByte:
  assumes "setCommandByte E bits clear c = Some (b, c')"
  shows "wrote c (command_byte_writes bits clear b) c'"
proof -
  obtain c1 c2 where 1: "writeCommandPort E 0x20 (c\<lparr>ignoreInterrupts := ignoreInterrupts c + 1\<rparr>) = Some c1" "readDataPort E kDT_Keyboard c1 = Some (b, c2)"
      and rest: "(let c = c2\<lparr>ignoreInterrupts := ignoreInterrupts c2 - 1\<rparr>; new = (b OR bits) AND NOT clear in
        if b \<noteq> new then do { c \<leftarrow> writeCommandPort E kCP_SetCommandByte c; c \<leftarrow> writeDataPort E new c; Some (b, c) } else Some (b, c)) = Some (b, c')"
    using assms by (auto simp: setCommandByte_def bind_eq_Some_conv Let_def split: if_splits)
  have w: "wrote c [(kCommandPort, 0x20)] c2" using wrote_trans [OF wrote_write(2) [OF 1(1)] wrote_reads(1) [OF 1(2)]] by simp
  show ?thesis
  proof (cases "(b OR bits) AND NOT clear = b")
    case True
    then show ?thesis using rest w by (simp add: command_byte_writes_def Let_def) (metis wrote_ignore(2))
  next
    case False
    then obtain c3 where "writeCommandPort E kCP_SetCommandByte (c2\<lparr>ignoreInterrupts := ignoreInterrupts c2 - 1\<rparr>) = Some c3"
        "writeDataPort E ((b OR bits) AND NOT clear) c3 = Some c'"
      using rest by (auto simp: Let_def bind_eq_Some_conv split: if_splits)
    then have "wrote c2 [(kCommandPort, 0x60), (kDataPort, (b OR bits) AND NOT clear)] c'"
      using wrote_trans [OF wrote_write(2) wrote_write(1)] by fastforce
    from wrote_trans [OF w this] show ?thesis using False by (simp add: command_byte_writes_def)
  qed
qed

text \<open>A request on the stack of a driver while nothing waits in the queue: what its commands write.\<close>

lemma wrote_request:
  assumes "stack_port E cs c = Some (n, cs', c')" and "requestQueue c = []" "\<not> hardwareOffline c"
    and w: "\<And>p c0 n cs' p' c'. process_commands E cs p c0 = Some (n, cs', p', c') \<Longrightarrow> wrote c0 ws c'"
  shows "wrote c ws c' \<and> requestQueue c' = [] \<and> hardwareOffline c' = hardwareOffline c"
proof -
  let ?r = "\<lparr>commands = cs, completion = StackRequest\<rparr>"
  have q: "c\<lparr>requestQueue := []\<rparr> = c" using assms(2) by simp
  obtain r where r: "processRequest E ?r c = Some (n, r, c')"
    using assms(1) by (auto simp: stack_port_def submitRequestAndBlock_def processRequestQueue_def assms(2) q bind_eq_Some_conv)
  have "wrote c ws c'" using r assms(3) w by (auto simp: processRequest_def complete_def bind_eq_Some_conv) (metis wrote_ignore(1))
  then show ?thesis using port_step_fields [OF port_step_processRequest [OF r]] assms(2) by simp
qed

lemma sent_byte: "inOrOut (send_mouse b) = b" "inOrOut (write_data b) = b"
proof -
  have "ucast (ucast b :: u32) = b" by (rule bit_word_eqI) (auto simp: bit_simps)
  then show "inOrOut (send_mouse b) = b" "inOrOut (write_data b) = b" by (simp_all add: inOrOut_def send_mouse_def write_data_def)
qed

lemma wrote_disable_keyboard:
  "process_commands E [write_data b, expect_ack] p c = Some (n, cs', p', c') \<Longrightarrow> wrote c [(kDataPort, b)] c'"
  using sent_byte(2) [of b]
  by (auto simp: process_command_def write_data_def expect_ack_def bind_eq_Some_conv split: if_splits
      dest!: wrote_write(1) wrote_reads(2)) (auto simp: wrote_def)

lemma wrote_reset_trackpad:
  "process_commands E [send_mouse b, read_data, read_data] p c = Some (n, cs', p', c') \<Longrightarrow> wrote c [(kCommandPort, 0xD4), (kDataPort, b)] c'"
  using sent_byte(1) [of b]
  by (auto simp: process_command_def readDataPort_into_def send_mouse_def read_data_def bind_eq_Some_conv split: if_splits
      dest!: wrote_write wrote_reads) (auto simp: wrote_def)

text \<open>What is written when both drivers are told to go to sleep; \<open>b\<close> and \<open>b'\<close>: the command byte, as read before and after.\<close>

definition sleep_writes :: "u8 \<Rightarrow> u8 \<Rightarrow> (u16 \<times> u8) list" where
  "sleep_writes b b' =
     command_byte_writes 0 (kCB_EnableKeyboardIRQ OR kCB_EnableMouseIRQ) b
     @ [(kCommandPort, kCP_TransmitToMouse), (kDataPort, kDP_Reset)]
     @ [(kDataPort, kDP_SetDefaultsAndDisable)]
     @ command_byte_writes (kCB_DisableKeyboardClock OR kCB_DisableMouseClock) 0 b'"

lemma trackpad_sleeps:
  assumes "trackpad_power E s kPS2C_DisableDevice c = Some c'" and "requestQueue c = []" "\<not> hardwareOffline c"
  shows "wrote c [(kCommandPort, 0xD4), (kDataPort, 0xFF)] c' \<and> requestQueue c' = [] \<and> hardwareOffline c' = hardwareOffline c"
proof -
  obtain n cs' where "stack_port E [send_mouse 0xFF, read_data, read_data] c = Some (n, cs', c')"
    using assms(1) by (auto simp: trackpad_power_def tp_setDevicePowerState_def setTouchPadEnable_def resetMouse_def submit_stack_def bind_eq_Some_conv)
  then show ?thesis using assms(2,3) by (rule wrote_request) (erule wrote_reset_trackpad)
qed

lemma keyboard_sleeps:
  assumes "keyboard_power E R K t k kPS2C_DisableDevice c = Some c'" and "requestQueue c = []" "\<not> hardwareOffline c"
  shows "wrote c [(kDataPort, 0xF5)] c'"
proof -
  obtain n cs' where "stack_port E [write_data 0xF5, expect_ack] c = Some (n, cs', c')"
    using assms(1) by (auto simp: keyboard_power_def setDevicePowerState_def setKeyboardEnable_def kb_block_def nub_env_def submit_stack_def bind_eq_Some_conv)
  then have "wrote c [(kDataPort, 0xF5)] c' \<and> requestQueue c' = [] \<and> hardwareOffline c' = hardwareOffline c"
    using assms(2,3) by (rule wrote_request) (erule wrote_disable_keyboard)
  then show ?thesis by simp
qed

lemma setCommandByte_rest:
  "setCommandByte E x y c = Some (b, c') \<Longrightarrow> requestQueue c' = requestQueue c \<and> powerControlInstalled c' = powerControlInstalled c"
proof -
  assume s: "setCommandByte E x y c = Some (b, c')"
  then have "powerControlInstalled c' = powerControlInstalled c" using handlers_setCommandByte [OF s] by (simp add: handlers_of_def)
  moreover have "requestQueue c' = requestQueue c"
    using s unfolding setCommandByte_def by (auto simp: bind_eq_Some_conv Let_def split: if_splits dest!: port_step_ops port_step_fields)
  ultimately show ?thesis by simp
qed

lemma trackpad_handlers: "trackpad_power E s kPS2C_DisableDevice c = Some c' \<Longrightarrow> powerControlInstalled c' = powerControlInstalled c"
  by (auto simp: trackpad_power_def tp_setDevicePowerState_def setTouchPadEnable_def resetMouse_def submit_stack_def bind_eq_Some_conv handlers_of_def
      dest!: handlers_port)

lemma sleep_wrote:
  assumes P: "real_drivers E R P" and "go_to_sleep E P c = Some c'"
    and c: "requestQueue c = []" "\<not> hardwareOffline c" "powerControlInstalled c kDT_Mouse" "powerControlInstalled c kDT_Keyboard"
  shows "\<exists>b b'. wrote c (sleep_writes b b') c'"
proof -
  obtain b b' c1 c2 c3 where s: "setCommandByte E 0 0x03 (c\<lparr>ignoreInterrupts := ignoreInterrupts c + 1\<rparr>) = Some (b, c1)"
      "dispatchDriverPowerControl P kPS2C_DisableDevice kDT_Mouse c1 = Some c2"
      "dispatchDriverPowerControl P kPS2C_DisableDevice kDT_Keyboard c2 = Some c3"
      "setCommandByte E 0x30 0 (c3\<lparr>hardwareOffline := True\<rparr>) = Some (b', c')"
    using assms(2) by (auto simp: go_to_sleep_def bind_eq_Some_conv)
  have 1: "wrote c (command_byte_writes 0 0x03 b) c1" using wrote_setCommandByte [OF s(1)] by simp
  have f1: "requestQueue c1 = []" "powerControlInstalled c1 = powerControlInstalled c" "\<not> hardwareOffline c1"
    using setCommandByte_rest [OF s(1)] setCommandByte_keeps_power [OF s(1)] c(1,2) by (simp_all add: keeps_power_def)
  obtain st where st: "trackpad_power E st kPS2C_DisableDevice c1 = Some c2"
    using s(2) P f1(2) c(3) by (auto simp: dispatchDriverPowerControl_def real_drivers_def) metis
  have 2: "wrote c1 [(kCommandPort, 0xD4), (kDataPort, 0xFF)] c2" "requestQueue c2 = []" "\<not> hardwareOffline c2"
    using trackpad_sleeps [OF st f1(1,3)] f1(3) by simp_all
  have "powerControlInstalled c2 kDT_Keyboard" using trackpad_handlers [OF st] f1(2) c(4) by simp
  then obtain K t k where k: "keyboard_power E R K t k kPS2C_DisableDevice c2 = Some c3"
    using s(3) P by (auto simp: dispatchDriverPowerControl_def real_drivers_def) metis
  have 3: "wrote c2 [(kDataPort, 0xF5)] c3" by (rule keyboard_sleeps [OF k 2(2,3)])
  have 4: "wrote c3 (command_byte_writes 0x30 0 b') c'" using wrote_setCommandByte [OF s(4)] by simp
  from wrote_trans [OF 1 wrote_trans [OF 2(1) wrote_trans [OF 3 4]]] show ?thesis unfolding sleep_writes_def by auto
qed

section \<open>Sleep and wake-up\<close>

lemma wake_up_returns:
  assumes "finite_input E left" "accepts_input E" "\<And>dt what c. returns (P dt what c)"
  shows "returns (wake_up E P c)"
  unfolding wake_up_def setCommandByte_def dispatchDriverPowerControl_def Let_def
  by (intro returns_rules returns_Some resetController_returns [OF assms(1,2)] read_returns [OF assms(1)] write_returns [OF assms(2)] assms(3))

lemma wake_wrote:
  assumes "wake_up E P c = Some c'"
  shows "\<exists>ws b. written (trace c') = ws @ command_byte_writes (kCB_EnableKeyboardIRQ OR kCB_EnableMouseIRQ OR kCB_SystemFlag) 0 b"
proof -
  obtain c1 c2 b where s: "setCommandByte E 0x07 0 c1 = Some (b, c2)" "c' = c2\<lparr>ignoreInterrupts := ignoreInterrupts c2 - 1\<rparr>"
    using assms unfolding wake_up_def Let_def by (auto simp: bind_eq_Some_conv case_prod_beta)
  then show ?thesis using wrote_setCommandByte [OF s(1)] by (auto simp: wrote_def)
qed

text \<open>
  C12. Sleep and wake-up with the real drivers behind the controller, in whatever well-formed states they are: going to
  sleep always ends; it turns the interrupts off, resets the trackpad, disables the keyboard and stops both clocks, in
  this order and writing nothing else.  Waking up always ends as well, with the hardware on line, interrupts handled
  again, and the command byte that enables them written last, after both drivers have set up their devices.
\<close>

theorem drivers_sleep_and_wake:
  assumes "finite_input E left" and "accepts_input E" and "real_drivers E R P" and "power_ok c"
    and "currentPowerState c \<noteq> kPS2PowerStateSleep" and "requestQueue c = []" and "\<And>dt. powerControlInstalled c dt"
  shows "\<exists>c1 c2 b b' b'' ws. setPowerStateGated E P kPS2PowerStateSleep c = Some c1
    \<and> written (trace c1) = written (trace c) @ sleep_writes b b' \<and> hardwareOffline c1 \<and> interruptHandler E c1 = Some c1
    \<and> setPowerStateGated E P kPS2PowerStateNormal c1 = Some c2
    \<and> \<not> hardwareOffline c2 \<and> ignoreInterrupts c2 = 0 \<and> currentPowerState c2 = kPS2PowerStateNormal
    \<and> written (trace c2) = ws @ command_byte_writes (kCB_EnableKeyboardIRQ OR kCB_EnableMouseIRQ OR kCB_SystemFlag) 0 b''"
proof -
  have P: "driver_keeps_power P" "returns (P dt what c)" for dt what c
    using drivers_keep_power [OF assms(3)] drivers_return [OF assms(1-3)] by simp_all
  have on: "\<not> hardwareOffline c" using assms(4,5) by (simp add: power_ok_def)
  obtain s where s: "go_to_sleep E P c = Some s" using returns_obtain [OF go_to_sleep_returns [where P = P, OF assms(1,2) P(2)]] by blast
  let ?c1 = "log AckPowerState (s\<lparr>currentPowerState := kPS2PowerStateSleep\<rparr>)"
  have 1: "setPowerStateGated E P kPS2PowerStateSleep c = Some ?c1" using s assms(5) by (simp add: setPowerStateGated_def)
  obtain b b' where b: "wrote c (sleep_writes b b') s" using sleep_wrote [OF assms(3) s assms(6) on assms(7) assms(7)] by blast
  have off: "hardwareOffline ?c1" "ignoreInterrupts ?c1 \<noteq> 0"
    using sleep_power [OF P(1) s] assms(4,5) by (simp_all add: power_ok_def log_def)
  obtain w where w: "wake_up E P ?c1 = Some w" using returns_obtain [OF wake_up_returns [where P = P, OF assms(1,2) P(2)]] by blast
  let ?c2 = "log AckPowerState (w\<lparr>currentPowerState := kPS2PowerStateNormal\<rparr>)"
  have 2: "setPowerStateGated E P kPS2PowerStateNormal ?c1 = Some ?c2" using w by (simp add: setPowerStateGated_def log_def)
  have "power_ok ?c2"
    using power_state_ok [OF P(1) 2] power_state_ok [OF P(1) 1 assms(4)] by simp
  then have "\<not> hardwareOffline ?c2" "ignoreInterrupts ?c2 = 0" by (simp_all add: power_ok_def log_def)
  moreover obtain ws b'' where "written (trace w) = ws @ command_byte_writes 0x07 0 b''" using wake_wrote [OF w] by auto
  moreover have "interruptHandler E ?c1 = Some ?c1" using off(2) by (simp add: interruptHandler_def)
  ultimately show ?thesis using 1 2 off(1) b by (intro exI [of _ ?c1] exI [of _ ?c2]) (auto simp: wrote_def log_def)
qed

lemma drivers_sleep_and_wake_witness:
  "\<exists>P c1 c2. real_drivers (fifo_env idle) (\<lambda>msg h. (None, h)) P
    \<and> setPowerStateGated (fifo_env idle) P 0 ((ctl_init ([(kDT_Keyboard, 0xfa)], ()))\<lparr>powerControlInstalled := (\<lambda>_. True)\<rparr>) = Some c1 \<and> hardwareOffline c1
    \<and> setPowerStateGated (fifo_env idle) P 2 c1 = Some c2 \<and> \<not> hardwareOffline c2"
proof -
  let ?c = "(ctl_init ([(kDT_Keyboard, 0xfa)], ()))\<lparr>powerControlInstalled := (\<lambda>_. True)\<rparr> :: ((PS2DeviceType \<times> u8) list \<times> unit) ctl"
  let ?E = "fifo_env idle" and ?R = "\<lambda>msg h. (None, h)"
  let ?s = "set_priv (zero_data\<lparr>proto_version := ALPS_PROTO_V1\<rparr>) new_alps"
  have "settled (priv ?s)" "proto_version (priv ?s) \<in> supported" by (simp_all add: settled_def zero_data_def set_priv_def supported_def)
  from fifo_port.set_protocol_configured [where act = idle and d = ?c, OF this] obtain s :: alps where s: "configured s" by blast
  have k: "kb_init ?c None = Some (the (kb_init ?c None))" by (simp add: kb_init_def Let_def)
  define P where "P dt what c = (case dt of kDT_Keyboard \<Rightarrow> keyboard_power ?E ?R bare_env 0 (the (kb_init ?c None)) what c
      | kDT_Mouse \<Rightarrow> trackpad_power ?E s what c)" for dt what c
  have P: "real_drivers ?E ?R P" using s init_ok [OF k] by (auto simp: real_drivers_def P_def)
  have "power_ok ?c" "currentPowerState ?c \<noteq> 0" "requestQueue ?c = []" "powerControlInstalled ?c dt" for dt
    by (simp_all add: ctl_init_def power_ok_def)
  from drivers_sleep_and_wake [OF fifo_finite fifo_accepts P this] show ?thesis using P by blast
qed

end
