(* ===== verification/MomentumScroll.thy ===== *)
theory MomentumScroll
  imports TouchPad
begin

text \<open>
  The scroll timer of \<open>VoodooPS2TouchPadBase::onScrollTimer\<close>: the momentum decreases at every tick.
\<close>

section \<open>Momentum scrolling stops\<close>

primrec scroll_ticks :: "clock \<Rightarrow> nat \<Rightarrow> 'a touchpad_scheme \<Rightarrow> 'a touchpad_scheme option" where
  "scroll_ticks E 0 s = Some s"
| "scroll_ticks E (Suc n) s = onScrollTimer E s \<bind> scroll_ticks E n"

text \<open>The amount of scrolling left, in the fine units of the remainder.\<close>

definition momentum_left :: "'a touchpad_scheme \<Rightarrow> int" where
  "momentum_left s = momentumscrollcurrent (momentum s) * momentumscrolldivisor s + momentumscrollrest1 (momentum s)"

definition momentum_ok :: "'a touchpad_scheme \<Rightarrow> bool" where
  "momentum_ok s \<longleftrightarrow> momentumscrollinterval (momentum s) \<noteq> 0 \<and> timers s ScrollTimer
     \<and> 0 \<le> momentumscrollmultiplier s \<and> momentumscrollmultiplier s < momentumscrolldivisor s
     \<and> (0 \<le> momentumscrollcurrent (momentum s) \<and> 0 \<le> momentumscrollrest1 (momentum s)
        \<or> momentumscrollcurrent (momentum s) \<le> 0 \<and> momentumscrollrest1 (momentum s) \<le> 0)"

lemma i64_zero: "i64 w = 0 \<longleftrightarrow> w = 0"
  using signed_word_eqI [of w 0] by auto

lemma sdiv_smod_signs:
  assumes "0 < (d::int)"
  shows "0 \<le> c \<Longrightarrow> 0 \<le> c sdiv d \<and> 0 \<le> c smod d" "c \<le> 0 \<Longrightarrow> c sdiv d \<le> 0 \<and> c smod d \<le> 0"
proof -
  show "0 \<le> c \<Longrightarrow> 0 \<le> c sdiv d \<and> 0 \<le> c smod d"
    using assms by (simp add: sdiv_nonneg_eq smod_nonneg_eq pos_imp_zdiv_nonneg_iff)
  have "(- c) sdiv d = - (c sdiv d)" "(- c) smod d = - (c smod d)"
    by (simp_all add: signed_divide_int_def signed_modulo_int_def)
  then show "c \<le> 0 \<Longrightarrow> c sdiv d \<le> 0 \<and> c smod d \<le> 0"
    using assms by (metis neg_0_le_iff_le neg_le_0_iff_le sdiv_nonneg_eq smod_nonneg_eq pos_imp_zdiv_nonneg_iff
      order_less_imp_le pos_mod_sign)
qed

lemma momentum_step_less:
  fixes cur m d r :: int
  assumes "0 \<le> m" "m < d" "cur \<noteq> 0" "0 \<le> cur \<and> 0 \<le> r \<or> cur \<le> 0 \<and> r \<le> 0"
  shows "\<bar>cur * m + r\<bar> < \<bar>cur * d + r\<bar>" "0 \<le> cur \<Longrightarrow> 0 \<le> cur * m + r" "cur \<le> 0 \<Longrightarrow> cur * m + r \<le> 0"
proof -
  show nn: "0 \<le> cur \<Longrightarrow> 0 \<le> cur * m + r" and np: "cur \<le> 0 \<Longrightarrow> cur * m + r \<le> 0"
    using assms by (auto simp: mult_nonpos_nonneg add_nonpos_nonpos)
  show "\<bar>cur * m + r\<bar> < \<bar>cur * d + r\<bar>"
  proof (cases "0 < cur")
    case True
    then have "cur * m < cur * d" using assms by simp
    then show ?thesis using nn True by linarith
  next
    case False
    then have "cur * d < cur * m" using assms by simp
    then show ?thesis using np False by linarith
  qed
qed

lemma onScrollTimer_step:
  assumes ok: "momentum_ok s" and cur: "momentumscrollcurrent (momentum s) \<noteq> 0"
  shows "\<exists>s'. onScrollTimer E s = Some s' \<and> 
     (momentumscrollcurrent (momentum s') = 0 \<or> momentum_ok s' \<and> \<bar>momentum_left s'\<bar> < \<bar>momentum_left s\<bar>)"
proof -
  define m where "m = momentum s"
  define c where "c = momentumscrollcurrent m * momentumscrollmultiplier s + momentumscrollrest1 m"
  let ?d = "momentumscrolldivisor s"
  have o: "momentumscrollinterval m \<noteq> 0" "timers s ScrollTimer" "0 < ?d" "0 \<le> momentumscrollmultiplier s"
    "momentumscrollmultiplier s < ?d" "momentumscrollcurrent m \<noteq> 0"
    "0 \<le> momentumscrollcurrent m \<and> 0 \<le> momentumscrollrest1 m \<or> momentumscrollcurrent m \<le> 0 \<and> momentumscrollrest1 m \<le> 0"
    using ok cur by (auto simp: momentum_ok_def m_def)
  have less: "\<bar>c\<bar> < \<bar>momentum_left s\<bar>"
    using momentum_step_less(1) [OF o(4,5,6,7)] by (simp add: c_def momentum_left_def m_def [symmetric])
  have split: "c sdiv ?d * ?d + c smod ?d = c" by (simp add: sdiv_mult_smod_eq)
  have sg: "0 \<le> c sdiv ?d \<and> 0 \<le> c smod ?d \<or> c sdiv ?d \<le> 0 \<and> c smod ?d \<le> 0"
    using sdiv_smod_signs [OF o(3), of c] by linarith
  show ?thesis
    using o less split sg cur
    by (auto simp: onScrollTimer_def cdiv_nonzero cmod_nonzero i64_zero clock_get_uptime_def Let_def m_def [symmetric] c_def [symmetric] momentum_ok_def
      momentum_left_def dispatchScrollWheelEventX_def emit_def setTimerTimeout_def)
qed

text \<open>
  C24. Momentum scrolling always ends: with a multiplier below the divisor, whatever the user's speed, after
  finitely many timer ticks (at most the momentum in fine units) the momentum is zero, and then the
  timer handler posts nothing and does not arm the timer again.
\<close>

theorem momentum_scroll_stops:
  assumes "momentum_ok s"
  shows "\<exists>n \<le> nat \<bar>momentum_left s\<bar>. \<exists>s'. scroll_ticks E n s = Some s' \<and> momentumscrollcurrent (momentum s') = 0
     \<and> onScrollTimer E s' = Some s'"
  using assms
proof (induction "nat \<bar>momentum_left s\<bar>" arbitrary: s rule: less_induct)
  case less
  show ?case
  proof (cases "momentumscrollcurrent (momentum s) = 0")
    case True
    then show ?thesis by (intro exI [of _ 0]) (simp add: onScrollTimer_def)
  next
    case False
    obtain s1 where s1: "onScrollTimer E s = Some s1"
       "momentumscrollcurrent (momentum s1) = 0 \<or> momentum_ok s1 \<and> \<bar>momentum_left s1\<bar> < \<bar>momentum_left s\<bar>"
      using onScrollTimer_step [OF less.prems False] by blast
    have pos: "0 < \<bar>momentum_left s\<bar>"
      using less.prems False momentum_step_less(1) [of "momentumscrollmultiplier s" "momentumscrolldivisor s" "momentumscrollcurrent (momentum s)" "momentumscrollrest1 (momentum s)"]
      unfolding momentum_ok_def momentum_left_def by linarith
    from s1(2) show ?thesis
    proof
      assume z: "momentumscrollcurrent (momentum s1) = 0"
      then show ?thesis using s1(1) pos
        by (intro exI [of _ "Suc 0"]) (simp add: onScrollTimer_def [of E s1] nat_le_iff Suc_le_eq)
    next
      assume r: "momentum_ok s1 \<and> \<bar>momentum_left s1\<bar> < \<bar>momentum_left s\<bar>"
      then have "nat \<bar>momentum_left s1\<bar> < nat \<bar>momentum_left s\<bar>" using pos by simp
      from less.hyps [OF this] r obtain n s' where n: "n \<le> nat \<bar>momentum_left s1\<bar>" "scroll_ticks E n s1 = Some s'"
         "momentumscrollcurrent (momentum s') = 0" "onScrollTimer E s' = Some s'" by blast
      then show ?thesis
        using s1(1) r by (intro exI [of _ "Suc n"]) auto
    qed
  qed
qed

lemma momentum_scroll_stops_witness:
  "\<exists>n \<le> 6. \<exists>s'. scroll_ticks \<lparr>uptime = (\<lambda>n. of_nat n), to_ns = (\<lambda>t. t)\<rparr> n (new_touchpad\<lparr>ivars := (\<lambda>_. 0)(I_momentumscrollmultiplier := 1, I_momentumscrolldivisor := 2), timers := \<lambda>_. True, momentum := (momentum new_touchpad)\<lparr>momentumscrollinterval := 1, momentumscrollcurrent := 3\<rparr>\<rparr>) = Some s' \<and> momentumscrollcurrent (momentum s') = 0"
  using momentum_scroll_stops [of "(new_touchpad\<lparr>ivars := (\<lambda>_. 0)(I_momentumscrollmultiplier := 1, I_momentumscrolldivisor := 2), timers := \<lambda>_. True, momentum := (momentum new_touchpad)\<lparr>momentumscrollinterval := 1, momentumscrollcurrent := 3\<rparr>\<rparr>)" "\<lparr>uptime = (\<lambda>n. of_nat n), to_ns = (\<lambda>t. t)\<rparr>"]
  by (auto simp: momentum_ok_def momentum_left_def new_touchpad_def)


end
