(* ===== verification/RegisterProtocol.thy ===== *)
theory RegisterProtocol
  imports AlpsCommand
begin

text \<open>
  The register protocol: addresses and values travel as nibbles, each nibble as a command that the trackpad
  accepts with at most one parameter.  What a trackpad that knows the table can read back from the bytes.
\<close>

section \<open>A port that acknowledges everything\<close>

text \<open>The state is the list of bytes sent to the trackpad; bytes read are zero.\<close>

definition acking :: "u8 list submit" where
  "acking cs log = Some (length cs, cs, log @ map inOrOut (filter (\<lambda>c. command c = kPS2C_SendMouseCommandAndCompareAck) cs))"

interpretation acking: returning_port acking
  by unfold_locales (auto simp: acking_def)

section \<open>Nibbles on the wire\<close>

definition nibble_bytes :: "alps_nibble_commands \<Rightarrow> u8 list" where
  "nibble_bytes nc = ucast (nc_command nc) # (if drop_bit 12 (nc_command nc) AND 0xf = 0 then [] else [nc_data nc])"

text \<open>The trackpad's side: which nibbles a list of bytes stands for.\<close>

fun decode_nibbles :: "alps_nibble_commands list \<Rightarrow> nat \<Rightarrow> u8 list \<Rightarrow> nat list option" where
  "decode_nibbles table 0 bs = (if bs = [] then Some [] else None)"
| "decode_nibbles table (Suc n) bs =
     (case List.find (\<lambda>i. take (length (nibble_bytes (table ! i))) bs = nibble_bytes (table ! i)) [0..<16] of
        None \<Rightarrow> None
      | Some i \<Rightarrow> map_option (Cons i) (decode_nibbles table n (drop (length (nibble_bytes (table ! i))) bs)))"

text \<open>A table entry that fits a request: at most one parameter or one answer.\<close>

definition fits_request :: "alps_nibble_commands \<Rightarrow> bool" where
  "fits_request nc \<longleftrightarrow> unat (drop_bit 12 (nc_command nc) AND 0xf) + unat (drop_bit 8 (nc_command nc) AND 0xf) \<le> 1"

definition register_tables :: "alps_nibble_commands list set" where
  "register_tables = {alps_v3_nibble_commands, alps_v4_nibble_commands}"

lemma register_table_fits: "T \<in> register_tables \<Longrightarrow> list_all fits_request T"
  by (auto simp: register_tables_def alps_v3_nibble_commands_def alps_v4_nibble_commands_def fits_request_def)

lemma register_table_length: "T \<in> register_tables \<Longrightarrow> length T = 16"
  by (auto simp: register_tables_def alps_v3_nibble_commands_def alps_v4_nibble_commands_def)

lemma inOrOut_send [simp]: "inOrOut (send_mouse b) = b" "command (send_mouse b) = kPS2C_SendMouseCommandAndCompareAck"
  "command read_data = kPS2C_ReadDataPort"
  by (simp_all add: inOrOut_def send_mouse_def read_data_def ucast_up_ucast_id is_up)

lemma low_byte: "ucast (w AND 0xff) = (ucast w :: u8)" for w :: u32
  by (rule bit_word_eqI) (auto simp: bit_simps less_Suc_eq numeral_eq_Suc)

lemma acking_nibble:
  assumes T: "nibble_commands pd = T" "T \<in> register_tables" and v: "v < 16"
  shows "alps_command_mode_send_nibble acking pd (int v) log = Some (True, log @ nibble_bytes (T ! v))"
proof -
  define a where "a = unat (drop_bit 12 (nc_command (T ! v)) AND 0xf)"
  define b where "b = unat (drop_bit 8 (nc_command (T ! v)) AND 0xf)"
  have "fits_request (T ! v)" using register_table_fits [OF T(2)] register_table_length [OF T(2)] v by (simp add: list_all_length)
  then have ab: "a = 0 \<and> b \<le> 1 \<or> a = 1 \<and> b = 0" by (auto simp: fits_request_def a_def b_def)
  have s: "drop_bit 12 (nc_command (T ! v)) AND 0xf = 0 \<longleftrightarrow> a = 0" by (simp add: a_def unat_eq_zero)
  show ?thesis
    using register_table_length [OF T(2)] v ab
    by (auto simp: alps_command_mode_send_nibble_def Let_def T(1) a_def [symmetric] b_def [symmetric] submit_stack_def acking_def
        nibble_bytes_def low_byte s)
qed

lemma decode_entry:
  assumes "T \<in> register_tables" and "i < 16"
  shows "decode_nibbles T (Suc n) (nibble_bytes (T ! i) @ bs) = map_option (Cons i) (decode_nibbles T n bs)"
proof -
  have i: "i \<in> {0, 1, 2, 3, 4, 5, 6, 7, 8, 9, 10, 11, 12, 13, 14, 15}" using assms(2) by (auto simp: numeral_eq_Suc less_Suc_eq)
  have u: "[0..<16] = [0, 1, 2, 3, 4, 5, 6, 7, 8, 9, 10, 11, 12, 13, 14, 15]" by (simp add: upt_rec)
  have "List.find (\<lambda>k. take (length (nibble_bytes (T ! k))) (nibble_bytes (T ! i) @ bs) = nibble_bytes (T ! k)) [0..<16] = Some i"
    using assms(1) i unfolding u register_tables_def
    by (elim insertE emptyE; simp add: alps_v3_nibble_commands_def alps_v4_nibble_commands_def nibble_bytes_def)
  then show ?thesis by simp
qed

section \<open>Addresses and values\<close>

lemma acking_nibbles:
  assumes "nibble_commands pd = T" "T \<in> register_tables" and "\<forall>v \<in> set vs. v < 16"
  shows "all_of (map (\<lambda>v. alps_command_mode_send_nibble acking pd (int v)) vs) log
     = Some (True, log @ concat (map (\<lambda>v. nibble_bytes (T ! v)) vs))"
  using assms(3) by (induction vs arbitrary: log) (simp_all add: and_then_def acking_nibble [OF assms(1,2)])

lemma decode_encoded:
  assumes "T \<in> register_tables" and "\<forall>v \<in> set vs. v < 16"
  shows "decode_nibbles T (length vs) (concat (map (\<lambda>v. nibble_bytes (T ! v)) vs)) = Some vs"
  using assms(2)
proof (induction vs)
  case (Cons v vs)
  then show ?case using decode_entry [OF assms(1), of v "length vs"] by simp
qed simp

definition addr_nibbles :: "int \<Rightarrow> nat list" where
  "addr_nibbles addr = map (\<lambda>i. nat (nibble_at addr i)) [12, 8, 4, 0]"

definition value_nibbles :: "u8 \<Rightarrow> nat list" where
  "value_nibbles v = [unat (drop_bit 4 v AND 0xf), unat (v AND 0xf)]"

definition of_nibbles :: "nat list \<Rightarrow> int" where
  "of_nibbles vs = fold (\<lambda>v n. 16 * n + int v) vs 0"

lemma nibble_at_bounds: "0 \<le> nibble_at a i" "nibble_at a i < 16"
  using AND_upper2 [of 15 "drop_bit i a"] by (simp_all add: nibble_at_def)

lemma and_15: "a AND 15 = a mod 16" for a :: int
  using take_bit_eq_mask [of 4 a] by (simp add: mask_eq_exp_minus_1 take_bit_eq_mod)

lemma nibble_at_div: "nibble_at a i = a div 2 ^ i mod 16"
  by (simp add: nibble_at_def and_15 drop_bit_eq_div)

lemma of_addr_nibbles:
  assumes "0 \<le> a" and "a < 65536"
  shows "of_nibbles (addr_nibbles a) = a"
proof -
  define b where "b = a div 16"
  define c where "c = b div 16"
  define e where "e = c div 16"
  have n: "nibble_at a 4 = b mod 16" "nibble_at a 8 = c mod 16" "nibble_at a 12 = e mod 16" "nibble_at a 0 = a mod 16"
    by (simp_all add: nibble_at_div b_def c_def e_def zdiv_zmult2_eq [symmetric])
  have "e mod 16 = e" using assms by (simp add: b_def c_def e_def zdiv_zmult2_eq [symmetric])
  moreover have "of_nibbles (addr_nibbles a) = 16 * (16 * (16 * (e mod 16) + c mod 16) + b mod 16) + a mod 16"
    by (simp add: of_nibbles_def addr_nibbles_def n)
  moreover have "16 * b + a mod 16 = a" "16 * c + b mod 16 = b" "16 * e + c mod 16 = c"
    by (simp_all add: b_def c_def e_def)
  ultimately show ?thesis by presburger
qed

lemma value_nibbles_less: "\<forall>u \<in> set (value_nibbles v). u < 16"
proof -
  have "unat (w AND 0xf) < 16" for w :: u8
    by (simp add: unat_eq_nat_uint uint_and and_15 nat_less_iff)
  then show ?thesis by (simp add: value_nibbles_def)
qed

lemma of_value_nibbles: "of_nibbles (value_nibbles v) = uint v"
proof -
  have "uint (drop_bit 4 v AND 0xf) = uint v div 16 mod 16" "uint (v AND 0xf) = uint v mod 16"
    by (simp_all add: uint_and unsigned_drop_bit_eq drop_bit_eq_div and_15 uint_div)
  moreover have "uint v < 256" "0 \<le> uint v" using unsigned_less [of v] by simp_all
  ultimately show ?thesis by (simp add: of_nibbles_def value_nibbles_def)
qed

lemma set_addr_log:
  assumes T: "nibble_commands pd = T" "T \<in> register_tables"
  shows "alps_command_mode_set_addr acking pd a log
     = Some (True, log @ word_of_int (addr_command pd) # concat (map (\<lambda>v. nibble_bytes (T ! v)) (addr_nibbles a)))"
proof -
  have "map (\<lambda>i. alps_command_mode_send_nibble acking pd (nibble_at a i)) [12, 8, 4, 0]
      = map (\<lambda>v. alps_command_mode_send_nibble acking pd (int v)) (addr_nibbles a)"
    by (simp add: addr_nibbles_def nibble_at_bounds)
  moreover have "\<forall>v \<in> set (addr_nibbles a). v < 16"
    using nibble_at_bounds by (auto simp: addr_nibbles_def nat_less_iff)
  ultimately show ?thesis
    using acking_nibbles [OF T, of "addr_nibbles a"]
    by (simp only: alps_command_mode_set_addr_def) (simp add: submit_stack_def acking_def)
qed

lemma write_value_log:
  assumes T: "nibble_commands pd = T" "T \<in> register_tables"
  shows "alps_command_mode_write_value acking pd v log = Some (True, log @ concat (map (\<lambda>v. nibble_bytes (T ! v)) (value_nibbles v)))"
proof -
  have "unat (drop_bit 4 v AND 0xf) < 16" "unat (v AND 0xf) < 16" using value_nibbles_less [of v] by (simp_all add: value_nibbles_def)
  then show ?thesis
    using acking_nibble [OF T, of "unat (drop_bit 4 v AND 0xf)" log] acking_nibble [OF T, of "unat (v AND 0xf)"]
    by (simp add: value_nibbles_def alps_command_mode_write_value_def and_then_def)
qed

text \<open>
  C7. Writing a register of a V3 or V4 trackpad sends the address command and six nibbles that the trackpad can
  decode back to exactly the address and the value, for every 16-bit address and every value.
\<close>

theorem register_write_roundtrip:
  assumes "nibble_commands pd \<in> {alps_v3_nibble_commands, alps_v4_nibble_commands}" and "0 \<le> addr" and "addr < 65536"
  shows "\<exists>ns. alps_command_mode_write_reg acking pd addr v [] = Some (True, word_of_int (addr_command pd) # ns)
    \<and> (\<exists>vs. decode_nibbles (nibble_commands pd) 6 ns = Some vs \<and> of_nibbles (take 4 vs) = addr \<and> of_nibbles (drop 4 vs) = uint v)"
proof -
  have T: "nibble_commands pd \<in> register_tables" using assms(1) by (simp add: register_tables_def)
  let ?vs = "addr_nibbles addr @ value_nibbles v"
  let ?ns = "concat (map (\<lambda>v. nibble_bytes (nibble_commands pd ! v)) ?vs)"
  have "\<forall>u \<in> set ?vs. u < 16"
    using nibble_at_bounds value_nibbles_less by (auto simp: addr_nibbles_def nat_less_iff)
  moreover have l: "length (addr_nibbles addr) = 4" "length ?vs = 6" by (simp_all add: addr_nibbles_def value_nibbles_def)
  ultimately have "decode_nibbles (nibble_commands pd) 6 ?ns = Some ?vs" using decode_encoded [OF T, of ?vs] by simp
  moreover have "alps_command_mode_write_reg acking pd addr v [] = Some (True, word_of_int (addr_command pd) # ?ns)"
    by (simp add: alps_command_mode_write_reg_def and_then_def set_addr_log [OF refl T] write_value_log [OF refl T])
  moreover have "of_nibbles (take 4 ?vs) = addr" "of_nibbles (drop 4 ?vs) = uint v"
    using of_addr_nibbles [OF assms(2,3)] of_value_nibbles l(1) by simp_all
  ultimately show ?thesis by blast
qed

lemma register_write_roundtrip_witness:
  "\<exists>ns. alps_command_mode_write_reg acking (zero_data\<lparr>nibble_commands := alps_v4_nibble_commands, addr_command := 0xf5\<rparr>) 0x0149 3 []
     = Some (True, 0xf5 # ns)"
  using register_write_roundtrip [of "zero_data\<lparr>nibble_commands := alps_v4_nibble_commands, addr_command := 0xf5\<rparr>" "0x0149" 3] by simp blast

end
