(* ===== verification/PlatformProfile.thy ===== *)
theory PlatformProfile
  imports PS2Prelude
begin

text \<open>
  The platform profile: the configuration of a driver is looked up by manufacturer, product and model in nested
  dictionaries.  An entry that is a string names another entry of the same dictionary, up to a semicolon; the code
  follows such links by recursion, without a bound, so that the lookup is \<open>None\<close> when it never returns.
  A dictionary is the list of its entries, the first one for a key counting.
\<close>

section \<open>Lookup\<close>

datatype osobject = OSDictionary "(string \<times> osobject) list" | OSString string | OSOther

type_synonym dictionary = "(string \<times> osobject) list"

definition getDictionary :: "dictionary \<Rightarrow> string \<Rightarrow> dictionary option" where
  "getDictionary d k = (case map_of d k of Some (OSDictionary n) \<Rightarrow> Some n | _ \<Rightarrow> None)"

definition getLink :: "dictionary \<Rightarrow> string \<Rightarrow> string option" where
  "getLink d k = (case map_of d k of Some (OSString link) \<Rightarrow> Some (takeWhile (\<lambda>ch. ch \<noteq> CHR '';'') link) | _ \<Rightarrow> None)"

partial_function (option) getConfigurationNode_in :: "dictionary \<Rightarrow> string \<Rightarrow> dictionary option option" where
  "getConfigurationNode_in root name =
     (case getDictionary root name of
        Some d \<Rightarrow> Some (Some d)
      | None \<Rightarrow> (case getLink root name of
                   Some link \<Rightarrow> getConfigurationNode_in root link
                 | None \<Rightarrow> Some None))"

text \<open>A missing name finds nothing.\<close>

definition node_of :: "dictionary \<Rightarrow> string option \<Rightarrow> dictionary option option" where
  "node_of root name = (case name of Some n \<Rightarrow> getConfigurationNode_in root n | None \<Rightarrow> Some None)"

text \<open>\<open>if (!(configuration = first)) second\<close>.\<close>

definition or_else :: "'a option option \<Rightarrow> 'a option option \<Rightarrow> 'a option option" where
  "or_else first second = do { r \<leftarrow> first; if r = None then second else Some r }"

section \<open>Identity of the platform\<close>

text \<open>C strings in fixed arrays, their trailing blanks removed.\<close>

definition stripTrailingSpaces :: "string \<Rightarrow> string" where
  "stripTrailingSpaces s = rev (dropWhile (\<lambda>ch. ch = CHR '' '') (rev s))"

definition platform_id :: "string option \<Rightarrow> string option \<Rightarrow> string option" where
  "platform_id override dsdt_field =
     (case override of
        Some n \<Rightarrow> Some n
      | None \<Rightarrow> map_option (\<lambda>bytes. stripTrailingSpaces (takeWhile (\<lambda>ch. ch \<noteq> CHR 0x00) bytes)) dsdt_field)"

text \<open>The header of the DSDT, the bytes of the ACPI table: 36 bytes, the identities at offsets 10 and 16.\<close>

abbreviation (input) DSDT_HEADER_size :: nat where "DSDT_HEADER_size \<equiv> 36"
abbreviation (input) DSDT_SIGNATURE :: u32 where "DSDT_SIGNATURE \<equiv> 0x54445344"

definition tableSignature :: "u8 list \<Rightarrow> u32" where
  "tableSignature d = ucast (d ! 0) OR push_bit 8 (ucast (d ! 1)) OR push_bit 16 (ucast (d ! 2)) OR push_bit 24 (ucast (d ! 3))"

definition oemID :: "u8 list \<Rightarrow> string" where "oemID d = map (char_of \<circ> unat) (take 6 (drop 10 d))"

definition oemTableID :: "u8 list \<Rightarrow> string" where "oemTableID d = map (char_of \<circ> unat) (take 8 (drop 16 d))"

definition getDSDT :: "u8 list option \<Rightarrow> u8 list option" where
  "getDSDT data =
     (case data of
        None \<Rightarrow> None
      | Some d \<Rightarrow> if length d < DSDT_HEADER_size \<or> tableSignature d \<noteq> DSDT_SIGNATURE then None else Some d)"

definition getPlatformManufacturer :: "string option \<Rightarrow> u8 list option \<Rightarrow> string option" where
  "getPlatformManufacturer override data = platform_id override (map_option oemID (getDSDT data))"

definition getPlatformProduct :: "string option \<Rightarrow> u8 list option \<Rightarrow> string option" where
  "getPlatformProduct override data = platform_id override (map_option oemTableID (getDSDT data))"

text \<open>An identity that does not end in a blank is read back from the padded field.\<close>

lemma strip_padding: "s = [] \<or> last s \<noteq> CHR '' '' \<Longrightarrow> stripTrailingSpaces (s @ replicate n (CHR '' '')) = s"
proof -
  assume s: "s = [] \<or> last s \<noteq> CHR '' ''"
  have "dropWhile (\<lambda>ch. ch = CHR '' '') (replicate n (CHR '' '') @ rev s) = dropWhile (\<lambda>ch. ch = CHR '' '') (rev s)"
    by (induction n) simp_all
  moreover have "dropWhile (\<lambda>ch. ch = CHR '' '') (rev s) = rev s"
    using s by (cases s rule: rev_cases) auto
  ultimately show ?thesis by (simp add: stripTrailingSpaces_def)
qed

section \<open>The configuration\<close>

abbreviation (input) kDefault :: string where "kDefault \<equiv> ''Default''"

definition getConfigurationNode ::
    "string option \<Rightarrow> string option \<Rightarrow> dictionary \<Rightarrow> string option \<Rightarrow> dictionary option option" where
  "getConfigurationNode manufacturer product list model = do {
     configuration \<leftarrow> (case Option.bind manufacturer (getDictionary list) of
        Some manufacturerNode \<Rightarrow>
          or_else (node_of manufacturerNode product)
            (or_else (node_of manufacturerNode model) (node_of manufacturerNode (Some kDefault)))
      | None \<Rightarrow> Some None);
     or_else (Some configuration) (or_else (node_of list model) (node_of list (Some kDefault))) }"

definition makeConfigurationNode ::
    "string option \<Rightarrow> string option \<Rightarrow> dictionary option \<Rightarrow> string option \<Rightarrow> dictionary option option" where
  "makeConfigurationNode manufacturer product list model =
     (case list of
        None \<Rightarrow> Some None
      | Some list \<Rightarrow> do {
          defaultNode \<leftarrow> node_of list (Some kDefault);
          platformNode \<leftarrow> getConfigurationNode manufacturer product list model;
          Some (case (defaultNode, platformNode) of
                  (Some d, Some p) \<Rightarrow> Some (p @ d)
                | (Some d, None) \<Rightarrow> Some d
                | (None, p) \<Rightarrow> p) })"

section \<open>Links\<close>

text \<open>One step of the recursion.\<close>

definition links :: "dictionary \<Rightarrow> (string \<times> string) set" where
  "links root = {(x, y). getDictionary root x = None \<and> getLink root x = Some y}"

lemma finite_links: "finite (links root)"
proof -
  have "links root \<subseteq> (\<lambda>x. (x, the (getLink root x))) ` fst ` set root"
  proof (rule subrelI)
    fix x y assume "(x, y) \<in> links root"
    then have "map_of root x \<noteq> None" "getLink root x = Some y" by (auto simp: links_def getLink_def split: option.splits)
    then show "(x, y) \<in> (\<lambda>x. (x, the (getLink root x))) ` fst ` set root"
      by (intro image_eqI [of _ _ x]) (auto simp: map_of_eq_None_iff)
  qed
  then show ?thesis by (rule finite_subset) simp
qed

lemma links_functional: "(x, y) \<in> links root \<Longrightarrow> (x, z) \<in> links root \<Longrightarrow> y = z"
  by (simp add: links_def)

definition runs_into_cycle :: "dictionary \<Rightarrow> string \<Rightarrow> bool" where
  "runs_into_cycle root name \<longleftrightarrow> (\<exists>x. (name, x) \<in> (links root)\<^sup>* \<and> (x, x) \<in> (links root)\<^sup>+)"

lemma cycle_next:
  assumes "runs_into_cycle root name"
  obtains y where "(name, y) \<in> links root" "runs_into_cycle root y"
proof -
  obtain x where x: "(name, x) \<in> (links root)\<^sup>*" "(x, x) \<in> (links root)\<^sup>+"
    using assms by (auto simp: runs_into_cycle_def)
  then have "(name, x) \<in> (links root)\<^sup>+" by (rule rtrancl_trancl_trancl)
  then obtain y where "(name, y) \<in> links root" "(y, x) \<in> (links root)\<^sup>*" by (metis tranclD)
  with x(2) show thesis by (intro that) (auto simp: runs_into_cycle_def)
qed

lemma cycle_back: "(x, y) \<in> links root \<Longrightarrow> runs_into_cycle root y \<Longrightarrow> runs_into_cycle root x"
  by (auto simp: runs_into_cycle_def intro: converse_rtrancl_into_rtrancl)

lemma lookup_avoids_cycle: "getConfigurationNode_in root name = Some r \<Longrightarrow> \<not> runs_into_cycle root name"
proof (rule getConfigurationNode_in.raw_induct [of "\<lambda>root name r. \<not> runs_into_cycle root name"])
  fix f and root :: dictionary and name r
  assume IH: "\<And>root name r. f root name = Some r \<Longrightarrow> \<not> runs_into_cycle root name"
    and body: "(case getDictionary root name of Some d \<Rightarrow> Some (Some d)
      | None \<Rightarrow> (case getLink root name of Some link \<Rightarrow> f root link | None \<Rightarrow> Some None)) = Some r"
  show "\<not> runs_into_cycle root name"
  proof
    assume "runs_into_cycle root name"
    then obtain y where "(name, y) \<in> links root" "runs_into_cycle root y" by (rule cycle_next)
    with IH [of root y r] body show False by (simp add: links_def)
  qed
qed

lemma acyclic_lookup_returns:
  assumes "\<not> runs_into_cycle root name"
  shows "\<exists>r. getConfigurationNode_in root name = Some r"
proof -
  let ?R = "{(y, x). (x, y) \<in> links root \<and> \<not> runs_into_cycle root x}"
  have "finite ?R" by (rule finite_subset [of _ "(links root)\<inverse>"]) (auto simp: finite_links)
  moreover have "acyclic ?R"
  proof (rule acyclicI, intro allI notI)
    fix x assume x: "(x, x) \<in> ?R\<^sup>+"
    then have "(x, x) \<in> ((links root)\<inverse>)\<^sup>+" by (rule trancl_mono) auto
    then have "runs_into_cycle root x" by (auto simp: runs_into_cycle_def trancl_converse)
    moreover obtain y where "(y, x) \<in> ?R" using x by (meson tranclD2)
    ultimately have "\<not> runs_into_cycle root x" by auto
    with \<open>runs_into_cycle root x\<close> show False by blast
  qed
  ultimately have "wf ?R" by (rule finite_acyclic_wf)
  then show ?thesis using assms
  proof (induction name rule: wf_induct_rule)
    case (less name)
    show ?case
    proof (cases "\<exists>y. (name, y) \<in> links root")
      case True
      then obtain y where y: "(name, y) \<in> links root" by blast
      then have "\<exists>r. getConfigurationNode_in root y = Some r" using less cycle_back [OF y] by blast
      with y show ?thesis by (subst getConfigurationNode_in.simps) (simp add: links_def)
    next
      case False
      then show ?thesis by (subst getConfigurationNode_in.simps) (auto simp: links_def split: option.split)
    qed
  qed
qed

text \<open>
  C33. A lookup in a profile dictionary returns exactly when the links that start at the name do not run into a
  cycle; a profile with such a cycle hangs the driver (the code has no bound on the recursion).
\<close>

theorem lookup_returns_iff_no_cycle:
  "getConfigurationNode_in root name \<noteq> None \<longleftrightarrow> \<not> runs_into_cycle root name"
  using lookup_avoids_cycle acyclic_lookup_returns by fastforce

lemma lookup_returns_iff_no_cycle_witness:
  "getConfigurationNode_in [(''A'', OSString ''B;old''), (''B'', OSString ''A'')] ''A'' = None"
proof -
  let ?d = "[(''A'', OSString ''B;old''), (''B'', OSString ''A'')]"
  have "(''A'', ''B'') \<in> links ?d" "(''B'', ''A'') \<in> links ?d"
    by (simp_all add: links_def getDictionary_def getLink_def)
  then have "runs_into_cycle ?d ''A''" by (auto simp: runs_into_cycle_def intro: exI [of _ "''A''"] trancl_into_trancl)
  then show ?thesis using lookup_returns_iff_no_cycle [of ?d "''A''"] by blast
qed

end
