(* ===== verification/KeyboardSettings.thy ===== *)
theory KeyboardSettings
  imports KeyboardActions
begin

text \<open>
  The settings of the keyboard driver can be undone; the power state; brightness keys; the key that switches the
  trackpad off and on.
\<close>

section \<open>Undoing the settings\<close>

text \<open>The working map differs from the loaded one at most at the keys \<open>X\<close>.\<close>

definition off_by :: "nat set \<Rightarrow> 'm kbd \<Rightarrow> bool" where
  "off_by X k \<longleftrightarrow> length (PS2ToADBMap k) = 512 \<and> length (PS2ToADBMapMapped k) = 512
     \<and> (\<forall>i < 512. i \<notin> X \<longrightarrow> PS2ToADBMap k ! i = PS2ToADBMapMapped k ! i)"

definition swappable :: "nat set" where
  "swappable = {0x3a, 0x1d, 0x38, 0x15b, 0x138, 0x15c, 0x15d, 0x11d, 0x29, 0x56}"

lemma off_by_same: "PS2ToADBMap k' = PS2ToADBMap k \<Longrightarrow> PS2ToADBMapMapped k' = PS2ToADBMapMapped k \<Longrightarrow> off_by X k' = off_by X k"
  by (simp add: off_by_def)

lemma nth_update: "i < length xs \<Longrightarrow> xs[j := x] ! i = (if i = j then x else xs ! i)"
  by (cases "i = j") simp_all

lemma off_by_map:
  "off_by X k \<Longrightarrow> a \<in> X \<Longrightarrow> off_by X (map_as a b k)" "off_by X k \<Longrightarrow> a \<in> X \<Longrightarrow> off_by X (map_to a x k)"
  "off_by X k \<Longrightarrow> off_by (X - {a}) (map_as a a k)"
  by (auto simp: off_by_def map_as_def map_to_def nth_update)

lemma off_by_swap:
  "off_by X k \<Longrightarrow> a \<in> X \<Longrightarrow> b \<in> X \<Longrightarrow> off_by X (swap_keys a b s k)"
  "off_by X k \<Longrightarrow> off_by (X - {a} - {b}) (swap_keys a b False k)"
  by (simp_all add: swap_keys_def off_by_map)

lemma off_by_when: "off_by X k \<Longrightarrow> (\<And>x k. off_by X k \<Longrightarrow> off_by X (f x k)) \<Longrightarrow> off_by X (when_some v f k)"
  by (simp add: when_some_def split: option.split)

lemma off_by_other [simp]:
  "off_by X (k\<lparr>maxsleeppresstime := n\<rparr>) = off_by X k" "off_by X (k\<lparr>f12ejectdelay := n\<rparr>) = off_by X k"
  "off_by X (k\<lparr>macroMaxTime := t\<rparr>) = off_by X k" "off_by X (k\<lparr>swapcommandoption := b\<rparr>) = off_by X k"
  "off_by X (k\<lparr>brightnessHack := b\<rparr>) = off_by X k" "off_by X (k\<lparr>logscancodes := n\<rparr>) = off_by X k"
  "off_by X (k\<lparr>fkeymode := n\<rparr>) = off_by X k" "off_by X (k\<lparr>PS2ToPS2Map := p\<rparr>) = off_by X k"
  "off_by X (set_action sw s k) = off_by X k"
  by (rule off_by_same; simp add: set_action_def)+

lemma off_by_fkeymode: "off_by X (set_fkeymode m k) = off_by X k"
  by (rule off_by_same) (simp_all add: set_fkeymode_def Let_def when_some_def split: option.split)

lemma settings_off_by:
  assumes "off_by swappable k"
  shows "off_by swappable (kb_setParamPropertiesGated d k)"
proof (cases d)
  case (Some s)
  have app: "off_by swappable (set_application_key a b k)" if "off_by swappable k" for a b and k :: "'a kbd"
    using that by (auto simp: set_application_key_def Let_def swappable_def intro!: off_by_when off_by_map)
  have hangul: "off_by swappable (set_hangul_hanja c k)" if "off_by swappable k" for c and k :: "'a kbd"
    using that by (auto simp: set_hangul_hanja_def swappable_def intro!: off_by_map)
  have swap: "off_by swappable (swap_keys a b c k)" if "off_by swappable k" "a \<in> swappable" "b \<in> swappable" for a b c and k :: "'a kbd"
    using that by (rule off_by_swap)
  have mem: "{0x3a, 0x1d, 0x138, 0x15c, 0x38, 0x15b, 0x29, 0x56} \<subseteq> swappable" by (auto simp: swappable_def)
  show ?thesis
    using assms mem by (auto simp: Some kb_setParamPropertiesGated_def Let_def off_by_fkeymode intro!: off_by_when app hangul swap)
qed (simp add: kb_setParamPropertiesGated_def assms)

lemma mapped_when:
  "PS2ToADBMapMapped k = M \<Longrightarrow> (\<And>x k. PS2ToADBMapMapped k = M \<Longrightarrow> PS2ToADBMapMapped (f x k) = M)
     \<Longrightarrow> PS2ToADBMapMapped (when_some v f k) = M"
  by (simp add: when_some_def split: option.split)

lemma mapped_ops [simp]:
  "PS2ToADBMapMapped (map_as a b k) = PS2ToADBMapMapped k" "PS2ToADBMapMapped (map_to a x k) = PS2ToADBMapMapped k"
  "PS2ToADBMapMapped (swap_keys a b s k) = PS2ToADBMapMapped k" "PS2ToADBMapMapped (set_hangul_hanja c k) = PS2ToADBMapMapped k"
  "PS2ToADBMapMapped (set_action sw t k) = PS2ToADBMapMapped k" "PS2ToADBMapMapped (set_fkeymode m k) = PS2ToADBMapMapped k"
  by (simp_all add: map_as_def map_to_def swap_keys_def set_hangul_hanja_def set_action_def set_fkeymode_def Let_def when_some_def split: option.split)

lemma settings_mapped: "PS2ToADBMapMapped (kb_setParamPropertiesGated d k) = PS2ToADBMapMapped k"
  by (cases d) (auto simp: kb_setParamPropertiesGated_def set_application_key_def Let_def intro!: mapped_when)

definition all_off :: "kb_settings \<Rightarrow> bool" where
  "all_off d \<longleftrightarrow> set_SwapCapsLockLeftControl d = Some False \<and> set_SwapCommandOption d = Some False
     \<and> set_MakeApplicationKeyRightWindows d = Some False \<and> set_MakeApplicationKeyAppleFN d = Some False
     \<and> set_MakeRightModsHangulHanja d = Some False \<and> set_UseISOLayoutKeyboard d = Some False"

lemma frames:
  "swapcommandoption (set_fkeymode m k) = swapcommandoption k" "swapcommandoption (swap_keys a b c k) = swapcommandoption k"
  by (simp_all add: set_fkeymode_def swap_keys_def map_as_def Let_def when_some_def split: option.split)

lemma when_some_Some: "when_some (Some x) f k = f x k"
  by (simp add: when_some_def)

lemma off_restores:
  assumes "off_by swappable k" "all_off d"
  shows "off_by {} (kb_setParamPropertiesGated (Some d) k)"
proof -
  define k1 where "k1 = set_fkeymode (set_HIDFKeyMode d) (when_some (set_MaximumMacroTime d) (\<lambda>n k. k\<lparr>macroMaxTime := n\<rparr>)
    (when_some (set_HIDF12EjectDelay d) (\<lambda>n k. k\<lparr>f12ejectdelay := n\<rparr>) (when_some (set_SleepPressTime d) (\<lambda>n k. k\<lparr>maxsleeppresstime := n\<rparr>) k)))"
  define k2 where "k2 = swap_keys 0x138 0x15c False (swap_keys 0x38 0x15b False ((swap_keys 0x3a 0x1d False k1)\<lparr>swapcommandoption := False\<rparr>))"
  define k3 where "k3 = when_some (set_BrightnessHack d) (\<lambda>b k. if b then k\<lparr>brightnessHack := True\<rparr> else k) k2"
  define k4 where "k4 = map_as 0x11d 0x11d (map_as 0x138 0x138 (map_as 0x15d 0x15d (map_as 0x15d 0x15d k3)))"
  have "off_by swappable k1" unfolding k1_def off_by_fkeymode by (intro off_by_when) (simp_all add: assms)
  then have "off_by (swappable - {0x3a} - {0x1d} - {0x38} - {0x15b} - {0x138} - {0x15c}) k2"
    unfolding k2_def by (intro off_by_swap(2)) (simp add: off_by_swap(2))
  then have "off_by (swappable - {0x3a} - {0x1d} - {0x38} - {0x15b} - {0x138} - {0x15c}) k3"
    unfolding k3_def by (intro off_by_when) auto
  then have "off_by (swappable - {0x3a} - {0x1d} - {0x38} - {0x15b} - {0x138} - {0x15c} - {0x15d} - {0x15d} - {0x138} - {0x11d} - {0x29} - {0x56})
      (swap_keys 0x29 0x56 False k4)"
    unfolding k4_def by (intro off_by_swap(2) off_by_map(3))
  moreover have "swappable - {0x3a} - {0x1d} - {0x38} - {0x15b} - {0x138} - {0x15c} - {0x15d} - {0x15d} - {0x138} - {0x11d} - {0x29} - {0x56} = {}"
    by (auto simp: swappable_def)
  ultimately have "off_by {} (swap_keys 0x29 0x56 False k4)" by (simp only:)
  moreover have "swapcommandoption (map_as 0x15d 0x15d (map_as 0x15d 0x15d k3)) = False"
    by (simp add: k3_def k2_def frames map_as_def when_some_def split: option.split)
  then have "set_hangul_hanja False (map_as 0x15d 0x15d (map_as 0x15d 0x15d k3)) = k4"
    by (simp add: set_hangul_hanja_def k4_def)
  moreover have "set_application_key (Some False) (Some False) k = map_as 0x15d 0x15d (map_as 0x15d 0x15d k)" for k :: "'a kbd"
    by (simp add: set_application_key_def when_some_def)
  moreover have "set_SwapCapsLockLeftControl d = Some False" "set_SwapCommandOption d = Some False"
      "set_MakeApplicationKeyRightWindows d = Some False" "set_MakeApplicationKeyAppleFN d = Some False"
      "set_MakeRightModsHangulHanja d = Some False" "set_UseISOLayoutKeyboard d = Some False"
    using assms(2) by (simp_all add: all_off_def)
  ultimately have "kb_setParamPropertiesGated (Some d) k =
      fold (\<lambda>sw. when_some (set_ActionSwipe d sw) (set_action sw)) [SwipeUp, SwipeDown, SwipeLeft, SwipeRight]
        (when_some (set_LogScanCodes d) (\<lambda>n k. k\<lparr>logscancodes := n\<rparr>) (swap_keys 0x29 0x56 False k4))"
    unfolding kb_setParamPropertiesGated_def Let_def option.case k1_def [symmetric] by (simp only: when_some_Some k2_def [symmetric] k3_def [symmetric])
  then show ?thesis using \<open>off_by {} (swap_keys 0x29 0x56 False k4)\<close> by (auto intro!: off_by_when)
qed

text \<open>
  C35. Every setting can be undone: after \<open>init\<close> with any profile and any sequence of settings, the settings that turn
  all swaps, the application key and the Hangul keys off make the working map the one loaded from the profile again.
\<close>

theorem settings_undone:
  assumes "kb_init m config = Some k" and "all_off d"
  shows "PS2ToADBMap (kb_setParamPropertiesGated (Some d) (fold kb_setParamPropertiesGated ds k)) = PS2ToADBMapMapped k"
proof -
  have "off_by swappable (k0\<lparr>PS2ToADBMap := PS2ToADBMapMapped k0\<rparr>)" if "kb_ok k0" for k0 :: "'a kbd"
    using that by (simp add: off_by_def kb_ok_def tables_ok_def)
  moreover have "kb_ok (case config of Some c \<Rightarrow> load_config c (kb_blank m) | None \<Rightarrow> kb_blank m)"
    by (simp add: blank_ok load_config_ok split: option.split)
  ultimately have "off_by swappable k"
    using assms(1) by (auto simp: kb_init_def Let_def settings_off_by split: if_splits)
  moreover have "off_by swappable k \<Longrightarrow> off_by swappable (fold kb_setParamPropertiesGated ds k) \<and>
      PS2ToADBMapMapped (fold kb_setParamPropertiesGated ds k) = PS2ToADBMapMapped k" for ds and k :: "'a kbd"
    by (induction ds arbitrary: k) (auto simp: settings_off_by settings_mapped)
  ultimately have "off_by swappable (fold kb_setParamPropertiesGated ds k)"
      "PS2ToADBMapMapped (fold kb_setParamPropertiesGated ds k) = PS2ToADBMapMapped k" by blast+
  then have "off_by {} (kb_setParamPropertiesGated (Some d) (fold kb_setParamPropertiesGated ds k))"
      "PS2ToADBMapMapped (kb_setParamPropertiesGated (Some d) (fold kb_setParamPropertiesGated ds k)) = PS2ToADBMapMapped k"
    by (simp_all add: settings_mapped off_restores [OF _ assms(2)])
  then show ?thesis by (intro nth_equalityI) (auto simp: off_by_def)
qed

definition no_settings :: kb_settings where
  "no_settings = \<lparr>set_SleepPressTime = None, set_HIDF12EjectDelay = None, set_MaximumMacroTime = None, set_HIDFKeyMode = None,
     set_SwapCapsLockLeftControl = None, set_SwapCommandOption = None, set_BrightnessHack = None,
     set_MakeApplicationKeyRightWindows = None, set_MakeApplicationKeyAppleFN = None, set_MakeRightModsHangulHanja = None,
     set_UseISOLayoutKeyboard = None, set_LogScanCodes = None, set_ActionSwipe = (\<lambda>sw. None)\<rparr>"

definition swaps :: "bool \<Rightarrow> kb_settings" where
  "swaps b = no_settings\<lparr>set_SwapCapsLockLeftControl := Some b, set_SwapCommandOption := Some b,
     set_MakeApplicationKeyRightWindows := Some b, set_MakeApplicationKeyAppleFN := Some b,
     set_MakeRightModsHangulHanja := Some b, set_UseISOLayoutKeyboard := Some b\<rparr>"

lemma settings_undone_witness:
  "PS2ToADBMap (kb_setParamPropertiesGated (Some (swaps False)) (kb_setParamPropertiesGated (Some (swaps True)) stock_keyboard)) = PS2ToADBMapStock"
  using settings_undone [OF stock_keyboard_init, of "swaps False" "[Some (swaps True)]"]
  by (simp add: all_off_def swaps_def) (simp add: stock_keyboard_def kb_blank_def)

section \<open>Power\<close>

text \<open>The scan code with which \<open>initKeyboard\<close> releases a key.\<close>

definition held_code :: "nat \<Rightarrow> u8 \<times> u8" where
  "held_code n = (if n < 256 then 1 else 2, of_nat n OR 0x80)"

lemma packet_time_kb_packet: "packet_time (kb_packet a b t) = t"
  by (rule packet_time_bytes) (simp_all add: kb_packet_def)

lemma held_release: "\<not> is_press (held_code n)"
proof -
  have "bit (snd (held_code n)) 7" by (simp add: held_code_def bit_simps)
  then have "isset (snd (held_code n)) (2 ^ 7)" unfolding and_exp_eq_0_iff_not_bit by simp
  then show ?thesis by (simp add: is_press_def)
qed

lemma release_events:
  "tables_ok k \<Longrightarrow> \<forall>n \<in> set ns. KBV_IS_KEYDOWN n (keyBitVector k) \<longrightarrow> ordinary k (held_code n) \<Longrightarrow>
     \<exists>k'. release_keys E t ns k = Some k' \<and> kb_out k' = kb_out k
       @ map (\<lambda>n. KeyEvent (ucast (adb_of k (held_code n))) False t) (filter (\<lambda>n. KBV_IS_KEYDOWN n (keyBitVector k)) ns)"
proof (induction ns arbitrary: k)
  case (Cons n ns)
  show ?case
  proof (cases "KBV_IS_KEYDOWN n (keyBitVector k)")
    case True
    let ?p = "kb_packet (if n < 256 then 1 else 2) (of_nat n OR 0x80) t"
    have p: "(?p ! 0, ?p ! 1) = held_code n" "length ?p = 16" by (simp_all add: kb_packet_def held_code_def)
    have press: "is_press (held_code n) = False" using held_release by simp
    have ord: "ordinary k (?p ! 0, ?p ! 1)" unfolding p(1) using Cons.prems(2) True by simp
    obtain k1 where k1: "dispatchKeyboardEventWithPacket E ?p k = Some (True, k1)" "kb_step k k1"
        "kb_out k1 = kb_out k @ [KeyEvent (ucast (adb_of k (?p ! 0, ?p ! 1))) (is_press (?p ! 0, ?p ! 1)) (packet_time ?p)]"
      by (rule ordinary_dispatch [OF Cons.prems(1) ord p(2)])
    note k1 = k1(1,2) k1(3) [unfolded p(1) packet_time_kb_packet press]
    have o: "adb_of k1 c = adb_of k c \<and> ordinary k1 c = ordinary k c" for c
      by (rule ordinary_cong) (use kb_step_fields [OF k1(2)] in simp_all)
    have v: "keyBitVector k1 = keyBitVector k" using kb_step_fields [OF k1(2)] by simp
    have "\<forall>n \<in> set ns. KBV_IS_KEYDOWN n (keyBitVector k1) \<longrightarrow> ordinary k1 (held_code n)"
      using Cons.prems(2) by (simp add: o v)
    then obtain k2 where "release_keys E t ns k1 = Some k2" "kb_out k2 = kb_out k1
        @ map (\<lambda>n. KeyEvent (ucast (adb_of k1 (held_code n))) False t) (filter (\<lambda>n. KBV_IS_KEYDOWN n (keyBitVector k1)) ns)"
      using Cons.IH [OF tables_ok_step [OF Cons.prems(1) k1(2)]] by blast
    then show ?thesis using True k1(1,3) by (simp add: o v)
  next
    case False
    then show ?thesis using Cons by simp
  qed
qed simp

lemma initKeyboard_out:
  "initKeyboard E t k = Some k' \<Longrightarrow> \<exists>m k2. release_keys E t [0..<512] (k\<lparr>mouse := m\<rparr>) = Some k2 \<and> kb_out k' = kb_out k2"
  by (fastforce simp: initKeyboard_def bind_eq_Some_conv kb_block_def setKeyboardEnable_def Let_def setLEDs_def)



section \<open>Brightness keys\<close>

lemma levels_below:
  assumes "sorted_wrt (<) (map sint ls)" "i < length ls"
  shows "length (takeWhile (\<lambda>l. sint l < sint (ls ! i)) ls) = i"
proof -
  have "sint (ls ! j) < sint (ls ! i) \<longleftrightarrow> j < i" if "j < length ls" for j
    using assms that sorted_wrt_nth_less [OF assms(1), of j i] sorted_wrt_nth_less [OF assms(1), of i j]
    by (cases j i rule: linorder_cases) auto
  then have "takeWhile (\<lambda>l. sint l < sint (ls ! i)) ls = take i ls"
    using assms(2) by (intro takeWhile_eq_take_P_nth) auto
  then show ?thesis using assms(2) by simp
qed

text \<open>
  The brightness keys step through the levels of the display: when the levels behind the two defaults are strictly
  increasing and the current level is number \<open>i\<close> among them, the key down sets the next or the previous one, and at the
  ends of the list the last or the first one.
\<close>

theorem brightness_key_steps:
  assumes "sorted_wrt (<) (map sint (drop 2 levels))" and "i < length levels - 2" and "kb_bqc E (mouse k) = Some (drop 2 levels ! i)"
  shows "modifyScreenBrightness E adb True levels k
    = Some (kb_emit (SetBrightness (drop 2 levels ! (if adb = 0x90 then min (i + 1) (length levels - 3) else i - 1))) k)"
proof -
  let ?ls = "drop 2 levels"
  have n: "length (takeWhile (\<lambda>l. sint l < sint (?ls ! i)) ?ls) = i"
    by (rule levels_below [OF assms(1)]) (use assms(2) in simp)
  have "step_level 2 levels (?ls ! i) (adb = 0x90) = Some (?ls ! (if adb = 0x90 then min (i + 1) (length levels - 3) else i - 1))"
    using assms(2) unfolding step_level_def Let_def n 
    by (auto simp: idx_def min_def nat_diff_distrib' nat_add_distrib) (rule arg_cong [where f = "nth levels"], arith)+
  then show ?thesis by (simp add: modifyScreenBrightness_def assms(3))
qed

lemma brightness_key_steps_witness:
  "modifyScreenBrightness desk_env 0x91 True [100, 50, 0, 25, 50, 75, 100] stock_keyboard = Some (kb_emit (SetBrightness 25) stock_keyboard)"
  using brightness_key_steps [of "[100, 50, 0, 25, 50, 75, 100]" 2 desk_env stock_keyboard 145] by (simp add: desk_env_def)

section \<open>Switching the trackpad off and on\<close>

lemma toggle_mouse:
  assumes "kb_message E = receiveMessage"
  shows "ignoreall (mouse (toggle_touchpad E k)) \<longleftrightarrow> \<not> ignoreall (mouse k)"
  by (simp add: toggle_touchpad_def dispatchMouseMessage_def assms receiveMessage_def Let_def)

lemma print_screen:
  fixes k :: "'a touchpad_scheme kbd"
  assumes "tables_ok k" and E: "kb_message E = receiveMessage" and "length p = 16" "p ! 0 = 2" "p ! 1 = 0x37"
    and "PS2ToPS2Map k ! 0x137 = 0x137" "PS2flags k ! 0x137 = 0" "PS2ToADBMap k ! 0 = DEADKEY" "\<not> checkModifierState kMaskLeftControl k"
  obtains k' where "dispatchKeyboardEventWithPacket E p k = Some (True, k')" "kb_step k k'" "kb_out k' = kb_out k"
    "ignoreall (mouse k') \<longleftrightarrow> \<not> ignoreall (mouse k)" "PS2modifierState k' = PS2modifierState k"
proof -
  let ?k1 = "toggle_touchpad E k"
  let ?k2 = "snd (dispatchMouseMessage E (NotifyKeyPressed \<lparr>ki_time = to_ns (kb_clock E) (packet_time p), adbKeyCode = ucast DEADKEY, goingDown = True\<rparr>) ?k1)"
  have i: "idx p 0 = Some 2" "idx p 1 = Some 0x37" "idx (PS2ToPS2Map k) 0x137 = Some 0x137" "idx (PS2flags k) 0x137 = Some 0"
    using assms by (simp_all add: idx_Some tables_ok_def codes_ok_def)
  have s1: "kb_step k ?k1" by (rule toggle_step)
  have s2: "kb_step k ?k2" using kb_step_trans [OF s1 kb_step_message] by (metis prod.collapse)
  have adb: "idx (PS2ToADBMap ?k1) 0 = Some DEADKEY"
    using kb_step_fields [OF s1] assms by (simp add: idx_Some tables_ok_def)
  have same: "kb_out ?k1 = kb_out k" "PS2modifierState ?k1 = PS2modifierState k"
    by (simp_all add: toggle_touchpad_def dispatchMouseMessage_def Let_def split: prod.split)
  have out: "kb_out ?k2 = kb_out k" "PS2modifierState ?k2 = PS2modifierState k"
    by (simp_all add: dispatchMouseMessage_def same split: prod.split)
  have special: "special_key E 0x137 True (packet_time p) k = Some (0, ?k1)" using assms(9) by (simp add: special_key_def)
  have "finish_key E 0x137 0 True (packet_time p) ?k1 = Some ?k2"
    unfolding finish_key_def adb by (simp add: special_adb_def)
  then have "dispatchKeyboardEventWithPacket E p k = Some (True, ?k2)"
    unfolding dispatchKeyboardEventWithPacket_def i(1,2) by (simp add: i(3,4) track_modifier_def special)
  moreover have "ignoreall (mouse ?k2) \<longleftrightarrow> \<not> ignoreall (mouse k)"
    using toggle_mouse [OF E, of k]
    by (simp add: dispatchMouseMessage_def E receiveMessage_def notify_key_pressed_def is_modifier_key_def Let_def)
  ultimately show thesis using that s2 out by blast
qed

text \<open>
  The print-screen key switches the trackpad: with the trackpad driver behind the device nub and no control key held, a
  press makes the trackpad ignore its reports, the next press makes it take them again, and the system sees no key.
\<close>

theorem print_screen_switches_trackpad:
  fixes k :: "'a touchpad_scheme kbd"
  assumes "kb_ok k" and "kb_message E = receiveMessage" and "length p = 16" "p ! 0 = 2" "p ! 1 = 0x37"
    and "PS2ToPS2Map k ! 0x137 = 0x137" "PS2flags k ! 0x137 = 0" "PS2ToADBMap k ! 0 = DEADKEY" "\<not> checkModifierState kMaskLeftControl k"
  shows "\<exists>k1 k2. dispatchKeyboardEventWithPacket E p k = Some (True, k1) \<and> dispatchKeyboardEventWithPacket E p k1 = Some (True, k2)
    \<and> ignoreall (mouse k1) = (\<not> ignoreall (mouse k)) \<and> ignoreall (mouse k2) = ignoreall (mouse k) \<and> kb_out k2 = kb_out k"
proof -
  have ok: "tables_ok k" using assms(1) by (simp add: kb_ok_def)
  obtain k1 where k1: "dispatchKeyboardEventWithPacket E p k = Some (True, k1)" "kb_step k k1" "kb_out k1 = kb_out k"
      "ignoreall (mouse k1) \<longleftrightarrow> \<not> ignoreall (mouse k)" "PS2modifierState k1 = PS2modifierState k"
    by (rule print_screen [OF ok assms(2-9)])
  have c: "\<not> checkModifierState kMaskLeftControl k1" using assms(9) k1(5) by (simp add: checkModifierState_def)
  obtain k2 where "dispatchKeyboardEventWithPacket E p k1 = Some (True, k2)" "kb_out k2 = kb_out k1"
      "ignoreall (mouse k2) \<longleftrightarrow> \<not> ignoreall (mouse k1)"
    by (rule print_screen [OF tables_ok_step [OF ok k1(2)] assms(2-5)])
      (use kb_step_fields [OF k1(2)] assms(6-8) c in simp_all)
  with k1 show ?thesis by simp
qed

lemma print_screen_switches_trackpad_witness:
  "\<exists>k1 k2. dispatchKeyboardEventWithPacket desk_env (kb_packet 2 0x37 5) stock_keyboard = Some (True, k1)
    \<and> dispatchKeyboardEventWithPacket desk_env (kb_packet 2 0x37 5) k1 = Some (True, k2)
    \<and> ignoreall (mouse k1) = (\<not> ignoreall (mouse stock_keyboard)) \<and> ignoreall (mouse k2) = ignoreall (mouse stock_keyboard)"
proof -
  have "PS2flagsStock ! 0x137 = 0" "PS2ToADBMapStock ! 0 = DEADKEY"
    by (simp_all add: stock_defs)
  moreover have "\<not> checkModifierState kMaskLeftControl stock_keyboard"
    by (simp add: checkModifierState_def stock_keyboard_def kb_blank_def)
  ultimately show ?thesis
    using print_screen_switches_trackpad [where k = stock_keyboard and E = desk_env and p = "kb_packet 2 0x37 5", OF init_ok [OF stock_keyboard_init]]
    by (auto simp: stock_keyboard_fields desk_env_def kb_packet_def)
qed

end
