(* ===== verification/KeyboardKeymap.thy ===== *)
theory KeyboardKeymap
  imports KeyboardMaps
begin

text \<open>
  The key map that \<open>defaultKeymapOfLength\<close> hands to the system, and its format as the comments between its parts tell:
  modifiers, keys, sequences and special keys, each part with its number of entries in front.  The codes of modifiers
  and special keys are constants of the system and a parameter here.
\<close>

section \<open>The table\<close>

datatype nx_code =
  NX_MODIFIERKEY_SHIFT | NX_MODIFIERKEY_CONTROL | NX_MODIFIERKEY_ALTERNATE | NX_MODIFIERKEY_COMMAND | NX_MODIFIERKEY_NUMERICPAD
  | NX_MODIFIERKEY_HELP | NX_MODIFIERKEY_SECONDARYFN | NX_MODIFIERKEY_RSHIFT | NX_MODIFIERKEY_RCONTROL | NX_MODIFIERKEY_RALTERNATE
  | NX_MODIFIERKEY_RCOMMAND | NX_KEYTYPE_CAPS_LOCK | NX_KEYTYPE_HELP | NX_POWER_KEY | NX_KEYTYPE_MUTE
  | NX_KEYTYPE_SOUND_UP | NX_KEYTYPE_SOUND_DOWN | NX_KEYTYPE_NUM_LOCK | NX_KEYTYPE_VIDMIRROR | NX_KEYTYPE_PLAY
  | NX_KEYTYPE_NEXT | NX_KEYTYPE_PREVIOUS | NX_KEYTYPE_BRIGHTNESS_UP | NX_KEYTYPE_BRIGHTNESS_DOWN | NX_KEYTYPE_EJECT

definition keymap_modifiers :: "(nx_code \<Rightarrow> u8) \<Rightarrow> u8 list" where
  "keymap_modifiers nx =
    [nx NX_MODIFIERKEY_SHIFT, 0x01, 0x38, nx NX_MODIFIERKEY_CONTROL, 0x01, 0x3b, nx NX_MODIFIERKEY_ALTERNATE, 0x01, 0x3a,
     nx NX_MODIFIERKEY_COMMAND, 0x01, 0x37, nx NX_MODIFIERKEY_NUMERICPAD, 0x15, 0x52, 0x41, 0x4c, 0x53, 0x54, 0x55, 0x45, 0x58, 0x57,
     0x56, 0x5b, 0x5c, 0x43, 0x4b, 0x51, 0x7b, 0x7d, 0x7e, 0x7c, 0x4e, 0x59, nx NX_MODIFIERKEY_HELP, 0x01, 0x72,
     nx NX_MODIFIERKEY_SECONDARYFN, 0x01, 0x3f, nx NX_MODIFIERKEY_RSHIFT, 0x01, 0x3c, nx NX_MODIFIERKEY_RCONTROL, 0x01, 0x3e,
     nx NX_MODIFIERKEY_RALTERNATE, 0x01, 0x3d, nx NX_MODIFIERKEY_RCOMMAND, 0x01, 0x36]"

definition keymap_keys_low :: "u8 list" where
  "keymap_keys_low =
    [0x0d, 0x00, 0x61, 0x00, 0x41, 0x00, 0x01, 0x00, 0x01, 0x00, 0xca, 0x00, 0xc7, 0x00, 0x01, 0x00, 0x01, 0x0d, 0x00, 0x73, 0x00,
     0x53, 0x00, 0x13, 0x00, 0x13, 0x00, 0xfb, 0x00, 0xa7, 0x00, 0x13, 0x00, 0x13, 0x0d, 0x00, 0x64, 0x00, 0x44, 0x00, 0x04, 0x00,
     0x04, 0x01, 0x44, 0x01, 0xb6, 0x00, 0x04, 0x00, 0x04, 0x0d, 0x00, 0x66, 0x00, 0x46, 0x00, 0x06, 0x00, 0x06, 0x00, 0xa6, 0x01,
     0xac, 0x00, 0x06, 0x00, 0x06, 0x0d, 0x00, 0x68, 0x00, 0x48, 0x00, 0x08, 0x00, 0x08, 0x00, 0xe3, 0x00, 0xeb, 0x00, 0x00, 0x18,
     0x00, 0x0d, 0x00, 0x67, 0x00, 0x47, 0x00, 0x07, 0x00, 0x07, 0x00, 0xf1, 0x00, 0xe1, 0x00, 0x07, 0x00, 0x07, 0x0d, 0x00, 0x7a,
     0x00, 0x5a, 0x00, 0x1a, 0x00, 0x1a, 0x00, 0xcf, 0x01, 0x57, 0x00, 0x1a, 0x00, 0x1a, 0x0d, 0x00, 0x78, 0x00, 0x58, 0x00, 0x18,
     0x00, 0x18, 0x01, 0xb4, 0x01, 0xce, 0x00, 0x18, 0x00, 0x18, 0x0d, 0x00, 0x63, 0x00, 0x43, 0x00, 0x03, 0x00, 0x03, 0x01, 0xe3,
     0x01, 0xd3, 0x00, 0x03, 0x00, 0x03, 0x0d, 0x00, 0x76, 0x00, 0x56, 0x00, 0x16, 0x00, 0x16, 0x01, 0xd6, 0x01, 0xe0, 0x00, 0x16,
     0x00, 0x16, 0x02, 0x00, 0x3c, 0x00, 0x3e, 0x0d, 0x00, 0x62, 0x00, 0x42, 0x00, 0x02, 0x00, 0x02, 0x01, 0xe5, 0x01, 0xf2, 0x00,
     0x02, 0x00, 0x02, 0x0d, 0x00, 0x71, 0x00, 0x51, 0x00, 0x11, 0x00, 0x11, 0x00, 0xfa, 0x00, 0xea, 0x00, 0x11, 0x00, 0x11, 0x0d,
     0x00, 0x77, 0x00, 0x57, 0x00, 0x17, 0x00, 0x17, 0x01, 0xc8, 0x01, 0xc7, 0x00, 0x17, 0x00, 0x17, 0x0d, 0x00, 0x65, 0x00, 0x45,
     0x00, 0x05, 0x00, 0x05, 0x00, 0xc2, 0x00, 0xc5, 0x00, 0x05, 0x00, 0x05, 0x0d, 0x00, 0x72, 0x00, 0x52, 0x00, 0x12, 0x00, 0x12,
     0x01, 0xe2, 0x01, 0xd2, 0x00, 0x12, 0x00, 0x12, 0x0d, 0x00, 0x79, 0x00, 0x59, 0x00, 0x19, 0x00, 0x19, 0x00, 0xa5, 0x01, 0xdb,
     0x00, 0x19, 0x00, 0x19, 0x0d, 0x00, 0x74, 0x00, 0x54, 0x00, 0x14, 0x00, 0x14, 0x01, 0xe4, 0x01, 0xd4, 0x00, 0x14, 0x00, 0x14,
     0x0a, 0x00, 0x31, 0x00, 0x21, 0x01, 0xad, 0x00, 0xa1, 0x0e, 0x00, 0x32, 0x00, 0x40, 0x00, 0x32, 0x00, 0x00, 0x00, 0xb2, 0x00,
     0xb3, 0x00, 0x00, 0x00, 0x00, 0x0a, 0x00, 0x33, 0x00, 0x23, 0x00, 0xa3, 0x01, 0xba, 0x0a, 0x00, 0x34, 0x00, 0x24, 0x00, 0xa2,
     0x00, 0xa8, 0x0e, 0x00, 0x36, 0x00, 0x5e, 0x00, 0x36, 0x00, 0x1e, 0x00, 0xb6, 0x00, 0xc3, 0x00, 0x1e, 0x00, 0x1e, 0x0a, 0x00,
     0x35, 0x00, 0x25, 0x01, 0xa5, 0x00, 0xbd, 0x0a, 0x00, 0x3d, 0x00, 0x2b, 0x01, 0xb9, 0x01, 0xb1, 0x0a, 0x00, 0x39, 0x00, 0x28,
     0x00, 0xac, 0x00, 0xab, 0x0a, 0x00, 0x37, 0x00, 0x26, 0x01, 0xb0, 0x01, 0xab, 0x0e, 0x00, 0x2d, 0x00, 0x5f, 0x00, 0x1f, 0x00,
     0x1f, 0x00, 0xb1, 0x00, 0xd0, 0x00, 0x1f, 0x00, 0x1f, 0x0a, 0x00, 0x38, 0x00, 0x2a, 0x00, 0xb7, 0x00, 0xb4, 0x0a, 0x00, 0x30,
     0x00, 0x29, 0x00, 0xad, 0x00, 0xbb, 0x0e, 0x00, 0x5d, 0x00, 0x7d, 0x00, 0x1d, 0x00, 0x1d, 0x00, 0x27, 0x00, 0xba, 0x00, 0x1d,
     0x00, 0x1d, 0x0d, 0x00, 0x6f, 0x00, 0x4f, 0x00, 0x0f, 0x00, 0x0f, 0x00, 0xf9, 0x00, 0xe9, 0x00, 0x0f, 0x00, 0x0f, 0x0d, 0x00,
     0x75, 0x00, 0x55, 0x00, 0x15, 0x00, 0x15, 0x00, 0xc8, 0x00, 0xcd, 0x00, 0x15, 0x00, 0x15, 0x0e, 0x00, 0x5b, 0x00, 0x7b, 0x00,
     0x1b, 0x00, 0x1b, 0x00, 0x60, 0x00, 0xaa, 0x00, 0x1b, 0x00, 0x1b, 0x0d, 0x00, 0x69, 0x00, 0x49, 0x00, 0x09, 0x00, 0x09, 0x00,
     0xc1, 0x00, 0xf5, 0x00, 0x09, 0x00, 0x09, 0x0d, 0x00, 0x70, 0x00, 0x50, 0x00, 0x10, 0x00, 0x10, 0x01, 0x70, 0x01, 0x50, 0x00,
     0x10, 0x00, 0x10, 0x10, 0x00, 0x0d, 0x00, 0x03, 0x0d, 0x00, 0x6c, 0x00, 0x4c, 0x00, 0x0c, 0x00, 0x0c, 0x00, 0xf8, 0x00, 0xe8,
     0x00, 0x0c, 0x00, 0x0c, 0x0d, 0x00, 0x6a, 0x00, 0x4a, 0x00, 0x0a, 0x00, 0x0a, 0x00, 0xc6, 0x00, 0xae, 0x00, 0x0a, 0x00, 0x0a,
     0x0a, 0x00, 0x27, 0x00, 0x22, 0x00, 0xa9, 0x01, 0xae, 0x0d, 0x00, 0x6b, 0x00, 0x4b, 0x00, 0x0b, 0x00, 0x0b, 0x00, 0xce, 0x00,
     0xaf, 0x00, 0x0b, 0x00, 0x0b, 0x0a, 0x00, 0x3b, 0x00, 0x3a, 0x01, 0xb2, 0x01, 0xa2, 0x0e, 0x00, 0x5c, 0x00, 0x7c, 0x00, 0x1c,
     0x00, 0x1c, 0x00, 0xe3, 0x00, 0xeb, 0x00, 0x1c, 0x00, 0x1c, 0x0a, 0x00, 0x2c, 0x00, 0x3c, 0x00, 0xcb, 0x01, 0xa3, 0x0a, 0x00,
     0x2f, 0x00, 0x3f, 0x01, 0xb8, 0x00, 0xbf, 0x0d, 0x00, 0x6e, 0x00, 0x4e, 0x00, 0x0e, 0x00, 0x0e, 0x00, 0xc4, 0x01, 0xaf, 0x00,
     0x0e, 0x00, 0x0e, 0x0d, 0x00, 0x6d, 0x00, 0x4d, 0x00, 0x0d, 0x00, 0x0d, 0x01, 0x6d, 0x01, 0xd8, 0x00, 0x0d, 0x00, 0x0d, 0x0a,
     0x00, 0x2e, 0x00, 0x3e, 0x00, 0xbc, 0x01, 0xb3, 0x02, 0x00, 0x09, 0x00, 0x19, 0x0c, 0x00, 0x20, 0x00, 0x00, 0x00, 0x80, 0x00,
     0x00, 0x0a, 0x00, 0x60, 0x00, 0x7e, 0x00, 0x60, 0x01, 0xbb, 0x02, 0x00, 0x7f, 0x00, 0x08, 0xff, 0x02, 0x00, 0x1b, 0x00, 0x7e,
     0xff, 0xff, 0xff, 0xff, 0xff, 0xff, 0xff, 0xff, 0xff, 0xff, 0x00, 0xfe, 0x36, 0x00, 0x00, 0x2e, 0xff, 0x00, 0x00, 0x2a, 0xff,
     0x00, 0x00, 0x2b, 0xff, 0x00, 0x00, 0x1b, 0xff, 0xff, 0xff, 0x0e, 0x00, 0x2f, 0x00, 0x5c, 0x00, 0x2f, 0x00, 0x1c, 0x00, 0x2f,
     0x00, 0x5c, 0x00, 0x00, 0x0a, 0x00, 0x00, 0x00, 0x0d, 0xff, 0x00, 0x00, 0x2d, 0x00, 0xfe, 0x37, 0x00, 0xfe, 0x38, 0x0e, 0x00,
     0x3d, 0x00, 0x7c, 0x00, 0x3d, 0x00, 0x1c, 0x00, 0x3d, 0x00, 0x7c, 0x00, 0x00, 0x18, 0x46, 0x00, 0x00, 0x30, 0x00, 0x00, 0x31,
     0x00, 0x00, 0x32, 0x00, 0x00, 0x33, 0x00, 0x00, 0x34, 0x00, 0x00, 0x35, 0x00, 0x00, 0x36, 0x00, 0x00, 0x37, 0x00, 0xfe, 0x39,
     0x00, 0x00, 0x38, 0x00, 0x00, 0x39, 0xff, 0xff, 0xff]"

definition keymap_keys_high :: "u8 list" where
  "keymap_keys_high =
    [0x00, 0xfe, 0x24, 0x00, 0xfe, 0x25, 0x00, 0xfe, 0x26, 0x00, 0xfe, 0x22, 0x00, 0xfe, 0x27, 0x00, 0xfe, 0x28, 0xff, 0x00, 0xfe,
     0x2a, 0xff, 0x00, 0xfe, 0x32, 0x00, 0xfe, 0x35, 0x00, 0xfe, 0x33, 0xff, 0x00, 0xfe, 0x29, 0xff, 0x00, 0xfe, 0x2b, 0xff, 0x00,
     0xfe, 0x34, 0xff, 0x00, 0xfe, 0x2e, 0x00, 0xfe, 0x30, 0x00, 0xfe, 0x2d, 0x00, 0xfe, 0x23, 0x00, 0xfe, 0x2f, 0x00, 0xfe, 0x21,
     0x00, 0xfe, 0x31, 0x00, 0xfe, 0x20, 0x00, 0x01, 0xac, 0x00, 0x01, 0xae, 0x00, 0x01, 0xaf, 0x00, 0x01, 0xad, 0x00, 0x00, 0x00,
     0x00, 0x00, 0x00, 0x00, 0x00, 0x00, 0x00, 0x00, 0x00, 0x00, 0x00, 0x00, 0x00, 0x00, 0x00, 0x00, 0x00, 0x00, 0x00, 0x00, 0x00,
     0x00, 0x00, 0x00, 0x00, 0x00, 0x00, 0x00, 0x00, 0x00, 0x00, 0x00, 0x00, 0x00, 0x00, 0x00, 0x00, 0x00, 0x00, 0x00, 0x00, 0x00,
     0x00, 0x00, 0x00, 0x00, 0x00, 0x00, 0x00, 0x00, 0x00, 0x00, 0x00, 0x00, 0x00, 0x00, 0x00, 0x00, 0x00, 0x00, 0x00, 0x00, 0x00,
     0x00, 0x00, 0x00, 0x00, 0x00, 0x00, 0x00, 0x00, 0x00, 0x00, 0x00, 0x00, 0x00, 0x00, 0x00, 0x00, 0x00, 0x00, 0x00, 0x00, 0x00,
     0x00, 0x00, 0x00, 0x00, 0x00, 0x00, 0x00, 0x00, 0x00, 0x00, 0x00, 0x00, 0x00, 0x00, 0x00, 0x00, 0x00, 0x00]"

definition keymap_sequences :: "u8 list" where
  "keymap_sequences =
    [0x02, 0xff, 0x04, 0x00, 0x31, 0x02, 0xff, 0x04, 0x00, 0x32, 0x02, 0xff, 0x04, 0x00, 0x33, 0x02, 0xff, 0x04, 0x00, 0x34, 0x02,
     0xff, 0x04, 0x00, 0x35, 0x02, 0xff, 0x04, 0x00, 0x36, 0x02, 0xff, 0x04, 0x00, 0x37, 0x02, 0xff, 0x04, 0x00, 0x38, 0x02, 0xff,
     0x04, 0x00, 0x39, 0x02, 0xff, 0x04, 0x00, 0x30, 0x02, 0xff, 0x04, 0x00, 0x2d, 0x02, 0xff, 0x04, 0x00, 0x3d, 0x02, 0xff, 0x04,
     0x00, 0x70, 0x02, 0xff, 0x04, 0x00, 0x5d, 0x02, 0xff, 0x04, 0x00, 0x5b, 0x03, 0xff, 0x04, 0xff, 0x01, 0x00, 0x5b, 0x03, 0xff,
     0x04, 0xff, 0x01, 0x00, 0x5d]"

definition keymap_specials :: "(nx_code \<Rightarrow> u8) \<Rightarrow> u8 list" where
  "keymap_specials nx =
    [nx NX_KEYTYPE_CAPS_LOCK, 0x39, nx NX_KEYTYPE_HELP, 0x72, nx NX_POWER_KEY, 0x7f, nx NX_KEYTYPE_MUTE, 0x4a, nx NX_KEYTYPE_SOUND_UP,
     0x48, nx NX_KEYTYPE_SOUND_DOWN, 0x49, nx NX_KEYTYPE_NUM_LOCK, 0x47, nx NX_KEYTYPE_VIDMIRROR, 0x70, nx NX_KEYTYPE_PLAY, 0x34,
     nx NX_KEYTYPE_NEXT, 0x42, nx NX_KEYTYPE_PREVIOUS, 0x4d, nx NX_KEYTYPE_BRIGHTNESS_UP, 0x90, nx NX_KEYTYPE_BRIGHTNESS_DOWN, 0x91,
     nx NX_KEYTYPE_EJECT, 0x92]"

definition appleUSAKeyMap :: "(nx_code \<Rightarrow> u8) \<Rightarrow> u8 list" where
  "appleUSAKeyMap nx = [0, 0] @ [0x0b] @ keymap_modifiers nx @ [0xa2] @ keymap_keys_low @ keymap_keys_high
     @ [0x11] @ keymap_sequences @ [0x0e] @ keymap_specials nx"

definition defaultKeymapOfLength :: "(nx_code \<Rightarrow> u8) \<Rightarrow> nat \<times> u8 list" where
  "defaultKeymapOfLength nx = (length (appleUSAKeyMap nx), appleUSAKeyMap nx)"

section \<open>Its format\<close>

fun take_bytes :: "nat \<Rightarrow> u8 list \<Rightarrow> (u8 list \<times> u8 list) option" where
  "take_bytes 0 xs = Some ([], xs)"
| "take_bytes (Suc n) [] = None"
| "take_bytes (Suc n) (x # xs) = map_option (apfst ((#) x)) (take_bytes n xs)"

primrec entries :: "(u8 list \<Rightarrow> ('b \<times> u8 list) option) \<Rightarrow> nat \<Rightarrow> u8 list \<Rightarrow> ('b list \<times> u8 list) option" where
  "entries p 0 xs = Some ([], xs)"
| "entries p (Suc n) xs = (case p xs of Some (e, ys) \<Rightarrow> map_option (apfst ((#) e)) (entries p n ys) | None \<Rightarrow> None)"

text \<open>A part: the number of entries and the entries.\<close>

definition part :: "(u8 list \<Rightarrow> ('b \<times> u8 list) option) \<Rightarrow> u8 list \<Rightarrow> ('b list \<times> u8 list) option" where
  "part p xs = (case xs of n # ys \<Rightarrow> entries p (unat n) ys | [] \<Rightarrow> None)"

definition modifier_entry :: "u8 list \<Rightarrow> ((u8 \<times> u8 list) \<times> u8 list) option" where
  "modifier_entry xs = (case xs of m # n # ys \<Rightarrow> map_option (apfst (Pair m)) (take_bytes (unat n) ys) | _ \<Rightarrow> None)"

text \<open>A key: a mask of the modifiers that matter (\<open>ff\<close> for none at all) and two bytes for each combination of them.\<close>

definition bits_set :: "u8 \<Rightarrow> nat" where
  "bits_set m = length (filter (bit m) [0..<8])"

definition keydef_entry :: "u8 list \<Rightarrow> ((u8 \<times> u8 list) \<times> u8 list) option" where
  "keydef_entry xs =
     (case xs of
        m # ys \<Rightarrow> map_option (apfst (Pair m)) (take_bytes (if m = 0xff then 0 else 2 * 2 ^ bits_set m) ys)
      | [] \<Rightarrow> None)"

definition sequence_entry :: "u8 list \<Rightarrow> (u8 list \<times> u8 list) option" where
  "sequence_entry xs = (case xs of n # ys \<Rightarrow> take_bytes (2 * unat n) ys | [] \<Rightarrow> None)"

record keymap =
  km_modifiers :: "(u8 \<times> u8 list) list"
  km_keys :: "(u8 \<times> u8 list) list"
  km_sequences :: "u8 list list"
  km_specials :: "u8 list list"

definition parse_keymap :: "u8 list \<Rightarrow> keymap option" where
  "parse_keymap xs = do {
     (_, xs) \<leftarrow> take_bytes 2 xs;
     (ms, xs) \<leftarrow> part modifier_entry xs;
     (ks, xs) \<leftarrow> part keydef_entry xs;
     (ss, xs) \<leftarrow> part sequence_entry xs;
     (cs, xs) \<leftarrow> part (take_bytes 2) xs;
     if xs = [] then Some \<lparr>km_modifiers = ms, km_keys = ks, km_sequences = ss, km_specials = cs\<rparr> else None }"

section \<open>Reading the table\<close>

text \<open>A reader that succeeds does not look behind what it reads.\<close>

definition local_reader :: "(u8 list \<Rightarrow> ('b \<times> u8 list) option) \<Rightarrow> bool" where
  "local_reader p \<longleftrightarrow> (\<forall>xs e ys zs. p xs = Some (e, ys) \<longrightarrow> p (xs @ zs) = Some (e, ys @ zs))"

lemma take_bytes_local: "local_reader (take_bytes n)"
proof -
  have "take_bytes n xs = Some (e, ys) \<Longrightarrow> take_bytes n (xs @ zs) = Some (e, ys @ zs)" for n xs e ys zs
    by (induction n xs arbitrary: e ys rule: take_bytes.induct) auto
  then show ?thesis by (simp add: local_reader_def)
qed

lemma entries_local: "local_reader p \<Longrightarrow> local_reader (entries p n)"
proof -
  assume p: "local_reader p"
  have "entries p n xs = Some (e, ys) \<Longrightarrow> entries p n (xs @ zs) = Some (e, ys @ zs)" for xs e ys zs
    using p by (induction n arbitrary: xs e ys) (fastforce simp: local_reader_def split: option.splits)+
  then show ?thesis by (simp add: local_reader_def)
qed

lemma readers_local: "local_reader modifier_entry" "local_reader keydef_entry" "local_reader sequence_entry"
  using take_bytes_local
  by (auto simp: local_reader_def modifier_entry_def keydef_entry_def sequence_entry_def apfst_def map_prod_def
      split: list.splits prod.splits)

lemma part_append:
  assumes "local_reader p" "entries p (unat n) xs = Some (es, [])"
  shows "part p (n # xs @ ys) = Some (es, ys)"
  using entries_local [OF assms(1), of "unat n"] assms(2) by (simp add: part_def local_reader_def)

text \<open>The key definitions of the table, in the order of their ADB codes.\<close>

definition keymap_defs :: "(u8 \<times> u8 list) list" where
  "keymap_defs = fst (the (entries keydef_entry 0xa2 (keymap_keys_low @ keymap_keys_high)))"

text \<open>The characters of the digit and letter rows, read from a column of the key definitions.\<close>

definition letters :: "u8 list \<Rightarrow> u8 list \<Rightarrow> string" where
  "letters col adb = map (\<lambda>scan. char_of (unat (col ! unat (adb ! scan)))) ([2..<12] @ [0x10..<0x1a] @ [0x1e..<0x27] @ [0x2c..<0x33])"

definition column :: "(u8 \<times> u8 list) list \<Rightarrow> nat \<Rightarrow> u8 list" where
  "column ds i = map (\<lambda>d. snd d ! i) (take 0x40 ds)"

definition keys_summary :: "((u8 \<times> u8 list) list \<times> u8 list) option \<Rightarrow> bool" where
  "keys_summary r \<longleftrightarrow> (case r of None \<Rightarrow> False | Some (ds, xs) \<Rightarrow> xs = [] \<and> length ds = 0xa2
     \<and> letters (column ds 1) ADB_normal_low = ''1234567890qwertyuiopasdfghjklzxcvbnm''
     \<and> letters (column ds 3) ADB_normal_low = ''!@#$%^&*()QWERTYUIOPASDFGHJKLZXCVBNM'')"

lemma keys_read: "keys_summary (entries keydef_entry 0xa2 (keymap_keys_low @ keymap_keys_high))"
  by code_simp

lemma keys_entries: "entries keydef_entry 0xa2 (keymap_keys_low @ keymap_keys_high) = Some (keymap_defs, [])"
    and length_keymap_defs: "length keymap_defs = 0xa2"
    and letters_low: "letters (column keymap_defs 1) ADB_normal_low = ''1234567890qwertyuiopasdfghjklzxcvbnm''"
      "letters (column keymap_defs 3) ADB_normal_low = ''!@#$%^&*()QWERTYUIOPASDFGHJKLZXCVBNM''"
proof -
  obtain ds where ds: "entries keydef_entry 0xa2 (keymap_keys_low @ keymap_keys_high) = Some (ds, [])" "length ds = 0xa2"
      "letters (column ds 1) ADB_normal_low = ''1234567890qwertyuiopasdfghjklzxcvbnm''"
      "letters (column ds 3) ADB_normal_low = ''!@#$%^&*()QWERTYUIOPASDFGHJKLZXCVBNM''"
    using keys_read unfolding keys_summary_def by (simp only: case_prod_unfold split: option.splits) (metis prod.collapse)
  have "keymap_defs = ds" unfolding keymap_defs_def ds(1) by (simp only: option.sel fst_conv)
  then show "entries keydef_entry 0xa2 (keymap_keys_low @ keymap_keys_high) = Some (keymap_defs, [])" "length keymap_defs = 0xa2"
      "letters (column keymap_defs 1) ADB_normal_low = ''1234567890qwertyuiopasdfghjklzxcvbnm''"
      "letters (column keymap_defs 3) ADB_normal_low = ''!@#$%^&*()QWERTYUIOPASDFGHJKLZXCVBNM''"
    using ds by (simp_all only:)
qed

lemma sequences_entries: "\<exists>ss. entries sequence_entry 0x11 keymap_sequences = Some (ss, [])"
proof -
  have "map_option snd (entries sequence_entry 0x11 keymap_sequences) = Some []" by code_simp
  then show ?thesis by auto
qed

lemma entries_numeral:
  "entries p (numeral n) xs = (case p xs of Some (e, ys) \<Rightarrow> map_option (apfst ((#) e)) (entries p (pred_numeral n) ys) | None \<Rightarrow> None)"
  by (simp add: numeral_eq_Suc)

lemma take_bytes_eq: "take_bytes n xs = (if n \<le> length xs then Some (take n xs, drop n xs) else None)"
  by (induction n xs rule: take_bytes.induct) auto

lemma modifiers_entries: "\<exists>ms. entries modifier_entry 0x0b (keymap_modifiers nx) = Some (ms, [])"
  by (simp add: keymap_modifiers_def modifier_entry_def entries_numeral take_bytes_eq)

lemma specials_entries: "\<exists>cs. entries (take_bytes 2) 0x0e (keymap_specials nx) = Some (cs, [])"
  by (simp add: keymap_specials_def entries_numeral take_bytes_eq)

lemma parse_table:
  "\<exists>m. parse_keymap (appleUSAKeyMap nx) = Some m \<and> km_keys m = keymap_defs"
proof -
  obtain ms ss cs where e: "entries modifier_entry 0x0b (keymap_modifiers nx) = Some (ms, [])"
      "entries sequence_entry 0x11 keymap_sequences = Some (ss, [])" "entries (take_bytes 2) 0x0e (keymap_specials nx) = Some (cs, [])"
    using modifiers_entries sequences_entries specials_entries by metis
  have 1: "part modifier_entry (0x0b # keymap_modifiers nx @ ys) = Some (ms, ys)" for ys
    by (rule part_append [OF readers_local(1)]) (use e(1) in simp)
  have 2: "part keydef_entry (0xa2 # (keymap_keys_low @ keymap_keys_high) @ ys) = Some (keymap_defs, ys)" for ys
    by (rule part_append [OF readers_local(2)]) (use keys_entries in simp)
  have 3: "part sequence_entry (0x11 # keymap_sequences @ ys) = Some (ss, ys)" for ys
    by (rule part_append [OF readers_local(3)]) (use e(2) in simp)
  have 4: "part (take_bytes 2) (0x0e # keymap_specials nx @ []) = Some (cs, [])"
    by (rule part_append [OF take_bytes_local]) (use e(3) in simp)
  have "take_bytes 2 (0 # 0 # ys) = Some ([0, 0], ys)" for ys by (simp add: numeral_2_eq_2)
  then show ?thesis using 1 2 3 4 by (simp add: parse_keymap_def appleUSAKeyMap_def)
qed

text \<open>The first character of the key behind a scan code, and the one with its first modifier.\<close>

definition typed :: "keymap \<Rightarrow> nat \<Rightarrow> nat \<Rightarrow> char" where
  "typed m variant scan = char_of (unat (snd (km_keys m ! unat (PS2ToADBMapStock ! scan)) ! (2 * variant + 1)))"

lemma defs_cover: "\<forall>adb \<in> set PS2ToADBMapStock. unat adb < length keymap_defs"
  unfolding length_keymap_defs by code_simp

lemma stock_low: "length ADB_normal_low = 128" "scan < 128 \<Longrightarrow> PS2ToADBMapStock ! scan = ADB_normal_low ! scan"
proof -
  show *: "length ADB_normal_low = 128" by (simp add: ADB_normal_low_def)
  show "scan < 128 \<Longrightarrow> PS2ToADBMapStock ! scan = ADB_normal_low ! scan"
    by (simp add: PS2ToADBMapStock_def ADB_normal_stock_def nth_append *)
qed

lemma rows_codes: "\<forall>scan \<in> set ([2..<12] @ [0x10..<0x1a] @ [0x1e..<0x27] @ [0x2c..<0x33]). scan < 128 \<and> unat (ADB_normal_low ! scan) < 0x40"
  by code_simp

lemma defs_letters:
  "map (\<lambda>scan. char_of (unat (snd (keymap_defs ! unat (PS2ToADBMapStock ! scan)) ! i))) ([2..<12] @ [0x10..<0x1a] @ [0x1e..<0x27] @ [0x2c..<0x33]) = letters (column keymap_defs i) ADB_normal_low"
  unfolding letters_def
proof (rule map_cong [OF refl])
  fix scan assume "scan \<in> set ([2..<12] @ [0x10..<0x1a] @ [0x1e..<0x27] @ [0x2c..<0x33])"
  then have "scan < 128" "unat (ADB_normal_low ! scan) < 0x40" using rows_codes by blast+
  then show "char_of (unat (snd (keymap_defs ! unat (PS2ToADBMapStock ! scan)) ! i)) = char_of (unat (column keymap_defs i ! unat (ADB_normal_low ! scan)))"
    by (simp add: stock_low(2) column_def length_keymap_defs)
qed


end
