(* ===== verification/AcpiNub.thy ===== *)
theory AcpiNub
  imports PS2Prelude
begin

text \<open>
  The ACPI nub under the controller: it gathers the interrupts of two ACPI devices, the keyboard that it is the client
  of and the mouse that it finds, and translates the legacy interrupt numbers of the controller driver into indices of
  what it gathered.  What the superclass does with an index is a parameter; notifications are passed on to the
  entries below that ask for them.
\<close>

section \<open>Gathering the interrupts\<close>

text \<open>A device of the ACPI plane: the arrays under its two interrupt keys, if they are there.\<close>

record 's acpi_device =
  dev_names :: "string list"
  dev_is_service :: bool
  dev_controllers :: "'s list option"
  dev_specifiers :: "'s list option"
  dev_in_power_plane :: bool

record 's acpi_nub =
  m_mouseProvider :: "'s acpi_device option"
  m_interruptControllers :: "'s list"
  m_interruptSpecifiers :: "'s list"
  interrupt_properties :: "('s list \<times> 's list) option"
  power_children :: "'s acpi_device list"
  nub_name :: "string option"
  nub_registered :: bool

definition mergeInterruptProperties :: "'s acpi_device \<Rightarrow> 's acpi_nub \<Rightarrow> 's acpi_nub" where
  "mergeInterruptProperties d n =
     (case (dev_controllers d, dev_specifiers d) of
        (Some (c # _), Some (s # _)) \<Rightarrow>
          n\<lparr>m_interruptControllers := m_interruptControllers n @ [c], m_interruptSpecifiers := m_interruptSpecifiers n @ [s]\<rparr>
      | _ \<Rightarrow> n)"

text \<open>The first entry with one of the names, if it is a service.\<close>

definition findMouseDevice :: "string list \<Rightarrow> 's acpi_device list \<Rightarrow> 's acpi_device option" where
  "findMouseDevice names entries =
     (case find (\<lambda>d. list_ex (\<lambda>name. name \<in> set (dev_names d)) names) entries of
        Some d \<Rightarrow> if dev_is_service d then Some d else None
      | None \<Rightarrow> None)"

text \<open>\<open>arrays\<close>: both arrays could be allocated; \<open>attaches\<close>: the nub becomes a client of the mouse device too.\<close>

definition nub_start :: "bool \<Rightarrow> bool \<Rightarrow> ('s acpi_device \<Rightarrow> bool) \<Rightarrow> string list \<Rightarrow> 's acpi_device list \<Rightarrow> 's acpi_device \<Rightarrow> 's acpi_nub \<Rightarrow> bool \<times> 's acpi_nub" where
  "nub_start superclass arrays attaches names entries provider n =
     (if \<not> superclass \<or> \<not> arrays then (False, n)
      else
        (let n = n\<lparr>m_interruptControllers := [], m_interruptSpecifiers := []\<rparr>;
             n = mergeInterruptProperties provider n;
             n = n\<lparr>power_children := power_children n @ [provider]\<rparr>;
             n = n\<lparr>m_mouseProvider := findMouseDevice names entries\<rparr>;
             n = (case m_mouseProvider n of
                    Some d \<Rightarrow>
                      if attaches d then
                        (let n = mergeInterruptProperties d n
                         in if dev_in_power_plane d then n\<lparr>power_children := power_children n @ [d]\<rparr> else n)
                      else n
                  | None \<Rightarrow> n);
             n = (if m_interruptControllers n \<noteq> [] \<and> m_interruptSpecifiers n \<noteq> []
                  then n\<lparr>interrupt_properties := Some (m_interruptControllers n, m_interruptSpecifiers n)\<rparr> else n)
         in (True, n\<lparr>m_interruptControllers := [], m_interruptSpecifiers := [], nub_name := Some ''ps2controller'', nub_registered := True\<rparr>)))"

section \<open>Translating interrupt numbers\<close>

abbreviation (input) LEGACY_KEYBOARD_IRQ :: int where "LEGACY_KEYBOARD_IRQ \<equiv> 1"
abbreviation (input) LEGACY_MOUSE_IRQ :: int where "LEGACY_MOUSE_IRQ \<equiv> 12"

datatype nub_error = kIOReturnBadArgument | SuperclassError u32

type_synonym 'a nub_result = "nub_error + 'a"

text \<open>The five operations differ in the superclass' operation \<open>op\<close> only.\<close>

definition translate_interrupt :: "(nat \<Rightarrow> 'a nub_result) \<Rightarrow> int \<Rightarrow> 'a nub_result" where
  "translate_interrupt op source =
     (if source = LEGACY_KEYBOARD_IRQ then op 0
      else if source = LEGACY_MOUSE_IRQ then op 1
      else Inl kIOReturnBadArgument)"

text \<open>The operations of the superclass on the interrupt with an index; \<open>'w\<close> is its state.\<close>

record ('w, 'c) super_interrupts =
  super_register :: "nat \<Rightarrow> 'c \<Rightarrow> 'w \<Rightarrow> 'w nub_result"
  super_unregister :: "nat \<Rightarrow> 'w \<Rightarrow> 'w nub_result"
  super_type :: "nat \<Rightarrow> 'w \<Rightarrow> int nub_result"
  super_enable :: "nat \<Rightarrow> 'w \<Rightarrow> 'w nub_result"
  super_disable :: "nat \<Rightarrow> 'w \<Rightarrow> 'w nub_result"

definition registerInterrupt :: "('w, 'c) super_interrupts \<Rightarrow> int \<Rightarrow> 'c \<Rightarrow> 'w \<Rightarrow> 'w nub_result" where
  "registerInterrupt S source handler w = translate_interrupt (\<lambda>i. super_register S i handler w) source"

definition unregisterInterrupt :: "('w, 'c) super_interrupts \<Rightarrow> int \<Rightarrow> 'w \<Rightarrow> 'w nub_result" where
  "unregisterInterrupt S source w = translate_interrupt (\<lambda>i. super_unregister S i w) source"

definition getInterruptType :: "('w, 'c) super_interrupts \<Rightarrow> int \<Rightarrow> 'w \<Rightarrow> int nub_result" where
  "getInterruptType S source w = translate_interrupt (\<lambda>i. super_type S i w) source"

definition enableInterrupt :: "('w, 'c) super_interrupts \<Rightarrow> int \<Rightarrow> 'w \<Rightarrow> 'w nub_result" where
  "enableInterrupt S source w = translate_interrupt (\<lambda>i. super_enable S i w) source"

definition disableInterrupt :: "('w, 'c) super_interrupts \<Rightarrow> int \<Rightarrow> 'w \<Rightarrow> 'w nub_result" where
  "disableInterrupt S source w = translate_interrupt (\<lambda>i. super_disable S i w) source"

section \<open>Notifications\<close>

text \<open>An entry below the nub: \<open>None\<close> when it is no service; otherwise whether it asks for notifications, and its
  \<open>message\<close>, which acts on the world.\<close>

type_synonym 'w registry_entry = "(bool \<times> (u32 \<Rightarrow> 'w \<Rightarrow> 'w)) option"

definition notify_entry :: "u32 \<Rightarrow> 'w registry_entry \<Rightarrow> 'w \<Rightarrow> 'w" where
  "notify_entry msg e w = (case e of Some (asks, deliver) \<Rightarrow> if asks then deliver msg w else w | None \<Rightarrow> w)"

definition nub_message :: "'w registry_entry list \<Rightarrow> u32 \<Rightarrow> 'w \<Rightarrow> 'w" where
  "nub_message entries msg w = fold (notify_entry msg) entries w"

section \<open>Where an interrupt goes\<close>

text \<open>The interrupt specifier at the index that an operation asks the superclass for, if there is one.\<close>

definition line_of :: "'s acpi_nub \<Rightarrow> int \<Rightarrow> 's option nub_result" where
  "line_of n source = translate_interrupt
     (\<lambda>i. Inr (case interrupt_properties n of Some (cs, ss) \<Rightarrow> if i < length ss then Some (ss ! i) else None | None \<Rightarrow> None)) source"

text \<open>The line of a device, if it has both interrupt properties.\<close>

definition own_line :: "'s acpi_device \<Rightarrow> 's option" where
  "own_line d = (case (dev_controllers d, dev_specifiers d) of (Some (c # _), Some (s # _)) \<Rightarrow> Some s | _ \<Rightarrow> None)"

lemma merge_lines:
  "m_interruptSpecifiers (mergeInterruptProperties d n) = m_interruptSpecifiers n @ (case own_line d of Some s \<Rightarrow> [s] | None \<Rightarrow> [])"
  "m_interruptControllers (mergeInterruptProperties d n) = [] \<longleftrightarrow> m_interruptControllers n = [] \<and> own_line d = None"
  "m_mouseProvider (mergeInterruptProperties d n) = m_mouseProvider n"
  "interrupt_properties (mergeInterruptProperties d n) = interrupt_properties n"
  by (auto simp: mergeInterruptProperties_def own_line_def split: option.split list.split)

lemma lines_of_start:
  assumes "nub_start True True attaches names entries provider n = (True, n')" and "interrupt_properties n = None"
  shows "(case interrupt_properties n' of Some (cs, ss) \<Rightarrow> ss | None \<Rightarrow> []) =
     (case own_line provider of Some s \<Rightarrow> [s] | None \<Rightarrow> []) @
     (case findMouseDevice names entries of
        Some d \<Rightarrow> if attaches d then (case own_line d of Some s \<Rightarrow> [s] | None \<Rightarrow> []) else []
      | None \<Rightarrow> [])"
  using assms
  by (auto simp: nub_start_def Let_def merge_lines split: option.splits if_splits)

text \<open>
  C38. The legacy numbers reach the right devices: once the nub has started between a keyboard device and a mouse device
  with an interrupt, number 1 stands for the line of the keyboard and 12 for the line of the mouse if the keyboard device
  has an interrupt too; if it has none, number 1 stands for the line of the mouse and 12 for none.  Whatever the
  superclass does, all operations refuse every other number.
\<close>

theorem legacy_interrupts_routed:
  assumes "nub_start True True attaches names entries provider n = (True, n')" and "interrupt_properties n = None"
    and "findMouseDevice names entries = Some d" and "attaches d" and "own_line d = Some mouse"
    and "source \<noteq> LEGACY_KEYBOARD_IRQ" and "source \<noteq> LEGACY_MOUSE_IRQ"
  shows "line_of n' LEGACY_KEYBOARD_IRQ = Inr (Some (case own_line provider of Some keyboard \<Rightarrow> keyboard | None \<Rightarrow> mouse))
    \<and> line_of n' LEGACY_MOUSE_IRQ = Inr (case own_line provider of Some keyboard \<Rightarrow> Some mouse | None \<Rightarrow> None)
    \<and> registerInterrupt S source h w = Inl kIOReturnBadArgument \<and> unregisterInterrupt S source w = Inl kIOReturnBadArgument
    \<and> getInterruptType S source w = Inl kIOReturnBadArgument \<and> enableInterrupt S source w = Inl kIOReturnBadArgument
    \<and> disableInterrupt S source w = Inl kIOReturnBadArgument"
proof -
  have "(case interrupt_properties n' of Some (cs, ss) \<Rightarrow> ss | None \<Rightarrow> []) = (case own_line provider of Some s \<Rightarrow> [s] | None \<Rightarrow> []) @ [mouse]"
    using lines_of_start [OF assms(1,2)] assms(3-5) by simp
  then have "line_of n' LEGACY_KEYBOARD_IRQ = Inr (Some (case own_line provider of Some keyboard \<Rightarrow> keyboard | None \<Rightarrow> mouse))
      \<and> line_of n' LEGACY_MOUSE_IRQ = Inr (case own_line provider of Some keyboard \<Rightarrow> Some mouse | None \<Rightarrow> None)"
    by (auto simp: line_of_def translate_interrupt_def split: option.splits prod.splits)
  moreover have "translate_interrupt f source = Inl kIOReturnBadArgument" for f :: "nat \<Rightarrow> 'x nub_result"
    using assms(6,7) by (simp add: translate_interrupt_def)
  ultimately show ?thesis
    using assms(6,7)
    by (simp add: registerInterrupt_def unregisterInterrupt_def getInterruptType_def enableInterrupt_def disableInterrupt_def translate_interrupt_def)
qed

definition pnp_device :: "string \<Rightarrow> nat list option \<Rightarrow> nat acpi_device" where
  "pnp_device name lines = \<lparr>dev_names = [name], dev_is_service = True, dev_controllers = lines, dev_specifiers = lines, dev_in_power_plane = True\<rparr>"

definition new_nub :: "nat acpi_nub" where
  "new_nub = \<lparr>m_mouseProvider = None, m_interruptControllers = [], m_interruptSpecifiers = [], interrupt_properties = None,
     power_children = [], nub_name = None, nub_registered = False\<rparr>"

lemma legacy_interrupts_routed_witness:
  "line_of (snd (nub_start True True (\<lambda>_. True) [''PNP0F13''] [pnp_device ''PNP0303'' None, pnp_device ''PNP0F13'' (Some [12])]
      (pnp_device ''PNP0303'' None) new_nub)) LEGACY_KEYBOARD_IRQ = Inr (Some 12)"
proof -
  let ?kbd = "pnp_device ''PNP0303'' None" and ?mouse = "pnp_device ''PNP0F13'' (Some [12])"
  have s: "nub_start True True (\<lambda>_. True) [''PNP0F13''] [?kbd, ?mouse] ?kbd new_nub
      = (True, snd (nub_start True True (\<lambda>_. True) [''PNP0F13''] [?kbd, ?mouse] ?kbd new_nub))"
    by (simp add: nub_start_def Let_def)
  have *: "interrupt_properties new_nub = None" "findMouseDevice [''PNP0F13''] [?kbd, ?mouse] = Some ?mouse" "own_line ?mouse = Some 12"
      "own_line ?kbd = None" "3 \<noteq> LEGACY_KEYBOARD_IRQ" "3 \<noteq> LEGACY_MOUSE_IRQ"
    by (simp_all add: new_nub_def findMouseDevice_def pnp_device_def own_line_def)
  show ?thesis using legacy_interrupts_routed [OF s *(1,2) TrueI *(3,5,6), THEN conjunct1] by (simp add: *(4))
qed

end
