(* ===== verification/Spec2Isabelle.thy ===== *)
theory Spec2Isabelle
  imports KeyboardMacros ControllerDebugger SwipeStack PowerStack RingBuffer DecayFilters AlpsBitmap TouchPadConfig MomentumScroll InterruptSafety CommandSafety RegisterProtocol ControllerProps PlatformProfile KeyboardActions KeyboardSettings KeyboardKeymap KeyboardStack AcpiNub
begin

text \<open>
  Verification development of VoodooPS2-Alps, the macOS drivers for the PS/2 keyboard and the ALPS trackpads.

  \<^bold>\<open>The program and its parts.\<close>
  An 8042 controller (two I/O ports, 60 and 64, and two interrupt lines) carries the bytes of keyboard and trackpad.
  The ACPI nub supplies its interrupts; the controller driver reads the bytes at interrupt time, hands each to the
  driver of its device and executes the requests of the drivers (lists of commands) one at a time; two device nubs
  stand between the controller and the drivers.  Each driver has an interrupt side, which forms packets in a ring
  buffer, and a work-loop side, which empties it.  The trackpad driver decodes the packets of one of seven protocols
  into reports (position, pressure, number of fingers, buttons), and its dispatcher turns those into pointer, scroll and
  swipe events.  The keyboard driver turns packets into ADB key events.  Both drivers exchange messages: keys that
  go down, swipes, the switch that turns the trackpad off.

  \<^bold>\<open>How the code is translated.\<close>
  An object is a record of its member variables, a method a function from the state to the new state; what goes out
  (events, timers, messages, port accesses) is appended to a list in the state (\<open>out\<close>, \<open>kb_out\<close>, \<open>trace\<close>).
  Unsigned integers are words of their width, so that they wrap.  A signed C \<open>int\<close> is an \<open>int\<close>, with the
  conversions between the two written out.  A value \<open>None\<close> of an operation means that the code traps (division by zero,
  null pointer or table, access behind an array) or, for a loop that waits without a bound, that it never returns;
  the safety theorems say when it is not \<open>None\<close>.  The constructs shared by all parts are in \<open>PS2Prelude\<close>.

  \<^bold>\<open>Containers and filters.\<close>
  \<^item> \<open>RingBuffer\<close>: the template \<open>RingBuffer\<close> of \<open>ApplePS2Device.h\<close>, with its element interface
    (\<open>push\<close>, \<open>fetch\<close>) and its block interface (\<open>head\<close>, \<open>advanceHead\<close>, \<open>tail\<close>, \<open>advanceTail\<close>).
    The locales \<open>bounded_fifo\<close> and \<open>packet_queue\<close> are the two contracts; the interpretations show that the buffer
    fulfils them, the second for every packet length that divides the size.
  \<^item> \<open>DecayFilters\<close>: the averages of \<open>Decay.h\<close>.  The locale \<open>sliding_window\<close> is what they promise: the last
    \<open>N\<close> samples.

  \<^bold>\<open>The trackpad driver\<close> (\<open>VoodooPS2Trackpad\<close>).
  \<^item> \<open>TouchPad\<close>: the state of \<open>VoodooPS2TouchPadBase\<close>, its helpers, the middle-button machine, the timers, the
    configuration, the messages of the keyboard.  \<open>MiddleButton\<close>, \<open>MomentumScroll\<close> and \<open>TouchPadConfig\<close> prove: no
    click is lost, both buttons become one middle button, momentum ends, modifiers are tracked.
  \<^item> \<open>AlpsData\<close>: the structures and tables of \<open>alps.h\<close> and \<open>alps.cpp\<close>.  \<open>AlpsDecode\<close>: the decoders
    (\<open>alps_decode_pinnacle\<close>, \<open>alps_decode_rushmore\<close>, \<open>alps_decode_dolphin\<close>, \<open>alps_decode_packet_v7\<close>,
    \<open>alps_decode_ss4_v2\<close>), with encoders of the wire formats for the round trips, and bounds for arbitrary packets.
  \<^item> \<open>AlpsBitmap\<close>: \<open>alps_get_bitmap_points\<close>, shown equal to a reference that lists the runs of set bits, and
    \<open>alps_process_bitmap\<close>, which computes the second touch.
  \<^item> \<open>AlpsDispatch\<close>: \<open>dispatchEventsWithInfo\<close>, cut into the stages of the code.  \<open>DispatchFrame\<close> shows once which fields
    each stage leaves alone: a view is an observation of the state, the locales \<open>front_view\<close>, \<open>stage_view\<close>,
    \<open>mode_blind_view\<close>, \<open>swipe_blind_view\<close>, \<open>frame_view\<close> and \<open>report_view\<close> say what a view does not see, and their
    interpretations (configuration, touch mode, swipe flags, the state shared with the interrupt side, the fields a
    gesture reads) carry over from stages to reports.  \<open>Gestures\<close> proves the touch-mode machine \<open>mode_edge\<close>, the modes that
    are reachable, the alternation of swipes, and that reports never trap.
  \<^item> \<open>AlpsProcess\<close>: \<open>process_packet\<close> for all protocols.  \<open>ProcessSafety\<close>: no sequence of packets traps.
    \<open>PacketReports\<close>: the two-packet reports of the V3 family from the wire to the report.
  \<^item> \<open>AlpsInterrupt\<close>: \<open>interruptOccurred\<close> and \<open>packetReady\<close>.  \<open>InterruptSafety\<close>: exactly the valid packets of a stream
    are delivered, in order; \<open>packetReady\<close> ends; what a late work loop loses.
  \<^item> \<open>PS2Request\<close>: commands and requests.  The locale \<open>request_port\<close> is what the drivers rely on when they submit a
    request, \<open>returning_port\<close> adds that it returns.  \<open>AlpsCommand\<close>: every command sequence over a port (registers, modes,
    the initialisation of each protocol).  \<open>AlpsIdentify\<close>: \<open>identify\<close>, \<open>set_protocol\<close>, \<open>deviceSpecificInit\<close>, start,
    power and stop.  \<open>RegisterProtocol\<close>: what is written to a register is what the device reads.  \<open>CommandSafety\<close>:
    on a returning port all of this ends, and it leaves a configuration on which the safety theorems hold.

  \<^bold>\<open>The controller\<close> (\<open>VoodooPS2Controller\<close>).
  \<^item> \<open>Controller\<close>: port access, delivery, the reading loops.  \<open>ControllerRequest\<close>: the commands of a request, the queue,
    the command byte, the actions of the drivers, reset and power.  Hardware and installed actions are the record \<open>env\<close>.
  \<^item> \<open>ControllerSafety\<close>: frames.  \<open>ControllerReads\<close>: what the reading loops do with every byte, and when they return.
    \<open>ControllerContract\<close>: the controller fulfils \<open>request_port\<close> always and \<open>returning_port\<close> under two hypotheses;
    power states; the composite mouse command equals the three commands it stands for.  \<open>ControllerProps\<close>: no
    byte is lost, a concrete controller \<open>fifo_env\<close>, and the trackpad's interrupt routine behind a real interrupt.
  \<^item> \<open>ControllerDebugger\<close>: the build with \<open>DEBUGGER_SUPPORT\<close> and \<open>HANDLE_INTERRUPT_DATA_LATER\<close>, in which scan codes are
    queued at interrupt time and searched for the sequence that enters the debugger.  The key queue is another
    interpretation of \<open>bounded_fifo\<close>, and an abstract machine over sets of modifier keys says what the keyboard driver is
    handed.
  \<^item> \<open>PlatformProfile\<close>: the identity of the platform from the bytes of the DSDT, and the lookup of a driver's configuration,
    which returns exactly when the links are acyclic.
  \<^item> \<open>AcpiNub\<close>: \<open>AppleACPIPS2Nub\<close>, merging of interrupt properties and translation of interrupt numbers.

  \<^bold>\<open>The keyboard driver\<close> (\<open>VoodooPS2Keyboard\<close>).
  \<^item> \<open>KeyboardMaps\<close>: the tables of \<open>ApplePS2ToADBMap.h\<close> as built with \<open>PROBOOK\<close>, the parsers of remappings, macros and
    actions.  \<open>Keyboard\<close>: interrupt routine, packet loop, macros, special keys, timers, ACPI, LEDs, settings, power, start
    and stop, over an environment \<open>kb_env\<close> (clock, nub, ACPI).
  \<^item> \<open>KeyboardSafety\<close>: the shape of tables and buffers is kept and no event traps.  \<open>KeyboardInput\<close>: the interrupt routine
    refines a scan-code grammar with a set of pressed keys; the locale \<open>key_set\<close> is what it needs of the bit vector.
    \<open>KeyboardProps\<close>: both, over every interleaving of operations (\<open>kb_run\<close>).  \<open>KeyboardEvents\<close>: ordinary keys from
    scan code to key event.  \<open>KeyboardMacros\<close>: the macro inversion as a buffer of key packets that loses
    none, and the macros of a profile.  \<open>KeyboardActions\<close>: the swipe actions.  \<open>KeyboardSettings\<close>: settings can be undone, keys are
    released at wake-up, print-screen and trackpad driver.  \<open>KeyboardKeymap\<close>: the key map handed to the system parses
    completely and agrees with the scan code tables.
  \<^item> \<open>KeyboardStack\<close>: the device nubs of \<open>ApplePS2Device.cpp\<close>, and with them the keyboard driver on the modelled
    controller: start and stop end, and what is typed passes through interrupt, delivery and packet loop.

  \<^bold>\<open>The drivers together.\<close>
  \<^item> \<open>SwipeStack\<close>: swipes from the reports of the trackpad driver over nub and controller to the keys the keyboard driver
    sends.
  \<^item> \<open>PowerStack\<close>: sleep and wake-up of the controller with the power actions of both drivers, which submit their requests
    to the controller that calls them.  The locale \<open>quiet_port\<close> is a port that leaves a view of what is behind it alone;
    every command sequence of the trackpad driver does as well, and the controller's port is the interpretation.

  \<^bold>\<open>Bounds and termination.\<close>
  There is no fuel.  The ring buffers hold 192 bytes in the trackpad and 512 in the keyboard driver (32 packets of the
  packet length each declares); bounds are theorems for every size or follow from the size.  A loop of the code without a bound of its own
  is a \<open>partial_function (option)\<close>: the waits for the controller, the interrupt loop, \<open>debug_loop\<close>, \<open>packetReady\<close> of both drivers and
  the links of a profile.  For each there is a theorem or lemma that it returns (\<open>packet_loop_drains\<close>,
  \<open>keyboard_never_traps\<close>, \<open>controller_fulfils_contract\<close>, \<open>lookup_returns_iff_no_cycle\<close>), and where it need not, one that
  it does not (\<open>flooded_read_never_returns\<close>).  The timeout of \<open>readDataPort\<close> is that of the code, 10000 polls.

  \<^bold>\<open>Parameters and hypotheses.\<close>
  Code outside the repository is an argument: clock and time conversion (\<open>clock\<close>), hardware and completion actions
  (\<open>env\<close>), the ACPI methods of the brightness and backlight levels (\<open>kb_bqc\<close>, \<open>kb_kkqc\<close>), the superclass of the ACPI nub,
  the codes of the system headers in the key map.  The hypotheses on it are: \<open>finite_input\<close>, the controller has
  finitely many bytes to deliver until something is written; \<open>accepts_input\<close>, its input buffer is free when polled;
  \<open>returning_port\<close>, requests return; \<open>kb_returning\<close>, so do the calls of the keyboard's environment; \<open>takes_swipes\<close> and \<open>real_drivers\<close>, the actions installed in
  the controller are those of the modelled drivers.  Each is met by a
  concrete instance (\<open>fifo_env\<close>, \<open>scripted\<close>, \<open>acking\<close>, \<open>answer_all\<close>, \<open>typing_env\<close>) in a witness.

  \<^bold>\<open>Not modelled.\<close>
  \<^item> Code that the build switches off, but for the debugging build: \<open>WATCHDOG_TIMER\<close>, \<open>NEWIRQ\<close>, \<open>SIMULATE_PASSTHRU\<close>, the tables without \<open>PROBOOK\<close>, and \<open>DEBUG\<close> code (the echo test of
    the keyboard's \<open>probe\<close>, \<open>logKeySequence\<close>, the bitmap log, the table printer).
  \<^item> IOKit plumbing: registration of services, event sources and power management, registry properties, reference
    counts, allocation, locks, logging; \<open>attach\<close> and \<open>detach\<close> of the nubs.  The work loop and the command gate run one
    operation at a time, which the models take for granted: an operation is one step, and interrupts come between steps
    or where the code reads a port.
  \<^item> A byte that reaches a driver while its own power action waits for an answer: \<open>PowerStack\<close> takes the drivers to be in
    some well-formed state at each call, not in one that such a byte has changed.
\<close>

end
